(* ===== verification/Prelude.thy ===== *)
theory Prelude
  imports
    Main
    "HOL-Library.Word"
    "HOL-Library.Char_ord"
    "HOL-Library.List_Lexorder"
begin

text \<open>
  Shared material of the development: how Go results are represented (multi-value returns
  with an error, panics, loops that do not return), the range order of Go maps, decimal and
  hexadecimal printing, and the generic lemmas on maps, lists and orders that the component
  theories use.
\<close>

section \<open>Go results\<close>

text \<open>
  A Go \<open>error\<close> is a value.  \<open>Errorf\<close> carries the rendered message of a
  \<open>fmt.Errorf\<close>/\<open>errors.New\<close> of the program, \<open>Wrapf\<close> a message that wraps another
  error with \<open>%w\<close>, \<open>ParseError\<close> and \<open>ParseAddrError\<close> the errors of the packages
  \<open>net\<close> and \<open>net/netip\<close>, \<open>StatusError\<close> an error of the Kubernetes API machinery, of
  which the program only inspects the reason, and \<open>ExternalError\<close> any other error returned
  by code outside the repository.
\<close>

datatype status_reason = NotFound | AlreadyExists | Conflict | OtherReason

datatype go_error =
    Errorf string
  | Wrapf string go_error
  | ParseError string string
  | ParseAddrError string string
  | StatusError status_reason string
  | ExternalError string

definition IsNotFound :: "go_error \<Rightarrow> bool" where
  "IsNotFound e = (case e of StatusError r _ \<Rightarrow> r = NotFound | _ \<Rightarrow> False)"

definition IsAlreadyExists :: "go_error \<Rightarrow> bool" where
  "IsAlreadyExists e = (case e of StatusError r _ \<Rightarrow> r = AlreadyExists | _ \<Rightarrow> False)"

definition IsConflict :: "go_error \<Rightarrow> bool" where
  "IsConflict e = (case e of StatusError r _ \<Rightarrow> r = Conflict | _ \<Rightarrow> False)"

text \<open>
  A multi-value return \<open>(v, err)\<close> is the pair \<open>(v, None)\<close> on success and
  \<open>(v, Some e)\<close> on failure; \<open>v\<close> is kept on failure, because Go returns it too.
  A function that can panic or run forever returns an \<open>outcome\<close>.
\<close>

type_synonym 'a gores = "'a \<times> go_error option"

datatype 'a outcome = Ret 'a | Panic string | Diverge

fun go_bind :: "'a outcome \<Rightarrow> ('a \<Rightarrow> 'b outcome) \<Rightarrow> 'b outcome" where
  "go_bind (Ret x) f = f x"
| "go_bind (Panic m) f = Panic m"
| "go_bind Diverge f = Diverge"

definition returns :: "'a outcome \<Rightarrow> bool" where
  "returns r \<longleftrightarrow> (\<exists>x. r = Ret x)"

named_theorems net_eval \<open>definitions that evaluate concrete addresses\<close>

named_theorems go_simps \<open>unfolding of the result combinators\<close>

lemma go_bind_Ret_iff: "go_bind m f = Ret y \<longleftrightarrow> (\<exists>x. m = Ret x \<and> f x = Ret y)"
  by (cases m) auto

lemma go_bind_RetE:
  assumes "go_bind m f = Ret y"
  obtains x where "m = Ret x" "f x = Ret y"
  using assms by (auto simp: go_bind_Ret_iff)

lemma returns_Ret [simp]: "returns (Ret x)"
  by (simp add: returns_def)

lemma not_returns [simp]: "\<not> returns (Panic m)" "\<not> returns Diverge"
  by (simp_all add: returns_def)

lemma returns_bindI: "returns m \<Longrightarrow> (\<And>x. m = Ret x \<Longrightarrow> returns (f x)) \<Longrightarrow> returns (go_bind m f)"
  by (cases m) (auto simp: returns_def)

declare go_bind_Ret_iff [go_simps]

section \<open>Ranging over a Go map\<close>

text \<open>
  Go iterates over a map in an unspecified order.  Every definition that ranges over a map
  with string keys takes the order as a parameter: a function from the key set to the list of
  keys in the order of this iteration.  \<open>go_range\<close> says that it is such an order.
\<close>

type_synonym range_order = "string set \<Rightarrow> string list"

definition ranges :: "string list \<Rightarrow> string set \<Rightarrow> bool" where
  "ranges ks D \<longleftrightarrow> distinct ks \<and> set ks = D"

definition go_range :: "range_order \<Rightarrow> bool" where
  "go_range rng \<longleftrightarrow> (\<forall>D. finite D \<longrightarrow> ranges (rng D) D)"

lemma ranges_distinct: "ranges ks D \<Longrightarrow> distinct ks"
  and ranges_set: "ranges ks D \<Longrightarrow> set ks = D"
  and ranges_finite: "ranges ks D \<Longrightarrow> finite D"
  by (auto simp: ranges_def)

lemma go_rangeD: "go_range rng \<Longrightarrow> finite D \<Longrightarrow> ranges (rng D) D"
  by (simp add: go_range_def)

lemma ranges_single: "ranges ks {k} \<Longrightarrow> ks = [k]"
proof -
  assume r: "ranges ks {k}"
  then have "length ks = 1" using distinct_card [of ks] by (simp add: ranges_def)
  then obtain x where "ks = [x]" by (cases ks) auto
  with r show "ks = [k]" by (simp add: ranges_def)
qed

lemma go_range_sorted: "go_range sorted_list_of_set"
  by (simp add: go_range_def ranges_def)

text \<open>Counting over a range does not depend on its order.\<close>

lemma length_filter_ranges:
  "ranges ks D \<Longrightarrow> length (filter P ks) = card {k \<in> D. P k}"
  by (auto simp: ranges_def distinct_length_filter Int_def intro!: arg_cong [of _ _ card])

section \<open>Printing numbers\<close>

text \<open>Decimal digits, most significant first, as \<open>strconv\<close> and \<open>%d\<close> print them.\<close>

fun dec_string :: "nat \<Rightarrow> string" where
  "dec_string n = (if n < 10 then [char_of (48 + n)] else dec_string (n div 10) @ [char_of (48 + n mod 10)])"

declare dec_string.simps [simp del]

lemma dec_string_nonempty [simp]: "dec_string n \<noteq> []"
  by (subst dec_string.simps) simp

definition hex_digit :: "nat \<Rightarrow> char" where
  "hex_digit n = (if n < 10 then char_of (48 + n) else char_of (87 + n))"

fun hex_string :: "nat \<Rightarrow> string" where
  "hex_string n = (if n < 16 then [hex_digit n] else hex_string (n div 16) @ [hex_digit (n mod 16)])"

declare hex_string.simps [simp del]

text \<open>\<open>strings.Join\<close>.\<close>

fun join :: "string \<Rightarrow> string list \<Rightarrow> string" where
  "join sep [] = []"
| "join sep [x] = x"
| "join sep (x # y # ys) = x @ sep @ join sep (y # ys)"

lemma length_join:
  "length (join sep xs) = sum_list (map length xs) + (length xs - 1) * length sep"
  by (induction sep xs rule: join.induct) (simp_all add: algebra_simps)

section \<open>Maps\<close>

definition map_inj :: "('a \<rightharpoonup> 'b) \<Rightarrow> bool" where
  "map_inj m \<longleftrightarrow> (\<forall>a b v. m a = Some v \<longrightarrow> m b = Some v \<longrightarrow> a = b)"

lemma map_injD: "map_inj m \<Longrightarrow> m a = Some v \<Longrightarrow> m b = Some v \<Longrightarrow> a = b"
  unfolding map_inj_def by blast

lemma map_inj_upd: "map_inj m \<Longrightarrow> v \<notin> ran m \<Longrightarrow> map_inj (m(a \<mapsto> v))"
  unfolding map_inj_def ran_def by (auto split: if_splits)

lemma map_inj_del: "map_inj m \<Longrightarrow> map_inj (m(a := None))"
  unfolding map_inj_def by (auto split: if_splits)

lemma map_inj_empty [simp]: "map_inj Map.empty"
  by (simp add: map_inj_def)

lemma ran_upd_subset: "ran (m(a \<mapsto> w)) \<subseteq> insert w (ran m)"
  unfolding ran_def by (auto split: if_splits)

lemma ran_del_subset: "ran (m(a := None)) \<subseteq> ran m"
  unfolding ran_def by (auto split: if_splits)

end
