(* ===== verification/Net.thy ===== *)
theory Net
  imports Prelude
begin

text \<open>
  The parts of Go's packages \<open>net\<close> and \<open>net/netip\<close> that the program uses: the textual
  parser and printer of addresses (IPv4 and IPv6), \<open>netip.Addr\<close> with its order and its
  successor and predecessor, \<open>net.IP\<close>, \<open>net.IPNet\<close> and \<open>net.ParseCIDR\<close>.  An address
  is kept at its width: 32 or 128 bits, big-endian, in place of Go's byte arrays.
\<close>

unbundle bit_operations_syntax

type_synonym u32 = "32 word"
type_synonym u128 = "128 word"

section \<open>netip.Addr\<close>

text \<open>
  The zero value of \<open>netip.Addr\<close> is \<open>Invalid\<close>; a 16-byte address carries its zone, the
  empty string when there is none.
\<close>

datatype addr = Invalid | V4 u32 | V6 u128 string

definition in6 :: "u32 \<Rightarrow> u128" where
  "in6 w = 0xffff00000000 + ucast w"

definition is4in6 :: "u128 \<Rightarrow> bool" where
  "is4in6 w \<longleftrightarrow> drop_bit 32 w = 0xffff"

fun IsValid :: "addr \<Rightarrow> bool" where
  "IsValid Invalid = False"
| "IsValid _ = True"

fun BitLen :: "addr \<Rightarrow> nat" where
  "BitLen Invalid = 0"
| "BitLen (V4 _) = 32"
| "BitLen (V6 _ _) = 128"

fun Zone :: "addr \<Rightarrow> string" where
  "Zone (V6 _ z) = z"
| "Zone _ = []"

fun Unmap :: "addr \<Rightarrow> addr" where
  "Unmap (V6 w z) = (if is4in6 w then V4 (ucast w) else V6 w z)"
| "Unmap a = a"

fun As16 :: "addr \<Rightarrow> u128" where
  "As16 Invalid = 0"
| "As16 (V4 w) = in6 w"
| "As16 (V6 w _) = w"

fun As4 :: "addr \<Rightarrow> u32 outcome" where
  "As4 Invalid = Panic ''As4 called on IP zero value''"
| "As4 (V4 w) = Ret w"
| "As4 (V6 w _) = (if is4in6 w then Ret (ucast w) else Panic ''As4 called on IPv6 address'')"

text \<open>\<open>Addr.Next\<close> and \<open>Addr.Prev\<close>: the zero value when there is no such address.\<close>

fun Next :: "addr \<Rightarrow> addr" where
  "Next Invalid = Invalid"
| "Next (V4 w) = (if w + 1 = 0 then Invalid else V4 (w + 1))"
| "Next (V6 w z) = (if w + 1 = 0 then Invalid else V6 (w + 1) z)"

fun Prev :: "addr \<Rightarrow> addr" where
  "Prev Invalid = Invalid"
| "Prev (V4 w) = (if w = 0 then Invalid else V4 (w - 1))"
| "Prev (V6 w z) = (if w = 0 then Invalid else V6 (w - 1) z)"

definition cmp :: "'a::linorder \<Rightarrow> 'a \<Rightarrow> int" where
  "cmp a b = (if a < b then - 1 else if b < a then 1 else 0)"

text \<open>\<open>Addr.Compare\<close>: by width, then by value, then (16-byte addresses) by zone.\<close>

fun Compare :: "addr \<Rightarrow> addr \<Rightarrow> int" where
  "Compare (V4 v) (V4 w) = cmp v w"
| "Compare (V6 v y) (V6 w z) = (if v = w then cmp y z else cmp v w)"
| "Compare a b = cmp (BitLen a) (BitLen b)"

section \<open>Printing addresses\<close>

definition octets :: "u32 \<Rightarrow> nat list" where
  "octets w = [unat w div 2 ^ 24, unat w div 2 ^ 16 mod 256, unat w div 2 ^ 8 mod 256, unat w mod 256]"

definition string4 :: "u32 \<Rightarrow> string" where
  "string4 w = join ''.'' (map dec_string (octets w))"

definition groups6 :: "u128 \<Rightarrow> nat list" where
  "groups6 w = map (\<lambda>i. unat w div 2 ^ (112 - 16 * i) mod 65536) [0..<8]"

text \<open>
  \<open>appendTo6\<close>: the first longest run of at least two zero groups is printed as \<open>::\<close>.
  \<open>zero_run\<close> returns its bounds, \<open>(255, 255)\<close> when there is none.
\<close>

fun zeros :: "nat list \<Rightarrow> nat" where
  "zeros [] = 0"
| "zeros (g # gs) = (if g = 0 then Suc (zeros gs) else 0)"

fun zero_run :: "nat \<Rightarrow> nat list \<Rightarrow> nat \<times> nat \<Rightarrow> nat \<times> nat" where
  "zero_run i [] (s, e) = (s, e)"
| "zero_run i (g # gs) (s, e) =
     (let l = zeros (g # gs) in
      if 2 \<le> l \<and> e - s < l then zero_run (Suc i) gs (i, i + l) else zero_run (Suc i) gs (s, e))"

definition string6 :: "u128 \<Rightarrow> string" where
  "string6 w = (let gs = groups6 w; (s, e) = zero_run 0 gs (255, 255) in
     if s = 255 then join '':'' (map hex_string gs)
     else join '':'' (map hex_string (take s gs)) @ ''::'' @ join '':'' (map hex_string (drop e gs)))"

fun Addr_String :: "addr \<Rightarrow> string" where
  "Addr_String Invalid = ''invalid IP''"
| "Addr_String (V4 w) = string4 w"
| "Addr_String (V6 w z) =
     (if is4in6 w then ''::ffff:'' @ string4 (ucast w) else string6 w) @ (if z = [] then [] else ''%'' @ z)"

section \<open>Parsing addresses\<close>

definition is_digit :: "char \<Rightarrow> bool" where
  "is_digit c \<longleftrightarrow> 48 \<le> (of_char c :: nat) \<and> (of_char c :: nat) \<le> 57"

definition digit_val :: "char \<Rightarrow> nat" where
  "digit_val c = of_char c - 48"

text \<open>
  \<open>parseIPv4Fields\<close>: the characters left, the previous character, the fields completed so
  far, and the value and number of digits of the field being read.
\<close>

fun parse4 :: "string \<Rightarrow> char option \<Rightarrow> nat list \<Rightarrow> nat \<Rightarrow> nat \<Rightarrow> string + nat list" where
  "parse4 [] prev fields val digLen =
     (if length fields < 3 then Inl ''IPv4 address too short'' else Inr (fields @ [val]))"
| "parse4 (c # cs) prev fields val digLen =
     (if is_digit c then
        if digLen = 1 \<and> val = 0 then Inl ''IPv4 field has octet with leading zero''
        else if val * 10 + digit_val c > 255 then Inl ''IPv4 field has value >255''
        else parse4 cs (Some c) fields (val * 10 + digit_val c) (digLen + 1)
      else if c = CHR ''.'' then
        if prev = None \<or> cs = [] \<or> prev = Some (CHR ''.'') then Inl ''IPv4 field must have at least one digit''
        else if length fields = 3 then Inl ''IPv4 address too long''
        else parse4 cs (Some c) (fields @ [val]) 0 0
      else Inl ''unexpected character'')"

definition parseIPv4Fields :: "string \<Rightarrow> string + nat list" where
  "parseIPv4Fields s = parse4 s None [] 0 0"

definition word4 :: "nat list \<Rightarrow> u32" where
  "word4 fs = foldl (\<lambda>a f. a * 256 + of_nat f) 0 fs"

definition parseIPv4 :: "string \<Rightarrow> string + addr" where
  "parseIPv4 s = map_sum id (\<lambda>fs. V4 (word4 fs)) (parseIPv4Fields s)"

definition hex_val :: "char \<Rightarrow> nat option" where
  "hex_val c = (let n = of_char c :: nat in
     if 48 \<le> n \<and> n \<le> 57 then Some (n - 48)
     else if 97 \<le> n \<and> n \<le> 102 then Some (n - 87)
     else if 65 \<le> n \<and> n \<le> 70 then Some (n - 55)
     else None)"

text \<open>The inner loop of \<open>parseIPv6\<close>: number of digits, their value and the rest.\<close>

fun scan_hex :: "string \<Rightarrow> nat \<Rightarrow> nat \<Rightarrow> string + nat \<times> nat \<times> string" where
  "scan_hex [] off acc = Inr (off, acc, [])"
| "scan_hex (c # cs) off acc =
     (case hex_val c of
        None \<Rightarrow> Inr (off, acc, c # cs)
      | Some v \<Rightarrow>
          if off > 3 then Inl ''each group must have 4 or less digits''
          else scan_hex cs (Suc off) (acc * 16 + v))"

text \<open>
  The outer loop of \<open>parseIPv6\<close>; the first argument is the number of groups still free,
  \<open>gs\<close> the groups read, \<open>ell\<close> the position of the ellipsis.
\<close>

fun parse6 :: "nat \<Rightarrow> nat list \<Rightarrow> nat option \<Rightarrow> string \<Rightarrow> string + nat list \<times> nat option \<times> string" where
  "parse6 0 gs ell s = Inr (gs, ell, s)"
| "parse6 (Suc n) gs ell s =
     (case scan_hex s 0 0 of
        Inl e \<Rightarrow> Inl e
      | Inr (off, acc, rest) \<Rightarrow>
          if off = 0 then Inl ''each colon-separated field must have at least one digit''
          else if rest \<noteq> [] \<and> hd rest = CHR ''.'' then
            if ell = None \<and> length gs \<noteq> 6 then Inl ''embedded IPv4 address must replace the final 2 fields of the address''
            else if length gs + 2 > 8 then Inl ''too many hex fields to fit an embedded IPv4 at the end of the address''
            else (case parseIPv4Fields s of
                    Inl e \<Rightarrow> Inl e
                  | Inr fs \<Rightarrow> Inr (gs @ [fs ! 0 * 256 + fs ! 1, fs ! 2 * 256 + fs ! 3], ell, []))
          else (case rest of
                  [] \<Rightarrow> Inr (gs @ [acc], ell, [])
                | c # rest' \<Rightarrow>
                    if c \<noteq> CHR '':'' then Inl ''unexpected character, want colon''
                    else if rest' = [] then Inl ''colon must be followed by more characters''
                    else if hd rest' = CHR '':'' then
                      if ell \<noteq> None then Inl ''multiple :: in address''
                      else if tl rest' = [] then Inr (gs @ [acc], Some (length gs + 1), [])
                      else parse6 n (gs @ [acc]) (Some (length gs + 1)) (tl rest')
                    else parse6 n (gs @ [acc]) ell rest'))"

definition word6 :: "nat list \<Rightarrow> u128" where
  "word6 gs = foldl (\<lambda>a g. a * 65536 + of_nat g) 0 gs"

definition parseIPv6 :: "string \<Rightarrow> string + addr" where
  "parseIPv6 inp =
     (let has_zone = CHR ''%'' \<in> set inp;
          s = takeWhile (\<lambda>c. c \<noteq> CHR ''%'') inp;
          zone = tl (dropWhile (\<lambda>c. c \<noteq> CHR ''%'') inp);
          z = (if has_zone then zone else [])
      in if has_zone \<and> zone = [] then Inl ''zone must be a non-empty string''
         else let lead = (take 2 s = ''::'');
                  s' = (if lead then drop 2 s else s)
              in if lead \<and> s' = [] then Inr (V6 0 z)
                 else (case parse6 8 [] (if lead then Some 0 else None) s' of
                    Inl e \<Rightarrow> Inl e
                  | Inr (gs, ell, rest) \<Rightarrow>
                      if rest \<noteq> [] then Inl ''trailing garbage after address''
                      else if length gs < 8 then
                        (case ell of
                           None \<Rightarrow> Inl ''address string too short''
                         | Some k \<Rightarrow> Inr (V6 (word6 (take k gs @ replicate (8 - length gs) 0 @ drop k gs)) z))
                      else if ell \<noteq> None then Inl ''the :: must expand to at least one field of zeros''
                      else Inr (V6 (word6 gs) z)))"

text \<open>\<open>netip.ParseAddr\<close> looks for the first of the three characters that decide the format.\<close>

fun ParseAddr_kind :: "string \<Rightarrow> char option" where
  "ParseAddr_kind [] = None"
| "ParseAddr_kind (c # cs) = (if c \<in> {CHR ''.'', CHR '':'', CHR ''%''} then Some c else ParseAddr_kind cs)"

definition ParseAddr :: "string \<Rightarrow> addr gores" where
  "ParseAddr s =
     (let r = (case ParseAddr_kind s of
                 None \<Rightarrow> Inl ''unable to parse IP''
               | Some c \<Rightarrow> if c = CHR ''.'' then parseIPv4 s
                           else if c = CHR '':'' then parseIPv6 s
                           else Inl ''missing IPv6 address'')
      in case r of Inl m \<Rightarrow> (Invalid, Some (ParseAddrError s m)) | Inr a \<Rightarrow> (a, None))"

section \<open>net.IP, net.IPNet and net.ParseCIDR\<close>

text \<open>A \<open>net.IP\<close> is nil, 4 bytes or 16 bytes; a \<open>net.IPMask\<close> is 4 or 16 bytes.\<close>

datatype net_ip = NilIP | IP4 u32 | IP16 u128

datatype ip_mask = Mask4 u32 | Mask16 u128

record IPNet =
  IPNet_IP :: net_ip
  IPNet_Mask :: ip_mask

definition IPv4zero :: net_ip where
  "IPv4zero = IP16 (in6 0)"

fun To4 :: "net_ip \<Rightarrow> u32 option" where
  "To4 NilIP = None"
| "To4 (IP4 w) = Some w"
| "To4 (IP16 w) = (if is4in6 w then Some (ucast w) else None)"

definition To4_ip :: "net_ip \<Rightarrow> net_ip" where
  "To4_ip ip = (case To4 ip of None \<Rightarrow> NilIP | Some w \<Rightarrow> IP4 w)"

fun IP_String :: "net_ip \<Rightarrow> string" where
  "IP_String NilIP = ''<nil>''"
| "IP_String (IP4 w) = string4 w"
| "IP_String (IP16 w) = (if is4in6 w then string4 (ucast w) else string6 w)"

fun IP_Equal :: "net_ip \<Rightarrow> net_ip \<Rightarrow> bool" where
  "IP_Equal NilIP NilIP = True"
| "IP_Equal (IP4 v) (IP4 w) = (v = w)"
| "IP_Equal (IP16 v) (IP16 w) = (v = w)"
| "IP_Equal (IP4 v) (IP16 w) = (in6 v = w)"
| "IP_Equal (IP16 v) (IP4 w) = (v = in6 w)"
| "IP_Equal _ _ = False"

definition IsUnspecified :: "net_ip \<Rightarrow> bool" where
  "IsUnspecified ip \<longleftrightarrow> IP_Equal ip IPv4zero \<or> IP_Equal ip (IP16 0)"

definition ParseIP :: "string \<Rightarrow> net_ip" where
  "ParseIP s = (case ParseAddr s of
     (a, None) \<Rightarrow> if Zone a = [] then IP16 (As16 a) else NilIP
   | (a, Some _) \<Rightarrow> NilIP)"

fun AddrFromSlice :: "net_ip \<Rightarrow> addr \<times> bool" where
  "AddrFromSlice NilIP = (Invalid, False)"
| "AddrFromSlice (IP4 w) = (V4 w, True)"
| "AddrFromSlice (IP16 w) = (V6 w [], True)"

fun AsSlice :: "addr \<Rightarrow> net_ip" where
  "AsSlice Invalid = NilIP"
| "AsSlice (V4 w) = IP4 w"
| "AsSlice (V6 w _) = IP16 w"

text \<open>\<open>networkNumberAndMask\<close> and \<open>IPNet.Contains\<close>, for the two mask lengths.\<close>

fun Contains :: "IPNet \<Rightarrow> net_ip \<Rightarrow> bool" where
  "Contains n ip =
     (case (To4 (IPNet_IP n), IPNet_IP n, IPNet_Mask n) of
        (Some nn, _, Mask4 m) \<Rightarrow> (case To4 ip of Some x \<Rightarrow> nn AND m = x AND m | None \<Rightarrow> False)
      | (Some nn, _, Mask16 m) \<Rightarrow> (case To4 ip of Some x \<Rightarrow> nn AND ucast m = x AND ucast m | None \<Rightarrow> False)
      | (None, IP16 nn, Mask16 m) \<Rightarrow>
          (case ip of IP16 x \<Rightarrow> \<not> is4in6 x \<and> nn AND m = x AND m | _ \<Rightarrow> False)
      | _ \<Rightarrow> ip = NilIP)"

declare Contains.simps [simp del]

definition CIDRMask4 :: "nat \<Rightarrow> u32" where
  "CIDRMask4 n = NOT (mask (32 - n))"

definition CIDRMask16 :: "nat \<Rightarrow> u128" where
  "CIDRMask16 n = NOT (mask (128 - n))"

text \<open>\<open>net.dtoi\<close>: the decimal prefix of a string, refused from \<open>0xFFFFFF\<close> on.\<close>

fun dtoi_loop :: "string \<Rightarrow> nat \<Rightarrow> nat \<Rightarrow> nat \<times> nat \<times> bool" where
  "dtoi_loop [] n i = (if i = 0 then (0, 0, False) else (n, i, True))"
| "dtoi_loop (c # cs) n i =
     (if is_digit c then
        if n * 10 + digit_val c \<ge> 0xFFFFFF then (0xFFFFFF, i, False)
        else dtoi_loop cs (n * 10 + digit_val c) (Suc i)
      else if i = 0 then (0, 0, False) else (n, i, True))"

definition ParseCIDR :: "string \<Rightarrow> (net_ip \<times> IPNet option) gores" where
  "ParseCIDR s =
     (let err = ((NilIP, None), Some (ParseError ''CIDR address'' s));
          ad = takeWhile (\<lambda>c. c \<noteq> CHR ''/'') s;
          ms = tl (dropWhile (\<lambda>c. c \<noteq> CHR ''/'') s)
      in if CHR ''/'' \<notin> set s then err
         else (case ParseAddr ad of
           (a, Some _) \<Rightarrow> err
         | (a, None) \<Rightarrow>
             if Zone a \<noteq> [] then err
             else (case dtoi_loop ms 0 0 of (n, i, ok) \<Rightarrow>
               if \<not> ok \<or> i \<noteq> length ms \<or> n > BitLen a then err
               else (case a of
                   V4 w \<Rightarrow> ((IP16 (in6 w), Some \<lparr>IPNet_IP = IP4 (w AND CIDRMask4 n), IPNet_Mask = Mask4 (CIDRMask4 n)\<rparr>), None)
                 | V6 w _ \<Rightarrow> ((IP16 w, Some \<lparr>IPNet_IP = IP16 (w AND CIDRMask16 n), IPNet_Mask = Mask16 (CIDRMask16 n)\<rparr>), None)
                 | Invalid \<Rightarrow> err))))"

text \<open>\<open>IPMask.Size\<close>: the number of leading ones (the masks here come from a prefix length).\<close>

fun Mask_Size :: "ip_mask \<Rightarrow> nat" where
  "Mask_Size (Mask4 m) = length (takeWhile (\<lambda>i. bit m (31 - i)) [0..<32])"
| "Mask_Size (Mask16 m) = length (takeWhile (\<lambda>i. bit m (127 - i)) [0..<128])"

end
