(* ===== verification/Net_Facts.thy ===== *)
theory Net_Facts
  imports Net
begin

text \<open>
  Facts about the model of \<open>net\<close> and \<open>net/netip\<close>: printing and parsing an IPv4 address
  are inverse, the IPv4-mapped form keeps value and order, \<open>Next\<close>/\<open>Prev\<close>/\<open>Compare\<close>
  behave like successor, predecessor and order of the 32-bit value, and membership in a CIDR
  block is an interval.
\<close>

section \<open>IPv4-mapped addresses\<close>

lemma unat_in6: "unat (in6 w) = 0xffff00000000 + unat w"
proof -
  have "unat w < 2 ^ 32" using unsigned_less [of w] by simp
  then show ?thesis
    by (simp add: in6_def unat_word_ariths unsigned_ucast_eq take_bit_nat_eq_self)
qed

lemma is4in6_in6 [simp]: "is4in6 (in6 w)"
proof -
  have "unat w < 2 ^ 32" using unsigned_less [of w] by simp
  then have "unat (drop_bit 32 (in6 w)) = 0xffff"
    by (simp only: unsigned_drop_bit_eq unat_in6) (simp add: drop_bit_eq_div take_bit_nat_eq_self)
  then show ?thesis
    by (simp add: is4in6_def word_unat_eq_iff)
qed

lemma ucast_in6 [simp]: "ucast (in6 w) = w"
proof -
  have "unat w < 2 ^ 32" using unsigned_less [of w] by simp
  then show ?thesis
    by (simp add: word_unat_eq_iff unsigned_ucast_eq unat_in6 take_bit_eq_mod mod_add_left_eq [symmetric, of 281470681743360])
qed

lemma in6_inject [simp]: "in6 v = in6 w \<longleftrightarrow> v = w"
  by (metis ucast_in6)

lemma in6_less [simp]: "in6 v < in6 w \<longleftrightarrow> v < w"
  by (simp add: word_less_nat_alt unat_in6)

lemma in6_le [simp]: "in6 v \<le> in6 w \<longleftrightarrow> v \<le> w"
  by (simp add: word_le_nat_alt unat_in6)

lemma in6_nonzero [simp]: "in6 w \<noteq> 0"
  by (simp add: word_unat_eq_iff unat_in6)

lemma in6_eq_0xffff: "in6 w = 0 \<longleftrightarrow> False"
  by simp

section \<open>Decimal octets\<close>

lemma dec_string1: "n < 10 \<Longrightarrow> dec_string n = [char_of (48 + n)]"
  by (subst dec_string.simps) simp

lemma dec_string2: "10 \<le> n \<Longrightarrow> n < 100 \<Longrightarrow> dec_string n = [char_of (48 + n div 10), char_of (48 + n mod 10)]"
  by (subst dec_string.simps) (simp add: dec_string1)

lemma dec_string3:
  "100 \<le> n \<Longrightarrow> n < 1000 \<Longrightarrow>
   dec_string n = [char_of (48 + n div 100), char_of (48 + n div 10 mod 10), char_of (48 + n mod 10)]"
  by (subst dec_string.simps) (simp add: dec_string2 div_mult2_eq [symmetric])

lemma digit_chars [simp]:
  "char_of (48 :: nat) = CHR ''0''" "char_of (49 :: nat) = CHR ''1''" "char_of (50 :: nat) = CHR ''2''"
  "char_of (51 :: nat) = CHR ''3''" "char_of (52 :: nat) = CHR ''4''" "char_of (53 :: nat) = CHR ''5''"
  "char_of (54 :: nat) = CHR ''6''" "char_of (55 :: nat) = CHR ''7''" "char_of (56 :: nat) = CHR ''8''"
  "char_of (57 :: nat) = CHR ''9''"
  by (simp_all add: char_of_def bit_0)

lemma is_digit_char [simp]: "d < 10 \<Longrightarrow> is_digit (char_of (48 + d :: nat))"
  by (simp add: is_digit_def)

lemma digit_val_char [simp]: "d < 10 \<Longrightarrow> digit_val (char_of (48 + d)) = d"
  by (simp add: digit_val_def)

lemma digit_not_special:
  "is_digit c \<Longrightarrow> c \<notin> {CHR ''.'', CHR '':'', CHR ''%'', CHR ''/''}"
  by (auto simp: is_digit_def)

text \<open>Reading back a printed octet; only its value and its last character matter afterwards.\<close>

lemma parse4_octet:
  assumes "n < 256"
  shows "\<exists>c k. is_digit c \<and> 0 < k \<and> (\<forall>rest prev fs.
    parse4 (dec_string n @ rest) prev fs 0 0 = parse4 rest (Some c) fs n k)"
proof -
  consider "n < 10" | "10 \<le> n" "n < 100" | "100 \<le> n" by linarith
  then show ?thesis
  proof cases
    case 1
    then show ?thesis
      by (intro exI [of _ "char_of (48 + n)"] exI [of _ 1]) (simp add: dec_string1)
  next
    case 2
    then have "n div 10 < 10" "n div 10 \<noteq> 0" by auto
    moreover have "n div 10 * 10 + n mod 10 = n" by simp
    ultimately show ?thesis using 2
      by (intro exI [of _ "char_of (48 + n mod 10)"] exI [of _ "Suc (Suc 0)"]) (auto simp: dec_string2)
  next
    case 3
    with assms have "n div 100 < 10" "n div 100 \<noteq> 0" "n div 10 mod 10 < 10" by auto
    moreover have "n div 100 * 10 + n div 10 mod 10 = n div 10"
      using div_mult_mod_eq [of "n div 10" 10] by (simp add: div_mult2_eq [symmetric])
    moreover have "n div 10 * 10 + n mod 10 = n" by simp
    moreover have "n div 10 \<le> 25" using assms by linarith
    ultimately show ?thesis using 3 assms
      by (intro exI [of _ "char_of (48 + n mod 10)"] exI [of _ "Suc (Suc (Suc 0))"]) (simp add: dec_string3)
  qed
qed

lemma parse4_dot:
  assumes "n < 256" "cs \<noteq> []" "length fs < 3"
  shows "parse4 (dec_string n @ CHR ''.'' # cs) prev fs 0 0 =
         parse4 cs (Some (CHR ''.'')) (fs @ [n]) 0 0"
proof -
  obtain c k where c: "is_digit c" and
    eq: "\<And>rest prev fs. parse4 (dec_string n @ rest) prev fs 0 0 = parse4 rest (Some c) fs n k"
    using parse4_octet [OF assms(1)] by blast
  from c have "c \<noteq> CHR ''.''" using digit_not_special by blast
  moreover have "\<not> is_digit (CHR ''.'')" by (simp add: is_digit_def)
  ultimately show ?thesis using assms(2,3) by (simp add: eq)
qed

lemma parse4_end:
  assumes "n < 256" "length fs = 3"
  shows "parse4 (dec_string n) prev fs 0 0 = Inr (fs @ [n])"
  using parse4_octet [OF assms(1)] assms(2) by (metis append_Nil2 less_irrefl parse4.simps(1))

lemma octets_less: "\<forall>n \<in> set (octets w). n < 256"
proof -
  have "unat w < 2 ^ 32" using unsigned_less [of w] by simp
  then show ?thesis by (simp add: octets_def)
qed

lemma word4_octets: "word4 (octets w) = w"
proof -
  have step: "n div (256 * k) * 256 + n div k mod 256 = n div k" for n k :: nat
    by (metis div_mult2_eq div_mult_mod_eq mult.commute)
  have "((unat w div 2 ^ 24 * 256 + unat w div 2 ^ 16 mod 256) * 256 + unat w div 2 ^ 8 mod 256) * 256
        + unat w mod 256 = unat w"
    using step [of "unat w" "2 ^ 16"] step [of "unat w" "2 ^ 8"] step [of "unat w" 1] by simp
  then have "of_nat (((unat w div 2 ^ 24 * 256 + unat w div 2 ^ 16 mod 256) * 256 + unat w div 2 ^ 8 mod 256) * 256
        + unat w mod 256) = w" by simp
  then show ?thesis
    by (simp only: word4_def octets_def foldl.simps mult_zero_left add_0 of_nat_add of_nat_mult of_nat_numeral)
qed

text \<open>Printing an IPv4 address and parsing it back is the identity.\<close>

lemma parseIPv4Fields_string4: "parseIPv4Fields (string4 w) = Inr (octets w)"
proof -
  obtain a b c d where o: "octets w = [a, b, c, d]" by (simp add: octets_def)
  with octets_less [of w] have "a < 256" "b < 256" "c < 256" "d < 256" by auto
  then show ?thesis
    by (simp add: parseIPv4Fields_def string4_def o parse4_dot parse4_end)
qed

lemma dec_string_digits: "\<forall>c \<in> set (dec_string n). is_digit c"
proof (induction n rule: dec_string.induct)
  case (1 n)
  then show ?case by (subst dec_string.simps) auto
qed

lemma ParseAddr_kind_skip:
  "\<forall>c \<in> set xs. is_digit c \<Longrightarrow> ParseAddr_kind (xs @ ys) = ParseAddr_kind ys"
  using digit_not_special by (induction xs) auto

lemma string4_shape: "string4 w = dec_string (octets w ! 0) @ CHR ''.'' # join ''.'' (map dec_string (tl (octets w)))"
  by (simp add: string4_def octets_def)

lemma ParseAddr_kind_string4 [simp]: "ParseAddr_kind (string4 w) = Some (CHR ''.'')"
  by (simp add: string4_shape ParseAddr_kind_skip dec_string_digits)

lemma ParseAddr_string4 [simp]: "ParseAddr (string4 w) = (V4 w, None)"
  by (simp add: ParseAddr_def parseIPv4_def parseIPv4Fields_string4 word4_octets)

lemma ParseIP_string4 [simp]: "ParseIP (string4 w) = IP16 (in6 w)"
  by (simp add: ParseIP_def)

lemma string4_inject [simp]: "string4 v = string4 w \<longleftrightarrow> v = w"
  by (metis ParseAddr_string4 addr.inject(1) fst_conv)

lemma string4_nonempty [simp]: "string4 w \<noteq> []"
  by (simp add: string4_shape)

lemma IP_String_in6 [simp]: "IP_String (IP16 (in6 w)) = string4 w"
  by simp

section \<open>Order and neighbours of IPv4 addresses\<close>

lemma cmp_simps [simp]:
  "cmp a b > 0 \<longleftrightarrow> b < a" "cmp a b < 0 \<longleftrightarrow> a < b" "cmp a b = 0 \<longleftrightarrow> a = b"
  "0 \<le> cmp a b \<longleftrightarrow> b \<le> a" "cmp a b \<le> 0 \<longleftrightarrow> a \<le> b"
  for a b :: "'a::linorder"
  by (auto simp: cmp_def)

lemma Compare_V4 [simp]:
  "Compare (V4 v) (V4 w) > 0 \<longleftrightarrow> w < v" "Compare (V4 v) (V4 w) \<ge> 0 \<longleftrightarrow> w \<le> v"
  "Compare (V4 v) (V4 w) \<le> 0 \<longleftrightarrow> v \<le> w"
  by simp_all

lemma Next_Prev_V6 [simp]:
  "w \<noteq> 0 \<Longrightarrow> Next (Prev (V6 w z)) = V6 w z" "w + 1 \<noteq> 0 \<Longrightarrow> Prev (Next (V6 w z)) = V6 w z"
  by simp_all

section \<open>CIDR blocks\<close>

text \<open>
  \<open>same_block j x y\<close>: the two addresses agree above the low \<open>j\<close> bits, the condition that
  \<open>IPNet.Contains\<close> tests with the mask of prefix length \<open>32 - j\<close>.
\<close>

definition same_block :: "nat \<Rightarrow> u32 \<Rightarrow> u32 \<Rightarrow> bool" where
  "same_block j x y \<longleftrightarrow> drop_bit j x = drop_bit j y"

lemma same_block_mask: "same_block j x y \<longleftrightarrow> x AND NOT (mask j) = y AND NOT (mask j)"
proof
  assume "same_block j x y"
  then have *: "bit (drop_bit j x) n = bit (drop_bit j y) n" for n by (simp add: same_block_def)
  show "x AND NOT (mask j) = y AND NOT (mask j)"
  proof (rule bit_eqI)
    fix n
    show "bit (x AND NOT (mask j)) n = bit (y AND NOT (mask j)) n"
      using * [of "n - j"] by (auto simp: bit_simps)
  qed
next
  assume "x AND NOT (mask j) = y AND NOT (mask j)"
  moreover have "drop_bit j (v AND NOT (mask j)) = drop_bit j v" for v :: u32
    by (rule bit_eqI) (auto simp: bit_simps dest: bit_imp_le_length)
  ultimately show "same_block j x y" unfolding same_block_def by metis
qed

lemma same_block_refl [simp]: "same_block j x x"
  by (simp add: same_block_def)

lemma same_block_sym: "same_block j x y \<Longrightarrow> same_block j y x"
  by (simp add: same_block_def)

lemma same_block_trans: "same_block j x y \<Longrightarrow> same_block j y z \<Longrightarrow> same_block j x z"
  by (simp add: same_block_def)

lemma same_block_nat: "same_block j x y \<longleftrightarrow> unat x div 2 ^ j = unat y div 2 ^ j"
proof -
  have "unat (drop_bit j v) = unat v div 2 ^ j" for v :: u32
    using unsigned_less [of v, where ?'a = nat]
    by (simp only: unsigned_drop_bit_eq) (simp add: drop_bit_eq_div take_bit_nat_eq_self)
  then show ?thesis by (simp add: same_block_def word_unat_eq_iff del: drop_bit_word_beyond)
qed

text \<open>A block is an interval that ends in its broadcast address.\<close>

lemma same_block_between:
  assumes "same_block j x y" "x \<le> z" "z \<le> y"
  shows "same_block j x z"
proof -
  have "unat x div 2 ^ j \<le> unat z div 2 ^ j" "unat z div 2 ^ j \<le> unat y div 2 ^ j"
    using assms(2,3) by (simp_all add: word_le_nat_alt div_le_mono)
  with assms(1) show ?thesis by (simp add: same_block_nat)
qed

lemma same_block_broadcast:
  assumes "same_block j x w"
  shows "x OR mask j = w OR mask j"
proof (rule bit_eqI)
  fix n
  assume n: "possible_bit TYPE(u32) n"
  have "bit (drop_bit j x) (n - j) = bit (drop_bit j w) (n - j)"
    using assms by (simp add: same_block_def)
  with n show "bit (x OR mask j) n = bit (w OR mask j) n"
    by (cases "n < j") (auto simp: bit_simps)
qed

lemma same_block_le_broadcast: "same_block j x w \<Longrightarrow> x \<le> w OR mask j"
  using same_block_broadcast le_word_or2 by metis

lemma same_block_ge_network: "same_block j x w \<Longrightarrow> w AND NOT (mask j) \<le> x"
  using same_block_mask word_and_le2 by metis

lemma broadcast_same_block: "same_block j (w OR mask j) w"
  by (auto simp: same_block_mask bit_simps intro!: bit_eqI)

lemma network_same_block: "same_block j (w AND NOT (mask j)) w"
  by (simp add: same_block_mask and.assoc)

lemma NOT_CIDRMask4: "NOT (CIDRMask4 k) = mask (32 - k)"
  by (simp add: CIDRMask4_def)

lemma Contains_CIDR4:
  "Contains \<lparr>IPNet_IP = IP4 (w AND CIDRMask4 k), IPNet_Mask = Mask4 (CIDRMask4 k)\<rparr> ip \<longleftrightarrow>
   (\<exists>x. To4 ip = Some x \<and> same_block (32 - k) x w)"
  by (auto simp: Contains.simps same_block_mask CIDRMask4_def and.assoc split: option.splits)

text \<open>What \<open>ParseCIDR\<close> returns for an IPv4 block.\<close>

definition cidr4 :: "string \<Rightarrow> u32 \<Rightarrow> nat \<Rightarrow> bool" where
  "cidr4 s w k \<longleftrightarrow> k \<le> 32 \<and> ParseCIDR s =
     ((IP16 (in6 w), Some \<lparr>IPNet_IP = IP4 (w AND CIDRMask4 k), IPNet_Mask = Mask4 (CIDRMask4 k)\<rparr>), None)"

lemma is4in6_eq: "is4in6 w \<Longrightarrow> w = in6 (ucast w)"
proof -
  assume "is4in6 w"
  then have d: "unat (drop_bit 32 w) = 0xffff" by (simp add: is4in6_def)
  have "unat w < 2 ^ 128" using unsigned_less [of w, where ?'a = nat] by simp
  with d have "unat w div 2 ^ 32 = 0xffff"
    by (simp only: unsigned_drop_bit_eq) (simp add: drop_bit_eq_div take_bit_nat_eq_self)
  then have "unat w = 0xffff * 2 ^ 32 + unat w mod 2 ^ 32"
    using div_mult_mod_eq [of "unat w" "2 ^ 32"] by simp
  moreover have "unat (ucast w :: u32) = unat w mod 2 ^ 32"
    by (simp add: unsigned_ucast_eq take_bit_eq_mod)
  ultimately show "w = in6 (ucast w)"
    by (simp add: word_unat_eq_iff unat_in6)
qed

lemma To4_IP16 [simp]: "To4 (IP16 (in6 w)) = Some w"
  by simp

lemma ParseIP_cases: "ParseIP s = NilIP \<or> (\<exists>w. ParseIP s = IP16 w)"
  by (auto simp: ParseIP_def split: prod.splits option.splits)

lemma To4_ParseIP: "To4 (ParseIP s) = Some x \<longleftrightarrow> ParseIP s = IP16 (in6 x)"
  using ParseIP_cases [of s] by (auto split: if_splits dest: is4in6_eq)

lemma IsUnspecified_in6 [simp]: "IsUnspecified (IP16 (in6 w)) \<longleftrightarrow> w = 0"
  by (simp add: IsUnspecified_def IPv4zero_def)

lemma IP_Equal_IP4_in6 [simp]:
  "IP_Equal (IP4 v) (IP16 (in6 w)) \<longleftrightarrow> v = w" "IP_Equal (IP16 (in6 w)) (IP4 v) \<longleftrightarrow> w = v"
  by auto

lemma not_digit [simp]: "\<not> is_digit (CHR ''.'')" "\<not> is_digit (CHR ''/'')" "\<not> is_digit (CHR '':'')"
  by (simp_all add: is_digit_def)

lemmas [net_eval] = ParseCIDR_def ParseAddr_def parseIPv4_def parseIPv4Fields_def word4_def
  is_digit_def digit_val_def ParseIP_def

end
