(* ===== verification/Interfaces.thy ===== *)
theory Interfaces
  imports Prelude
begin

text \<open>
  The contracts between the components, as locales.  \<open>address_pool\<close> is what the controllers
  rely on in the IPAM (\<open>pkg/ipam\<close>), \<open>mac_table\<close> what they rely on in the MAC cache
  (\<open>pkg/cache\<close>), and \<open>lease_registry\<close> the discipline that keeps the two consistent when
  an address is bound to and released from a hardware address.  They are interpreted on the
  model of \<open>pkg/ipam\<close> in \<open>Ipam\<close>, of \<open>pkg/cache\<close> in \<open>Mac_Cache\<close>, and jointly in
  \<open>Mac_Cache\<close>.
\<close>

section \<open>Pools of addresses\<close>

text \<open>
  \<open>pool s n\<close> is the abstract state of network \<open>n\<close>: which addresses it owns, and
  whether each is in use.
\<close>

locale address_pool =
  fixes pool :: "'s \<Rightarrow> string \<Rightarrow> (string \<rightharpoonup> bool) option"
    and invar :: "'s \<Rightarrow> bool"
    and alloc :: "range_order \<Rightarrow> 's \<Rightarrow> string \<Rightarrow> string \<Rightarrow> 's \<times> string \<times> go_error option"
    and dealloc :: "'s \<Rightarrow> string \<Rightarrow> string \<Rightarrow> 's \<times> go_error option"
  assumes finite_pool: "invar s \<Longrightarrow> pool s n = Some m \<Longrightarrow> finite (dom m)"
    and alloc_invar: "go_range rng \<Longrightarrow> invar s \<Longrightarrow> invar (fst (alloc rng s n r))"
    and dealloc_invar: "invar s \<Longrightarrow> invar (fst (dealloc s n ip))"
    and alloc_ok: "go_range rng \<Longrightarrow> invar s \<Longrightarrow> alloc rng s n r = (s', ip, None) \<Longrightarrow>
      \<exists>m. pool s n = Some m \<and> m ip = Some False \<and> pool s' = (pool s)(n \<mapsto> m(ip \<mapsto> True))"
    and alloc_err: "alloc rng s n r = (s', ip, Some e) \<Longrightarrow> s' = s"
    and dealloc_ok: "dealloc s n ip = (s', None) \<Longrightarrow>
      \<exists>m. pool s n = Some m \<and> m ip = Some True \<and> pool s' = (pool s)(n \<mapsto> m(ip \<mapsto> False))"
    and dealloc_err: "dealloc s n ip = (s', Some e) \<Longrightarrow> s' = s"
    and dealloc_used: "pool s n = Some m \<Longrightarrow> m ip = Some True \<Longrightarrow> ip \<noteq> [] \<Longrightarrow>
      \<exists>s'. dealloc s n ip = (s', None)"
begin

definition in_use :: "'s \<Rightarrow> string \<Rightarrow> string set" where
  "in_use s n = {ip. \<exists>m. pool s n = Some m \<and> m ip = Some True}"

definition available :: "'s \<Rightarrow> string \<Rightarrow> string set" where
  "available s n = {ip. \<exists>m. pool s n = Some m \<and> m ip = Some False}"

lemma alloc_moves:
  assumes "go_range rng" "invar s" "alloc rng s n r = (s', ip, None)"
  shows "ip \<in> available s n" "in_use s' n = insert ip (in_use s n)"
    "available s' n = available s n - {ip}" "ip \<notin> in_use s n"
  using alloc_ok [OF assms] by (auto simp: in_use_def available_def split: if_splits)

lemma alloc_other:
  assumes "go_range rng" "invar s" "alloc rng s n r = (s', ip, None)" "n' \<noteq> n"
  shows "in_use s' n' = in_use s n'" "available s' n' = available s n'"
  using alloc_ok [OF assms(1-3)] assms(4) by (auto simp: in_use_def available_def)

lemma dealloc_moves:
  assumes "dealloc s n ip = (s', None)"
  shows "ip \<in> in_use s n" "in_use s' n = in_use s n - {ip}"
    "available s' n = insert ip (available s n)"
  using dealloc_ok [OF assms] by (auto simp: in_use_def available_def split: if_splits)

lemma in_use_finite: "invar s \<Longrightarrow> finite (in_use s n)"
  by (cases "pool s n") (auto simp: in_use_def intro: finite_subset dest: finite_pool elim!: rev_finite_subset)

lemma alloc_dealloc_pool:
  assumes "go_range rng" "invar s" "alloc rng s n r = (s1, ip, None)" "dealloc s1 n ip = (s2, None)"
  shows "pool s2 = pool s"
proof -
  obtain m where m: "pool s n = Some m" "m ip = Some False" "pool s1 = (pool s)(n \<mapsto> m(ip \<mapsto> True))"
    using alloc_ok [OF assms(1-3)] by blast
  with dealloc_ok [OF assms(4)] have "pool s2 = (pool s)(n \<mapsto> m(ip \<mapsto> False))" by auto
  with m(1,2) show ?thesis by (auto simp: fun_eq_iff)
qed

end

section \<open>Tables of hardware addresses\<close>

text \<open>
  \<open>tbl t n\<close> maps the hardware addresses known on network \<open>n\<close> to addresses, as the
  strings that \<open>get\<close> returns; \<open>canon\<close> tells the strings that the table returns unchanged.
\<close>

locale mac_table =
  fixes tbl :: "'t \<Rightarrow> string \<Rightarrow> (string \<rightharpoonup> string) option"
    and canon :: "string \<Rightarrow> bool"
    and add :: "'t \<Rightarrow> string \<Rightarrow> string \<Rightarrow> string \<Rightarrow> 't \<times> go_error option"
    and del :: "'t \<Rightarrow> string \<Rightarrow> string \<Rightarrow> 't \<times> go_error option"
    and has :: "'t \<Rightarrow> string \<Rightarrow> string \<Rightarrow> bool gores"
    and get :: "'t \<Rightarrow> string \<Rightarrow> string \<Rightarrow> string gores"
  assumes add_ok: "add t n mac ip = (t', None) \<Longrightarrow> canon ip \<Longrightarrow>
      \<exists>m. tbl t n = Some m \<and> tbl t' = (tbl t)(n \<mapsto> m(mac \<mapsto> ip))"
    and add_known: "tbl t n = Some m \<Longrightarrow> \<exists>t'. add t n mac ip = (t', None)"
    and del_ok: "del t n mac = (t', None) \<Longrightarrow>
      \<exists>m. tbl t n = Some m \<and> tbl t' = (tbl t)(n \<mapsto> m(mac := None))"
    and del_known: "tbl t n = Some m \<Longrightarrow> \<exists>t'. del t n mac = (t', None)"
    and has_ok: "has t n mac = (b, None) \<Longrightarrow> \<exists>m. tbl t n = Some m \<and> (b \<longleftrightarrow> mac \<in> dom m)"
    and get_ok: "get t n mac = (ip, None) \<Longrightarrow> \<exists>m. tbl t n = Some m \<and> m mac = Some ip"
begin

lemma add_get:
  assumes "add t n mac ip = (t', None)" "canon ip" "get t' n mac = (ip', None)"
  shows "ip' = ip"
  using add_ok [OF assms(1,2)] get_ok [OF assms(3)] by auto

lemma del_has:
  assumes "del t n mac = (t', None)" "has t' n mac = (b, None)"
  shows "\<not> b"
  using del_ok [OF assms(1)] has_ok [OF assms(2)] by auto

end

section \<open>Binding addresses to hardware addresses\<close>

text \<open>
  The two stores are consistent when on every network with a table, no two hardware addresses
  share an address, and every bound address is in use in the pool of that network.
\<close>

locale lease_registry =
  p: address_pool pool invar alloc dealloc +
  t: mac_table tbl canon add del has get
  for pool :: "'s \<Rightarrow> string \<Rightarrow> (string \<rightharpoonup> bool) option"
    and invar :: "'s \<Rightarrow> bool"
    and alloc :: "range_order \<Rightarrow> 's \<Rightarrow> string \<Rightarrow> string \<Rightarrow> 's \<times> string \<times> go_error option"
    and dealloc :: "'s \<Rightarrow> string \<Rightarrow> string \<Rightarrow> 's \<times> go_error option"
    and tbl :: "'t \<Rightarrow> string \<Rightarrow> (string \<rightharpoonup> string) option"
    and canon :: "string \<Rightarrow> bool"
    and add :: "'t \<Rightarrow> string \<Rightarrow> string \<Rightarrow> string \<Rightarrow> 't \<times> go_error option"
    and del :: "'t \<Rightarrow> string \<Rightarrow> string \<Rightarrow> 't \<times> go_error option"
    and has :: "'t \<Rightarrow> string \<Rightarrow> string \<Rightarrow> bool gores"
    and get :: "'t \<Rightarrow> string \<Rightarrow> string \<Rightarrow> string gores" +
  assumes alloc_canon: "go_range rng \<Longrightarrow> invar s \<Longrightarrow> alloc rng s n r = (s', ip, None) \<Longrightarrow> canon ip"
begin

definition consistent :: "'s \<Rightarrow> 't \<Rightarrow> bool" where
  "consistent s t \<longleftrightarrow> (\<forall>n m. tbl t n = Some m \<longrightarrow> map_inj m \<and> ran m \<subseteq> p.in_use s n)"

lemma consistentD:
  "consistent s t \<Longrightarrow> tbl t n = Some m \<Longrightarrow> map_inj m"
  "consistent s t \<Longrightarrow> tbl t n = Some m \<Longrightarrow> m mac = Some ip \<Longrightarrow> ip \<in> p.in_use s n"
  by (auto simp: consistent_def ran_def)

text \<open>Binding a freshly allocated address.\<close>

lemma bind_fresh:
  assumes "go_range rng" "invar s" "consistent s t"
    "alloc rng s n r = (s', ip, None)" "add t n mac ip = (t', None)"
  shows "consistent s' t'"
  unfolding consistent_def
proof (intro allI impI)
  fix n' m' assume m': "tbl t' n' = Some m'"
  note canon = alloc_canon [OF assms(1,2,4)]
  obtain m where m: "tbl t n = Some m" "tbl t' = (tbl t)(n \<mapsto> m(mac \<mapsto> ip))"
    using t.add_ok [OF assms(5) canon] by blast
  have fresh: "ip \<notin> ran m"
    using p.alloc_moves(4) [OF assms(1,2,4)] assms(3) m(1) by (auto simp: consistent_def)
  show "map_inj m' \<and> ran m' \<subseteq> p.in_use s' n'"
  proof (cases "n' = n")
    case True
    with m m' have "m' = m(mac \<mapsto> ip)" by simp
    moreover have "map_inj m" "ran m \<subseteq> p.in_use s n"
      using assms(3) m(1) by (auto simp: consistent_def)
    ultimately show ?thesis
      using fresh True p.alloc_moves(2) [OF assms(1,2,4)] ran_upd_subset [of m mac ip]
      by (auto intro: map_inj_upd)
  next
    case False
    with m(2) m' assms(3) p.alloc_other(1) [OF assms(1,2,4)] show ?thesis
      by (auto simp: consistent_def)
  qed
qed

text \<open>Releasing the address of a hardware address.\<close>

lemma unbind:
  assumes "consistent s t" "tbl t n = Some m" "m mac = Some ip"
    "dealloc s n ip = (s', None)" "del t n mac = (t', None)"
  shows "consistent s' t'"
  unfolding consistent_def
proof (intro allI impI)
  fix n' m' assume m': "tbl t' n' = Some m'"
  have t': "tbl t' = (tbl t)(n \<mapsto> m(mac := None))"
    using t.del_ok [OF assms(5)] assms(2) by auto
  obtain q where q: "pool s n = Some q" "pool s' = (pool s)(n \<mapsto> q(ip \<mapsto> False))"
    using p.dealloc_ok [OF assms(4)] by blast
  show "map_inj m' \<and> ran m' \<subseteq> p.in_use s' n'"
  proof (cases "n' = n")
    case True
    with t' m' have eq: "m' = m(mac := None)" by simp
    have inj: "map_inj m" using consistentD(1) [OF assms(1,2)] .
    have "ip \<notin> ran m'"
      using inj assms(3) by (auto simp: eq ran_def dest: map_injD split: if_splits)
    moreover have "ran m \<subseteq> p.in_use s n"
      using assms(1,2) by (auto simp: consistent_def)
    ultimately show ?thesis
      using eq inj True p.dealloc_moves(2) [OF assms(4)] ran_del_subset [of m mac]
      by (auto intro: map_inj_del)
  next
    case False
    then have "p.in_use s' n' = p.in_use s n'" by (simp add: p.in_use_def q(2))
    with False t' m' assms(1) show ?thesis by (auto simp: consistent_def)
  qed
qed

text \<open>An address bound once is never handed out again while it stays bound.\<close>

lemma bound_not_available:
  assumes "consistent s t" "tbl t n = Some m" "m mac = Some ip"
    "go_range rng" "invar s" "alloc rng s n r = (s', ip', None)"
  shows "ip' \<noteq> ip"
  using consistentD(2) [OF assms(1-3)] p.alloc_moves(4) [OF assms(4-6)] by blast

end

end
