(* ===== verification/Ipam.thy ===== *)
theory Ipam
  imports Net_Facts Interfaces
begin

text \<open>
  \<open>pkg/ipam/ipam.go\<close>: the in-memory IP address management.  For every network name the
  allocator keeps the subnet, the bounds of the pool and a map from each address of the pool
  (as text) to whether it is allocated.  The mutex is not part of the model: each operation is
  one atomic step of its caller.  Go's loop over the map takes its order as a parameter.
\<close>

section \<open>Data\<close>

record IPSubnet =
  ipNet :: IPNet
  start :: net_ip
  end_ip :: net_ip
  broadcast :: net_ip
  ips :: "string \<rightharpoonup> bool"

record IPAllocator =
  ipam :: "string \<rightharpoonup> IPSubnet"

definition NewIPAllocator :: IPAllocator where
  "NewIPAllocator = \<lparr>ipam = Map.empty\<rparr>"

definition no_network :: "string \<Rightarrow> go_error" where
  "no_network name = Errorf (''network '' @ name @ '' does not exist'')"

section \<open>Operations\<close>

text \<open>
  The broadcast loop of \<open>NewIPSubnet\<close> runs over the bytes of \<open>ip.To4()\<close>, none for an IPv6
  address, and reads the mask at the same index: for a 16-byte mask, its first four bytes.
\<close>

definition broadcast_of :: "net_ip \<Rightarrow> ip_mask \<Rightarrow> u32" where
  "broadcast_of ip m =
     (case To4 ip of
        None \<Rightarrow> 0
      | Some w \<Rightarrow> w OR NOT (case m of Mask4 m4 \<Rightarrow> m4 | Mask16 m16 \<Rightarrow> ucast (drop_bit 96 m16)))"

text \<open>The loop that expands the pool; it may run forever, so it is partial.\<close>

partial_function (option) expand_ips :: "addr \<Rightarrow> addr \<Rightarrow> (string \<rightharpoonup> bool) \<Rightarrow> (string \<rightharpoonup> bool) option" where
  "expand_ips endAddr ip acc =
     (if Compare endAddr (Prev ip) > 0
      then expand_ips endAddr (Next ip) (acc(Addr_String (Unmap ip) \<mapsto> False))
      else Some acc)"

definition NewIPSubnet :: "IPAllocator \<Rightarrow> string \<Rightarrow> string \<Rightarrow> string \<Rightarrow> string \<Rightarrow>
    (IPAllocator \<times> go_error option) outcome" where
  "NewIPSubnet a name cidr startS endS =
     (case ParseCIDR cidr of
        (_, Some e) \<Rightarrow> Ret (a, Some e)
      | ((_, None), None) \<Rightarrow> Panic ''nil pointer dereference''
      | ((ip, Some net), None) \<Rightarrow>
          let bcast = IP4 (broadcast_of ip (IPNet_Mask net));
              startIP = ParseIP startS;
              endIP = ParseIP endS
          in if \<not> Contains net startIP then
               Ret (a, Some (Errorf (''start ip address '' @ startS @ '' is not within subnet '' @ cidr @ '' range'')))
             else if \<not> Contains net endIP then
               Ret (a, Some (Errorf (''end ip address '' @ endS @ '' is not within subnet '' @ cidr @ '' range'')))
             else (case (AddrFromSlice startIP, AddrFromSlice endIP) of
               ((_, False), _) \<Rightarrow> Ret (a, Some (Errorf (''cannot convert ip address '' @ startS)))
             | ((startAddr, True), (_, False)) \<Rightarrow> Ret (a, Some (Errorf (''cannot convert ip address '' @ endS)))
             | ((startAddr, True), (endAddr, True)) \<Rightarrow>
                 if Compare startAddr endAddr > 0 then
                   Ret (a, Some (Errorf (''end ip address '' @ endS @ '' is less than start ip address '' @ startS)))
                 else if IP_Equal endIP bcast then
                   Ret (a, Some (Errorf (''end ip address '' @ endS @ '' equals broadcast ip address '' @ IP_String bcast)))
                 else (case expand_ips endAddr startAddr Map.empty of
                     None \<Rightarrow> Diverge
                   | Some m \<Rightarrow>
                       Ret (a\<lparr>ipam := (ipam a)(name \<mapsto>
                              \<lparr>ipNet = net, start = To4_ip startIP, end_ip = To4_ip endIP,
                               broadcast = bcast, ips = m\<rparr>)\<rparr>, None))))"

definition DeleteIPSubnet :: "IPAllocator \<Rightarrow> string \<Rightarrow> IPAllocator" where
  "DeleteIPSubnet a name = a\<lparr>ipam := (ipam a)(name := None)\<rparr>"

definition IsNetworkInitialized :: "IPAllocator \<Rightarrow> string \<Rightarrow> bool" where
  "IsNetworkInitialized a name \<longleftrightarrow> ipam a name \<noteq> None"

definition set_ip :: "IPAllocator \<Rightarrow> string \<Rightarrow> IPSubnet \<Rightarrow> string \<Rightarrow> bool option \<Rightarrow> IPAllocator" where
  "set_ip a name sn ip v = a\<lparr>ipam := (ipam a)(name \<mapsto> sn\<lparr>ips := (ips sn)(ip := v)\<rparr>)\<rparr>"

text \<open>
  The loop of \<open>AllocateIP\<close> over the pool: the first key that matches the designated
  address (an error if it is taken), or the first free key when none is designated.
\<close>

fun alloc_loop :: "string \<Rightarrow> net_ip \<Rightarrow> (string \<rightharpoonup> bool) \<Rightarrow> string list \<Rightarrow> go_error + string" where
  "alloc_loop name d m [] = Inl (Errorf (''no more ip addresses left in network '' @ name @ '' ipam''))"
| "alloc_loop name d m (ip # ks) =
     (if \<not> IsUnspecified d then
        if ip = IP_String d then
          if m ip = Some True then Inl (Errorf (''designated ip '' @ IP_String d @ '' is already allocated''))
          else Inr ip
        else alloc_loop name d m ks
      else if m ip \<noteq> Some True then Inr ip
      else alloc_loop name d m ks)"

definition AllocateIP :: "range_order \<Rightarrow> IPAllocator \<Rightarrow> string \<Rightarrow> string \<Rightarrow> IPAllocator \<times> string \<times> go_error option" where
  "AllocateIP rng a name ipAddress =
     (case ipam a name of
        None \<Rightarrow> (a, [], Some (no_network name))
      | Some sn \<Rightarrow>
          let d = ParseIP (if ipAddress = [] then IP_String IPv4zero else ipAddress)
          in if \<not> IsUnspecified d \<and> \<not> Contains (ipNet sn) d then
               (a, IP_String IPv4zero, Some (Errorf (''designated ip '' @ IP_String d @ '' is not in subnet ''
                  @ IP_String (IPNet_IP (ipNet sn)) @ ''/'' @ dec_string (Mask_Size (IPNet_Mask (ipNet sn))))))
             else if \<not> IsUnspecified d \<and> IP_Equal (broadcast sn) d then
               (a, IP_String IPv4zero, Some (Errorf (''designated ip '' @ IP_String d @ '' equals broadcast ip address ''
                  @ IP_String (broadcast sn))))
             else (case alloc_loop name d (ips sn) (rng (dom (ips sn))) of
                 Inl e \<Rightarrow> (a, IP_String IPv4zero, Some e)
               | Inr ip \<Rightarrow> (set_ip a name sn ip (Some True), ip, None)))"

definition DeallocateIP :: "IPAllocator \<Rightarrow> string \<Rightarrow> string \<Rightarrow> IPAllocator \<times> go_error option" where
  "DeallocateIP a name ipAddress =
     (case ipam a name of
        None \<Rightarrow> (a, Some (no_network name))
      | Some sn \<Rightarrow>
          if ipAddress = [] then (a, Some (Errorf ''designated ip is empty''))
          else (case ips sn ipAddress of
              None \<Rightarrow> (a, Some (Errorf (''to-be-deallocated ip '' @ ipAddress @ '' was not found in network '' @ name @ '' ipam'')))
            | Some False \<Rightarrow> (a, Some (Errorf (''to-be-deallocated ip '' @ ipAddress @ '' was not allocated'')))
            | Some True \<Rightarrow> (set_ip a name sn ipAddress (Some False), None)))"

definition RevokeIP :: "IPAllocator \<Rightarrow> string \<Rightarrow> string \<Rightarrow> IPAllocator \<times> go_error option" where
  "RevokeIP a name ipAddress =
     (case ipam a name of
        None \<Rightarrow> (a, Some (no_network name))
      | Some sn \<Rightarrow> (set_ip a name sn ipAddress None, None))"

definition IsAllocated :: "IPAllocator \<Rightarrow> string \<Rightarrow> string \<Rightarrow> bool gores" where
  "IsAllocated a name ipAddress =
     (case ipam a name of
        None \<Rightarrow> (False, Some (no_network name))
      | Some sn \<Rightarrow>
          (case ips sn ipAddress of
             None \<Rightarrow> (False, Some (Errorf (''ip '' @ ipAddress @ '' was not found in network '' @ name @ '' ipam'')))
           | Some b \<Rightarrow> (b, None)))"

fun count_loop :: "bool \<Rightarrow> (string \<rightharpoonup> bool) \<Rightarrow> string list \<Rightarrow> nat \<Rightarrow> nat" where
  "count_loop b m [] n = n"
| "count_loop b m (ip # ks) n = count_loop b m ks (if m ip = Some b then n + 1 else n)"

definition GetUsed :: "range_order \<Rightarrow> IPAllocator \<Rightarrow> string \<Rightarrow> nat gores" where
  "GetUsed rng a name =
     (case ipam a name of
        None \<Rightarrow> (0, Some (no_network name))
      | Some sn \<Rightarrow> (count_loop True (ips sn) (rng (dom (ips sn))) 0, None))"

definition GetAvailable :: "range_order \<Rightarrow> IPAllocator \<Rightarrow> string \<Rightarrow> nat gores" where
  "GetAvailable rng a name =
     (case ipam a name of
        None \<Rightarrow> (0, Some (no_network name))
      | Some sn \<Rightarrow> (count_loop False (ips sn) (rng (dom (ips sn))) 0, None))"

text \<open>\<open>GetUsage\<close> logs the three totals; they are returned here in place of the log line.\<close>

definition GetUsage :: "range_order \<Rightarrow> IPAllocator \<Rightarrow> string \<Rightarrow> (nat \<times> nat \<times> nat) gores" where
  "GetUsage rng a name =
     (case ipam a name of
        None \<Rightarrow> ((0, 0, 0), Some (no_network name))
      | Some sn \<Rightarrow>
          (let total = length (rng (dom (ips sn)));
               used = count_loop True (ips sn) (rng (dom (ips sn))) 0
           in ((total, used, total - used), None)))"

definition FormatBool :: "bool \<Rightarrow> string" where
  "FormatBool b = (if b then ''true'' else ''false'')"

fun list_loop :: "(string \<rightharpoonup> bool) \<Rightarrow> string list \<Rightarrow> (string \<rightharpoonup> string) \<Rightarrow> (string \<rightharpoonup> string)" where
  "list_loop m [] acc = acc"
| "list_loop m (ip # ks) acc = list_loop m ks (acc(ip := map_option FormatBool (m ip)))"

definition ListAll :: "range_order \<Rightarrow> IPAllocator \<Rightarrow> string \<Rightarrow> (string \<rightharpoonup> string) option gores" where
  "ListAll rng a name =
     (case ipam a name of
        None \<Rightarrow> (None, Some (no_network name))
      | Some sn \<Rightarrow> (Some (list_loop (ips sn) (rng (dom (ips sn))) Map.empty), None))"

end
