(* ===== verification/Ipam_Facts.thy ===== *)
theory Ipam_Facts
  imports Ipam
begin

text \<open>
  What \<open>pkg/ipam\<close> guarantees: a subnet of an IPv4 block always gets built or refused (the
  expansion loop returns), its pool is exactly the addresses from start to end; an allocation
  hands out a free address and changes nothing else; usage counts add up; every operation
  preserves the well-formedness of the allocator.  The contract \<open>address_pool\<close> is
  interpreted on the model.
\<close>

section \<open>The expansion loop\<close>

abbreviation pool_key :: "u128 \<Rightarrow> string" where
  "pool_key x \<equiv> Addr_String (Unmap (V6 x []))"

definition mark_free :: "string set \<Rightarrow> (string \<rightharpoonup> bool) \<Rightarrow> (string \<rightharpoonup> bool)" where
  "mark_free K m = (\<lambda>k. if k \<in> K then Some False else m k)"

lemma mark_free_step: "mark_free K (m(k \<mapsto> False)) = mark_free (insert k K) m"
  by (auto simp: mark_free_def)

lemma mark_free_none [simp]: "mark_free {} m = m"
  by (simp add: mark_free_def)

lemma Compare_Prev_V6:
  assumes "lo \<noteq> 0"
  shows "Compare (V6 hi []) (Prev (V6 lo [])) > 0 \<longleftrightarrow> lo \<le> hi"
proof -
  have "unat (lo - 1) = unat lo - 1" using assms by (simp add: unat_minus_one)
  moreover have "unat lo > 0" using assms by (simp add: unat_gt_0)
  ultimately show ?thesis using assms
    by (auto simp: word_less_nat_alt word_le_nat_alt word_unat_eq_iff)
qed

text \<open>The loop returns for every end but the last 16-byte address.\<close>

lemma unat_inc: "w + 1 \<noteq> 0 \<Longrightarrow> unat (w + 1) = Suc (unat w)"
  using unatSuc [of w] by (simp add: add.commute)

lemma expand_ips_V6:
  assumes hi: "hi + 1 \<noteq> 0" and "lo \<noteq> 0" "lo \<le> hi + 1"
  shows "expand_ips (V6 hi []) (V6 lo []) m = Some (mark_free (pool_key ` {lo..hi}) m)"
  using assms(2,3)
proof (induction "Suc (unat hi) - unat lo" arbitrary: lo m)
  case 0
  then have "unat lo = Suc (unat hi)" by (simp add: word_le_nat_alt unat_inc [OF hi])
  then have "\<not> lo \<le> hi" by (simp add: word_le_nat_alt)
  then show ?case
    by (subst expand_ips.simps) (simp add: Compare_Prev_V6 [OF 0(2)] del: Prev.simps Unmap.simps)
next
  case (Suc d)
  then have le: "lo \<le> hi" by (simp add: word_le_nat_alt)
  have lo1: "lo + 1 \<noteq> 0"
  proof
    assume "lo + 1 = 0"
    then have "lo = - 1" by (simp add: eq_neg_iff_add_eq_0)
    with le have "hi = - 1" by (simp add: word_order.extremum_unique)
    with hi show False by simp
  qed
  have un: "unat (lo + 1) = Suc (unat lo)" by (rule unat_inc [OF lo1])
  have range: "{lo..hi} = insert lo {lo + 1..hi}"
    using le by (auto simp: word_le_nat_alt word_unat_eq_iff un)
  have "expand_ips (V6 hi []) (V6 (lo + 1) []) m' = Some (mark_free (pool_key ` {lo + 1..hi}) m')" for m'
    using Suc.hyps(1) [of "lo + 1" m'] Suc.hyps(2) lo1 le
    by (simp add: un word_le_nat_alt unat_inc [OF hi])
  then show ?case
    by (subst expand_ips.simps)
      (simp add: Compare_Prev_V6 [OF Suc.prems(1)] le lo1 range mark_free_step del: Prev.simps Unmap.simps)
qed

text \<open>At the last 16-byte address it never does.\<close>

lemma expand_ips_last: "expand_ips (V6 (- 1) []) ip m = None"
proof (rule ccontr)
  assume "expand_ips (V6 (- 1) []) ip m \<noteq> None"
  then obtain r where r: "expand_ips (V6 (- 1) []) ip m = Some r" by blast
  have "V6 (- 1) [] \<noteq> V6 (- 1 :: u128) []"
  proof (rule expand_ips.raw_induct [where P = "\<lambda>e ip m r. e \<noteq> V6 (- 1) []", OF _ r])
    fix f e ip m r
    assume IH: "\<And>e ip m r. f e ip m = Some r \<Longrightarrow> e \<noteq> V6 (- 1) []"
      and eq: "(if 0 < Compare e (Prev ip) then f e (Next ip) (m(Addr_String (Unmap ip) \<mapsto> False)) else Some m) = Some r"
    have gt: "0 < Compare (V6 (- 1) []) (Prev ip)"
    proof (cases ip)
      case (V6 w z)
      show ?thesis
      proof (cases "w = 0")
        case False
        then have "w - 1 \<noteq> - 1" by simp
        with V6 False show ?thesis by (auto simp: less_le)
      qed (use V6 in \<open>simp add: cmp_def\<close>)
    qed (auto simp: cmp_def)
    show "e \<noteq> V6 (- 1) []"
    proof
      assume "e = V6 (- 1) []"
      with eq gt IH show False by auto
    qed
  qed
  then show False by simp
qed

section \<open>Building a subnet of an IPv4 block\<close>

lemma pool_key_in6 [simp]: "pool_key (in6 x) = string4 x"
  by simp

lemma in6_image: "{in6 s..in6 e} = in6 ` {s..e}"
proof (rule set_eqI, rule iffI)
  fix x assume x: "x \<in> {in6 s..in6 e}"
  have "unat s < 2 ^ 32" "unat e < 2 ^ 32"
    using unsigned_less [of s, where ?'a = nat] unsigned_less [of e, where ?'a = nat] by simp_all
  with x have "0xffff00000000 \<le> unat x" "unat x < 0xffff00000000 + 2 ^ 32"
    by (auto simp: word_le_nat_alt unat_in6)
  then have "unat x div 2 ^ 32 = 0xffff" by (intro div_nat_eqI) auto
  moreover have "unat (drop_bit 32 x) = unat x div 2 ^ 32"
    using unsigned_less [of x, where ?'a = nat]
    by (simp only: unsigned_drop_bit_eq) (simp add: drop_bit_eq_div take_bit_nat_eq_self)
  ultimately have "is4in6 x" by (simp add: is4in6_def word_unat_eq_iff)
  then obtain y where "x = in6 y" using is4in6_eq by blast
  with x show "x \<in> in6 ` {s..e}" by auto
qed auto

lemma expand_ips_V4:
  assumes "s \<le> e"
  shows "expand_ips (V6 (in6 e) []) (V6 (in6 s) []) m = Some (mark_free (string4 ` {s..e}) m)"
proof -
  have "unat e < 2 ^ 32" using unsigned_less [of e, where ?'a = nat] by simp
  then have "unat (in6 e + 1) = Suc (unat (in6 e))"
    by (simp add: unat_word_ariths unat_in6)
  then have "in6 e + 1 \<noteq> 0" by (metis nat.distinct(1) unat_0)
  moreover from this have "in6 s \<le> in6 e + 1"
    using assms by (simp add: word_le_nat_alt unat_in6 unat_inc)
  ultimately show ?thesis
    by (simp add: expand_ips_V6 in6_image image_image del: Unmap.simps)
qed

text \<open>
  \<open>pool_bounds w k startS endS s e\<close>: the two texts denote addresses \<open>s \<le> e\<close> of the
  block \<open>w/k\<close>, and \<open>e\<close> is not its broadcast address.
\<close>

definition pool_bounds :: "u32 \<Rightarrow> nat \<Rightarrow> string \<Rightarrow> string \<Rightarrow> u32 \<Rightarrow> u32 \<Rightarrow> bool" where
  "pool_bounds w k startS endS s e \<longleftrightarrow>
     ParseIP startS = IP16 (in6 s) \<and> ParseIP endS = IP16 (in6 e) \<and>
     same_block (32 - k) s w \<and> same_block (32 - k) e w \<and> s \<le> e \<and> e \<noteq> w OR mask (32 - k)"

definition subnet4 :: "u32 \<Rightarrow> nat \<Rightarrow> u32 \<Rightarrow> u32 \<Rightarrow> (string \<rightharpoonup> bool) \<Rightarrow> IPSubnet" where
  "subnet4 w k s e m =
     \<lparr>ipNet = \<lparr>IPNet_IP = IP4 (w AND CIDRMask4 k), IPNet_Mask = Mask4 (CIDRMask4 k)\<rparr>,
      start = IP4 s, end_ip = IP4 e, broadcast = IP4 (w OR mask (32 - k)), ips = m\<rparr>"

lemma broadcast_of_CIDR4 [simp]:
  "broadcast_of (IP16 (in6 w)) (Mask4 (CIDRMask4 k)) = w OR mask (32 - k)"
  by (simp add: broadcast_of_def NOT_CIDRMask4)

lemma Contains_ParseIP4:
  "Contains \<lparr>IPNet_IP = IP4 (w AND CIDRMask4 k), IPNet_Mask = Mask4 (CIDRMask4 k)\<rparr> (ParseIP t) \<longleftrightarrow>
   (\<exists>x. ParseIP t = IP16 (in6 x) \<and> same_block (32 - k) x w)"
  by (simp add: Contains_CIDR4 To4_ParseIP)

lemma Compare_in6: "Compare (V6 (in6 s) []) (V6 (in6 e) []) > 0 \<longleftrightarrow> e < s"
  by (auto simp: less_le)

lemma NewIPSubnet_ok:
  assumes "cidr4 cidr w k" "pool_bounds w k startS endS s e"
  shows "NewIPSubnet a name cidr startS endS =
    Ret (a\<lparr>ipam := (ipam a)(name \<mapsto> subnet4 w k s e (mark_free (string4 ` {s..e}) Map.empty))\<rparr>, None)"
  using assms
  by (simp add: NewIPSubnet_def cidr4_def pool_bounds_def Let_def Contains_ParseIP4 Contains_CIDR4 Compare_in6
      expand_ips_V4 subnet4_def To4_ip_def not_less del: Compare.simps)

lemma NewIPSubnet_refused:
  assumes "cidr4 cidr w k" "\<nexists>s e. pool_bounds w k startS endS s e"
  shows "\<exists>err. NewIPSubnet a name cidr startS endS = Ret (a, Some err)"
proof (cases "\<exists>s e. ParseIP startS = IP16 (in6 s) \<and> same_block (32 - k) s w \<and>
                     ParseIP endS = IP16 (in6 e) \<and> same_block (32 - k) e w")
  case True
  then obtain s e where se: "ParseIP startS = IP16 (in6 s)" "same_block (32 - k) s w"
    "ParseIP endS = IP16 (in6 e)" "same_block (32 - k) e w" by blast
  with assms(2) have "e < s \<or> e = w OR mask (32 - k)"
    unfolding pool_bounds_def by (auto simp: not_le)
  with assms(1) se show ?thesis
    by (auto simp: NewIPSubnet_def cidr4_def Let_def Contains_CIDR4 Compare_in6 simp del: Compare.simps)
next
  case False
  with assms(1) show ?thesis
    by (auto simp: NewIPSubnet_def cidr4_def Let_def Contains_ParseIP4)
qed

section \<open>Well-formedness\<close>

text \<open>
  The invariant of an allocator of IPv4 subnets: the pool of each network holds only addresses
  between its start and its end, written canonically; all of them lie inside the block and none
  is its broadcast address.
\<close>

definition subnet_wf :: "IPSubnet \<Rightarrow> bool" where
  "subnet_wf sn \<longleftrightarrow> (\<exists>w k s e m. sn = subnet4 w k s e m \<and> k \<le> 32 \<and> s \<le> e \<and>
     same_block (32 - k) s w \<and> same_block (32 - k) e w \<and> e \<noteq> w OR mask (32 - k) \<and>
     dom m \<subseteq> string4 ` {s..e})"

definition ipam_wf :: "IPAllocator \<Rightarrow> bool" where
  "ipam_wf a \<longleftrightarrow> (\<forall>name sn. ipam a name = Some sn \<longrightarrow> subnet_wf sn)"

lemma ipam_wfD: "ipam_wf a \<Longrightarrow> ipam a name = Some sn \<Longrightarrow> subnet_wf sn"
  by (auto simp: ipam_wf_def)

lemma ipam_wf_upd: "ipam_wf a \<Longrightarrow> subnet_wf sn \<Longrightarrow> ipam_wf (a\<lparr>ipam := (ipam a)(name \<mapsto> sn)\<rparr>)"
  by (auto simp: ipam_wf_def)

lemma subnet_wf_finite: "subnet_wf sn \<Longrightarrow> finite (dom (ips sn))"
  by (auto simp: subnet_wf_def subnet4_def intro!: finite_subset [of "dom _" "string4 ` _"] finite_imageI)

lemma subnet_wf_set:
  assumes "subnet_wf sn" "v = None \<or> ip \<in> dom (ips sn)"
  shows "subnet_wf (sn\<lparr>ips := (ips sn)(ip := v)\<rparr>)"
proof -
  obtain w k s e m where sn: "sn = subnet4 w k s e m" "k \<le> 32" "s \<le> e" "same_block (32 - k) s w"
    "same_block (32 - k) e w" "e \<noteq> w OR mask (32 - k)" "dom m \<subseteq> string4 ` {s..e}"
    using assms(1) by (auto simp: subnet_wf_def)
  have "sn\<lparr>ips := (ips sn)(ip := v)\<rparr> = subnet4 w k s e (m(ip := v))" by (simp add: sn(1) subnet4_def)
  moreover have "dom (m(ip := v)) \<subseteq> string4 ` {s..e}"
    using sn(1,7) assms(2) by (auto simp: subnet4_def)
  ultimately show ?thesis using sn(2-6) unfolding subnet_wf_def by blast
qed

lemma set_ip_wf:
  assumes "ipam_wf a" "ipam a name = Some sn" "v = None \<or> ip \<in> dom (ips sn)"
  shows "ipam_wf (set_ip a name sn ip v)"
  using assms by (auto simp: set_ip_def intro!: ipam_wf_upd subnet_wf_set dest: ipam_wfD)

text \<open>Every address of a well-formed pool is usable: canonical text, in the block, not the broadcast.\<close>

lemma subnet_wf_key:
  assumes "subnet_wf sn" "ip \<in> dom (ips sn)"
  shows "\<exists>x. ip = string4 x \<and> Contains (ipNet sn) (IP4 x) \<and> \<not> IP_Equal (broadcast sn) (IP4 x)"
proof -
  obtain w k s e m where sn: "sn = subnet4 w k s e m" "s \<le> e" "same_block (32 - k) s w"
    "same_block (32 - k) e w" "e \<noteq> w OR mask (32 - k)" "dom m \<subseteq> string4 ` {s..e}"
    using assms(1) by (auto simp: subnet_wf_def)
  with assms(2) obtain x where x: "ip = string4 x" "s \<le> x" "x \<le> e" by (auto simp: subnet4_def)
  have "same_block (32 - k) s e" using sn(3,4) by (metis same_block_sym same_block_trans)
  then have "same_block (32 - k) x w"
    using same_block_between [OF _ x(2,3)] sn(3) by (metis same_block_sym same_block_trans)
  moreover have "e < w OR mask (32 - k)"
    using same_block_le_broadcast [OF sn(4)] sn(5) by simp
  with x(3) have "x \<noteq> w OR mask (32 - k)" by auto
  ultimately show ?thesis using x(1) sn(1) by (auto simp: subnet4_def Contains_CIDR4)
qed

section \<open>Allocation\<close>

lemma alloc_loop_Inr:
  "alloc_loop name d m ks = Inr ip \<Longrightarrow>
   ip \<in> set ks \<and> m ip \<noteq> Some True \<and> (IsUnspecified d \<or> ip = IP_String d)"
  by (induction ks) (auto split: if_splits)

lemma alloc_loop_any:
  "IsUnspecified d \<Longrightarrow> (\<exists>ip. alloc_loop name d m ks = Inr ip) \<longleftrightarrow> (\<exists>ip \<in> set ks. m ip \<noteq> Some True)"
  by (induction ks) (auto split: if_splits)

lemma alloc_loop_designated:
  "\<not> IsUnspecified d \<Longrightarrow>
   alloc_loop name d m ks = Inr ip \<longleftrightarrow> ip = IP_String d \<and> ip \<in> set ks \<and> m ip \<noteq> Some True"
  by (induction ks) (auto split: if_splits)

lemma AllocateIP_ok:
  assumes "go_range rng" "ipam_wf a" "AllocateIP rng a n r = (a', ip, None)"
  shows "\<exists>sn. ipam a n = Some sn \<and> ips sn ip = Some False \<and> a' = set_ip a n sn ip (Some True)"
proof -
  obtain sn where sn: "ipam a n = Some sn" using assms(3) by (auto simp: AllocateIP_def split: option.splits)
  let ?ks = "rng (dom (ips sn))"
  have "set ?ks = dom (ips sn)"
    using assms(1) subnet_wf_finite [OF ipam_wfD [OF assms(2) sn]] by (blast dest: go_rangeD ranges_set)
  moreover obtain d where "alloc_loop n d (ips sn) ?ks = Inr ip" "a' = set_ip a n sn ip (Some True)"
    using assms(3) sn by (auto simp: AllocateIP_def Let_def split: if_splits sum.splits)
  ultimately show ?thesis using sn alloc_loop_Inr [of n d "ips sn" ?ks ip] by auto
qed

lemma AllocateIP_err: "AllocateIP rng a n r = (a', ip, Some e) \<Longrightarrow> a' = a"
  by (auto simp: AllocateIP_def Let_def split: option.splits if_splits sum.splits)

lemma AllocateIP_wf:
  assumes "go_range rng" "ipam_wf a"
  shows "ipam_wf (fst (AllocateIP rng a n r))"
proof (cases "AllocateIP rng a n r")
  case (fields a' ip err)
  show ?thesis
  proof (cases err)
    case None
    with AllocateIP_ok [OF assms] fields obtain sn where
      "ipam a n = Some sn" "ips sn ip = Some False" "a' = set_ip a n sn ip (Some True)" by blast
    with assms(2) fields show ?thesis by (auto intro!: set_ip_wf)
  next
    case (Some e)
    with fields AllocateIP_err assms(2) show ?thesis by fastforce
  qed
qed

lemma DeallocateIP_ok:
  "DeallocateIP a n ip = (a', None) \<longleftrightarrow>
   (\<exists>sn. ipam a n = Some sn \<and> ip \<noteq> [] \<and> ips sn ip = Some True \<and> a' = set_ip a n sn ip (Some False))"
  by (auto simp: DeallocateIP_def split: option.splits bool.splits if_splits)

lemma DeallocateIP_err: "DeallocateIP a n ip = (a', Some e) \<Longrightarrow> a' = a"
  by (auto simp: DeallocateIP_def split: option.splits if_splits bool.splits)

lemma DeallocateIP_wf: "ipam_wf a \<Longrightarrow> ipam_wf (fst (DeallocateIP a n ip))"
  by (auto simp: DeallocateIP_def intro!: set_ip_wf split: option.splits bool.splits)

lemma RevokeIP_wf: "ipam_wf a \<Longrightarrow> ipam_wf (fst (RevokeIP a n ip))"
  by (auto simp: RevokeIP_def intro!: set_ip_wf split: option.splits)

lemma DeleteIPSubnet_wf: "ipam_wf a \<Longrightarrow> ipam_wf (DeleteIPSubnet a n)"
  by (auto simp: DeleteIPSubnet_def ipam_wf_def split: if_splits)

lemma NewIPAllocator_wf: "ipam_wf NewIPAllocator"
  by (simp add: NewIPAllocator_def ipam_wf_def)

lemma subnet4_wf:
  "k \<le> 32 \<Longrightarrow> pool_bounds w k startS endS s e \<Longrightarrow> subnet_wf (subnet4 w k s e (mark_free (string4 ` {s..e}) Map.empty))"
  unfolding subnet_wf_def pool_bounds_def
  by (intro exI [of _ w] exI [of _ k] exI [of _ s] exI [of _ e] exI) (auto simp: mark_free_def split: if_splits)

lemma NewIPSubnet_wf:
  assumes "ipam_wf a" "cidr4 cidr w k" "NewIPSubnet a n cidr startS endS = Ret (a', err)"
  shows "ipam_wf a'"
proof (cases "\<exists>s e. pool_bounds w k startS endS s e")
  case True
  then obtain s e where b: "pool_bounds w k startS endS s e" by blast
  have "k \<le> 32" using assms(2) by (simp add: cidr4_def)
  with NewIPSubnet_ok [OF assms(2) b] assms(1,3) subnet4_wf [OF _ b] show ?thesis
    by (auto intro: ipam_wf_upd)
next
  case False
  with NewIPSubnet_refused [OF assms(2) False, of a n] assms(1,3) show ?thesis by auto
qed

lemmas ipam_wf_intros = NewIPAllocator_wf NewIPSubnet_wf AllocateIP_wf DeallocateIP_wf RevokeIP_wf DeleteIPSubnet_wf

section \<open>The contract\<close>

definition pool_of :: "IPAllocator \<Rightarrow> string \<Rightarrow> (string \<rightharpoonup> bool) option" where
  "pool_of a n = map_option ips (ipam a n)"

lemma pool_of_set_ip:
  "ipam a n = Some sn \<Longrightarrow> pool_of (set_ip a n sn ip v) = (pool_of a)(n \<mapsto> (ips sn)(ip := v))"
  by (auto simp: pool_of_def set_ip_def fun_eq_iff)

interpretation ipam_pool: address_pool pool_of ipam_wf AllocateIP DeallocateIP
proof
  show "finite (dom m)" if "ipam_wf s" "pool_of s n = Some m" for s n m
    using that by (auto simp: pool_of_def dest: ipam_wfD intro: subnet_wf_finite)
  show "\<exists>m. pool_of s n = Some m \<and> m ip = Some False \<and> pool_of s' = (pool_of s)(n \<mapsto> m(ip \<mapsto> True))"
    if "go_range rng" "ipam_wf s" "AllocateIP rng s n r = (s', ip, None)" for rng s n r s' ip
    using AllocateIP_ok [OF that] by (auto simp: pool_of_set_ip) (auto simp: pool_of_def)
  show "\<exists>m. pool_of s n = Some m \<and> m ip = Some True \<and> pool_of s' = (pool_of s)(n \<mapsto> m(ip \<mapsto> False))"
    if "DeallocateIP s n ip = (s', None)" for s n ip s'
    using that by (auto simp: DeallocateIP_ok pool_of_set_ip) (auto simp: pool_of_def)
  show "\<exists>s'. DeallocateIP s n ip = (s', None)"
    if "pool_of s n = Some m" "m ip = Some True" "ip \<noteq> []" for s n m ip
    using that by (auto simp: DeallocateIP_ok pool_of_def)
qed (auto intro: ipam_wf_intros AllocateIP_err DeallocateIP_err)

section \<open>Counting\<close>

lemma count_loop_length: "count_loop b m ks n = n + length (filter (\<lambda>k. m k = Some b) ks)"
  by (induction ks arbitrary: n) auto

lemma count_loop_card:
  "ranges ks (dom m) \<Longrightarrow> count_loop b m ks 0 = card {k. m k = Some b}"
  by (simp add: count_loop_length length_filter_ranges) (rule arg_cong [of _ _ card], auto)

lemma list_loop_eq:
  "distinct ks \<Longrightarrow> list_loop m ks acc = (\<lambda>k. if k \<in> set ks then map_option FormatBool (m k) else acc k)"
  by (induction ks arbitrary: acc) (auto simp: fun_eq_iff)

section \<open>Reachable allocators\<close>

text \<open>
  The allocators that the controllers can build: any sequence of operations on subnets of
  IPv4 blocks, in any order and with any outcome.
\<close>

inductive ipam_reach :: "IPAllocator \<Rightarrow> bool" where
  init: "ipam_reach NewIPAllocator"
| new: "ipam_reach a \<Longrightarrow> cidr4 cidr w k \<Longrightarrow> NewIPSubnet a n cidr startS endS = Ret (a', err) \<Longrightarrow> ipam_reach a'"
| delete: "ipam_reach a \<Longrightarrow> ipam_reach (DeleteIPSubnet a n)"
| allocate: "ipam_reach a \<Longrightarrow> go_range rng \<Longrightarrow> ipam_reach (fst (AllocateIP rng a n r))"
| deallocate: "ipam_reach a \<Longrightarrow> ipam_reach (fst (DeallocateIP a n ip))"
| revoke: "ipam_reach a \<Longrightarrow> ipam_reach (fst (RevokeIP a n ip))"

lemma ipam_reach_wf: "ipam_reach a \<Longrightarrow> ipam_wf a"
  by (induction rule: ipam_reach.induct) (auto intro: ipam_wf_intros)

section \<open>Properties\<close>

text \<open>
  [C31] Building the pool of an IPv4 block always returns.  When start and end denote addresses
  of the block in order and the end is not the broadcast address, the network gets exactly the
  addresses from start to end, all free; otherwise an error is returned and the allocator is
  unchanged.
\<close>

theorem NewIPSubnet_builds_pool:
  assumes "cidr4 cidr w k"
  shows "if \<exists>s e. pool_bounds w k startS endS s e
         then \<exists>s e a'. pool_bounds w k startS endS s e \<and> NewIPSubnet a name cidr startS endS = Ret (a', None) \<and>
                pool_of a' = (pool_of a)(name \<mapsto> (\<lambda>ip. if ip \<in> string4 ` {s..e} then Some False else None))
         else \<exists>err. NewIPSubnet a name cidr startS endS = Ret (a, Some err)"
proof (cases "\<exists>s e. pool_bounds w k startS endS s e")
  case True
  then obtain s e where b: "pool_bounds w k startS endS s e" by blast
  have "pool_of (a\<lparr>ipam := (ipam a)(name \<mapsto> subnet4 w k s e (mark_free (string4 ` {s..e}) Map.empty))\<rparr>) =
        (pool_of a)(name \<mapsto> (\<lambda>ip. if ip \<in> string4 ` {s..e} then Some False else None))"
    by (auto simp: pool_of_def fun_eq_iff subnet4_def mark_free_def)
  with NewIPSubnet_ok [OF assms b] b True show ?thesis by auto
next
  case False
  with NewIPSubnet_refused [OF assms False] show ?thesis by simp
qed

lemma cidr4_example: "cidr4 ''192.168.0.0/24'' 0xc0a80000 24"
  by (simp add: cidr4_def net_eval)

theorem NewIPSubnet_builds_pool_witness:
  "cidr4 ''192.168.0.0/24'' 0xc0a80000 24 \<and>
   pool_bounds 0xc0a80000 24 ''192.168.0.10'' ''192.168.0.12'' 0xc0a8000a 0xc0a8000c \<and>
   (\<exists>s e a'. pool_bounds 0xc0a80000 24 ''192.168.0.10'' ''192.168.0.12'' s e \<and>
      NewIPSubnet NewIPAllocator ''default/net'' ''192.168.0.0/24'' ''192.168.0.10'' ''192.168.0.12'' = Ret (a', None) \<and>
      pool_of a' = (pool_of NewIPAllocator)(''default/net'' \<mapsto> (\<lambda>ip. if ip \<in> string4 ` {s..e} then Some False else None)))"
proof -
  have b: "pool_bounds 0xc0a80000 24 ''192.168.0.10'' ''192.168.0.12'' 0xc0a8000a 0xc0a8000c"
    by (simp add: pool_bounds_def net_eval same_block_def mask_eq_exp_minus_1)
  with NewIPSubnet_builds_pool [OF cidr4_example, of "''192.168.0.10''" "''192.168.0.12''" NewIPAllocator "''default/net''"]
    cidr4_example show ?thesis by (auto split: if_splits)
qed

text \<open>
  The loop bound of \<open>NewIPSubnet\<close> compares the end with the predecessor of the running
  address, and there is no address after the last one: for a pool that ends in the last IPv6
  address the loop never returns.
\<close>

theorem NewIPSubnet_last_address_diverges:
  "NewIPSubnet a name ''ffff:ffff:ffff:ffff:ffff:ffff:ffff:ff00/120''
     ''ffff:ffff:ffff:ffff:ffff:ffff:ffff:fffe'' ''ffff:ffff:ffff:ffff:ffff:ffff:ffff:ffff'' = Diverge"
proof -
  let ?net = "\<lparr>IPNet_IP = IP16 0xffffffffffffffffffffffffffffff00, IPNet_Mask = Mask16 0xffffffffffffffffffffffffffffff00\<rparr>"
  have hx: "hex_val (CHR ''f'') = Some 15" "hex_val (CHR ''e'') = Some 14" "hex_val (CHR ''0'') = Some 0"
    "hex_val (CHR '':'') = None" by (simp_all add: hex_val_def)
  have p8: "parse6 8 = parse6 (Suc (Suc (Suc (Suc (Suc (Suc (Suc (Suc 0))))))))"
    by (simp add: eval_nat_numeral)
  have p0: "ParseAddr ''ffff:ffff:ffff:ffff:ffff:ffff:ffff:ff00'' = (V6 0xffffffffffffffffffffffffffffff00 [], None)"
    by (simp add: ParseAddr_def parseIPv6_def Let_def p8 hx word6_def)
  have ps: "ParseIP ''ffff:ffff:ffff:ffff:ffff:ffff:ffff:fffe'' = IP16 0xfffffffffffffffffffffffffffffffe"
    by (simp add: ParseIP_def ParseAddr_def parseIPv6_def Let_def p8 hx word6_def)
  have pe: "ParseIP ''ffff:ffff:ffff:ffff:ffff:ffff:ffff:ffff'' = IP16 (- 1)"
    by (simp add: ParseIP_def ParseAddr_def parseIPv6_def Let_def p8 hx word6_def)
  have pc: "ParseCIDR ''ffff:ffff:ffff:ffff:ffff:ffff:ffff:ff00/120'' =
      ((IP16 0xffffffffffffffffffffffffffffff00, Some ?net), None)"
    by (simp add: ParseCIDR_def p0 is_digit_def digit_val_def CIDRMask16_def mask_eq_exp_minus_1)
  have n4: "\<not> is4in6 0xffffffffffffffffffffffffffffff00" "\<not> is4in6 0xfffffffffffffffffffffffffffffffe" "\<not> is4in6 (- 1)"
    by (simp_all add: is4in6_def mask_eq_exp_minus_1)
  have "in6 0 \<noteq> - 1" using n4(3) is4in6_in6 [of 0] by metis
  then show ?thesis
    by (simp add: NewIPSubnet_def pc ps pe Contains.simps n4 expand_ips_last cmp_def Let_def broadcast_of_def)
qed

text \<open>
  [C10] An allocation that succeeds hands out an address that was free in the pool of the named
  network, in the subnet and different from the broadcast address, whatever the iteration order
  of the map; it marks that address as allocated and changes nothing else.
\<close>

theorem AllocateIP_safe:
  assumes "go_range rng" "ipam_reach a" "AllocateIP rng a name r = (a', ip, None)"
  shows "\<exists>sn x. ipam a name = Some sn \<and> ips sn ip = Some False \<and>
    ip = string4 x \<and> Contains (ipNet sn) (IP4 x) \<and> \<not> IP_Equal (broadcast sn) (IP4 x) \<and>
    ipam a' = (ipam a)(name \<mapsto> sn\<lparr>ips := (ips sn)(ip \<mapsto> True)\<rparr>)"
proof -
  note wf = ipam_reach_wf [OF assms(2)]
  obtain sn where sn: "ipam a name = Some sn" "ips sn ip = Some False" "a' = set_ip a name sn ip (Some True)"
    using AllocateIP_ok [OF assms(1) wf assms(3)] by blast
  moreover have "ip \<in> dom (ips sn)" using sn(2) by blast
  ultimately show ?thesis
    using subnet_wf_key [OF ipam_wfD [OF wf sn(1)]] by (auto simp: set_ip_def)
qed

definition example_ipam :: IPAllocator where
  "example_ipam = \<lparr>ipam = [''default/net'' \<mapsto> subnet4 0xc0a80000 24 0xc0a8000a 0xc0a8000b
     [''192.168.0.10'' \<mapsto> False, ''192.168.0.11'' \<mapsto> False]]\<rparr>"

lemma string4_example: "string4 0xc0a8000a = ''192.168.0.10''" "string4 0xc0a8000b = ''192.168.0.11''"
  by (simp_all add: string4_def octets_def dec_string.simps)

lemma example_pool: "mark_free (string4 ` {0xc0a8000a..0xc0a8000b}) Map.empty =
  [''192.168.0.10'' \<mapsto> False, ''192.168.0.11'' \<mapsto> False]"
proof -
  have "{0xc0a8000a..0xc0a8000b :: u32} = {0xc0a8000a, 0xc0a8000b}"
    by (auto simp: word_le_nat_alt word_unat_eq_iff)
  then show ?thesis by (auto simp: mark_free_def string4_example fun_eq_iff)
qed

lemma example_new: "NewIPSubnet NewIPAllocator ''default/net'' ''192.168.0.0/24'' ''192.168.0.10'' ''192.168.0.11'' =
  Ret (example_ipam, None)"
proof -
  have "pool_bounds 0xc0a80000 24 ''192.168.0.10'' ''192.168.0.11'' 0xc0a8000a 0xc0a8000b"
    by (simp add: pool_bounds_def net_eval same_block_def mask_eq_exp_minus_1)
  from NewIPSubnet_ok [OF cidr4_example this] show ?thesis
    by (simp add: example_pool example_ipam_def NewIPAllocator_def)
qed

lemma example_reach: "ipam_reach example_ipam"
  using ipam_reach.new [OF ipam_reach.init cidr4_example example_new] .

definition example_ipam_used :: IPAllocator where
  "example_ipam_used = \<lparr>ipam = [''default/net'' \<mapsto> subnet4 0xc0a80000 24 0xc0a8000a 0xc0a8000b
     [''192.168.0.10'' \<mapsto> True, ''192.168.0.11'' \<mapsto> False]]\<rparr>"

lemma IPv4zero_String [simp]: "IP_String IPv4zero = ''0.0.0.0''"
  by (simp add: IPv4zero_def string4_def octets_def dec_string.simps)

lemma ParseIP_zero: "ParseIP ''0.0.0.0'' = IP16 (in6 0)"
  by (simp add: net_eval)

lemma example_alloc: "AllocateIP sorted_list_of_set example_ipam ''default/net'' [] =
  (example_ipam_used, ''192.168.0.10'', None)"
  by (simp add: AllocateIP_def example_ipam_def example_ipam_used_def subnet4_def set_ip_def ParseIP_zero fun_upd_twist)

theorem AllocateIP_safe_witness:
  "go_range sorted_list_of_set \<and> ipam_reach example_ipam \<and>
   AllocateIP sorted_list_of_set example_ipam ''default/net'' [] = (example_ipam_used, ''192.168.0.10'', None) \<and>
   (\<exists>sn x. ipam example_ipam ''default/net'' = Some sn \<and> ips sn ''192.168.0.10'' = Some False \<and>
      ''192.168.0.10'' = string4 x \<and> Contains (ipNet sn) (IP4 x) \<and> \<not> IP_Equal (broadcast sn) (IP4 x) \<and>
      ipam example_ipam_used = (ipam example_ipam)(''default/net'' \<mapsto> sn\<lparr>ips := (ips sn)(''192.168.0.10'' \<mapsto> True)\<rparr>))"
  using go_range_sorted example_reach example_alloc
    AllocateIP_safe [OF go_range_sorted example_reach example_alloc] by blast

lemma AllocateIP_any:
  assumes "go_range rng" "ipam_wf a" "ipam a name = Some sn" "r \<in> {[], ''0.0.0.0''}"
  shows "(\<exists>a' ip. AllocateIP rng a name r = (a', ip, None)) \<longleftrightarrow> (\<exists>ip. ips sn ip = Some False)"
proof -
  let ?ks = "rng (dom (ips sn))" and ?d = "IP16 (in6 0)"
  have ks: "set ?ks = dom (ips sn)"
    using assms(1) subnet_wf_finite [OF ipam_wfD [OF assms(2,3)]] by (blast dest: go_rangeD ranges_set)
  have "AllocateIP rng a name r = (case alloc_loop name ?d (ips sn) ?ks of
      Inl e \<Rightarrow> (a, IP_String IPv4zero, Some e) | Inr ip \<Rightarrow> (set_ip a name sn ip (Some True), ip, None))"
    using assms(3,4) by (auto simp: AllocateIP_def ParseIP_zero)
  then have "(\<exists>a' ip. AllocateIP rng a name r = (a', ip, None)) \<longleftrightarrow> (\<exists>ip. alloc_loop name ?d (ips sn) ?ks = Inr ip)"
    by (auto split: sum.splits)
  also have "\<dots> \<longleftrightarrow> (\<exists>ip. ips sn ip = Some False)"
    by (subst alloc_loop_any) (simp, unfold ks, force)
  finally show ?thesis .
qed

lemma AllocateIP_designated:
  assumes "go_range rng" "ipam_wf a" "ipam a name = Some sn" "x \<noteq> 0"
  shows "(\<exists>a'. AllocateIP rng a name (string4 x) = (a', string4 x, None)) \<longleftrightarrow> ips sn (string4 x) = Some False"
proof -
  let ?ks = "rng (dom (ips sn))" and ?d = "IP16 (in6 x)"
  note wf = ipam_wfD [OF assms(2,3)]
  have ks: "set ?ks = dom (ips sn)"
    using assms(1) subnet_wf_finite [OF wf] by (blast dest: go_rangeD ranges_set)
  have usable: "Contains (ipNet sn) ?d" "\<not> IP_Equal (broadcast sn) ?d" if "ips sn (string4 x) = Some False"
  proof -
    have "string4 x \<in> dom (ips sn)" using that by blast
    from subnet_wf_key [OF wf this] wf show "Contains (ipNet sn) ?d" "\<not> IP_Equal (broadcast sn) ?d"
      by (auto simp: subnet_wf_def subnet4_def Contains_CIDR4)
  qed
  have loop: "alloc_loop name ?d (ips sn) ?ks = Inr ip \<longleftrightarrow> ip = string4 x \<and> ips sn (string4 x) = Some False" for ip
    using assms(4) by (subst alloc_loop_designated) (auto simp: ks)
  show ?thesis
  proof
    assume f: "ips sn (string4 x) = Some False"
    then have "alloc_loop name ?d (ips sn) ?ks = Inr (string4 x)" using loop by blast
    with usable [OF f] assms(3,4) show "\<exists>a'. AllocateIP rng a name (string4 x) = (a', string4 x, None)"
      by (simp add: AllocateIP_def)
  next
    assume "\<exists>a'. AllocateIP rng a name (string4 x) = (a', string4 x, None)"
    with assms(1-3) show "ips sn (string4 x) = Some False" by (auto dest: AllocateIP_ok)
  qed
qed

text \<open>
  [C30] Requests without a designated address succeed exactly as long as the pool has a free
  address; a request for an IPv4 address succeeds exactly when that address is free in the
  pool, and then it returns that address.
\<close>

theorem AllocateIP_complete:
  assumes "go_range rng" "ipam_reach a" "ipam a name = Some sn" "r \<in> {[], ''0.0.0.0''}" "x \<noteq> 0"
  shows "((\<exists>a' ip. AllocateIP rng a name r = (a', ip, None)) \<longleftrightarrow> (\<exists>ip. ips sn ip = Some False)) \<and>
    ((\<exists>a'. AllocateIP rng a name (string4 x) = (a', string4 x, None)) \<longleftrightarrow> ips sn (string4 x) = Some False)"
  using AllocateIP_any [OF assms(1) ipam_reach_wf [OF assms(2)] assms(3,4)]
    AllocateIP_designated [OF assms(1) ipam_reach_wf [OF assms(2)] assms(3,5)] by blast

lemma example_ipam_net: "ipam example_ipam ''default/net'' = Some (subnet4 0xc0a80000 24 0xc0a8000a 0xc0a8000b
     [''192.168.0.10'' \<mapsto> False, ''192.168.0.11'' \<mapsto> False])"
  by (simp add: example_ipam_def)

theorem AllocateIP_complete_witness:
  "go_range sorted_list_of_set \<and> ipam_reach example_ipam \<and>
   (\<exists>a' ip. AllocateIP sorted_list_of_set example_ipam ''default/net'' [] = (a', ip, None)) \<and>
   (\<exists>a'. AllocateIP sorted_list_of_set example_ipam ''default/net'' (string4 0xc0a8000b) = (a', string4 0xc0a8000b, None))"
  using go_range_sorted example_reach
    AllocateIP_complete [OF go_range_sorted example_reach example_ipam_net, of "[]" "0xc0a8000b"]
  by (auto simp: subnet4_def string4_example)

lemma GetUsed_card:
  assumes "go_range rng" "ipam_wf a" "ipam a name = Some sn"
  shows "GetUsed rng a name = (card {ip. ips sn ip = Some True}, None)"
    "GetAvailable rng a name = (card {ip. ips sn ip = Some False}, None)"
  using go_rangeD [OF assms(1) subnet_wf_finite [OF ipam_wfD [OF assms(2,3)]]] assms(3)
  by (simp_all add: GetUsed_def GetAvailable_def count_loop_card)

lemma card_used_free:
  assumes "finite (dom m)"
  shows "card {ip. m ip = Some True} + card {ip. m ip = Some False} = card (dom m)"
proof -
  have eq: "dom m = {ip. m ip = Some True} \<union> {ip. m ip = Some False}" by auto
  have "finite {ip. m ip = Some True}" "finite {ip. m ip = Some False}"
    using assms by (auto intro: finite_subset [of _ "dom m"])
  then show ?thesis unfolding eq by (intro card_Un_disjoint [symmetric]) auto
qed

text \<open>
  The two counters of a network add up to the size of its pool, for any iteration order,
  and a successful allocation moves exactly one address from available to used.
\<close>

theorem usage_counts:
  assumes "go_range rng" "ipam_reach a" "AllocateIP rng a name r = (a', ip, None)"
    "GetUsed rng a name = (u, None)" "GetAvailable rng a name = (f, None)"
  shows "u + f = card (dom (the (pool_of a name))) \<and> GetUsed rng a' name = (u + 1, None) \<and>
    0 < f \<and> GetAvailable rng a' name = (f - 1, None)"
proof (intro conjI)
  note wf = ipam_reach_wf [OF assms(2)]
  obtain sn where sn: "ipam a name = Some sn" "ips sn ip = Some False" "a' = set_ip a name sn ip (Some True)"
    using AllocateIP_ok [OF assms(1) wf assms(3)] by blast
  have fin: "finite (dom (ips sn))" by (rule subnet_wf_finite [OF ipam_wfD [OF wf sn(1)]])
  then have finU: "finite {ip. ips sn ip = Some True}" and finF: "finite {ip. ips sn ip = Some False}"
    by (auto intro: finite_subset [of _ "dom (ips sn)"])
  have u: "u = card {ip. ips sn ip = Some True}" and f: "f = card {ip. ips sn ip = Some False}"
    using GetUsed_card [OF assms(1) wf sn(1)] assms(4,5) by simp_all
  show "u + f = card (dom (the (pool_of a name)))"
    using card_used_free [OF fin] sn(1) u f by (simp add: pool_of_def)
  have wf': "ipam_wf a'" using AllocateIP_wf [OF assms(1) wf, of name r] assms(3) by simp
  have sn': "ipam a' name = Some (sn\<lparr>ips := (ips sn)(ip \<mapsto> True)\<rparr>)" by (simp add: sn(3) set_ip_def)
  have "{k. ((ips sn)(ip \<mapsto> True)) k = Some True} = insert ip {k. ips sn k = Some True}" by auto
  then show "GetUsed rng a' name = (u + 1, None)"
    using GetUsed_card(1) [OF assms(1) wf' sn'] finU sn(2) u by simp
  have "{k. ((ips sn)(ip \<mapsto> True)) k = Some False} = {k. ips sn k = Some False} - {ip}" by auto
  then show "GetAvailable rng a' name = (f - 1, None)"
    using GetUsed_card(2) [OF assms(1) wf' sn'] finF sn(2) f by simp
  show "0 < f" using finF sn(2) f by (auto simp: card_gt_0_iff)
qed

theorem usage_counts_witness:
  "GetUsed sorted_list_of_set example_ipam_used ''default/net'' = (1, None) \<and>
   GetAvailable sorted_list_of_set example_ipam_used ''default/net'' = (1, None)"
proof -
  have u: "GetUsed sorted_list_of_set example_ipam ''default/net'' = (0, None)"
    and f: "GetAvailable sorted_list_of_set example_ipam ''default/net'' = (2, None)"
    by (simp_all add: GetUsed_def GetAvailable_def example_ipam_def subnet4_def)
  from usage_counts [OF go_range_sorted example_reach example_alloc u f] show ?thesis by simp
qed

text \<open>
  Releasing what was just allocated succeeds and restores the allocator exactly.
\<close>

theorem allocate_deallocate:
  assumes "go_range rng" "ipam_reach a" "AllocateIP rng a name r = (a', ip, None)"
  shows "DeallocateIP a' name ip = (a, None)"
proof -
  note wf = ipam_reach_wf [OF assms(2)]
  obtain sn where sn: "ipam a name = Some sn" "ips sn ip = Some False" "a' = set_ip a name sn ip (Some True)"
    using AllocateIP_ok [OF assms(1) wf assms(3)] by blast
  have "ip \<in> dom (ips sn)" using sn(2) by blast
  from subnet_wf_key [OF ipam_wfD [OF wf sn(1)] this] have "ip \<noteq> []" by auto
  moreover have "sn\<lparr>ips := ips sn\<rparr> = sn" by simp
  ultimately show ?thesis using sn
    by (simp add: DeallocateIP_ok set_ip_def fun_upd_idem)
qed

theorem allocate_deallocate_witness:
  "DeallocateIP example_ipam_used ''default/net'' ''192.168.0.10'' = (example_ipam, None)"
  by (rule allocate_deallocate [OF go_range_sorted example_reach example_alloc])

end
