(* ===== verification/Mac_Cache.thy ===== *)
theory Mac_Cache
  imports Ipam_Facts
begin

text \<open>
  \<open>pkg/cache/cache.go\<close>: per network, the table from hardware addresses to the addresses bound
  to them.  The table stores parsed addresses (\<open>net.IP\<close>) and prints them on the way out.
  The contracts \<open>mac_table\<close> and \<open>lease_registry\<close> are interpreted on the model.
\<close>

section \<open>Data and operations\<close>

record MACSet =
  macs :: "string \<rightharpoonup> net_ip"

record CacheAllocator =
  cache :: "string \<rightharpoonup> MACSet"

definition NewCacheAllocator :: CacheAllocator where
  "NewCacheAllocator = \<lparr>cache = Map.empty\<rparr>"

definition NewMACSet :: "CacheAllocator \<Rightarrow> string \<Rightarrow> CacheAllocator \<times> go_error option" where
  "NewMACSet c name = (c\<lparr>cache := (cache c)(name \<mapsto> \<lparr>macs = Map.empty\<rparr>)\<rparr>, None)"

definition DeleteMACSet :: "CacheAllocator \<Rightarrow> string \<Rightarrow> CacheAllocator" where
  "DeleteMACSet c name = c\<lparr>cache := (cache c)(name := None)\<rparr>"

definition AddMAC :: "CacheAllocator \<Rightarrow> string \<Rightarrow> string \<Rightarrow> string \<Rightarrow> CacheAllocator \<times> go_error option" where
  "AddMAC c name macAddress ipAddress =
     (case cache c name of
        None \<Rightarrow> (c, Some (no_network name))
      | Some ms \<Rightarrow> (c\<lparr>cache := (cache c)(name \<mapsto> ms\<lparr>macs := (macs ms)(macAddress \<mapsto> ParseIP ipAddress)\<rparr>)\<rparr>, None))"

definition DeleteMAC :: "CacheAllocator \<Rightarrow> string \<Rightarrow> string \<Rightarrow> CacheAllocator \<times> go_error option" where
  "DeleteMAC c name macAddress =
     (case cache c name of
        None \<Rightarrow> (c, Some (no_network name))
      | Some ms \<Rightarrow> (c\<lparr>cache := (cache c)(name \<mapsto> ms\<lparr>macs := (macs ms)(macAddress := None)\<rparr>)\<rparr>, None))"

definition HasMAC :: "CacheAllocator \<Rightarrow> string \<Rightarrow> string \<Rightarrow> bool gores" where
  "HasMAC c name macAddress =
     (case cache c name of
        None \<Rightarrow> (False, Some (no_network name))
      | Some ms \<Rightarrow> (macs ms macAddress \<noteq> None, None))"

definition GetIPByMAC :: "CacheAllocator \<Rightarrow> string \<Rightarrow> string \<Rightarrow> string gores" where
  "GetIPByMAC c name macAddress =
     (case cache c name of
        None \<Rightarrow> ([], Some (no_network name))
      | Some ms \<Rightarrow>
          (case macs ms macAddress of
             None \<Rightarrow> ([], Some (Errorf (''mac '' @ macAddress @ '' not found in network '' @ name)))
           | Some ip \<Rightarrow> (IP_String ip, None)))"

fun list_macs :: "(string \<rightharpoonup> net_ip) \<Rightarrow> string list \<Rightarrow> (string \<rightharpoonup> string) \<Rightarrow> (string \<rightharpoonup> string)" where
  "list_macs m [] acc = acc"
| "list_macs m (mac # ks) acc = list_macs m ks (acc(mac := map_option IP_String (m mac)))"

definition Cache_ListAll :: "range_order \<Rightarrow> CacheAllocator \<Rightarrow> string \<Rightarrow> (string \<rightharpoonup> string) option gores" where
  "Cache_ListAll rng c name =
     (case cache c name of
        None \<Rightarrow> (None, Some (no_network name))
      | Some ms \<Rightarrow> (Some (list_macs (macs ms) (rng (dom (macs ms))) Map.empty), None))"

section \<open>The contracts\<close>

definition table_of :: "CacheAllocator \<Rightarrow> string \<Rightarrow> (string \<rightharpoonup> string) option" where
  "table_of c n = map_option (\<lambda>ms mac. map_option IP_String (macs ms mac)) (cache c n)"

definition canonical_ip :: "string \<Rightarrow> bool" where
  "canonical_ip ip \<longleftrightarrow> IP_String (ParseIP ip) = ip"

lemma canonical_string4 [simp]: "canonical_ip (string4 w)"
  by (simp add: canonical_ip_def)

lemma AddMAC_table:
  "AddMAC c n mac ip = (c', None) \<longleftrightarrow>
   (\<exists>ms. cache c n = Some ms \<and> c' = c\<lparr>cache := (cache c)(n \<mapsto> ms\<lparr>macs := (macs ms)(mac \<mapsto> ParseIP ip)\<rparr>)\<rparr>)"
  by (auto simp: AddMAC_def split: option.splits)

interpretation mac_cache: mac_table table_of canonical_ip AddMAC DeleteMAC HasMAC GetIPByMAC
proof
  show "\<exists>m. table_of t n = Some m \<and> table_of t' = (table_of t)(n \<mapsto> m(mac \<mapsto> ip))"
    if "AddMAC t n mac ip = (t', None)" "canonical_ip ip" for t n mac ip t'
    using that by (auto simp: AddMAC_table table_of_def canonical_ip_def fun_eq_iff)
  show "\<exists>m. table_of t n = Some m \<and> table_of t' = (table_of t)(n \<mapsto> m(mac := None))"
    if "DeleteMAC t n mac = (t', None)" for t n mac t'
    using that by (auto simp: DeleteMAC_def table_of_def fun_eq_iff split: option.splits)
qed (auto simp: AddMAC_def DeleteMAC_def HasMAC_def GetIPByMAC_def table_of_def split: option.splits)

lemma AllocateIP_canonical:
  assumes "go_range rng" "ipam_wf a" "AllocateIP rng a n r = (a', ip, None)"
  shows "canonical_ip ip"
proof -
  obtain sn where "ipam a n = Some sn" "ips sn ip = Some False" using AllocateIP_ok [OF assms] by blast
  then have "subnet_wf sn" "ip \<in> dom (ips sn)" using assms(2) by (auto dest: ipam_wfD)
  from subnet_wf_key [OF this] show ?thesis by auto
qed

interpretation registry: lease_registry pool_of ipam_wf AllocateIP DeallocateIP
  table_of canonical_ip AddMAC DeleteMAC HasMAC GetIPByMAC
  by unfold_locales (rule AllocateIP_canonical)

lemma list_macs_eq:
  "distinct ks \<Longrightarrow> list_macs m ks acc = (\<lambda>k. if k \<in> set ks then map_option IP_String (m k) else acc k)"
  by (induction ks arbitrary: acc) (auto simp: fun_eq_iff)

section \<open>Properties\<close>

text \<open>
  An address stored for a hardware address is read back in canonical form, other entries
  and other networks are untouched, and after a deletion the hardware address is unknown.
\<close>

theorem mac_cache_roundtrip:
  assumes "cache c n = Some ms"
  shows "\<exists>c'. AddMAC c n mac ip = (c', None) \<and> GetIPByMAC c' n mac = (IP_String (ParseIP ip), None) \<and>
    (\<forall>n' mac'. (n', mac') \<noteq> (n, mac) \<longrightarrow> GetIPByMAC c' n' mac' = GetIPByMAC c n' mac' \<and> HasMAC c' n' mac' = HasMAC c n' mac') \<and>
    HasMAC (fst (DeleteMAC c' n mac)) n mac = (False, None)"
  using assms by (auto simp: AddMAC_def GetIPByMAC_def HasMAC_def DeleteMAC_def)

theorem mac_cache_roundtrip_witness:
  "\<exists>c'. AddMAC (fst (NewMACSet NewCacheAllocator ''n'')) ''n'' ''aa:bb:cc:dd:ee:ff'' ''10.0.0.7'' = (c', None) \<and>
     GetIPByMAC c' ''n'' ''aa:bb:cc:dd:ee:ff'' = (''10.0.0.7'', None)"
proof -
  have "cache (fst (NewMACSet NewCacheAllocator ''n'')) ''n'' = Some \<lparr>macs = Map.empty\<rparr>"
    by (simp add: NewMACSet_def)
  from mac_cache_roundtrip [OF this, of "''aa:bb:cc:dd:ee:ff''" "''10.0.0.7''"]
  have "\<exists>c'. AddMAC (fst (NewMACSet NewCacheAllocator ''n'')) ''n'' ''aa:bb:cc:dd:ee:ff'' ''10.0.0.7'' = (c', None) \<and>
     GetIPByMAC c' ''n'' ''aa:bb:cc:dd:ee:ff'' = (IP_String (ParseIP ''10.0.0.7''), None)" by blast
  moreover have "IP_String (ParseIP ''10.0.0.7'') = ''10.0.0.7''"
    by (simp add: net_eval string4_def octets_def dec_string.simps)
  ultimately show ?thesis by simp
qed

end
