(* ===== verification/Api_Types.thy ===== *)
theory Api_Types
  imports Mac_Cache
begin

text \<open>
  The custom resources of \<open>pkg/apis/network.harvesterhci.io/v1alpha1\<close> (\<open>IPPool\<close> and
  \<open>VirtualMachineNetworkConfig\<close>), with the parts of the Kubernetes, Multus and KubeVirt
  objects that the program reads or writes.  Pointers and maps that can be nil are options, so
  that equality of records is \<open>reflect.DeepEqual\<close>; slices are lists.
\<close>

section \<open>Metadata and conditions\<close>

type_synonym labels = "string \<rightharpoonup> string"

record OwnerReference =
  or_APIVersion :: string
  or_Kind :: string
  or_Name :: string
  or_UID :: string

record ObjectMeta =
  om_Namespace :: string
  om_Name :: string
  om_UID :: string
  om_Labels :: "labels option"
  om_Annotations :: "labels option"
  om_DeletionTimestamp :: "nat option"
  om_OwnerReferences :: "OwnerReference list"

definition empty_meta :: "string \<Rightarrow> string \<Rightarrow> ObjectMeta" where
  "empty_meta ns n = \<lparr>om_Namespace = ns, om_Name = n, om_UID = [], om_Labels = None, om_Annotations = None,
     om_DeletionTimestamp = None, om_OwnerReferences = []\<rparr>"

text \<open>Reading a key of a map that may be nil.\<close>

definition nil_lookup :: "labels option \<Rightarrow> string \<Rightarrow> string option" where
  "nil_lookup m k = (case m of None \<Rightarrow> None | Some m' \<Rightarrow> m' k)"

definition nil_make :: "labels option \<Rightarrow> labels" where
  "nil_make m = (case m of None \<Rightarrow> Map.empty | Some m' \<Rightarrow> m')"

record GenericCondition =
  gc_Type :: string
  gc_Status :: string
  gc_LastUpdateTime :: string
  gc_LastTransitionTime :: string
  gc_Reason :: string
  gc_Message :: string

definition Registered :: string where "Registered = ''Registered''"
definition CacheReady :: string where "CacheReady = ''CacheReady''"
definition AgentReady :: string where "AgentReady = ''AgentReady''"
definition Stopped :: string where "Stopped = ''Stopped''"

section \<open>IPPool\<close>

record Pool =
  pl_Start :: string
  pl_End :: string
  pl_Exclude :: "string list"

record IPv4Config =
  c4_CIDR :: string
  c4_ServerIP :: string
  c4_Pool :: Pool
  c4_Router :: string
  c4_DNS :: "string list"
  c4_DomainName :: "string option"
  c4_DomainSearch :: "string list"
  c4_NTP :: "string list"
  c4_LeaseTime :: "int option"

record IPPoolSpec =
  ps_IPv4Config :: IPv4Config
  ps_NetworkName :: string
  ps_Paused :: "bool option"

record IPv4Status =
  s4_Allocated :: "labels option"
  s4_Used :: nat
  s4_Available :: nat

record PodReference =
  pr_Namespace :: string
  pr_Name :: string
  pr_Image :: string
  pr_UID :: string

record IPPoolStatus =
  st_LastUpdate :: nat
  st_IPv4 :: "IPv4Status option"
  st_AgentPodRef :: "PodReference option"
  st_Conditions :: "GenericCondition list"

record IPPool =
  ip_Meta :: ObjectMeta
  ip_Spec :: IPPoolSpec
  ip_Status :: IPPoolStatus

definition is_paused :: "bool option \<Rightarrow> bool" where
  "is_paused p \<longleftrightarrow> p = Some True"

definition new_IPv4Status :: IPv4Status where
  "new_IPv4Status = \<lparr>s4_Allocated = None, s4_Used = 0, s4_Available = 0\<rparr>"

definition new_PodReference :: PodReference where
  "new_PodReference = \<lparr>pr_Namespace = [], pr_Name = [], pr_Image = [], pr_UID = []\<rparr>"

section \<open>VirtualMachineNetworkConfig\<close>

definition AllocatedState :: string where "AllocatedState = ''Allocated''"
definition PendingState :: string where "PendingState = ''Pending''"
definition StaleState :: string where "StaleState = ''Stale''"

definition Allocated :: string where "Allocated = ''Allocated''"
definition Disabled :: string where "Disabled = ''Disabled''"
definition InSynced :: string where "InSynced = ''InSynced''"

record NetworkConfig =
  nc_NetworkName :: string
  nc_MACAddress :: string
  nc_IPAddress :: "string option"

record VmNetCfgSpec =
  vs_VMName :: string
  vs_NetworkConfigs :: "NetworkConfig list"
  vs_Paused :: "bool option"

record NetworkConfigStatus =
  ns_AllocatedIPAddress :: string
  ns_MACAddress :: string
  ns_NetworkName :: string
  ns_State :: string

record VmNetCfgStatus =
  vst_NetworkConfigs :: "NetworkConfigStatus list"
  vst_Conditions :: "GenericCondition list"

record VirtualMachineNetworkConfig =
  vm_Meta :: ObjectMeta
  vm_Spec :: VmNetCfgSpec
  vm_Status :: VmNetCfgStatus

section \<open>Other objects\<close>

text \<open>A \<open>NetworkAttachmentDefinition\<close>: the program only uses its metadata.\<close>

record NAD =
  nad_Meta :: ObjectMeta

record Container =
  ct_Name :: string
  ct_Image :: string
  ct_Command :: "string list"
  ct_Args :: "string list"
  ct_Env :: "(string \<times> string) list"
  ct_Capabilities :: "string list"
  ct_LivenessPath :: "string option"
  ct_ReadinessPath :: "string option"

record Pod =
  pod_Meta :: ObjectMeta
  pod_NodeAffinity :: "(string \<times> string list) list"
  pod_ServiceAccountName :: string
  pod_InitContainers :: "Container list"
  pod_Containers :: "Container list"
  pod_Conditions :: "(string \<times> string) list"

record VMNetwork =
  vn_Name :: string
  vn_Multus :: "string option"

record VMInterface =
  vi_Name :: string
  vi_MacAddress :: string

record VMTemplate =
  vt_Interfaces :: "VMInterface list"
  vt_Networks :: "VMNetwork list"

record VirtualMachine =
  kv_Meta :: ObjectMeta
  kv_APIVersion :: string
  kv_Kind :: string
  kv_Template :: "VMTemplate option"

record Node =
  node_Name :: string
  node_Annotations :: "labels option"

record Image =
  img_Repository :: string
  img_Tag :: string

definition NewImage :: "string \<Rightarrow> string \<Rightarrow> Image" where
  "NewImage repo tag = \<lparr>img_Repository = repo, img_Tag = tag\<rparr>"

definition Image_String :: "Image \<Rightarrow> string" where
  "Image_String i = img_Repository i @ '':'' @ img_Tag i"

end
