(* ===== verification/Deep_Copy.thy ===== *)
theory Deep_Copy
  imports Api_Types
begin

text \<open>
  The generated deep copies of \<open>pkg/apis/network.harvesterhci.io/v1alpha1/zz_generated_deepcopy.go\<close>.
  Elsewhere in this development objects are values; here they are what they are in Go, structs
  with pointers, slices and maps into a shared memory.  The theory shows that a deep copy reads as
  the original and shares no memory with it, so that writing to the one never changes the other:
  the handlers may treat the copies of cached objects as values of their own.
\<close>

section \<open>Memory\<close>

text \<open>
  An address stands for a pointer, the backing array of a slice, or a map; \<open>None\<close> is nil.
  Strings, numbers and structs without addresses are copied by assignment.
\<close>

type_synonym loc = nat

record pPool =
  q_Start :: string
  q_End :: string
  q_Exclude :: "loc option"

record pIPv4Config =
  q_ServerIP :: string
  q_CIDR :: string
  q_Pool :: pPool
  q_Router :: string
  q_DNS :: "loc option"
  q_DomainName :: "loc option"
  q_DomainSearch :: "loc option"
  q_NTP :: "loc option"
  q_LeaseTime :: "loc option"

record pIPPoolSpec =
  q_IPv4Config :: pIPv4Config
  q_NetworkName :: string
  q_Paused :: "loc option"

record pIPv4Status =
  q_Allocated :: "loc option"
  q_Used :: nat
  q_Available :: nat

record pIPPoolStatus =
  q_LastUpdate :: nat
  q_IPv4 :: "loc option"
  q_AgentPodRef :: "loc option"
  q_Conditions :: "loc option"

record 'm pIPPool =
  q_TypeMeta :: "string \<times> string"
  q_ObjectMeta :: 'm
  q_Spec :: pIPPoolSpec
  q_Status :: pIPPoolStatus

record pNetworkConfig =
  q_NCNetworkName :: string
  q_NCMACAddress :: string
  q_IPAddress :: "loc option"

record pVmNetCfgSpec =
  q_VMName :: string
  q_NetworkConfigs :: "loc option"
  q_VMPaused :: "loc option"

record pVmNetCfgStatus =
  q_NetworkConfigStatuses :: "loc option"
  q_VMConditions :: "loc option"

record 'm pVmNetCfg =
  q_VMTypeMeta :: "string \<times> string"
  q_VMObjectMeta :: 'm
  q_VMSpec :: pVmNetCfgSpec
  q_VMStatus :: pVmNetCfgStatus

record 'l pList =
  q_ListTypeMeta :: "string \<times> string"
  q_ListMeta :: 'l
  q_Items :: "loc option"

text \<open>What an address can hold; the metadata of objects is a type of another repository.\<close>

datatype 'm cell =
    CBool bool
  | CInt int
  | CString string
  | CStrings "string list"
  | CMap labels
  | CPodReference PodReference
  | CConditions "GenericCondition list"
  | CIPv4Status pIPv4Status
  | CNetworkConfigs "pNetworkConfig list"
  | CNetworkConfigStatuses "NetworkConfigStatus list"
  | CIPPools "'m pIPPool list"
  | CVmNetCfgs "'m pVmNetCfg list"

record 'm heap =
  cells :: "loc \<Rightarrow> 'm cell"
  nxt :: loc

definition alloc :: "'m cell \<Rightarrow> 'm heap \<Rightarrow> loc \<times> 'm heap" where
  "alloc c m = (nxt m, m\<lparr>cells := (cells m)(nxt m := c), nxt := Suc (nxt m)\<rparr>)"

text \<open>Reading the content of a cell of a known type.\<close>

definition as_Bool :: "'m cell \<Rightarrow> bool" where "as_Bool c = (case c of CBool b \<Rightarrow> b | _ \<Rightarrow> False)"
definition as_Int :: "'m cell \<Rightarrow> int" where "as_Int c = (case c of CInt i \<Rightarrow> i | _ \<Rightarrow> 0)"
definition as_String :: "'m cell \<Rightarrow> string" where "as_String c = (case c of CString t \<Rightarrow> t | _ \<Rightarrow> [])"
definition as_Strings :: "'m cell \<Rightarrow> string list" where "as_Strings c = (case c of CStrings ts \<Rightarrow> ts | _ \<Rightarrow> [])"
definition as_Map :: "'m cell \<Rightarrow> labels" where "as_Map c = (case c of CMap m \<Rightarrow> m | _ \<Rightarrow> Map.empty)"
definition as_PodReference :: "'m cell \<Rightarrow> PodReference" where
  "as_PodReference c = (case c of CPodReference r \<Rightarrow> r | _ \<Rightarrow> new_PodReference)"
definition as_Conditions :: "'m cell \<Rightarrow> GenericCondition list" where
  "as_Conditions c = (case c of CConditions cs \<Rightarrow> cs | _ \<Rightarrow> [])"
definition as_IPv4Status :: "'m cell \<Rightarrow> pIPv4Status" where
  "as_IPv4Status c = (case c of CIPv4Status st \<Rightarrow> st | _ \<Rightarrow> \<lparr>q_Allocated = None, q_Used = 0, q_Available = 0\<rparr>)"
definition as_NetworkConfigs :: "'m cell \<Rightarrow> pNetworkConfig list" where
  "as_NetworkConfigs c = (case c of CNetworkConfigs ncs \<Rightarrow> ncs | _ \<Rightarrow> [])"
definition as_NetworkConfigStatuses :: "'m cell \<Rightarrow> NetworkConfigStatus list" where
  "as_NetworkConfigStatuses c = (case c of CNetworkConfigStatuses sts \<Rightarrow> sts | _ \<Rightarrow> [])"
definition as_IPPools :: "'m cell \<Rightarrow> 'm pIPPool list" where "as_IPPools c = (case c of CIPPools ps \<Rightarrow> ps | _ \<Rightarrow> [])"
definition as_VmNetCfgs :: "'m cell \<Rightarrow> 'm pVmNetCfg list" where "as_VmNetCfgs c = (case c of CVmNetCfgs vs \<Rightarrow> vs | _ \<Rightarrow> [])"

lemmas as_simps [simp] = as_IPv4Status_def as_NetworkConfigs_def as_IPPools_def as_VmNetCfgs_def

section \<open>The generated functions\<close>

text \<open>
  The three forms that the generator uses for a field: a new place for a value that contains no
  address (\<open>*out = new(T); **out = **in\<close>, \<open>make\<close> and \<open>copy\<close>, or a copied map), a new
  place for a struct with addresses, and a new array whose elements are deep copies.  Each leaves
  nil alone.
\<close>

definition copy_flat :: "loc option \<Rightarrow> 'm heap \<Rightarrow> loc option \<times> 'm heap" where
  "copy_flat p m = (case p of None \<Rightarrow> (None, m) | Some a \<Rightarrow> (case alloc (cells m a) m of (b, m1) \<Rightarrow> (Some b, m1)))"

definition copy_ref :: "('p \<Rightarrow> 'm cell) \<Rightarrow> ('m cell \<Rightarrow> 'p) \<Rightarrow> ('p \<Rightarrow> 'm heap \<Rightarrow> 'p \<times> 'm heap) \<Rightarrow>
    loc option \<Rightarrow> 'm heap \<Rightarrow> loc option \<times> 'm heap" where
  "copy_ref C un DeepCopyInto p m =
     (case p of None \<Rightarrow> (None, m)
      | Some a \<Rightarrow> (case DeepCopyInto (un (cells m a)) m of (y, m1) \<Rightarrow> case alloc (C y) m1 of (b, m2) \<Rightarrow> (Some b, m2)))"

fun copy_each :: "('p \<Rightarrow> 'm heap \<Rightarrow> 'p \<times> 'm heap) \<Rightarrow> 'p list \<Rightarrow> 'm heap \<Rightarrow> 'p list \<times> 'm heap" where
  "copy_each DeepCopyInto [] m = ([], m)"
| "copy_each DeepCopyInto (x # xs) m =
     (case DeepCopyInto x m of (y, m1) \<Rightarrow> case copy_each DeepCopyInto xs m1 of (ys, m2) \<Rightarrow> (y # ys, m2))"

definition Pool_DeepCopyInto :: "pPool \<Rightarrow> 'm heap \<Rightarrow> pPool \<times> 'm heap" where
  "Pool_DeepCopyInto p m = (case copy_flat (q_Exclude p) m of (e, m1) \<Rightarrow> (p\<lparr>q_Exclude := e\<rparr>, m1))"

definition IPv4Config_DeepCopyInto :: "pIPv4Config \<Rightarrow> 'm heap \<Rightarrow> pIPv4Config \<times> 'm heap" where
  "IPv4Config_DeepCopyInto c m0 =
     (case Pool_DeepCopyInto (q_Pool c) m0 of (pool, m1) \<Rightarrow>
      case copy_flat (q_DNS c) m1 of (dns, m2) \<Rightarrow>
      case copy_flat (q_DomainName c) m2 of (name, m3) \<Rightarrow>
      case copy_flat (q_DomainSearch c) m3 of (search, m4) \<Rightarrow>
      case copy_flat (q_NTP c) m4 of (ntp, m5) \<Rightarrow>
      case copy_flat (q_LeaseTime c) m5 of (lease, m6) \<Rightarrow>
        (c\<lparr>q_Pool := pool, q_DNS := dns, q_DomainName := name, q_DomainSearch := search, q_NTP := ntp, q_LeaseTime := lease\<rparr>, m6))"

definition IPPoolSpec_DeepCopyInto :: "pIPPoolSpec \<Rightarrow> 'm heap \<Rightarrow> pIPPoolSpec \<times> 'm heap" where
  "IPPoolSpec_DeepCopyInto sp m =
     (case IPv4Config_DeepCopyInto (q_IPv4Config sp) m of (c, m1) \<Rightarrow>
      case copy_flat (q_Paused sp) m1 of (p, m2) \<Rightarrow> (sp\<lparr>q_IPv4Config := c, q_Paused := p\<rparr>, m2))"

definition IPv4Status_DeepCopyInto :: "pIPv4Status \<Rightarrow> 'm heap \<Rightarrow> pIPv4Status \<times> 'm heap" where
  "IPv4Status_DeepCopyInto st m = (case copy_flat (q_Allocated st) m of (a, m1) \<Rightarrow> (st\<lparr>q_Allocated := a\<rparr>, m1))"

definition PodReference_DeepCopyInto :: "PodReference \<Rightarrow> 'm heap \<Rightarrow> PodReference \<times> 'm heap" where
  "PodReference_DeepCopyInto r m = (r, m)"

definition NetworkConfigStatus_DeepCopyInto :: "NetworkConfigStatus \<Rightarrow> 'm heap \<Rightarrow> NetworkConfigStatus \<times> 'm heap" where
  "NetworkConfigStatus_DeepCopyInto st m = (st, m)"

definition IPPoolStatus_DeepCopyInto :: "pIPPoolStatus \<Rightarrow> 'm heap \<Rightarrow> pIPPoolStatus \<times> 'm heap" where
  "IPPoolStatus_DeepCopyInto st m =
     (case copy_ref CIPv4Status as_IPv4Status IPv4Status_DeepCopyInto (q_IPv4 st) m of (v4, m1) \<Rightarrow>
      case copy_flat (q_AgentPodRef st) m1 of (r, m2) \<Rightarrow>
      case copy_flat (q_Conditions st) m2 of (cs, m3) \<Rightarrow> (st\<lparr>q_IPv4 := v4, q_AgentPodRef := r, q_Conditions := cs\<rparr>, m3))"

text \<open>\<open>ObjectMeta.DeepCopyInto\<close> and \<open>ListMeta.DeepCopyInto\<close> of apimachinery are parameters.\<close>

definition IPPool_DeepCopyInto :: "('m \<Rightarrow> 'm heap \<Rightarrow> 'm \<times> 'm heap) \<Rightarrow> 'm pIPPool \<Rightarrow> 'm heap \<Rightarrow> 'm pIPPool \<times> 'm heap" where
  "IPPool_DeepCopyInto meta p m =
     (case meta (q_ObjectMeta p) m of (om, m1) \<Rightarrow>
      case IPPoolSpec_DeepCopyInto (q_Spec p) m1 of (sp, m2) \<Rightarrow>
      case IPPoolStatus_DeepCopyInto (q_Status p) m2 of (st, m3) \<Rightarrow> (p\<lparr>q_ObjectMeta := om, q_Spec := sp, q_Status := st\<rparr>, m3))"

definition IPPoolList_DeepCopyInto :: "('l \<Rightarrow> 'm heap \<Rightarrow> 'l \<times> 'm heap) \<Rightarrow> ('m \<Rightarrow> 'm heap \<Rightarrow> 'm \<times> 'm heap) \<Rightarrow>
    'l pList \<Rightarrow> 'm heap \<Rightarrow> 'l pList \<times> 'm heap" where
  "IPPoolList_DeepCopyInto lmeta meta l m =
     (case lmeta (q_ListMeta l) m of (lm, m1) \<Rightarrow>
      case copy_ref CIPPools as_IPPools (copy_each (IPPool_DeepCopyInto meta)) (q_Items l) m1 of (items, m2) \<Rightarrow>
        (l\<lparr>q_ListMeta := lm, q_Items := items\<rparr>, m2))"

definition NetworkConfig_DeepCopyInto :: "pNetworkConfig \<Rightarrow> 'm heap \<Rightarrow> pNetworkConfig \<times> 'm heap" where
  "NetworkConfig_DeepCopyInto nc m = (case copy_flat (q_IPAddress nc) m of (a, m1) \<Rightarrow> (nc\<lparr>q_IPAddress := a\<rparr>, m1))"

definition VirtualMachineNetworkConfigSpec_DeepCopyInto :: "pVmNetCfgSpec \<Rightarrow> 'm heap \<Rightarrow> pVmNetCfgSpec \<times> 'm heap" where
  "VirtualMachineNetworkConfigSpec_DeepCopyInto sp m =
     (case copy_ref CNetworkConfigs as_NetworkConfigs (copy_each NetworkConfig_DeepCopyInto) (q_NetworkConfigs sp) m of (ncs, m1) \<Rightarrow>
      case copy_flat (q_VMPaused sp) m1 of (p, m2) \<Rightarrow> (sp\<lparr>q_NetworkConfigs := ncs, q_VMPaused := p\<rparr>, m2))"

definition VirtualMachineNetworkConfigStatus_DeepCopyInto :: "pVmNetCfgStatus \<Rightarrow> 'm heap \<Rightarrow> pVmNetCfgStatus \<times> 'm heap" where
  "VirtualMachineNetworkConfigStatus_DeepCopyInto st m =
     (case copy_flat (q_NetworkConfigStatuses st) m of (ncs, m1) \<Rightarrow>
      case copy_flat (q_VMConditions st) m1 of (cs, m2) \<Rightarrow> (st\<lparr>q_NetworkConfigStatuses := ncs, q_VMConditions := cs\<rparr>, m2))"

definition VirtualMachineNetworkConfig_DeepCopyInto :: "('m \<Rightarrow> 'm heap \<Rightarrow> 'm \<times> 'm heap) \<Rightarrow> 'm pVmNetCfg \<Rightarrow> 'm heap \<Rightarrow> 'm pVmNetCfg \<times> 'm heap" where
  "VirtualMachineNetworkConfig_DeepCopyInto meta v m =
     (case meta (q_VMObjectMeta v) m of (om, m1) \<Rightarrow>
      case VirtualMachineNetworkConfigSpec_DeepCopyInto (q_VMSpec v) m1 of (sp, m2) \<Rightarrow>
      case VirtualMachineNetworkConfigStatus_DeepCopyInto (q_VMStatus v) m2 of (st, m3) \<Rightarrow>
        (v\<lparr>q_VMObjectMeta := om, q_VMSpec := sp, q_VMStatus := st\<rparr>, m3))"

definition VirtualMachineNetworkConfigList_DeepCopyInto :: "('l \<Rightarrow> 'm heap \<Rightarrow> 'l \<times> 'm heap) \<Rightarrow> ('m \<Rightarrow> 'm heap \<Rightarrow> 'm \<times> 'm heap) \<Rightarrow>
    'l pList \<Rightarrow> 'm heap \<Rightarrow> 'l pList \<times> 'm heap" where
  "VirtualMachineNetworkConfigList_DeepCopyInto lmeta meta l m =
     (case lmeta (q_ListMeta l) m of (lm, m1) \<Rightarrow>
      case copy_ref CVmNetCfgs as_VmNetCfgs (copy_each (VirtualMachineNetworkConfig_DeepCopyInto meta)) (q_Items l) m1 of (items, m2) \<Rightarrow>
        (l\<lparr>q_ListMeta := lm, q_Items := items\<rparr>, m2))"

text \<open>
  \<open>DeepCopy\<close> allocates the struct itself, and returns nil for nil; here a pointer to an object
  is the struct or nil, since \<open>new\<close> gives it a place that nobody else knows.  \<open>DeepCopyObject\<close>
  returns the same pointer as an interface, or the nil interface.
\<close>

definition DeepCopy_by :: "('p \<Rightarrow> 'm heap \<Rightarrow> 'p \<times> 'm heap) \<Rightarrow> 'p option \<Rightarrow> 'm heap \<Rightarrow> 'p option \<times> 'm heap" where
  "DeepCopy_by DeepCopyInto p m = (case p of None \<Rightarrow> (None, m) | Some x \<Rightarrow> (case DeepCopyInto x m of (y, m1) \<Rightarrow> (Some y, m1)))"

definition Pool_DeepCopy :: "pPool option \<Rightarrow> 'm heap \<Rightarrow> pPool option \<times> 'm heap" where
  "Pool_DeepCopy = DeepCopy_by Pool_DeepCopyInto"
definition IPv4Config_DeepCopy :: "pIPv4Config option \<Rightarrow> 'm heap \<Rightarrow> pIPv4Config option \<times> 'm heap" where
  "IPv4Config_DeepCopy = DeepCopy_by IPv4Config_DeepCopyInto"
definition IPPoolSpec_DeepCopy :: "pIPPoolSpec option \<Rightarrow> 'm heap \<Rightarrow> pIPPoolSpec option \<times> 'm heap" where
  "IPPoolSpec_DeepCopy = DeepCopy_by IPPoolSpec_DeepCopyInto"
definition IPv4Status_DeepCopy :: "pIPv4Status option \<Rightarrow> 'm heap \<Rightarrow> pIPv4Status option \<times> 'm heap" where
  "IPv4Status_DeepCopy = DeepCopy_by IPv4Status_DeepCopyInto"
definition PodReference_DeepCopy :: "PodReference option \<Rightarrow> 'm heap \<Rightarrow> PodReference option \<times> 'm heap" where
  "PodReference_DeepCopy = DeepCopy_by PodReference_DeepCopyInto"
definition IPPoolStatus_DeepCopy :: "pIPPoolStatus option \<Rightarrow> 'm heap \<Rightarrow> pIPPoolStatus option \<times> 'm heap" where
  "IPPoolStatus_DeepCopy = DeepCopy_by IPPoolStatus_DeepCopyInto"
definition IPPool_DeepCopy :: "('m \<Rightarrow> 'm heap \<Rightarrow> 'm \<times> 'm heap) \<Rightarrow> 'm pIPPool option \<Rightarrow> 'm heap \<Rightarrow> 'm pIPPool option \<times> 'm heap" where
  "IPPool_DeepCopy meta = DeepCopy_by (IPPool_DeepCopyInto meta)"
definition IPPool_DeepCopyObject :: "('m \<Rightarrow> 'm heap \<Rightarrow> 'm \<times> 'm heap) \<Rightarrow> 'm pIPPool option \<Rightarrow> 'm heap \<Rightarrow> 'm pIPPool option \<times> 'm heap" where
  "IPPool_DeepCopyObject meta p m = (case IPPool_DeepCopy meta p m of (Some c, m1) \<Rightarrow> (Some c, m1) | (None, m1) \<Rightarrow> (None, m1))"
definition IPPoolList_DeepCopy :: "('l \<Rightarrow> 'm heap \<Rightarrow> 'l \<times> 'm heap) \<Rightarrow> ('m \<Rightarrow> 'm heap \<Rightarrow> 'm \<times> 'm heap) \<Rightarrow>
    'l pList option \<Rightarrow> 'm heap \<Rightarrow> 'l pList option \<times> 'm heap" where
  "IPPoolList_DeepCopy lmeta meta = DeepCopy_by (IPPoolList_DeepCopyInto lmeta meta)"
definition IPPoolList_DeepCopyObject :: "('l \<Rightarrow> 'm heap \<Rightarrow> 'l \<times> 'm heap) \<Rightarrow> ('m \<Rightarrow> 'm heap \<Rightarrow> 'm \<times> 'm heap) \<Rightarrow>
    'l pList option \<Rightarrow> 'm heap \<Rightarrow> 'l pList option \<times> 'm heap" where
  "IPPoolList_DeepCopyObject lmeta meta l m = (case IPPoolList_DeepCopy lmeta meta l m of (Some c, m1) \<Rightarrow> (Some c, m1) | (None, m1) \<Rightarrow> (None, m1))"
definition NetworkConfig_DeepCopy :: "pNetworkConfig option \<Rightarrow> 'm heap \<Rightarrow> pNetworkConfig option \<times> 'm heap" where
  "NetworkConfig_DeepCopy = DeepCopy_by NetworkConfig_DeepCopyInto"
definition NetworkConfigStatus_DeepCopy :: "NetworkConfigStatus option \<Rightarrow> 'm heap \<Rightarrow> NetworkConfigStatus option \<times> 'm heap" where
  "NetworkConfigStatus_DeepCopy = DeepCopy_by NetworkConfigStatus_DeepCopyInto"
definition VirtualMachineNetworkConfigSpec_DeepCopy :: "pVmNetCfgSpec option \<Rightarrow> 'm heap \<Rightarrow> pVmNetCfgSpec option \<times> 'm heap" where
  "VirtualMachineNetworkConfigSpec_DeepCopy = DeepCopy_by VirtualMachineNetworkConfigSpec_DeepCopyInto"
definition VirtualMachineNetworkConfigStatus_DeepCopy :: "pVmNetCfgStatus option \<Rightarrow> 'm heap \<Rightarrow> pVmNetCfgStatus option \<times> 'm heap" where
  "VirtualMachineNetworkConfigStatus_DeepCopy = DeepCopy_by VirtualMachineNetworkConfigStatus_DeepCopyInto"
definition VirtualMachineNetworkConfig_DeepCopy :: "('m \<Rightarrow> 'm heap \<Rightarrow> 'm \<times> 'm heap) \<Rightarrow> 'm pVmNetCfg option \<Rightarrow> 'm heap \<Rightarrow> 'm pVmNetCfg option \<times> 'm heap" where
  "VirtualMachineNetworkConfig_DeepCopy meta = DeepCopy_by (VirtualMachineNetworkConfig_DeepCopyInto meta)"
definition VirtualMachineNetworkConfig_DeepCopyObject :: "('m \<Rightarrow> 'm heap \<Rightarrow> 'm \<times> 'm heap) \<Rightarrow> 'm pVmNetCfg option \<Rightarrow> 'm heap \<Rightarrow>
    'm pVmNetCfg option \<times> 'm heap" where
  "VirtualMachineNetworkConfig_DeepCopyObject meta p m =
     (case VirtualMachineNetworkConfig_DeepCopy meta p m of (Some c, m1) \<Rightarrow> (Some c, m1) | (None, m1) \<Rightarrow> (None, m1))"
definition VirtualMachineNetworkConfigList_DeepCopy :: "('l \<Rightarrow> 'm heap \<Rightarrow> 'l \<times> 'm heap) \<Rightarrow> ('m \<Rightarrow> 'm heap \<Rightarrow> 'm \<times> 'm heap) \<Rightarrow>
    'l pList option \<Rightarrow> 'm heap \<Rightarrow> 'l pList option \<times> 'm heap" where
  "VirtualMachineNetworkConfigList_DeepCopy lmeta meta = DeepCopy_by (VirtualMachineNetworkConfigList_DeepCopyInto lmeta meta)"
definition VirtualMachineNetworkConfigList_DeepCopyObject :: "('l \<Rightarrow> 'm heap \<Rightarrow> 'l \<times> 'm heap) \<Rightarrow> ('m \<Rightarrow> 'm heap \<Rightarrow> 'm \<times> 'm heap) \<Rightarrow>
    'l pList option \<Rightarrow> 'm heap \<Rightarrow> 'l pList option \<times> 'm heap" where
  "VirtualMachineNetworkConfigList_DeepCopyObject lmeta meta l m =
     (case VirtualMachineNetworkConfigList_DeepCopy lmeta meta l m of (Some c, m1) \<Rightarrow> (Some c, m1) | (None, m1) \<Rightarrow> (None, m1))"

section \<open>The contract of a deep copy\<close>

definition grows :: "'m heap \<Rightarrow> 'm heap \<Rightarrow> bool" where
  "grows m m' \<longleftrightarrow> nxt m \<le> nxt m' \<and> (\<forall>a < nxt m. cells m' a = cells m a)"

lemma grows_refl [simp]: "grows m m"
  by (simp add: grows_def)

lemma grows_trans: "grows m m1 \<Longrightarrow> grows m1 m2 \<Longrightarrow> grows m m2"
  by (auto simp: grows_def)

lemma grows_alloc: "alloc c m = (a, m') \<Longrightarrow> grows m m' \<and> a = nxt m \<and> cells m' a = c \<and> nxt m' = Suc (nxt m)"
  by (auto simp: alloc_def grows_def)

text \<open>
  \<open>view\<close> reads an object from the memory and \<open>foot\<close> is the set of addresses it reaches.
  Reading depends on those addresses only.  A copy of an object that is in the memory reads the
  same, leaves the memory so far as it is and reaches new addresses only.
\<close>

locale go_copy =
  fixes copy :: "'p \<Rightarrow> 'm heap \<Rightarrow> 'p \<times> 'm heap"
    and view :: "'m heap \<Rightarrow> 'p \<Rightarrow> 'a"
    and foot :: "'m heap \<Rightarrow> 'p \<Rightarrow> loc set"
  assumes local: "(\<And>a. a \<in> foot m x \<Longrightarrow> cells m' a = cells m a) \<Longrightarrow> view m' x = view m x \<and> foot m' x = foot m x"
    and copied: "foot m x \<subseteq> {..<nxt m} \<Longrightarrow> copy x m = (y, m') \<Longrightarrow>
      grows m m' \<and> view m' y = view m x \<and> foot m' y \<subseteq> {nxt m..<nxt m'}"
begin

lemma carry_in:
  assumes "grows m m'" "foot m x \<subseteq> {..<nxt m}"
  shows "view m' x = view m x" "foot m' x = foot m x" "foot m' x \<subseteq> {..<nxt m'}"
proof -
  have "view m' x = view m x \<and> foot m' x = foot m x" by (rule local) (use assms in \<open>auto simp: grows_def\<close>)
  then show "view m' x = view m x" "foot m' x = foot m x" by blast+
  then show "foot m' x \<subseteq> {..<nxt m'}" using assms by (auto simp: grows_def)
qed

lemma carry_out:
  assumes "foot m x \<subseteq> {..<nxt m}" "copy x m = (y, m1)" "grows m1 m2"
  shows "view m2 y = view m x" "foot m2 y \<subseteq> {nxt m..<nxt m2}"
proof -
  note c = copied [OF assms(1,2)]
  have "foot m1 y \<subseteq> {..<nxt m1}" using c by auto
  note in2 = carry_in [OF assms(3) this]
  show "view m2 y = view m x" using c in2 by simp
  show "foot m2 y \<subseteq> {nxt m..<nxt m2}" using c in2 by fastforce
qed

text \<open>Whoever writes to the memory of the original does not change the copy, and the other way round.\<close>

lemma isolated:
  assumes "foot m x \<subseteq> {..<nxt m}" "copy x m = (y, m')"
  shows "(\<forall>a \<ge> nxt m. cells m2 a = cells m' a) \<Longrightarrow> view m2 y = view m x"
    and "(\<forall>a < nxt m. cells m2 a = cells m' a) \<Longrightarrow> view m2 x = view m x"
proof -
  note c = copied [OF assms]
  show "view m2 y = view m x" if w: "\<forall>a \<ge> nxt m. cells m2 a = cells m' a"
  proof -
    have "view m2 y = view m' y \<and> foot m2 y = foot m' y"
      by (rule local) (use c w in auto)
    with c show ?thesis by simp
  qed
  show "view m2 x = view m x" if w: "\<forall>a < nxt m. cells m2 a = cells m' a"
  proof -
    have "view m2 x = view m x \<and> foot m2 x = foot m x"
      by (rule local) (use c w assms(1) in \<open>auto simp: grows_def\<close>)
    then show ?thesis by simp
  qed
qed

end

section \<open>Building the contract\<close>

interpretation flat: go_copy copy_flat "\<lambda>m. map_option (cells m)" "\<lambda>m. set_option"
proof (unfold_locales, goal_cases)
  case (1 m x m')
  then show ?case by (cases x) auto
next
  case (2 m x y m')
  then show ?case by (cases x) (auto simp: copy_flat_def alloc_def grows_def)
qed

lemma go_copy_none: "go_copy (\<lambda>x m. (x, m)) (\<lambda>m x. x) (\<lambda>m x. {})"
  by unfold_locales auto

text \<open>Two copies in sequence.\<close>

definition seq2 :: "('p \<Rightarrow> 'm heap \<Rightarrow> 'p \<times> 'm heap) \<Rightarrow> ('q \<Rightarrow> 'm heap \<Rightarrow> 'q \<times> 'm heap) \<Rightarrow> 'p \<times> 'q \<Rightarrow> 'm heap \<Rightarrow> ('p \<times> 'q) \<times> 'm heap" where
  "seq2 c1 c2 x m = (case c1 (fst x) m of (y1, m1) \<Rightarrow> case c2 (snd x) m1 of (y2, m2) \<Rightarrow> ((y1, y2), m2))"

lemma go_copy_seq2:
  assumes "go_copy c1 v1 f1" "go_copy c2 v2 f2"
  shows "go_copy (seq2 c1 c2) (\<lambda>m x. (v1 m (fst x), v2 m (snd x))) (\<lambda>m x. f1 m (fst x) \<union> f2 m (snd x))"
proof (unfold_locales, goal_cases)
  case (1 m x m')
  have "v1 m' (fst x) = v1 m (fst x) \<and> f1 m' (fst x) = f1 m (fst x)" by (rule go_copy.local [OF assms(1)]) (simp add: 1)
  moreover have "v2 m' (snd x) = v2 m (snd x) \<and> f2 m' (snd x) = f2 m (snd x)" by (rule go_copy.local [OF assms(2)]) (simp add: 1)
  ultimately show ?case by simp
next
  case (2 m x y m')
  then have f: "f1 m (fst x) \<subseteq> {..<nxt m}" "f2 m (snd x) \<subseteq> {..<nxt m}" by simp_all
  obtain y1 m1 y2 where c: "c1 (fst x) m = (y1, m1)" "c2 (snd x) m1 = (y2, m')" "y = (y1, y2)"
    using 2(2) by (auto simp: seq2_def split: prod.splits)
  note a = go_copy.copied [OF assms(1) f(1) c(1)]
  note b = go_copy.carry_in [OF assms(2) conjunct1 [OF a] f(2)]
  note d = go_copy.copied [OF assms(2) b(3) c(2)]
  note e = go_copy.carry_out [OF assms(1) f(1) c(1) conjunct1 [OF d]]
  have "grows m m'" using a d grows_trans by blast
  moreover have "f2 m' y2 \<subseteq> {nxt m..<nxt m'}" using a d by (fastforce simp: grows_def)
  ultimately show ?case using b d e c(3) by simp
qed

text \<open>A struct whose fields with addresses are \<open>get\<close> and are replaced by \<open>put\<close>.\<close>

lemma go_copy_struct:
  assumes "go_copy c v f" "\<And>x y. get (put x y) = y" "\<And>x y. g (put x y) = g x"
    "\<And>x m. copy x m = (case c (get x) m of (y, m') \<Rightarrow> (put x y, m'))"
    "\<And>m x. view m x = g x (v m (get x))" "\<And>m x. foot m x = f m (get x)"
  shows "go_copy copy view foot"
proof (unfold_locales, goal_cases)
  case (1 m x m')
  then have "v m' (get x) = v m (get x) \<and> f m' (get x) = f m (get x)" by (intro go_copy.local [OF assms(1)]) (simp add: assms(6))
  then show ?case by (simp add: assms(5,6))
next
  case (2 m x y m')
  then obtain z where z: "c (get x) m = (z, m')" "y = put x z" by (auto simp: assms(4) split: prod.splits)
  from go_copy.copied [OF assms(1) _ z(1)] 2(1) show ?case by (simp add: assms(2,3,5,6) z(2))
qed

lemma go_copy_each:
  assumes "go_copy c v f"
  shows "go_copy (copy_each c) (\<lambda>m. map (v m)) (\<lambda>m xs. \<Union>x \<in> set xs. f m x)"
proof (unfold_locales, goal_cases)
  case (1 m xs m')
  have "v m' x = v m x \<and> f m' x = f m x" if "x \<in> set xs" for x
    by (rule go_copy.local [OF assms]) (use 1 that in auto)
  then show ?case by simp
next
  case (2 m xs ys m')
  then show ?case
  proof (induction xs arbitrary: m ys)
    case (Cons x xs)
    then have f: "f m x \<subseteq> {..<nxt m}" "(\<Union>x \<in> set xs. f m x) \<subseteq> {..<nxt m}" by auto
    obtain y m1 zs where c: "c x m = (y, m1)" "copy_each c xs m1 = (zs, m')" "ys = y # zs"
      using Cons.prems(2) by (auto split: prod.splits)
    note a = go_copy.copied [OF assms f(1) c(1)]
    have b: "v m1 x' = v m x' \<and> f m1 x' = f m x' \<and> f m1 x' \<subseteq> {..<nxt m1}" if "x' \<in> set xs" for x'
      using go_copy.carry_in [OF assms conjunct1 [OF a], of x'] f(2) that by blast
    then have "(\<Union>x \<in> set xs. f m1 x) \<subseteq> {..<nxt m1}" by blast
    note d = Cons.IH [OF this c(2)]
    note e = go_copy.carry_out [OF assms f(1) c(1) conjunct1 [OF d]]
    have "grows m m'" using a d grows_trans by blast
    moreover have "(\<Union>x \<in> set zs. f m' x) \<subseteq> {nxt m..<nxt m'}" using a d by (fastforce simp: grows_def)
    moreover have "map (v m') zs = map (v m) xs" using b d by simp
    ultimately show ?case using e c(3) by simp
  qed simp
qed

definition ref_foot :: "('m cell \<Rightarrow> 'p) \<Rightarrow> ('m heap \<Rightarrow> 'p \<Rightarrow> loc set) \<Rightarrow> 'm heap \<Rightarrow> loc option \<Rightarrow> loc set" where
  "ref_foot un f m p = (case p of None \<Rightarrow> {} | Some a \<Rightarrow> insert a (f m (un (cells m a))))"

lemma go_copy_ref:
  assumes "go_copy c v f" "\<And>y. un (C y) = y"
  shows "go_copy (copy_ref C un c) (\<lambda>m. map_option (\<lambda>a. v m (un (cells m a)))) (ref_foot un f)"
proof (unfold_locales, goal_cases)
  case (1 m x m')
  show ?case
  proof (cases x)
    case (Some a)
    with 1 have a: "cells m' a = cells m a" by (simp add: ref_foot_def)
    have "v m' (un (cells m a)) = v m (un (cells m a)) \<and> f m' (un (cells m a)) = f m (un (cells m a))"
      by (rule go_copy.local [OF assms(1)]) (use 1 Some in \<open>simp add: ref_foot_def\<close>)
    with a Some show ?thesis by (simp add: ref_foot_def)
  qed (simp add: ref_foot_def)
next
  case (2 m x y m')
  show ?case
  proof (cases x)
    case None
    with 2 show ?thesis by (simp add: copy_ref_def ref_foot_def)
  next
    case (Some a)
    obtain z m1 b where c: "c (un (cells m a)) m = (z, m1)" "alloc (C z) m1 = (b, m')" "y = Some b"
      using 2(2) Some by (auto simp: copy_ref_def split: prod.splits)
    have f: "f m (un (cells m a)) \<subseteq> {..<nxt m}" using 2(1) Some by (simp add: ref_foot_def)
    note a1 = go_copy.copied [OF assms(1) f c(1)] and g = grows_alloc [OF c(2)]
    note e = go_copy.carry_out [OF assms(1) f c(1) conjunct1 [OF g]]
    have "grows m m'" using a1 g grows_trans by blast
    moreover have "b \<in> {nxt m..<nxt m'}" using a1 g by (auto simp: grows_def)
    moreover have "un (cells m' b) = z" using g assms(2) by metis
    ultimately show ?thesis using Some c(3) e by (simp add: ref_foot_def)
  qed
qed

section \<open>Reading objects\<close>

text \<open>A nil slice and an empty one read the same, a nil pointer or map is \<open>None\<close>.\<close>

definition nil_slice :: "('m cell \<Rightarrow> 'a list) \<Rightarrow> 'm cell option \<Rightarrow> 'a list" where
  "nil_slice rd c = (case c of None \<Rightarrow> [] | Some x \<Rightarrow> rd x)"

abbreviation at :: "'m heap \<Rightarrow> loc option \<Rightarrow> 'm cell option" where
  "at m \<equiv> map_option (cells m)"

definition view_Pool :: "'m heap \<Rightarrow> pPool \<Rightarrow> Pool" where
  "view_Pool m p = \<lparr>pl_Start = q_Start p, pl_End = q_End p, pl_Exclude = nil_slice as_Strings (at m (q_Exclude p))\<rparr>"

definition view_IPv4Config :: "'m heap \<Rightarrow> pIPv4Config \<Rightarrow> IPv4Config" where
  "view_IPv4Config m c = \<lparr>c4_CIDR = q_CIDR c, c4_ServerIP = q_ServerIP c, c4_Pool = view_Pool m (q_Pool c), c4_Router = q_Router c,
     c4_DNS = nil_slice as_Strings (at m (q_DNS c)), c4_DomainName = map_option as_String (at m (q_DomainName c)),
     c4_DomainSearch = nil_slice as_Strings (at m (q_DomainSearch c)), c4_NTP = nil_slice as_Strings (at m (q_NTP c)),
     c4_LeaseTime = map_option as_Int (at m (q_LeaseTime c))\<rparr>"

definition view_IPPoolSpec :: "'m heap \<Rightarrow> pIPPoolSpec \<Rightarrow> IPPoolSpec" where
  "view_IPPoolSpec m sp = \<lparr>ps_IPv4Config = view_IPv4Config m (q_IPv4Config sp), ps_NetworkName = q_NetworkName sp,
     ps_Paused = map_option as_Bool (at m (q_Paused sp))\<rparr>"

definition view_IPv4Status :: "'m heap \<Rightarrow> pIPv4Status \<Rightarrow> IPv4Status" where
  "view_IPv4Status m st = \<lparr>s4_Allocated = map_option as_Map (at m (q_Allocated st)), s4_Used = q_Used st, s4_Available = q_Available st\<rparr>"

definition view_IPPoolStatus :: "'m heap \<Rightarrow> pIPPoolStatus \<Rightarrow> IPPoolStatus" where
  "view_IPPoolStatus m st = \<lparr>st_LastUpdate = q_LastUpdate st,
     st_IPv4 = map_option (\<lambda>a. view_IPv4Status m (as_IPv4Status (cells m a))) (q_IPv4 st),
     st_AgentPodRef = map_option as_PodReference (at m (q_AgentPodRef st)),
     st_Conditions = nil_slice as_Conditions (at m (q_Conditions st))\<rparr>"

definition view_IPPool :: "('m heap \<Rightarrow> 'm \<Rightarrow> ObjectMeta) \<Rightarrow> 'm heap \<Rightarrow> 'm pIPPool \<Rightarrow> IPPool" where
  "view_IPPool vmeta m p = \<lparr>ip_Meta = vmeta m (q_ObjectMeta p), ip_Spec = view_IPPoolSpec m (q_Spec p), ip_Status = view_IPPoolStatus m (q_Status p)\<rparr>"

definition view_NetworkConfig :: "'m heap \<Rightarrow> pNetworkConfig \<Rightarrow> NetworkConfig" where
  "view_NetworkConfig m nc = \<lparr>nc_NetworkName = q_NCNetworkName nc, nc_MACAddress = q_NCMACAddress nc,
     nc_IPAddress = map_option as_String (at m (q_IPAddress nc))\<rparr>"

definition view_VmNetCfgSpec :: "'m heap \<Rightarrow> pVmNetCfgSpec \<Rightarrow> VmNetCfgSpec" where
  "view_VmNetCfgSpec m sp = \<lparr>vs_VMName = q_VMName sp,
     vs_NetworkConfigs = (case map_option (\<lambda>a. map (view_NetworkConfig m) (as_NetworkConfigs (cells m a))) (q_NetworkConfigs sp) of None \<Rightarrow> [] | Some ncs \<Rightarrow> ncs),
     vs_Paused = map_option as_Bool (at m (q_VMPaused sp))\<rparr>"

definition view_VmNetCfgStatus :: "'m heap \<Rightarrow> pVmNetCfgStatus \<Rightarrow> VmNetCfgStatus" where
  "view_VmNetCfgStatus m st = \<lparr>vst_NetworkConfigs = nil_slice as_NetworkConfigStatuses (at m (q_NetworkConfigStatuses st)),
     vst_Conditions = nil_slice as_Conditions (at m (q_VMConditions st))\<rparr>"

definition view_VmNetCfg :: "('m heap \<Rightarrow> 'm \<Rightarrow> ObjectMeta) \<Rightarrow> 'm heap \<Rightarrow> 'm pVmNetCfg \<Rightarrow> VirtualMachineNetworkConfig" where
  "view_VmNetCfg vmeta m v = \<lparr>vm_Meta = vmeta m (q_VMObjectMeta v), vm_Spec = view_VmNetCfgSpec m (q_VMSpec v), vm_Status = view_VmNetCfgStatus m (q_VMStatus v)\<rparr>"

text \<open>The addresses that an object reaches.\<close>

definition foot_Pool :: "'m heap \<Rightarrow> pPool \<Rightarrow> loc set" where
  "foot_Pool m p = set_option (q_Exclude p)"

definition foot_IPv4Config :: "'m heap \<Rightarrow> pIPv4Config \<Rightarrow> loc set" where
  "foot_IPv4Config m c = foot_Pool m (q_Pool c) \<union> (set_option (q_DNS c) \<union> (set_option (q_DomainName c) \<union>
     (set_option (q_DomainSearch c) \<union> (set_option (q_NTP c) \<union> set_option (q_LeaseTime c)))))"

definition foot_IPPoolSpec :: "'m heap \<Rightarrow> pIPPoolSpec \<Rightarrow> loc set" where
  "foot_IPPoolSpec m sp = foot_IPv4Config m (q_IPv4Config sp) \<union> set_option (q_Paused sp)"

definition foot_IPv4Status :: "'m heap \<Rightarrow> pIPv4Status \<Rightarrow> loc set" where
  "foot_IPv4Status m st = set_option (q_Allocated st)"

definition foot_IPPoolStatus :: "'m heap \<Rightarrow> pIPPoolStatus \<Rightarrow> loc set" where
  "foot_IPPoolStatus m st = ref_foot as_IPv4Status foot_IPv4Status m (q_IPv4 st) \<union> (set_option (q_AgentPodRef st) \<union> set_option (q_Conditions st))"

definition foot_IPPool :: "('m heap \<Rightarrow> 'm \<Rightarrow> loc set) \<Rightarrow> 'm heap \<Rightarrow> 'm pIPPool \<Rightarrow> loc set" where
  "foot_IPPool fmeta m p = fmeta m (q_ObjectMeta p) \<union> (foot_IPPoolSpec m (q_Spec p) \<union> foot_IPPoolStatus m (q_Status p))"

definition foot_NetworkConfig :: "'m heap \<Rightarrow> pNetworkConfig \<Rightarrow> loc set" where
  "foot_NetworkConfig m nc = set_option (q_IPAddress nc)"

definition foot_VmNetCfgSpec :: "'m heap \<Rightarrow> pVmNetCfgSpec \<Rightarrow> loc set" where
  "foot_VmNetCfgSpec m sp = ref_foot as_NetworkConfigs (\<lambda>m ncs. \<Union>nc \<in> set ncs. foot_NetworkConfig m nc) m (q_NetworkConfigs sp) \<union> set_option (q_VMPaused sp)"

definition foot_VmNetCfgStatus :: "'m heap \<Rightarrow> pVmNetCfgStatus \<Rightarrow> loc set" where
  "foot_VmNetCfgStatus m st = set_option (q_NetworkConfigStatuses st) \<union> set_option (q_VMConditions st)"

definition foot_VmNetCfg :: "('m heap \<Rightarrow> 'm \<Rightarrow> loc set) \<Rightarrow> 'm heap \<Rightarrow> 'm pVmNetCfg \<Rightarrow> loc set" where
  "foot_VmNetCfg fmeta m v = fmeta m (q_VMObjectMeta v) \<union> (foot_VmNetCfgSpec m (q_VMSpec v) \<union> foot_VmNetCfgStatus m (q_VMStatus v))"

section \<open>The generated functions fulfil the contract\<close>

lemmas flat_copy = flat.go_copy_axioms

interpretation pool_copy: go_copy Pool_DeepCopyInto view_Pool foot_Pool
  by (rule go_copy_struct [OF flat_copy, where get = q_Exclude and put = "\<lambda>p e. p\<lparr>q_Exclude := e\<rparr>"
        and g = "\<lambda>p c. \<lparr>pl_Start = q_Start p, pl_End = q_End p, pl_Exclude = nil_slice as_Strings c\<rparr>"])
    (simp_all add: Pool_DeepCopyInto_def view_Pool_def foot_Pool_def)

interpretation config_copy: go_copy IPv4Config_DeepCopyInto view_IPv4Config foot_IPv4Config
  by (rule go_copy_struct [OF go_copy_seq2 [OF pool_copy.go_copy_axioms go_copy_seq2 [OF flat_copy go_copy_seq2 [OF flat_copy
          go_copy_seq2 [OF flat_copy go_copy_seq2 [OF flat_copy flat_copy]]]]],
        where get = "\<lambda>c. (q_Pool c, q_DNS c, q_DomainName c, q_DomainSearch c, q_NTP c, q_LeaseTime c)"
        and put = "\<lambda>c (pool, dns, name, search, ntp, lease). c\<lparr>q_Pool := pool, q_DNS := dns, q_DomainName := name,
          q_DomainSearch := search, q_NTP := ntp, q_LeaseTime := lease\<rparr>"
        and g = "\<lambda>c (pool, dns, name, search, ntp, lease). \<lparr>c4_CIDR = q_CIDR c, c4_ServerIP = q_ServerIP c, c4_Pool = pool,
          c4_Router = q_Router c, c4_DNS = nil_slice as_Strings dns, c4_DomainName = map_option as_String name,
          c4_DomainSearch = nil_slice as_Strings search, c4_NTP = nil_slice as_Strings ntp, c4_LeaseTime = map_option as_Int lease\<rparr>"])
    (auto simp: IPv4Config_DeepCopyInto_def view_IPv4Config_def foot_IPv4Config_def seq2_def split: prod.splits)

interpretation spec_copy: go_copy IPPoolSpec_DeepCopyInto view_IPPoolSpec foot_IPPoolSpec
  by (rule go_copy_struct [OF go_copy_seq2 [OF config_copy.go_copy_axioms flat_copy],
        where get = "\<lambda>sp. (q_IPv4Config sp, q_Paused sp)" and put = "\<lambda>sp (c, p). sp\<lparr>q_IPv4Config := c, q_Paused := p\<rparr>"
        and g = "\<lambda>sp (c, p). \<lparr>ps_IPv4Config = c, ps_NetworkName = q_NetworkName sp, ps_Paused = map_option as_Bool p\<rparr>"])
    (auto simp: IPPoolSpec_DeepCopyInto_def view_IPPoolSpec_def foot_IPPoolSpec_def seq2_def split: prod.splits)

interpretation v4status_copy: go_copy IPv4Status_DeepCopyInto view_IPv4Status foot_IPv4Status
  by (rule go_copy_struct [OF flat_copy, where get = q_Allocated and put = "\<lambda>st a. st\<lparr>q_Allocated := a\<rparr>"
        and g = "\<lambda>st a. \<lparr>s4_Allocated = map_option as_Map a, s4_Used = q_Used st, s4_Available = q_Available st\<rparr>"])
    (simp_all add: IPv4Status_DeepCopyInto_def view_IPv4Status_def foot_IPv4Status_def)

lemma v4status_ref: "go_copy (copy_ref CIPv4Status as_IPv4Status IPv4Status_DeepCopyInto)
    (\<lambda>m. map_option (\<lambda>a. view_IPv4Status m (as_IPv4Status (cells m a)))) (ref_foot as_IPv4Status foot_IPv4Status)"
  by (rule go_copy_ref [OF v4status_copy.go_copy_axioms]) simp

interpretation status_copy: go_copy IPPoolStatus_DeepCopyInto view_IPPoolStatus foot_IPPoolStatus
  by (rule go_copy_struct [OF go_copy_seq2 [OF v4status_ref go_copy_seq2 [OF flat_copy flat_copy]],
        where get = "\<lambda>st. (q_IPv4 st, q_AgentPodRef st, q_Conditions st)"
        and put = "\<lambda>st (v4, r, cs). st\<lparr>q_IPv4 := v4, q_AgentPodRef := r, q_Conditions := cs\<rparr>"
        and g = "\<lambda>st (v4, r, cs). \<lparr>st_LastUpdate = q_LastUpdate st, st_IPv4 = v4, st_AgentPodRef = map_option as_PodReference r,
          st_Conditions = nil_slice as_Conditions cs\<rparr>"])
    (auto simp: IPPoolStatus_DeepCopyInto_def view_IPPoolStatus_def foot_IPPoolStatus_def seq2_def split: prod.splits)

lemma IPPool_copy:
  assumes "go_copy meta vmeta fmeta"
  shows "go_copy (IPPool_DeepCopyInto meta) (view_IPPool vmeta) (foot_IPPool fmeta)"
  by (rule go_copy_struct [OF go_copy_seq2 [OF assms go_copy_seq2 [OF spec_copy.go_copy_axioms status_copy.go_copy_axioms]],
        where get = "\<lambda>p. (q_ObjectMeta p, q_Spec p, q_Status p)"
        and put = "\<lambda>p (om, sp, st). p\<lparr>q_ObjectMeta := om, q_Spec := sp, q_Status := st\<rparr>"
        and g = "\<lambda>p (om, sp, st). \<lparr>ip_Meta = om, ip_Spec = sp, ip_Status = st\<rparr>"])
    (auto simp: IPPool_DeepCopyInto_def view_IPPool_def foot_IPPool_def seq2_def split: prod.splits)

interpretation nc_copy: go_copy NetworkConfig_DeepCopyInto view_NetworkConfig foot_NetworkConfig
  by (rule go_copy_struct [OF flat_copy, where get = q_IPAddress and put = "\<lambda>nc a. nc\<lparr>q_IPAddress := a\<rparr>"
        and g = "\<lambda>nc a. \<lparr>nc_NetworkName = q_NCNetworkName nc, nc_MACAddress = q_NCMACAddress nc, nc_IPAddress = map_option as_String a\<rparr>"])
    (simp_all add: NetworkConfig_DeepCopyInto_def view_NetworkConfig_def foot_NetworkConfig_def)

lemma ncs_ref: "go_copy (copy_ref CNetworkConfigs as_NetworkConfigs (copy_each NetworkConfig_DeepCopyInto))
    (\<lambda>m. map_option (\<lambda>a. map (view_NetworkConfig m) (as_NetworkConfigs (cells m a))))
    (ref_foot as_NetworkConfigs (\<lambda>m ncs. \<Union>nc \<in> set ncs. foot_NetworkConfig m nc))"
  by (rule go_copy_ref [OF go_copy_each [OF nc_copy.go_copy_axioms]]) simp

interpretation vmspec_copy: go_copy VirtualMachineNetworkConfigSpec_DeepCopyInto view_VmNetCfgSpec foot_VmNetCfgSpec
  by (rule go_copy_struct [OF go_copy_seq2 [OF ncs_ref flat_copy], where get = "\<lambda>sp. (q_NetworkConfigs sp, q_VMPaused sp)"
        and put = "\<lambda>sp (ncs, p). sp\<lparr>q_NetworkConfigs := ncs, q_VMPaused := p\<rparr>"
        and g = "\<lambda>sp (ncs, p). \<lparr>vs_VMName = q_VMName sp, vs_NetworkConfigs = (case ncs of None \<Rightarrow> [] | Some l \<Rightarrow> l),
          vs_Paused = map_option as_Bool p\<rparr>"])
    (auto simp: VirtualMachineNetworkConfigSpec_DeepCopyInto_def view_VmNetCfgSpec_def foot_VmNetCfgSpec_def seq2_def split: prod.splits)

interpretation vmstatus_copy: go_copy VirtualMachineNetworkConfigStatus_DeepCopyInto view_VmNetCfgStatus foot_VmNetCfgStatus
  by (rule go_copy_struct [OF go_copy_seq2 [OF flat_copy flat_copy], where get = "\<lambda>st. (q_NetworkConfigStatuses st, q_VMConditions st)"
        and put = "\<lambda>st (ncs, cs). st\<lparr>q_NetworkConfigStatuses := ncs, q_VMConditions := cs\<rparr>"
        and g = "\<lambda>st (ncs, cs). \<lparr>vst_NetworkConfigs = nil_slice as_NetworkConfigStatuses ncs, vst_Conditions = nil_slice as_Conditions cs\<rparr>"])
    (auto simp: VirtualMachineNetworkConfigStatus_DeepCopyInto_def view_VmNetCfgStatus_def foot_VmNetCfgStatus_def seq2_def split: prod.splits)

lemma VmNetCfg_copy:
  assumes "go_copy meta vmeta fmeta"
  shows "go_copy (VirtualMachineNetworkConfig_DeepCopyInto meta) (view_VmNetCfg vmeta) (foot_VmNetCfg fmeta)"
  by (rule go_copy_struct [OF go_copy_seq2 [OF assms go_copy_seq2 [OF vmspec_copy.go_copy_axioms vmstatus_copy.go_copy_axioms]],
        where get = "\<lambda>v. (q_VMObjectMeta v, q_VMSpec v, q_VMStatus v)"
        and put = "\<lambda>v (om, sp, st). v\<lparr>q_VMObjectMeta := om, q_VMSpec := sp, q_VMStatus := st\<rparr>"
        and g = "\<lambda>v (om, sp, st). \<lparr>vm_Meta = om, vm_Spec = sp, vm_Status = st\<rparr>"])
    (auto simp: VirtualMachineNetworkConfig_DeepCopyInto_def view_VmNetCfg_def foot_VmNetCfg_def seq2_def split: prod.splits)

text \<open>Lists of objects: what the elements promise, the list promises.\<close>

definition view_List :: "('m heap \<Rightarrow> 'l \<Rightarrow> 'b) \<Rightarrow> ('m cell \<Rightarrow> 'p list) \<Rightarrow> ('m heap \<Rightarrow> 'p \<Rightarrow> 'a) \<Rightarrow> 'm heap \<Rightarrow> 'l pList \<Rightarrow> 'b \<times> 'a list option" where
  "view_List vl un v m l = (vl m (q_ListMeta l), map_option (\<lambda>a. map (v m) (un (cells m a))) (q_Items l))"

definition foot_List :: "('m heap \<Rightarrow> 'l \<Rightarrow> loc set) \<Rightarrow> ('m cell \<Rightarrow> 'p list) \<Rightarrow> ('m heap \<Rightarrow> 'p \<Rightarrow> loc set) \<Rightarrow> 'm heap \<Rightarrow> 'l pList \<Rightarrow> loc set" where
  "foot_List fl un f m l = fl m (q_ListMeta l) \<union> ref_foot un (\<lambda>m xs. \<Union>x \<in> set xs. f m x) m (q_Items l)"

lemma list_copy:
  assumes "go_copy lmeta vl fl" "go_copy c v f" "\<And>y. un (C y) = y"
    "\<And>l m. copy l m = (case lmeta (q_ListMeta l) m of (lm, m1) \<Rightarrow> case copy_ref C un (copy_each c) (q_Items l) m1 of (items, m2) \<Rightarrow>
       (l\<lparr>q_ListMeta := lm, q_Items := items\<rparr>, m2))"
  shows "go_copy copy (view_List vl un v) (foot_List fl un f)"
  by (rule go_copy_struct [OF go_copy_seq2 [OF assms(1) go_copy_ref [where C = C and un = un, OF go_copy_each [OF assms(2)] assms(3)]],
        where get = "\<lambda>l. (q_ListMeta l, q_Items l)" and put = "\<lambda>l (lm, items). l\<lparr>q_ListMeta := lm, q_Items := items\<rparr>" and g = "\<lambda>l x. x"])
    (auto simp: assms(4) view_List_def foot_List_def seq2_def split: prod.splits)

lemma IPPoolList_copy:
  assumes "go_copy lmeta vl fl" "go_copy meta vmeta fmeta"
  shows "go_copy (IPPoolList_DeepCopyInto lmeta meta) (view_List vl as_IPPools (view_IPPool vmeta)) (foot_List fl as_IPPools (foot_IPPool fmeta))"
  by (rule list_copy [OF assms(1) IPPool_copy [OF assms(2)], where C = CIPPools]) (simp_all add: IPPoolList_DeepCopyInto_def)

lemma VmNetCfgList_copy:
  assumes "go_copy lmeta vl fl" "go_copy meta vmeta fmeta"
  shows "go_copy (VirtualMachineNetworkConfigList_DeepCopyInto lmeta meta) (view_List vl as_VmNetCfgs (view_VmNetCfg vmeta))
    (foot_List fl as_VmNetCfgs (foot_VmNetCfg fmeta))"
  by (rule list_copy [OF assms(1) VmNetCfg_copy [OF assms(2)], where C = CVmNetCfgs]) (simp_all add: VirtualMachineNetworkConfigList_DeepCopyInto_def)

section \<open>Copies of objects are isolated\<close>

lemma DeepCopy_by_isolated:
  assumes "go_copy c v f" "f m x \<subseteq> {..<nxt m}" "DeepCopy_by c (Some x) m = (r, m')"
  shows "\<exists>y. r = Some y \<and> v m' y = v m x \<and> f m' y \<inter> f m x = {} \<and>
    (\<forall>m2. (\<forall>a \<ge> nxt m. cells m2 a = cells m' a) \<longrightarrow> v m2 y = v m x) \<and>
    (\<forall>m2. (\<forall>a < nxt m. cells m2 a = cells m' a) \<longrightarrow> v m2 x = v m x)"
proof -
  obtain y where y: "c x m = (y, m')" "r = Some y" using assms(3) by (auto simp: DeepCopy_by_def split: prod.splits)
  note i = go_copy.isolated [OF assms(1,2) y(1)] and c = go_copy.copied [OF assms(1,2) y(1)]
  have "f m' y \<inter> f m x = {}" using c assms(2) by fastforce
  with c i y(2) show ?thesis by blast
qed

text \<open>
  [C14] A deep copy of an IPPool reads like the original and shares no memory with it: after any
  later writes to the memory that existed before the copy, the copy still reads as the original
  did, and after any writes to the memory of the copy the original does.  The only assumption is
  that apimachinery copies the metadata in that way.
\<close>

theorem IPPool_DeepCopy_isolated:
  assumes "go_copy meta vmeta fmeta" "foot_IPPool fmeta m p \<subseteq> {..<nxt m}" "IPPool_DeepCopy meta (Some p) m = (r, m')"
  shows "\<exists>q. r = Some q \<and> view_IPPool vmeta m' q = view_IPPool vmeta m p \<and> foot_IPPool fmeta m' q \<inter> foot_IPPool fmeta m p = {} \<and>
    (\<forall>m2. (\<forall>a \<ge> nxt m. cells m2 a = cells m' a) \<longrightarrow> view_IPPool vmeta m2 q = view_IPPool vmeta m p) \<and>
    (\<forall>m2. (\<forall>a < nxt m. cells m2 a = cells m' a) \<longrightarrow> view_IPPool vmeta m2 p = view_IPPool vmeta m p)"
  by (rule DeepCopy_by_isolated [OF IPPool_copy [OF assms(1)] assms(2) assms(3) [unfolded IPPool_DeepCopy_def]])

text \<open>
  The same for a VirtualMachineNetworkConfig, in particular for the slice of address records
  that \<open>Sync\<close> marks in place.
\<close>

theorem VmNetCfg_DeepCopy_isolated:
  assumes "go_copy meta vmeta fmeta" "foot_VmNetCfg fmeta m v \<subseteq> {..<nxt m}" "VirtualMachineNetworkConfig_DeepCopy meta (Some v) m = (r, m')"
  shows "\<exists>w. r = Some w \<and> view_VmNetCfg vmeta m' w = view_VmNetCfg vmeta m v \<and> foot_VmNetCfg fmeta m' w \<inter> foot_VmNetCfg fmeta m v = {} \<and>
    (\<forall>m2. (\<forall>a \<ge> nxt m. cells m2 a = cells m' a) \<longrightarrow> view_VmNetCfg vmeta m2 w = view_VmNetCfg vmeta m v) \<and>
    (\<forall>m2. (\<forall>a < nxt m. cells m2 a = cells m' a) \<longrightarrow> view_VmNetCfg vmeta m2 v = view_VmNetCfg vmeta m v)"
  by (rule DeepCopy_by_isolated [OF VmNetCfg_copy [OF assms(1)] assms(2) assms(3) [unfolded VirtualMachineNetworkConfig_DeepCopy_def]])

text \<open>A pool with an allocation record at address 0, reached through the IPv4 status at address 1.\<close>

definition example_memory :: "ObjectMeta heap" where
  "example_memory = \<lparr>cells = (\<lambda>_. CBool False)(0 := CMap [''192.168.0.12'' \<mapsto> ''aa:bb:cc:dd:ee:ff''],
     1 := CIPv4Status \<lparr>q_Allocated = Some 0, q_Used = 1, q_Available = 1\<rparr>), nxt = 2\<rparr>"

definition example_pointers :: "ObjectMeta pIPPool" where
  "example_pointers = \<lparr>q_TypeMeta = (''v1alpha1'', ''IPPool''), q_ObjectMeta = empty_meta ''default'' ''pool'',
     q_Spec = \<lparr>q_IPv4Config = \<lparr>q_ServerIP = ''192.168.0.10'', q_CIDR = ''192.168.0.0/24'',
       q_Pool = \<lparr>q_Start = ''192.168.0.10'', q_End = ''192.168.0.13'', q_Exclude = None\<rparr>, q_Router = [],
       q_DNS = None, q_DomainName = None, q_DomainSearch = None, q_NTP = None, q_LeaseTime = None\<rparr>,
       q_NetworkName = ''default/net'', q_Paused = None\<rparr>,
     q_Status = \<lparr>q_LastUpdate = 0, q_IPv4 = Some 1, q_AgentPodRef = None, q_Conditions = None\<rparr>\<rparr>"

lemma example_foot: "foot_IPPool (\<lambda>_ _. {}) example_memory example_pointers \<subseteq> {..<nxt example_memory}"
  by (simp add: foot_IPPool_def foot_IPPoolSpec_def foot_IPv4Config_def foot_Pool_def foot_IPPoolStatus_def ref_foot_def foot_IPv4Status_def
      example_memory_def example_pointers_def)

text \<open>Clearing the allocation record of the original leaves the record of the copy alone.\<close>

theorem IPPool_DeepCopy_isolated_witness:
  "\<exists>q m'. IPPool_DeepCopy (\<lambda>x m. (x, m)) (Some example_pointers) example_memory = (Some q, m') \<and>
    map_option s4_Allocated (st_IPv4 (ip_Status (view_IPPool (\<lambda>_ x. x) (m'\<lparr>cells := (cells m')(0 := CMap Map.empty)\<rparr>) q))) =
      Some (Some [''192.168.0.12'' \<mapsto> ''aa:bb:cc:dd:ee:ff''])"
proof -
  obtain r m' where c: "IPPool_DeepCopy (\<lambda>x m. (x, m)) (Some example_pointers) example_memory = (r, m')" by fastforce
  let ?m = "m'\<lparr>cells := (cells m')(0 := CMap Map.empty)\<rparr>"
  from IPPool_DeepCopy_isolated [OF go_copy_none example_foot c] obtain q where q: "r = Some q"
    "\<forall>m2. (\<forall>a \<ge> nxt example_memory. cells m2 a = cells m' a) \<longrightarrow>
       view_IPPool (\<lambda>_ x. x) m2 q = view_IPPool (\<lambda>_ x. x) example_memory example_pointers" by blast
  have "\<forall>a \<ge> nxt example_memory. cells ?m a = cells m' a" by (simp add: example_memory_def)
  with q(2) have eq: "view_IPPool (\<lambda>_ x. x) ?m q = view_IPPool (\<lambda>_ x. x) example_memory example_pointers" by blast
  have "map_option s4_Allocated (st_IPv4 (ip_Status (view_IPPool (\<lambda>_ x. x) example_memory example_pointers))) =
      Some (Some [''192.168.0.12'' \<mapsto> ''aa:bb:cc:dd:ee:ff''])"
    by (simp add: view_IPPool_def view_IPPoolStatus_def view_IPv4Status_def example_memory_def example_pointers_def as_Map_def)
  then show ?thesis unfolding c q(1) by (intro exI [of _ q] exI [of _ m']) (simp only: eq simp_thms)
qed

definition example_records :: "ObjectMeta heap" where
  "example_records = \<lparr>cells = (\<lambda>_. CNetworkConfigStatuses [\<lparr>ns_AllocatedIPAddress = ''192.168.0.12'', ns_MACAddress = ''aa'',
     ns_NetworkName = ''default/net'', ns_State = AllocatedState\<rparr>]), nxt = 1\<rparr>"

definition example_vm_pointers :: "ObjectMeta pVmNetCfg" where
  "example_vm_pointers = \<lparr>q_VMTypeMeta = ([], []), q_VMObjectMeta = empty_meta ''default'' ''vm'',
     q_VMSpec = \<lparr>q_VMName = ''vm'', q_NetworkConfigs = None, q_VMPaused = None\<rparr>,
     q_VMStatus = \<lparr>q_NetworkConfigStatuses = Some 0, q_VMConditions = None\<rparr>\<rparr>"

theorem VmNetCfg_DeepCopy_isolated_witness:
  "\<exists>w m'. VirtualMachineNetworkConfig_DeepCopy (\<lambda>x m. (x, m)) (Some example_vm_pointers) example_records = (Some w, m') \<and>
    map ns_State (vst_NetworkConfigs (vm_Status (view_VmNetCfg (\<lambda>_ x. x) (m'\<lparr>cells := (cells m')(0 := CNetworkConfigStatuses [])\<rparr>) w))) = [AllocatedState]"
proof -
  obtain r m' where c: "VirtualMachineNetworkConfig_DeepCopy (\<lambda>x m. (x, m)) (Some example_vm_pointers) example_records = (r, m')" by fastforce
  let ?m = "m'\<lparr>cells := (cells m')(0 := CNetworkConfigStatuses [])\<rparr>"
  have f: "foot_VmNetCfg (\<lambda>_ _. {}) example_records example_vm_pointers \<subseteq> {..<nxt example_records}"
    by (simp add: foot_VmNetCfg_def foot_VmNetCfgSpec_def foot_VmNetCfgStatus_def ref_foot_def example_records_def example_vm_pointers_def)
  from VmNetCfg_DeepCopy_isolated [OF go_copy_none f c] obtain w where w: "r = Some w"
    "\<forall>m2. (\<forall>a \<ge> nxt example_records. cells m2 a = cells m' a) \<longrightarrow>
       view_VmNetCfg (\<lambda>_ x. x) m2 w = view_VmNetCfg (\<lambda>_ x. x) example_records example_vm_pointers" by blast
  have "\<forall>a \<ge> nxt example_records. cells ?m a = cells m' a" by (simp add: example_records_def)
  with w(2) have eq: "view_VmNetCfg (\<lambda>_ x. x) ?m w = view_VmNetCfg (\<lambda>_ x. x) example_records example_vm_pointers" by blast
  have "map ns_State (vst_NetworkConfigs (vm_Status (view_VmNetCfg (\<lambda>_ x. x) example_records example_vm_pointers))) = [AllocatedState]"
    by (simp add: view_VmNetCfg_def view_VmNetCfgStatus_def nil_slice_def example_records_def example_vm_pointers_def as_NetworkConfigStatuses_def)
  then show ?thesis unfolding c w(1) by (intro exI [of _ w] exI [of _ m']) (simp only: eq simp_thms)
qed

end
