(* ===== verification/World.thy ===== *)
theory World
  imports Api_Types
begin

text \<open>
  The code outside the repository that the program calls, as parameters.

  \<open>ext\<close> bundles pure functions: \<open>kv.RSplit\<close> and the condition accessors of wrangler,
  \<open>encoding/json\<close>, \<open>crypto/sha256\<close>, the semantic equality of apimachinery and the retry
  helper of client-go.  What the theorems need of them are the named hypotheses below.

  \<open>env\<close> is everything that answers from outside the process: the API server and the informer
  caches, the Prometheus registry, the clock and the resolver.  Every such interaction is a
  \<open>call\<close>; the process state keeps the list of calls made so far, and the answer to a call is
  an arbitrary function of that list, so no assumption is made on what other actors do between
  two calls.
\<close>

section \<open>Calls and answers\<close>

datatype gauge = IPPoolUsed | IPPoolAvailable | VmNetCfgStatusGauge

datatype call =
    NadGet string string
  | NadUpdate NAD
  | PodGet string string
  | PodCreate Pod
  | PodDelete string string
  | IPPoolGet string string
  | IPPoolUpdateStatus IPPool
  | VmNetCfgGet string string
  | VmNetCfgCreate VirtualMachineNetworkConfig
  | VmNetCfgUpdate VirtualMachineNetworkConfig
  | VmNetCfgUpdateStatus VirtualMachineNetworkConfig
  | VmNetCfgByIndex string string
  | VmEnqueue string string
  | GaugeSet gauge "(string \<times> string) list" nat
  | GaugeDelete gauge "(string \<times> string) list"
  | Gather
  | Now
  | LookupIP string

record env =
  e_nad :: "call list \<Rightarrow> go_error + NAD"
  e_pod :: "call list \<Rightarrow> go_error + Pod"
  e_done :: "call list \<Rightarrow> go_error option"
  e_ippool :: "call list \<Rightarrow> go_error + IPPool"
  e_vmnetcfg :: "call list \<Rightarrow> go_error + VirtualMachineNetworkConfig"
  e_vmnetcfgs :: "call list \<Rightarrow> go_error + VirtualMachineNetworkConfig list"
  e_gather :: "call list \<Rightarrow> go_error + (string \<times> (string \<times> string) list list) list"
  e_now :: "call list \<Rightarrow> nat"
  e_lookup :: "call list \<Rightarrow> net_ip list gores"

section \<open>The state of the controller process\<close>

record ctl =
  ipAllocator :: IPAllocator
  cacheAllocator :: CacheAllocator
  calls :: "call list"

definition emit :: "call \<Rightarrow> ctl \<Rightarrow> ctl" where
  "emit c s = s\<lparr>calls := calls s @ [c]\<rparr>"

lemma emit_simps [simp]:
  "ipAllocator (emit c s) = ipAllocator s" "cacheAllocator (emit c s) = cacheAllocator s"
  "calls (emit c s) = calls s @ [c]"
  by (simp_all add: emit_def)

definition ask :: "(call list \<Rightarrow> 'a) \<Rightarrow> call \<Rightarrow> ctl \<Rightarrow> 'a \<times> ctl" where
  "ask f c s = (f (calls s @ [c]), emit c s)"

lemma ask_eq [simp]: "ask f c s = (r, s') \<longleftrightarrow> r = f (calls s @ [c]) \<and> s' = emit c s"
  by (auto simp: ask_def)

section \<open>Functions of other packages\<close>

record ext =
  x_RSplit :: "string \<Rightarrow> string \<Rightarrow> string \<times> string"
  x_IsTrue :: "string \<Rightarrow> GenericCondition list \<Rightarrow> bool"
  x_IsFalse :: "string \<Rightarrow> GenericCondition list \<Rightarrow> bool"
  x_SetStatus :: "string \<Rightarrow> string \<Rightarrow> GenericCondition list \<Rightarrow> GenericCondition list"
  x_Reason :: "string \<Rightarrow> string \<Rightarrow> GenericCondition list \<Rightarrow> GenericCondition list"
  x_Message :: "string \<Rightarrow> string \<Rightarrow> GenericCondition list \<Rightarrow> GenericCondition list"
  x_SetError :: "string \<Rightarrow> string \<Rightarrow> go_error option \<Rightarrow> GenericCondition list \<Rightarrow> GenericCondition list"
  x_LastUpdated :: "string \<Rightarrow> nat \<Rightarrow> GenericCondition list \<Rightarrow> GenericCondition list"
  x_MarshalNetworks :: "(string \<times> string \<times> string) list \<Rightarrow> go_error + string"
  x_UnmarshalStrings :: "string \<Rightarrow> go_error + string list"
  x_UnmarshalMap :: "string \<Rightarrow> go_error + (string \<rightharpoonup> string)"
  x_Sha256Hex :: "string \<Rightarrow> string"
  x_PoolStatusEqual :: "IPPoolStatus \<Rightarrow> IPPoolStatus \<Rightarrow> bool"
  x_VmStatusEqual :: "VmNetCfgStatus \<Rightarrow> VmNetCfgStatus \<Rightarrow> bool"
  x_RetryOnConflict :: "(ctl \<Rightarrow> (go_error option \<times> ctl) outcome) \<Rightarrow> ctl \<Rightarrow> (go_error option \<times> ctl) outcome"
  x_AnnotationMacAddressName :: string

text \<open>\<open>Cond.True\<close> and \<open>Cond.False\<close> set the status of the condition.\<close>

definition cond_True :: "ext \<Rightarrow> string \<Rightarrow> GenericCondition list \<Rightarrow> GenericCondition list" where
  "cond_True x c = x_SetStatus x c ''True''"

definition cond_False :: "ext \<Rightarrow> string \<Rightarrow> GenericCondition list \<Rightarrow> GenericCondition list" where
  "cond_False x c = x_SetStatus x c ''False''"

text \<open>
  Documented behaviour of wrangler's conditions: a status that was set is read back, setting
  one condition leaves the others alone, and reason and message do not change a status.
\<close>

definition cond_laws :: "ext \<Rightarrow> bool" where
  "cond_laws x \<longleftrightarrow> (\<forall>c d v cs.
     (x_IsTrue x c (x_SetStatus x d v cs) \<longleftrightarrow> (if c = d then v = ''True'' else x_IsTrue x c cs)) \<and>
     (x_IsFalse x c (x_SetStatus x d v cs) \<longleftrightarrow> (if c = d then v = ''False'' else x_IsFalse x c cs)) \<and>
     (x_IsTrue x c (x_Reason x d v cs) \<longleftrightarrow> x_IsTrue x c cs) \<and>
     (x_IsFalse x c (x_Reason x d v cs) \<longleftrightarrow> x_IsFalse x c cs) \<and>
     (x_IsTrue x c (x_Message x d v cs) \<longleftrightarrow> x_IsTrue x c cs) \<and>
     (x_IsFalse x c (x_Message x d v cs) \<longleftrightarrow> x_IsFalse x c cs))"

text \<open>
  \<open>Cond.SetError\<close> without an error makes the condition true, with an error false; it and
  \<open>Cond.LastUpdated\<close> leave the other conditions alone.
\<close>

definition set_error_laws :: "ext \<Rightarrow> bool" where
  "set_error_laws x \<longleftrightarrow> (\<forall>c d r e t cs.
     (x_IsTrue x c (x_SetError x d r e cs) \<longleftrightarrow> (if c = d then e = None else x_IsTrue x c cs)) \<and>
     (x_IsFalse x c (x_SetError x d r e cs) \<longleftrightarrow> (if c = d then e \<noteq> None else x_IsFalse x c cs)) \<and>
     (x_IsTrue x c (x_LastUpdated x d t cs) \<longleftrightarrow> x_IsTrue x c cs) \<and>
     (x_IsFalse x c (x_LastUpdated x d t cs) \<longleftrightarrow> x_IsFalse x c cs))"

text \<open>
  \<open>retry.RetryOnConflict\<close> runs the function, again after a conflict, until it does not
  conflict or the attempts are used up, and returns the result of the last run.
\<close>

inductive retry_runs :: "(ctl \<Rightarrow> (go_error option \<times> ctl) outcome) \<Rightarrow> ctl \<Rightarrow> (go_error option \<times> ctl) outcome \<Rightarrow> bool"
  for f where
  last: "retry_runs f s (f s)"
| again: "f s = Ret (Some e, s') \<Longrightarrow> IsConflict e \<Longrightarrow> retry_runs f s' r \<Longrightarrow> retry_runs f s r"

definition retry_law :: "ext \<Rightarrow> bool" where
  "retry_law x \<longleftrightarrow> (\<forall>f s. retry_runs f s (x_RetryOnConflict x f s))"

lemma retry_runs_invariant:
  assumes "retry_runs f s r" "P s" "\<And>s e s'. P s \<Longrightarrow> f s = Ret (e, s') \<Longrightarrow> P s'"
    and "r = Ret (e, s')"
  shows "P s'"
  using assms(1,2,4) by (induction rule: retry_runs.induct) (auto dest: assms(3))

record world =
  w_ext :: ext
  w_env :: env
  w_rng :: range_order

section \<open>A concrete world\<close>

text \<open>
  An instance of the parameters, on which the hypotheses of the theorems are shown to hold:
  conditions as a list with one entry per type, one run per retry, and answers that do not
  depend on the history.
\<close>

definition split_last :: "string \<Rightarrow> string \<Rightarrow> string \<times> string" where
  "split_last t sep = (rev (drop (length sep) (dropWhile (\<lambda>c. [c] \<noteq> sep) (rev t))), rev (takeWhile (\<lambda>c. [c] \<noteq> sep) (rev t)))"

definition status_of :: "string \<Rightarrow> GenericCondition list \<Rightarrow> string option" where
  "status_of c cs = map_option gc_Status (find (\<lambda>g. gc_Type g = c) cs)"

definition set_status :: "string \<Rightarrow> string \<Rightarrow> GenericCondition list \<Rightarrow> GenericCondition list" where
  "set_status c v cs =
     (if list_ex (\<lambda>g. gc_Type g = c) cs then map (\<lambda>g. if gc_Type g = c then g\<lparr>gc_Status := v\<rparr> else g) cs
      else cs @ [\<lparr>gc_Type = c, gc_Status = v, gc_LastUpdateTime = [], gc_LastTransitionTime = [], gc_Reason = [], gc_Message = []\<rparr>])"

lemma status_of_map:
  "status_of c (map (\<lambda>g. if gc_Type g = d then g\<lparr>gc_Status := v\<rparr> else g) cs) =
   (if c = d then (if list_ex (\<lambda>g. gc_Type g = c) cs then Some v else None) else status_of c cs)"
  by (induction cs) (auto simp: status_of_def)

lemma status_of_snoc:
  "status_of c (cs @ [g]) = (if list_ex (\<lambda>g. gc_Type g = c) cs then status_of c cs else if gc_Type g = c then Some (gc_Status g) else status_of c cs)"
  by (induction cs) (auto simp: status_of_def)

lemma status_of_set_status [simp]:
  "status_of c (set_status d v cs) = (if c = d then Some v else status_of c cs)"
  by (auto simp: set_status_def status_of_map status_of_snoc)

definition example_ext :: ext where
  "example_ext = \<lparr>x_RSplit = split_last,
     x_IsTrue = (\<lambda>c cs. status_of c cs = Some ''True''), x_IsFalse = (\<lambda>c cs. status_of c cs = Some ''False''),
     x_SetStatus = set_status, x_Reason = (\<lambda>_ _ cs. cs), x_Message = (\<lambda>_ _ cs. cs),
     x_SetError = (\<lambda>c _ e. set_status c (if e = None then ''True'' else ''False'')), x_LastUpdated = (\<lambda>_ _ cs. cs),
     x_MarshalNetworks = (\<lambda>ns. Inr (concat (map (\<lambda>(a, b, c). a @ ''/'' @ b @ ''@'' @ c) ns))),
     x_UnmarshalStrings = (\<lambda>t. Inr [t]), x_UnmarshalMap = (\<lambda>_. Inr Map.empty), x_Sha256Hex = (\<lambda>_. replicate 64 (CHR ''0'')),
     x_PoolStatusEqual = (=), x_VmStatusEqual = (=), x_RetryOnConflict = (\<lambda>f s. f s),
     x_AnnotationMacAddressName = ''harvesterhci.io/mac-address''\<rparr>"

lemma example_ext_laws: "cond_laws example_ext" "set_error_laws example_ext" "retry_law example_ext"
  by (auto simp: cond_laws_def set_error_laws_def retry_law_def example_ext_def intro: retry_runs.last)

lemma example_ext_simps [simp]:
  "x_RSplit example_ext = split_last" "x_IsTrue example_ext c cs \<longleftrightarrow> status_of c cs = Some ''True''"
  "x_SetStatus example_ext = set_status" "x_RetryOnConflict example_ext f = f"
  "x_MarshalNetworks example_ext ns = Inr (concat (map (\<lambda>(a, b, c). a @ ''/'' @ b @ ''@'' @ c) ns))"
  by (simp_all add: example_ext_def)

lemma status_of_Nil [simp]: "status_of c [] = None"
  by (simp add: status_of_def)

definition missing :: go_error where "missing = StatusError NotFound ''not found''"

definition example_env :: env where
  "example_env = \<lparr>e_nad = (\<lambda>_. Inl missing), e_pod = (\<lambda>_. Inl missing), e_done = (\<lambda>_. None), e_ippool = (\<lambda>_. Inl missing),
     e_vmnetcfg = (\<lambda>_. Inl missing), e_vmnetcfgs = (\<lambda>_. Inr []), e_gather = (\<lambda>_. Inr []), e_now = length, e_lookup = (\<lambda>_. ([], None))\<rparr>"

definition example_world :: world where
  "example_world = \<lparr>w_ext = example_ext, w_env = example_env, w_rng = sorted_list_of_set\<rparr>"

lemma example_world_simps [simp]:
  "w_ext example_world = example_ext" "w_env example_world = example_env" "w_rng example_world = sorted_list_of_set"
  by (simp_all add: example_world_def)

definition start_state :: ctl where
  "start_state = \<lparr>ipAllocator = NewIPAllocator, cacheAllocator = NewCacheAllocator, calls = []\<rparr>"

end
