(* ===== verification/Util.thy ===== *)
theory Util
  imports World
begin

text \<open>
  \<open>pkg/util\<close> and \<open>pkg/indexer\<close>: loading a pool specification, classifying the allocation
  record of a pool, range tests, the name of the agent pod, the service CIDR of a node, and the
  index of network configurations by network.
\<close>

section \<open>network.go\<close>

definition ExcludedMark :: string where "ExcludedMark = ''EXCLUDED''"
definition ReservedMark :: string where "ReservedMark = ''RESERVED''"

record PoolInfo =
  pi_IPNet :: "IPNet option"
  pi_NetworkIPAddr :: addr
  pi_BroadcastIPAddr :: addr
  pi_StartIPAddr :: addr
  pi_EndIPAddr :: addr
  pi_ServerIPAddr :: addr
  pi_RouterIPAddr :: addr

definition NodeArgsAnnotationKey :: string where "NodeArgsAnnotationKey = ''rke2.io/node-args''"
definition ServiceCIDRFlag :: string where "ServiceCIDRFlag = ''--service-cidr''"

text \<open>The scan for the flag: the index after its first occurrence, 0 when it is absent.\<close>

fun find_flag :: "nat \<Rightarrow> string list \<Rightarrow> nat" where
  "find_flag i [] = 0"
| "find_flag i (v # vs) = (if v = ServiceCIDRFlag then i + 1 else find_flag (i + 1) vs)"

definition GetServiceCIDRFromNode :: "ext \<Rightarrow> Node \<Rightarrow> string gores" where
  "GetServiceCIDRFromNode x node =
     (case node_Annotations node of
        None \<Rightarrow> ([], Some (Errorf (''service CIDR not found for node '' @ node_Name node)))
      | Some an \<Rightarrow>
          (case an NodeArgsAnnotationKey of
             None \<Rightarrow> ([], Some (Errorf (''annotation '' @ NodeArgsAnnotationKey @ '' not found for node '' @ node_Name node)))
           | Some nodeArgs \<Rightarrow>
               (case x_UnmarshalStrings x nodeArgs of
                  Inl e \<Rightarrow> ([], Some e)
                | Inr argList \<Rightarrow>
                    let i = find_flag 0 argList
                    in if i = 0 \<or> i \<ge> length argList
                       then ([], Some (Errorf (''serviceCIDR not found for node '' @ node_Name node)))
                       else (argList ! i, None))))"

text \<open>
  The broadcast address of \<open>LoadCIDR\<close>, byte by byte over the network address; the mask has
  the same length.
\<close>

fun or_not_mask :: "net_ip \<Rightarrow> ip_mask \<Rightarrow> net_ip" where
  "or_not_mask (IP4 w) (Mask4 m) = IP4 (w OR NOT m)"
| "or_not_mask (IP4 w) (Mask16 m) = IP4 (w OR NOT (ucast (drop_bit 96 m)))"
| "or_not_mask (IP16 w) (Mask16 m) = IP16 (w OR NOT m)"
| "or_not_mask ip m = NilIP"

definition LoadCIDR :: "string \<Rightarrow> (IPNet option \<times> addr \<times> addr) gores" where
  "LoadCIDR cidr =
     (case ParseCIDR cidr of
        ((_, net), Some e) \<Rightarrow> ((net, Invalid, Invalid), Some e)
      | ((_, None), None) \<Rightarrow> ((None, Invalid, Invalid), None)
      | ((_, Some net), None) \<Rightarrow>
          (case AddrFromSlice (IPNet_IP net) of (networkIPAddr, ok) \<Rightarrow>
             if \<not> ok then ((Some net, networkIPAddr, Invalid), Some (Errorf (''cannot convert ip address '' @ IP_String (IPNet_IP net))))
             else let bip = or_not_mask (IPNet_IP net) (IPNet_Mask net)
                  in case AddrFromSlice bip of (broadcastIPAddr, ok2) \<Rightarrow>
                    if \<not> ok2 then ((Some net, networkIPAddr, broadcastIPAddr), Some (Errorf (''cannot convert ip address '' @ IP_String bip)))
                    else ((Some net, networkIPAddr, broadcastIPAddr), None)))"

text \<open>An optional address of the specification: the zero value when the field is empty.\<close>

definition load_addr :: "string \<Rightarrow> addr gores" where
  "load_addr s = (if s = [] then (Invalid, None) else ParseAddr s)"

definition LoadPool :: "IPPool \<Rightarrow> PoolInfo gores" where
  "LoadPool ipPool =
     (let cfg = ps_IPv4Config (ip_Spec ipPool) in
      case LoadCIDR (c4_CIDR cfg) of ((net, nw, bc), err) \<Rightarrow>
      let pi0 = \<lparr>pi_IPNet = net, pi_NetworkIPAddr = nw, pi_BroadcastIPAddr = bc, pi_StartIPAddr = Invalid,
                 pi_EndIPAddr = Invalid, pi_ServerIPAddr = Invalid, pi_RouterIPAddr = Invalid\<rparr> in
      case err of Some e \<Rightarrow> (pi0, Some e) | None \<Rightarrow>
      (case load_addr (pl_Start (c4_Pool cfg)) of (a1, err1) \<Rightarrow>
       let pi1 = pi0\<lparr>pi_StartIPAddr := a1\<rparr> in
       case err1 of Some e \<Rightarrow> (pi1, Some e) | None \<Rightarrow>
       (case load_addr (pl_End (c4_Pool cfg)) of (a2, err2) \<Rightarrow>
        let pi2 = pi1\<lparr>pi_EndIPAddr := a2\<rparr> in
        case err2 of Some e \<Rightarrow> (pi2, Some e) | None \<Rightarrow>
        (case load_addr (c4_ServerIP cfg) of (a3, err3) \<Rightarrow>
         let pi3 = pi2\<lparr>pi_ServerIPAddr := a3\<rparr> in
         case err3 of Some e \<Rightarrow> (pi3, Some e) | None \<Rightarrow>
         (case load_addr (c4_Router cfg) of (a4, err4) \<Rightarrow> (pi3\<lparr>pi_RouterIPAddr := a4\<rparr>, err4))))))"

text \<open>
  The loop of \<open>LoadAllocated\<close>: unparsable keys are skipped, the others go to the list that
  their mark selects.
\<close>

fun load_allocated :: "labels \<Rightarrow> string list \<Rightarrow> addr list \<times> addr list \<times> addr list \<Rightarrow> addr list \<times> addr list \<times> addr list" where
  "load_allocated m [] acc = acc"
| "load_allocated m (ip # ks) (al, ex, rs) =
     (case ParseAddr ip of
        (_, Some _) \<Rightarrow> load_allocated m ks (al, ex, rs)
      | (a, None) \<Rightarrow>
          load_allocated m ks
            (if m ip = Some ExcludedMark then (al, ex @ [a], rs)
             else if m ip = Some ReservedMark then (al, ex, rs @ [a])
             else (al @ [a], ex, rs)))"

definition LoadAllocated :: "range_order \<Rightarrow> labels option \<Rightarrow> addr list \<times> addr list \<times> addr list" where
  "LoadAllocated rng allocated =
     (let m = nil_make allocated in load_allocated m (rng (dom m)) ([], [], []))"

definition IsIPAddrInList :: "addr \<Rightarrow> addr list \<Rightarrow> bool" where
  "IsIPAddrInList a as \<longleftrightarrow> list_ex (\<lambda>b. a = b) as"

definition IsIPInBetweenOf :: "string \<Rightarrow> string \<Rightarrow> string \<Rightarrow> bool" where
  "IsIPInBetweenOf ip ip1 ip2 =
     (case (ParseAddr ip, ParseAddr ip1, ParseAddr ip2) of
        ((a, None), (a1, None), (a2, None)) \<Rightarrow> Compare a a1 \<ge> 0 \<and> Compare a a2 \<le> 0
      | _ \<Rightarrow> False)"

section \<open>common.go\<close>

definition GroupName :: string where "GroupName = ''network.harvesterhci.io''"
definition IPPoolNamespaceLabelKey :: string where "IPPoolNamespaceLabelKey = GroupName @ ''/ippool-namespace''"
definition IPPoolNameLabelKey :: string where "IPPoolNameLabelKey = GroupName @ ''/ippool-name''"

definition agentConcatName :: "string list \<Rightarrow> string" where
  "agentConcatName name = join ''-'' (name @ [''agent''])"

definition is_lower_alnum :: "char \<Rightarrow> bool" where
  "is_lower_alnum c \<longleftrightarrow> CHR ''a'' \<le> c \<and> c \<le> CHR ''z'' \<or> CHR ''0'' \<le> c \<and> c \<le> CHR ''9''"

definition SafeAgentConcatName :: "ext \<Rightarrow> string list \<Rightarrow> string" where
  "SafeAgentConcatName x name =
     (let fullPath = join ''-'' name in
      if length fullPath < 58 then agentConcatName [fullPath]
      else let digest = x_Sha256Hex x fullPath in
           if is_lower_alnum (fullPath ! 50) then agentConcatName [take 51 fullPath, take 5 digest]
           else agentConcatName [take 50 fullPath, take 6 digest])"

section \<open>vmnetcfg.go and indexer.go\<close>

definition VmNetCfgByNetworkIndex :: string where
  "VmNetCfgByNetworkIndex = ''network.harvesterhci.io/vmnetcfg-by-network''"

definition VmNetCfgByNetwork :: "VirtualMachineNetworkConfig \<Rightarrow> string list gores" where
  "VmNetCfgByNetwork obj = (map nc_NetworkName (vs_NetworkConfigs (vm_Spec obj)), None)"

definition WhoUseIPPool :: "env \<Rightarrow> IPPool \<Rightarrow> ctl \<Rightarrow> (go_error + VirtualMachineNetworkConfig list) \<times> ctl" where
  "WhoUseIPPool v ipPool s =
     (let networkName = om_Namespace (ip_Meta ipPool) @ ''/'' @ om_Name (ip_Meta ipPool)
      in ask (e_vmnetcfgs v) (VmNetCfgByIndex VmNetCfgByNetworkIndex networkName) s)"

end
