(* ===== verification/Metrics.thy ===== *)
theory Metrics
  imports Util
begin

text \<open>
  \<open>pkg/metrics/metrics.go\<close>: the gauges that the controllers keep up to date.  The Prometheus
  library is outside the repository; an update of a gauge is a call to it.
\<close>

section \<open>Operations\<close>

definition LabelIPPoolName :: string where "LabelIPPoolName = ''ippool''"
definition LabelCIDR :: string where "LabelCIDR = ''cidr''"
definition LabelNetworkName :: string where "LabelNetworkName = ''network''"
definition LabelVmNetCfgName :: string where "LabelVmNetCfgName = ''vmnetcfg''"
definition LabelMACAddress :: string where "LabelMACAddress = ''mac''"
definition LabelIPAddress :: string where "LabelIPAddress = ''ip''"
definition LabelState :: string where "LabelState = ''state''"

definition pool_labels :: "string \<Rightarrow> string \<Rightarrow> string \<Rightarrow> (string \<times> string) list" where
  "pool_labels name cidr networkName =
     [(LabelIPPoolName, name), (LabelCIDR, cidr), (LabelNetworkName, networkName)]"

definition UpdateIPPoolUsed :: "string \<Rightarrow> string \<Rightarrow> string \<Rightarrow> nat \<Rightarrow> ctl \<Rightarrow> ctl" where
  "UpdateIPPoolUsed name cidr networkName used = emit (GaugeSet IPPoolUsed (pool_labels name cidr networkName) used)"

definition UpdateIPPoolAvailable :: "string \<Rightarrow> string \<Rightarrow> string \<Rightarrow> nat \<Rightarrow> ctl \<Rightarrow> ctl" where
  "UpdateIPPoolAvailable name cidr networkName available =
     emit (GaugeSet IPPoolAvailable (pool_labels name cidr networkName) available)"

definition DeleteIPPool :: "string \<Rightarrow> string \<Rightarrow> string \<Rightarrow> ctl \<Rightarrow> ctl" where
  "DeleteIPPool name cidr networkName s =
     emit (GaugeDelete IPPoolAvailable (pool_labels name cidr networkName))
       (emit (GaugeDelete IPPoolUsed (pool_labels name cidr networkName)) s)"

definition UpdateVmNetCfgStatus :: "string \<Rightarrow> string \<Rightarrow> string \<Rightarrow> string \<Rightarrow> string \<Rightarrow> ctl \<Rightarrow> ctl" where
  "UpdateVmNetCfgStatus name networkName macAddress ipAddress state =
     emit (GaugeSet VmNetCfgStatusGauge
       [(LabelVmNetCfgName, name), (LabelNetworkName, networkName), (LabelMACAddress, macAddress),
        (LabelIPAddress, ipAddress), (LabelState, state)] 1)"

text \<open>
  \<open>DeleteVmNetCfgStatus\<close> gathers all metrics and deletes those of the family whose label
  \<open>vmnetcfg\<close> has the given value.
\<close>

definition metrics_of :: "string \<Rightarrow> (string \<times> (string \<times> string) list list) list \<Rightarrow> (string \<times> string) list list" where
  "metrics_of name mfs =
     concat (map (\<lambda>(fam, ms). if fam = ''vmdhcpcontroller_vmnetcfg_status''
                              then filter (\<lambda>ls. (LabelVmNetCfgName, name) \<in> set ls) ms else []) mfs)"

definition DeleteVmNetCfgStatus :: "env \<Rightarrow> string \<Rightarrow> ctl \<Rightarrow> ctl" where
  "DeleteVmNetCfgStatus v name s =
     (case ask (e_gather v) Gather s of
        (Inl e, s1) \<Rightarrow> s1
      | (Inr mfs, s1) \<Rightarrow> fold (\<lambda>ls. emit (GaugeDelete VmNetCfgStatusGauge ls)) (metrics_of name mfs) s1)"

section \<open>What the calls leave in a gauge\<close>

text \<open>
  The value of a gauge under a label set after a sequence of calls: what the last update stored,
  unless a deletion of the same label set came after it.
\<close>

fun gauge_value :: "gauge \<Rightarrow> (string \<times> string) list \<Rightarrow> call list \<Rightarrow> nat option \<Rightarrow> nat option" where
  "gauge_value g ls [] v = v"
| "gauge_value g ls (GaugeSet g' ls' n # cs) v = gauge_value g ls cs (if g' = g \<and> set ls' = set ls then Some n else v)"
| "gauge_value g ls (GaugeDelete g' ls' # cs) v = gauge_value g ls cs (if g' = g \<and> set ls' = set ls then None else v)"
| "gauge_value g ls (_ # cs) v = gauge_value g ls cs v"

lemma gauge_value_append: "gauge_value g ls (cs @ ds) v = gauge_value g ls ds (gauge_value g ls cs v)"
  by (induction g ls cs v rule: gauge_value.induct) auto

lemma pool_labels_inject: "set (pool_labels a b c) = set (pool_labels d b c) \<Longrightarrow> a = d"
proof -
  assume "set (pool_labels a b c) = set (pool_labels d b c)"
  moreover have "(LabelIPPoolName, a) \<in> set (pool_labels a b c)" by (simp add: pool_labels_def)
  ultimately have "(LabelIPPoolName, a) \<in> set (pool_labels d b c)" by simp
  then show "a = d" by (simp add: pool_labels_def LabelIPPoolName_def LabelCIDR_def LabelNetworkName_def)
qed

section \<open>Frame\<close>

lemma metrics_frame [simp]:
  "ipAllocator (UpdateIPPoolUsed a b c n s) = ipAllocator s" "cacheAllocator (UpdateIPPoolUsed a b c n s) = cacheAllocator s"
  "ipAllocator (UpdateIPPoolAvailable a b c n s) = ipAllocator s" "cacheAllocator (UpdateIPPoolAvailable a b c n s) = cacheAllocator s"
  "ipAllocator (DeleteIPPool a b c s) = ipAllocator s" "cacheAllocator (DeleteIPPool a b c s) = cacheAllocator s"
  "ipAllocator (UpdateVmNetCfgStatus a b c d e s) = ipAllocator s" "cacheAllocator (UpdateVmNetCfgStatus a b c d e s) = cacheAllocator s"
  by (simp_all add: UpdateIPPoolUsed_def UpdateIPPoolAvailable_def DeleteIPPool_def UpdateVmNetCfgStatus_def)

lemma fold_emit_frame:
  "ipAllocator (fold (\<lambda>x. emit (f x)) xs s) = ipAllocator s" "cacheAllocator (fold (\<lambda>x. emit (f x)) xs s) = cacheAllocator s"
  by (induction xs arbitrary: s) simp_all

lemma fold_emit_calls: "calls (fold (\<lambda>x. emit (f x)) xs s) = calls s @ map f xs"
  by (induction xs arbitrary: s) simp_all

lemma DeleteVmNetCfgStatus_frame [simp]:
  "ipAllocator (DeleteVmNetCfgStatus v n s) = ipAllocator s" "cacheAllocator (DeleteVmNetCfgStatus v n s) = cacheAllocator s"
  by (simp_all add: DeleteVmNetCfgStatus_def ask_def fold_emit_frame split: sum.splits)

end
