(* ===== verification/Ippool_Controller.thy ===== *)
theory Ippool_Controller
  imports Metrics
begin

text \<open>
  \<open>pkg/controller/ippool\<close>: the controller of IPPool objects.  \<open>OnChange\<close> keeps the
  status of a pool in line with the IPAM and handles pausing, \<open>OnRemove\<close> tears a pool down,
  and three status handlers deploy the agent pod, (re)build the caches from the object and
  watch the agent.
\<close>

section \<open>Constants and the handler\<close>

definition multusNetworksAnnotationKey :: string where
  "multusNetworksAnnotationKey = ''k8s.v1.cni.cncf.io/networks''"
definition holdIPPoolAgentUpgradeAnnotationKey :: string where
  "holdIPPoolAgentUpgradeAnnotationKey = ''network.harvesterhci.io/hold-ippool-agent-upgrade''"
definition vmDHCPControllerLabelKey :: string where
  "vmDHCPControllerLabelKey = GroupName @ ''/vm-dhcp-controller''"
definition clusterNetworkLabelKey :: string where
  "clusterNetworkLabelKey = GroupName @ ''/clusternetwork''"

definition newline :: string where "newline = [char_of (10 :: nat)]"

definition setIPAddrScript :: "string \<Rightarrow> nat \<Rightarrow> string" where
  "setIPAddrScript serverIP prefixLength =
     newline @ ''#!/usr/bin/env sh'' @ newline @ ''set -ex'' @ newline @ newline
     @ ''ip address flush dev eth1'' @ newline
     @ ''ip address add '' @ serverIP @ ''/'' @ dec_string prefixLength @ '' dev eth1'' @ newline"

record Handler =
  agentNamespace :: string
  agentImage :: Image
  agentServiceAccountName :: string
  noAgent :: bool
  noDHCP :: bool

abbreviation pool_network :: "IPPool \<Rightarrow> string" where
  "pool_network p \<equiv> ps_NetworkName (ip_Spec p)"

abbreviation pool_config :: "IPPool \<Rightarrow> IPv4Config" where
  "pool_config p \<equiv> ps_IPv4Config (ip_Spec p)"

abbreviation pool_paused :: "IPPool \<Rightarrow> bool" where
  "pool_paused p \<equiv> is_paused (ps_Paused (ip_Spec p))"

definition pool_key_name :: "IPPool \<Rightarrow> string" where
  "pool_key_name p = om_Namespace (ip_Meta p) @ ''/'' @ om_Name (ip_Meta p)"

definition disabled_error :: "string \<Rightarrow> string \<Rightarrow> go_error" where
  "disabled_error kind key = Errorf (kind @ '' '' @ key @ '' was administratively disabled'')"

section \<open>The agent pod\<close>

definition prepareAgentPod :: "ext \<Rightarrow> IPPool \<Rightarrow> bool \<Rightarrow> string \<Rightarrow> string \<Rightarrow> string \<Rightarrow> Image \<Rightarrow> go_error + Pod" where
  "prepareAgentPod x ipPool noDhcp ns clusterNetwork sa img =
     (let name = SafeAgentConcatName x [om_Namespace (ip_Meta ipPool), om_Name (ip_Meta ipPool)];
          (nadNamespace, nadName) = x_RSplit x (pool_network ipPool) ''/''
      in case x_MarshalNetworks x [(nadNamespace, nadName, ''eth1'')] of
           Inl e \<Rightarrow> Inl e
         | Inr networksStr \<Rightarrow>
             (case ParseCIDR (c4_CIDR (pool_config ipPool)) of
                (_, Some e) \<Rightarrow> Inl e
              | ((_, net), None) \<Rightarrow>
                  let prefixLength = (case net of None \<Rightarrow> 0 | Some n \<Rightarrow> Mask_Size (IPNet_Mask n));
                      args = [''--ippool-ref'', pool_key_name ipPool] @ (if noDhcp then [''--dry-run''] else [])
                  in Inr \<lparr>pod_Meta = (empty_meta ns name)
                         \<lparr>om_Annotations := Some [multusNetworksAnnotationKey \<mapsto> networksStr],
                          om_Labels := Some [vmDHCPControllerLabelKey \<mapsto> ''agent'',
                                             IPPoolNamespaceLabelKey \<mapsto> om_Namespace (ip_Meta ipPool),
                                             IPPoolNameLabelKey \<mapsto> om_Name (ip_Meta ipPool)]\<rparr>,
                       pod_NodeAffinity = [(GroupName @ ''/'' @ clusterNetwork, [''true''])],
                       pod_ServiceAccountName = sa,
                       pod_InitContainers =
                         [\<lparr>ct_Name = ''ip-setter'', ct_Image = Image_String img,
                           ct_Command = [''/bin/sh'', ''-c'', setIPAddrScript (c4_ServerIP (pool_config ipPool)) prefixLength],
                           ct_Args = [], ct_Env = [], ct_Capabilities = [''NET_ADMIN''],
                           ct_LivenessPath = None, ct_ReadinessPath = None\<rparr>],
                       pod_Containers =
                         [\<lparr>ct_Name = ''agent'', ct_Image = Image_String img, ct_Command = [], ct_Args = args,
                           ct_Env = [(''VM_DHCP_AGENT_NAME'', name)], ct_Capabilities = [''NET_ADMIN''],
                           ct_LivenessPath = Some ''/healthz'', ct_ReadinessPath = Some ''/readyz''\<rparr>],
                       pod_Conditions = []\<rparr>))"

definition isPodReady :: "Pod \<Rightarrow> bool" where
  "isPodReady pod =
     (case find (\<lambda>c. fst c = ''Ready'') (pod_Conditions pod) of
        None \<Rightarrow> False
      | Some c \<Rightarrow> snd c = ''True'')"

text \<open>Only called when the status has an agent reference; without one the Go code panics.\<close>

definition getAgentImage :: "Handler \<Rightarrow> IPPool \<Rightarrow> string outcome" where
  "getAgentImage h ipPool =
     (if nil_lookup (om_Annotations (ip_Meta ipPool)) holdIPPoolAgentUpgradeAnnotationKey \<noteq> None
      then (case st_AgentPodRef (ip_Status ipPool) of
              None \<Rightarrow> Panic ''nil pointer dereference''
            | Some ref \<Rightarrow> Ret (pr_Image ref))
      else Ret (Image_String (agentImage h)))"

section \<open>Shared steps\<close>

definition ippool_cleanup :: "world \<Rightarrow> IPPool \<Rightarrow> ctl \<Rightarrow> go_error option \<times> ctl" where
  "ippool_cleanup W ipPool s =
     (case st_AgentPodRef (ip_Status ipPool) of
        None \<Rightarrow> (None, s)
      | Some ref \<Rightarrow>
          (case ask (e_done (w_env W)) (PodDelete (pr_Namespace ref) (pr_Name ref)) s of (err, s1) \<Rightarrow>
             if err \<noteq> None \<and> \<not> IsNotFound (the err) then (err, s1)
             else (None,
               DeleteIPPool (pool_network ipPool) (c4_CIDR (pool_config ipPool)) (pool_network ipPool)
                 (s1\<lparr>ipAllocator := DeleteIPSubnet (ipAllocator s1) (pool_network ipPool),
                     cacheAllocator := DeleteMACSet (cacheAllocator s1) (pool_network ipPool)\<rparr>))))"

definition ensureNADLabels :: "world \<Rightarrow> IPPool \<Rightarrow> ctl \<Rightarrow> go_error option \<times> ctl" where
  "ensureNADLabels W ipPool s =
     (let (nadNamespace, nadName) = x_RSplit (w_ext W) (pool_network ipPool) ''/'' in
      case ask (e_nad (w_env W)) (NadGet nadNamespace nadName) s of
        (Inl e, s1) \<Rightarrow> (Some e, s1)
      | (Inr nad, s1) \<Rightarrow>
          let nadCpy = nad\<lparr>nad_Meta := (nad_Meta nad)\<lparr>om_Labels :=
                Some ((nil_make (om_Labels (nad_Meta nad)))
                  (IPPoolNamespaceLabelKey \<mapsto> om_Namespace (ip_Meta ipPool),
                   IPPoolNameLabelKey \<mapsto> om_Name (ip_Meta ipPool)))\<rparr>\<rparr>
          in if nadCpy \<noteq> nad
             then (case ask (e_nad (w_env W)) (NadUpdate nadCpy) s1 of
                     (Inl e, s2) \<Rightarrow> (Some e, s2)
                   | (Inr _, s2) \<Rightarrow> (None, s2))
             else (None, s1))"

definition ippool_UpdateStatus :: "world \<Rightarrow> IPPool \<Rightarrow> ctl \<Rightarrow> (IPPool option \<times> go_error option) \<times> ctl" where
  "ippool_UpdateStatus W p s =
     (case ask (e_ippool (w_env W)) (IPPoolUpdateStatus p) s of
        (Inl e, s1) \<Rightarrow> ((None, Some e), s1)
      | (Inr p', s1) \<Rightarrow> ((Some p', None), s1))"

section \<open>OnChange\<close>

text \<open>The marks that \<open>OnChange\<close> writes into the allocation record of the pool.\<close>

definition mark_reserved :: "IPv4Config \<Rightarrow> labels \<Rightarrow> labels" where
  "mark_reserved cfg allocated =
     (let inb = (\<lambda>ip. IsIPInBetweenOf ip (pl_Start (c4_Pool cfg)) (pl_End (c4_Pool cfg)));
          a1 = (if inb (c4_ServerIP cfg) then allocated(c4_ServerIP cfg \<mapsto> ReservedMark) else allocated);
          a2 = (if inb (c4_Router cfg) then a1(c4_Router cfg \<mapsto> ReservedMark) else a1)
      in fold (\<lambda>eIP m. m(eIP \<mapsto> ExcludedMark)) (pl_Exclude (c4_Pool cfg)) a2)"

text \<open>The last part of \<open>OnChange\<close>: refresh the status from the IPAM and store it if it changed.\<close>

definition ippool_refresh :: "world \<Rightarrow> string \<Rightarrow> IPPool \<Rightarrow> IPPool \<Rightarrow> ctl \<Rightarrow> (IPPool option \<times> go_error option) \<times> ctl" where
  "ippool_refresh W key ipPool ipPoolCpy s =
     (let ipv4Status = (case st_IPv4 (ip_Status ipPoolCpy) of None \<Rightarrow> new_IPv4Status | Some st \<Rightarrow> st) in
      case GetUsed (w_rng W) (ipAllocator s) (pool_network ipPool) of
        (_, Some e) \<Rightarrow> ((None, Some e), s)
      | (used, None) \<Rightarrow>
          (case GetAvailable (w_rng W) (ipAllocator s) (pool_network ipPool) of
             (_, Some e) \<Rightarrow> ((None, Some e), s)
           | (available, None) \<Rightarrow>
               let cfg = pool_config ipPool;
                   s1 = UpdateIPPoolAvailable key (c4_CIDR cfg) (pool_network ipPool) available
                          (UpdateIPPoolUsed key (c4_CIDR cfg) (pool_network ipPool) used s);
                   allocated = mark_reserved cfg (nil_make (s4_Allocated ipv4Status));
                   st' = ipv4Status\<lparr>s4_Used := used, s4_Available := available,
                           s4_Allocated := (if allocated = Map.empty then None else Some allocated)\<rparr>;
                   cpy = ipPoolCpy\<lparr>ip_Status := (ip_Status ipPoolCpy)\<lparr>st_IPv4 := Some st'\<rparr>\<rparr>
               in if cpy \<noteq> ipPool
                  then (case ask (e_now (w_env W)) Now s1 of (t, s2) \<Rightarrow>
                          ippool_UpdateStatus W (cpy\<lparr>ip_Status := (ip_Status cpy)\<lparr>st_LastUpdate := t\<rparr>\<rparr>) s2)
                  else ((Some ipPool, None), s1)))"

definition set_conditions :: "(GenericCondition list \<Rightarrow> GenericCondition list) \<Rightarrow> IPPool \<Rightarrow> IPPool" where
  "set_conditions f p = p\<lparr>ip_Status := (ip_Status p)\<lparr>st_Conditions := f (st_Conditions (ip_Status p))\<rparr>\<rparr>"

definition ippool_OnChange :: "world \<Rightarrow> string \<Rightarrow> IPPool option \<Rightarrow> ctl \<Rightarrow> (IPPool option \<times> go_error option) \<times> ctl" where
  "ippool_OnChange W key obj s =
     (case obj of
        None \<Rightarrow> ((None, None), s)
      | Some ipPool \<Rightarrow>
          if om_DeletionTimestamp (ip_Meta ipPool) \<noteq> None then ((None, None), s)
          else (case ensureNADLabels W ipPool s of
            (Some e, s1) \<Rightarrow> ((Some ipPool, Some e), s1)
          | (None, s1) \<Rightarrow>
              if pool_paused ipPool then
                (case ippool_cleanup W ipPool s1 of
                   (Some e, s2) \<Rightarrow> ((Some ipPool, Some e), s2)
                 | (None, s2) \<Rightarrow>
                     let cpy = set_conditions (cond_True (w_ext W) Stopped)
                                 (ipPool\<lparr>ip_Status := (ip_Status ipPool)\<lparr>st_AgentPodRef := None\<rparr>\<rparr>)
                     in if cpy \<noteq> ipPool then ippool_UpdateStatus W cpy s2 else ((Some ipPool, None), s2))
              else
                let cpy = set_conditions (cond_False (w_ext W) Stopped) ipPool in
                if \<not> IsNetworkInitialized (ipAllocator s1) (pool_network ipPool) then
                  let cpy' = set_conditions (\<lambda>cs. x_Message (w_ext W) CacheReady []
                               (x_Reason (w_ext W) CacheReady ''NotInitialized'' (cond_False (w_ext W) CacheReady cs))) cpy
                  in if cpy' \<noteq> ipPool then ippool_UpdateStatus W cpy' s1
                     else ippool_refresh W key ipPool cpy' s1
                else ippool_refresh W key ipPool cpy s1))"

definition ippool_OnRemove :: "world \<Rightarrow> Handler \<Rightarrow> IPPool option \<Rightarrow> ctl \<Rightarrow> (IPPool option \<times> go_error option) \<times> ctl" where
  "ippool_OnRemove W h obj s =
     (case obj of
        None \<Rightarrow> ((None, None), s)
      | Some ipPool \<Rightarrow>
          if noAgent h then ((Some ipPool, None), s)
          else (case ippool_cleanup W ipPool s of (err, s1) \<Rightarrow> ((Some ipPool, err), s1)))"

section \<open>DeployAgent\<close>

definition deploy_new :: "world \<Rightarrow> Handler \<Rightarrow> IPPool \<Rightarrow> IPPoolStatus \<Rightarrow> string \<Rightarrow> ctl \<Rightarrow> IPPoolStatus gores \<times> ctl" where
  "deploy_new W h ipPool status clusterNetwork s =
     (case prepareAgentPod (w_ext W) ipPool (noDHCP h) (agentNamespace h) clusterNetwork (agentServiceAccountName h) (agentImage h) of
        Inl e \<Rightarrow> ((status, Some e), s)
      | Inr agent \<Rightarrow>
          let ref = (case st_AgentPodRef status of None \<Rightarrow> new_PodReference | Some r \<Rightarrow> r)\<lparr>pr_Image := Image_String (agentImage h)\<rparr>;
              status1 = status\<lparr>st_AgentPodRef := Some ref\<rparr>
          in case ask (e_pod (w_env W)) (PodCreate agent) s of
               (Inl e, s1) \<Rightarrow> if IsAlreadyExists e then ((status1, None), s1) else ((status1, Some e), s1)
             | (Inr agentPod, s1) \<Rightarrow>
                 ((status1\<lparr>st_AgentPodRef := Some (ref\<lparr>pr_Namespace := om_Namespace (pod_Meta agentPod),
                     pr_Name := om_Name (pod_Meta agentPod), pr_UID := om_UID (pod_Meta agentPod)\<rparr>)\<rparr>, None), s1))"

definition DeployAgent :: "world \<Rightarrow> Handler \<Rightarrow> IPPool \<Rightarrow> IPPoolStatus \<Rightarrow> ctl \<Rightarrow> (IPPoolStatus gores \<times> ctl) outcome" where
  "DeployAgent W h ipPool status s =
     (if pool_paused ipPool then Ret ((status, Some (disabled_error ''ippool'' (pool_key_name ipPool))), s)
      else if noAgent h then Ret ((status, None), s)
      else
        let (nadNamespace, nadName) = x_RSplit (w_ext W) (pool_network ipPool) ''/'' in
        case ask (e_nad (w_env W)) (NadGet nadNamespace nadName) s of
          (Inl e, s1) \<Rightarrow> Ret ((status, Some e), s1)
        | (Inr nad, s1) \<Rightarrow>
            (case nil_lookup (om_Labels (nad_Meta nad)) clusterNetworkLabelKey of
               None \<Rightarrow> Ret ((status, Some (Errorf (''could not find clusternetwork for nad '' @ pool_network ipPool))), s1)
             | Some clusterNetwork \<Rightarrow>
                 (case st_AgentPodRef (ip_Status ipPool) of
                    None \<Rightarrow> Ret (deploy_new W h ipPool status clusterNetwork s1)
                  | Some ref \<Rightarrow>
                      go_bind (getAgentImage h ipPool) (\<lambda>img.
                        case st_AgentPodRef status of
                          None \<Rightarrow> Panic ''nil pointer dereference''
                        | Some sref \<Rightarrow>
                            let status1 = status\<lparr>st_AgentPodRef := Some (sref\<lparr>pr_Image := img\<rparr>)\<rparr> in
                            case ask (e_pod (w_env W)) (PodGet (pr_Namespace ref) (pr_Name ref)) s1 of
                              (Inl e, s2) \<Rightarrow>
                                if \<not> IsNotFound e then Ret ((status1, Some e), s2)
                                else Ret (deploy_new W h ipPool status1 clusterNetwork s2)
                            | (Inr pod, s2) \<Rightarrow>
                                if om_DeletionTimestamp (pod_Meta pod) \<noteq> None
                                then Ret ((status1, Some (Errorf (''agent pod '' @ pr_Name ref @ '' marked for deletion''))), s2)
                                else if om_UID (pod_Meta pod) \<noteq> pr_UID ref
                                then Ret ((status1, Some (Errorf (''agent pod '' @ pr_Name ref @ '' uid mismatch''))), s2)
                                else Ret ((status1, None), s2)))))"

section \<open>BuildCache\<close>

fun revoke_all :: "string \<Rightarrow> string list \<Rightarrow> ctl \<Rightarrow> go_error option \<times> ctl" where
  "revoke_all net [] s = (None, s)"
| "revoke_all net (ip # rest) s =
     (case RevokeIP (ipAllocator s) net ip of
        (a, Some e) \<Rightarrow> (Some e, s\<lparr>ipAllocator := a\<rparr>)
      | (a, None) \<Rightarrow> revoke_all net rest (s\<lparr>ipAllocator := a\<rparr>))"

text \<open>The loop over the allocation record; the marks are skipped.\<close>

fun rebuild :: "range_order \<Rightarrow> string \<Rightarrow> labels \<Rightarrow> string list \<Rightarrow> ctl \<Rightarrow> go_error option \<times> ctl" where
  "rebuild rng net m [] s = (None, s)"
| "rebuild rng net m (ip # ks) s =
     (let mac = the (m ip) in
      if mac = ExcludedMark \<or> mac = ReservedMark then rebuild rng net m ks s
      else (case AllocateIP rng (ipAllocator s) net ip of
          (a, _, Some e) \<Rightarrow> (Some e, s\<lparr>ipAllocator := a\<rparr>)
        | (a, _, None) \<Rightarrow>
            (case AddMAC (cacheAllocator s) net mac ip of
               (c, Some e) \<Rightarrow> (Some e, s\<lparr>ipAllocator := a, cacheAllocator := c\<rparr>)
             | (c, None) \<Rightarrow> rebuild rng net m ks (s\<lparr>ipAllocator := a, cacheAllocator := c\<rparr>))))"

definition BuildCache :: "world \<Rightarrow> IPPool \<Rightarrow> IPPoolStatus \<Rightarrow> ctl \<Rightarrow> (IPPoolStatus gores \<times> ctl) outcome" where
  "BuildCache W ipPool status s =
     (if pool_paused ipPool then Ret ((status, Some (disabled_error ''ippool'' (pool_key_name ipPool))), s)
      else if x_IsTrue (w_ext W) CacheReady (st_Conditions (ip_Status ipPool)) then Ret ((status, None), s)
      else
        let net = pool_network ipPool; cfg = pool_config ipPool in
        go_bind (NewIPSubnet (ipAllocator s) net (c4_CIDR cfg) (pl_Start (c4_Pool cfg)) (pl_End (c4_Pool cfg))) (\<lambda>(a, err).
          case err of
            Some e \<Rightarrow> Ret ((status, Some e), s\<lparr>ipAllocator := a\<rparr>)
          | None \<Rightarrow>
              (case NewMACSet (cacheAllocator s) net of
                 (c, Some e) \<Rightarrow> Ret ((status, Some e), s\<lparr>ipAllocator := a, cacheAllocator := c\<rparr>)
               | (c, None) \<Rightarrow>
                   (case revoke_all net ([c4_ServerIP cfg, c4_Router cfg] @ pl_Exclude (c4_Pool cfg))
                           (s\<lparr>ipAllocator := a, cacheAllocator := c\<rparr>) of
                      (Some e, s1) \<Rightarrow> Ret ((status, Some e), s1)
                    | (None, s1) \<Rightarrow>
                        (case st_IPv4 (ip_Status ipPool) of
                           None \<Rightarrow> Ret ((status, None), s1)
                         | Some st4 \<Rightarrow>
                             let m = nil_make (s4_Allocated st4) in
                             case rebuild (w_rng W) net m (w_rng W (dom m)) s1 of (err2, s2) \<Rightarrow>
                               Ret ((status, err2), s2))))))"

section \<open>MonitorAgent\<close>

definition MonitorAgent :: "world \<Rightarrow> Handler \<Rightarrow> IPPool \<Rightarrow> IPPoolStatus \<Rightarrow> ctl \<Rightarrow> (IPPoolStatus gores \<times> ctl) outcome" where
  "MonitorAgent W h ipPool status s =
     (if pool_paused ipPool then Ret ((status, Some (disabled_error ''ippool'' (pool_key_name ipPool))), s)
      else if noAgent h then Ret ((status, None), s)
      else (case st_AgentPodRef (ip_Status ipPool) of
          None \<Rightarrow> Ret ((status, Some (Errorf (''agent for ippool '' @ pool_key_name ipPool @ '' is not deployed''))), s)
        | Some ref \<Rightarrow>
            (case ask (e_pod (w_env W)) (PodGet (pr_Namespace ref) (pr_Name ref)) s of
               (Inl e, s1) \<Rightarrow> Ret ((status, Some e), s1)
             | (Inr agentPod, s1) \<Rightarrow>
                 let uidDiffers = om_UID (pod_Meta agentPod) \<noteq> pr_UID ref in
                 if \<not> uidDiffers \<and> pod_Containers agentPod = [] then Panic ''index out of range''
                 else if uidDiffers \<or> ct_Image (hd (pod_Containers agentPod)) \<noteq> pr_Image ref then
                   if om_DeletionTimestamp (pod_Meta agentPod) \<noteq> None
                   then Ret ((status, Some (Errorf (''agent pod '' @ om_Name (pod_Meta agentPod) @ '' marked for deletion''))), s1)
                   else (case ask (e_done (w_env W)) (PodDelete (om_Namespace (pod_Meta agentPod)) (om_Name (pod_Meta agentPod))) s1 of
                       (Some e, s2) \<Rightarrow> Ret ((status, Some e), s2)
                     | (None, s2) \<Rightarrow> Ret ((status, Some (Errorf (''agent pod '' @ om_Name (pod_Meta agentPod) @ '' obsolete and purged''))), s2))
                 else if \<not> isPodReady agentPod
                 then Ret ((status, Some (Errorf (''agent pod '' @ om_Name (pod_Meta agentPod) @ '' not ready''))), s1)
                 else Ret ((status, None), s1))))"

end
