(* ===== verification/Ippool_Facts.thy ===== *)
theory Ippool_Facts
  imports Ippool_Controller
begin

text \<open>
  Properties of the IPPool controller: what \<open>BuildCache\<close> loads from the object, that every
  handler keeps the IPAM and the MAC cache consistent, and the behaviour of \<open>OnChange\<close>,
  \<open>DeployAgent\<close> and \<open>MonitorAgent\<close> branch by branch.
\<close>

section \<open>The invariant of the two stores\<close>

definition registry_ok :: "ctl \<Rightarrow> bool" where
  "registry_ok s \<longleftrightarrow> ipam_wf (ipAllocator s) \<and> registry.consistent (ipAllocator s) (cacheAllocator s)"

lemma registry_okI: "ipam_wf (ipAllocator s) \<Longrightarrow> registry.consistent (ipAllocator s) (cacheAllocator s) \<Longrightarrow> registry_ok s"
  by (simp add: registry_ok_def)

lemma registry_okD:
  "registry_ok s \<Longrightarrow> ipam_wf (ipAllocator s)" "registry_ok s \<Longrightarrow> registry.consistent (ipAllocator s) (cacheAllocator s)"
  by (simp_all add: registry_ok_def)

lemma registry_ok_frame:
  "registry_ok s \<Longrightarrow> ipAllocator s' = ipAllocator s \<Longrightarrow> cacheAllocator s' = cacheAllocator s \<Longrightarrow> registry_ok s'"
  by (simp add: registry_ok_def)

lemma registry_ok_emit [simp]: "registry_ok (emit c s) = registry_ok s"
  by (simp add: registry_ok_def)

text \<open>
  An update of both stores for one network is consistent as soon as the new table of that
  network is: the tables and pools of the others are untouched.
\<close>

lemma consistent_upd:
  assumes "registry.consistent a c" "\<And>n'. n' \<noteq> n \<Longrightarrow> pool_of a' n' = pool_of a n'"
    "\<And>n'. n' \<noteq> n \<Longrightarrow> table_of c' n' = table_of c n'"
    "\<And>m. table_of c' n = Some m \<Longrightarrow> map_inj m \<and> ran m \<subseteq> ipam_pool.in_use a' n"
  shows "registry.consistent a' c'"
  unfolding registry.consistent_def
proof (intro allI impI)
  fix n' m assume m: "table_of c' n' = Some m"
  show "map_inj m \<and> ran m \<subseteq> ipam_pool.in_use a' n'"
  proof (cases "n' = n")
    case True
    with m assms(4) show ?thesis by simp
  next
    case False
    with m assms(1-3) show ?thesis by (simp add: registry.consistent_def ipam_pool.in_use_def)
  qed
qed

lemma table_of_new: "table_of (fst (NewMACSet c n)) = (table_of c)(n \<mapsto> Map.empty)"
  by (auto simp: table_of_def NewMACSet_def fun_eq_iff)

lemma table_of_delete: "table_of (DeleteMACSet c n) = (table_of c)(n := None)"
  by (auto simp: table_of_def DeleteMACSet_def fun_eq_iff)

lemma pool_of_delete: "pool_of (DeleteIPSubnet a n) = (pool_of a)(n := None)"
  by (auto simp: pool_of_def DeleteIPSubnet_def fun_eq_iff)

lemma pool_of_revoke:
  "pool_of (fst (RevokeIP a n ip)) = (pool_of a)(n := map_option (\<lambda>m. m(ip := None)) (pool_of a n))"
  by (auto simp: RevokeIP_def pool_of_set_ip pool_of_def fun_eq_iff split: option.splits) (auto simp: pool_of_def set_ip_def)

lemma registry_ok_cleared:
  assumes "registry_ok s"
  shows "registry_ok (s\<lparr>ipAllocator := DeleteIPSubnet (ipAllocator s) n, cacheAllocator := DeleteMACSet (cacheAllocator s) n\<rparr>)"
proof (rule registry_okI)
  show "registry.consistent (ipAllocator (s\<lparr>ipAllocator := DeleteIPSubnet (ipAllocator s) n, cacheAllocator := DeleteMACSet (cacheAllocator s) n\<rparr>))
     (cacheAllocator (s\<lparr>ipAllocator := DeleteIPSubnet (ipAllocator s) n, cacheAllocator := DeleteMACSet (cacheAllocator s) n\<rparr>))"
    by (rule consistent_upd [OF registry_okD(2) [OF assms], of n]) (simp_all add: table_of_delete pool_of_delete)
qed (use assms in \<open>simp add: registry_ok_def DeleteIPSubnet_wf\<close>)

section \<open>Rebuilding the caches\<close>

definition marks :: "string set" where "marks = {ExcludedMark, ReservedMark}"

text \<open>The addresses that the record assigns to a hardware address.\<close>

definition held :: "labels \<Rightarrow> string set" where
  "held m = {ip. \<exists>mac. m ip = Some mac \<and> mac \<notin> marks}"

definition specified :: "string \<Rightarrow> bool" where
  "specified ip \<longleftrightarrow> ip \<noteq> [] \<and> \<not> IsUnspecified (ParseIP ip)"

lemma AllocateIP_specified:
  assumes "go_range rng" "ipam_wf a" "AllocateIP rng a n r = (a', ip, None)" "specified r"
  shows "\<exists>x. ParseIP r = IP16 (in6 x) \<and> ip = string4 x"
proof -
  obtain sn where sn: "ipam a n = Some sn" using assms(3) by (auto simp: AllocateIP_def split: option.splits)
  with assms(3,4) have c: "Contains (ipNet sn) (ParseIP r)" and "alloc_loop n (ParseIP r) (ips sn) (rng (dom (ips sn))) = Inr ip"
    by (auto simp: AllocateIP_def specified_def Let_def split: if_splits sum.splits)
  with assms(4) have ip: "ip = IP_String (ParseIP r)" by (auto simp: specified_def dest: alloc_loop_Inr)
  obtain w k s e m where "sn = subnet4 w k s e m"
    using ipam_wfD [OF assms(2) sn] by (auto simp: subnet_wf_def)
  with c obtain x where "ParseIP r = IP16 (in6 x)" by (auto simp: subnet4_def Contains_ParseIP4)
  with ip show ?thesis by simp
qed

lemma AddMAC_same: "ParseIP r = ParseIP r' \<Longrightarrow> AddMAC c n mac r = AddMAC c n mac r'"
  by (simp add: AddMAC_def split: option.split)

text \<open>One turn of the loop: allocate the recorded address and bind it.\<close>

lemma bind_recorded:
  assumes "go_range rng" "registry_ok s" "specified ip"
    "AllocateIP rng (ipAllocator s) n ip = (a, ip', None)" "AddMAC (cacheAllocator s) n mac ip = (c, None)"
  shows "registry_ok (s\<lparr>ipAllocator := a, cacheAllocator := c\<rparr>)"
proof -
  note ok = registry_okD [OF assms(2)]
  obtain x where x: "ParseIP ip = IP16 (in6 x)" "ip' = string4 x"
    using AllocateIP_specified [OF assms(1) ok(1) assms(4,3)] by blast
  have "AddMAC (cacheAllocator s) n mac ip' = (c, None)"
    using assms(5) AddMAC_same [of ip "string4 x"] x by simp
  from registry.bind_fresh [OF assms(1) ok assms(4) this] AllocateIP_wf [OF assms(1) ok(1), of n ip] assms(4)
  show ?thesis by (simp add: registry_ok_def)
qed

lemma AddMAC_err: "AddMAC c n mac ip = (c', Some e) \<Longrightarrow> c' = c \<and> table_of c n = None"
  by (auto simp: AddMAC_def table_of_def split: option.splits)

lemma AddMAC_known: "table_of c n = Some t \<Longrightarrow> \<exists>c'. AddMAC c n mac ip = (c', None)"
  by (rule mac_cache.add_known)

lemma AddMAC_keeps_table: "AddMAC c n mac ip = (c', err) \<Longrightarrow> table_of c n \<noteq> None \<Longrightarrow> table_of c' n \<noteq> None"
  by (auto simp: AddMAC_def table_of_def split: option.splits)

lemma rebuild_registry:
  assumes "go_range rng"
  shows "registry_ok s \<Longrightarrow> table_of (cacheAllocator s) n \<noteq> None \<Longrightarrow>
    (\<And>ip mac. m ip = Some mac \<Longrightarrow> mac \<notin> marks \<Longrightarrow> specified ip) \<Longrightarrow> set ks \<subseteq> dom m \<Longrightarrow>
    rebuild rng n m ks s = (err, s') \<Longrightarrow> registry_ok s' \<and> calls s' = calls s"
proof (induction ks arbitrary: s)
  case (Cons ip ks)
  obtain mac where mac: "m ip = Some mac" using Cons.prems(4) by auto
  show ?case
  proof (cases "mac \<in> marks")
    case True
    with Cons mac show ?thesis by (auto simp: marks_def)
  next
    case False
    obtain a ip' aerr where al: "AllocateIP rng (ipAllocator s) n ip = (a, ip', aerr)" by (metis prod_cases3)
    obtain c cerr where ad: "AddMAC (cacheAllocator s) n mac ip = (c, cerr)" by fastforce
    from Cons.prems(2) ad have cerr: "cerr = None" by (auto simp: AddMAC_def table_of_def split: option.splits)
    show ?thesis
    proof (cases aerr)
      case None
      let ?s = "s\<lparr>ipAllocator := a, cacheAllocator := c\<rparr>"
      have "registry_ok ?s"
        using bind_recorded [OF assms Cons.prems(1) Cons.prems(3) [OF mac False]] al ad None cerr by simp
      moreover have "table_of (cacheAllocator ?s) n \<noteq> None" using AddMAC_keeps_table [OF ad Cons.prems(2)] by simp
      moreover have "rebuild rng n m ks ?s = (err, s')"
        using Cons.prems(5) mac False al ad None cerr by (simp add: marks_def)
      ultimately show ?thesis using Cons.IH [of ?s] Cons.prems(3,4) by auto
    next
      case (Some e)
      with al have "a = ipAllocator s" by (auto dest: AllocateIP_err)
      with Cons.prems(1,5) mac False al Some show ?thesis by (auto simp: marks_def registry_ok_def)
    qed
  qed
qed auto

lemma revoke_all_ok:
  assumes "pool_of (ipAllocator s) n = Some q"
  shows "\<exists>s'. revoke_all n rs s = (None, s') \<and> pool_of (ipAllocator s') = (pool_of (ipAllocator s))(n \<mapsto> q |` (- set rs)) \<and>
    cacheAllocator s' = cacheAllocator s \<and> calls s' = calls s \<and>
    (ipam_wf (ipAllocator s) \<longrightarrow> ipam_wf (ipAllocator s'))"
  using assms
proof (induction rs arbitrary: s q)
  case Nil
  then show ?case by (simp add: fun_upd_idem)
next
  case (Cons r rs)
  obtain a where r: "RevokeIP (ipAllocator s) n r = (a, None)"
    using Cons.prems by (auto simp: RevokeIP_def pool_of_def)
  let ?s = "s\<lparr>ipAllocator := a\<rparr>"
  have p: "pool_of a = (pool_of (ipAllocator s))(n \<mapsto> q(r := None))"
    using Cons.prems pool_of_revoke [of "ipAllocator s" n r] r by simp
  then have "pool_of (ipAllocator ?s) n = Some (q(r := None))" by simp
  from Cons.IH [OF this] obtain s' where s': "revoke_all n rs ?s = (None, s')"
    "pool_of (ipAllocator s') = (pool_of (ipAllocator ?s))(n \<mapsto> (q(r := None)) |` (- set rs))"
    "cacheAllocator s' = cacheAllocator ?s" "calls s' = calls ?s" "ipam_wf (ipAllocator ?s) \<longrightarrow> ipam_wf (ipAllocator s')"
    by blast
  have "(q(r := None)) |` (- set rs) = q |` (- set (r # rs))"
    by (auto simp: restrict_map_def fun_eq_iff)
  moreover have "revoke_all n (r # rs) s = (None, s')" by (simp add: r s'(1))
  ultimately show ?case using s' p r RevokeIP_wf [of "ipAllocator s" n r] by (intro exI [of _ s']) simp
qed

text \<open>A free address of the pool can be claimed and bound.\<close>

lemma claim_free:
  assumes "go_range rng" "ipam_wf a" "pool_of a n = Some q" "table_of c n = Some t" "q ip = Some False" "specified ip"
  shows "\<exists>a' c'. AllocateIP rng a n ip = (a', ip, None) \<and> AddMAC c n mac ip = (c', None) \<and>
    pool_of a' = (pool_of a)(n \<mapsto> q(ip \<mapsto> True)) \<and> table_of c' = (table_of c)(n \<mapsto> t(mac \<mapsto> ip))"
proof -
  obtain sn where sn: "ipam a n = Some sn" "ips sn = q" using assms(3) by (auto simp: pool_of_def)
  with assms(5) have "ip \<in> dom (ips sn)" by auto
  from subnet_wf_key [OF ipam_wfD [OF assms(2) sn(1)] this] obtain x where x: "ip = string4 x" by blast
  with assms(6) have "x \<noteq> 0" by (auto simp: specified_def)
  with AllocateIP_designated [OF assms(1,2) sn(1)] assms(5) sn(2) x obtain a' where a': "AllocateIP rng a n ip = (a', ip, None)"
    by blast
  from ipam_pool.alloc_ok [OF assms(1,2) a'] assms(3) have "pool_of a' = (pool_of a)(n \<mapsto> q(ip \<mapsto> True))" by auto
  moreover obtain c' where c': "AddMAC c n mac ip = (c', None)" using AddMAC_known [OF assms(4)] by blast
  moreover from mac_cache.add_ok [OF c'] x assms(4) have "table_of c' = (table_of c)(n \<mapsto> t(mac \<mapsto> ip))" by auto
  ultimately show ?thesis using a' by blast
qed

lemma rebuild_exact:
  assumes rng: "go_range rng"
    and "ipam_wf (ipAllocator s)" "pool_of (ipAllocator s) n = Some q" "table_of (cacheAllocator s) n = Some t"
    "distinct ks" "set ks \<subseteq> dom m" "\<And>ip. ip \<in> held m \<Longrightarrow> ip \<in> set ks \<Longrightarrow> q ip = Some False \<and> specified ip"
    "inj_on m (held m)"
  shows "\<exists>s' t'. rebuild rng n m ks s = (None, s') \<and> calls s' = calls s \<and>
    pool_of (ipAllocator s') = (pool_of (ipAllocator s))(n \<mapsto> (\<lambda>ip. if ip \<in> held m \<and> ip \<in> set ks then Some True else q ip)) \<and>
    table_of (cacheAllocator s') = (table_of (cacheAllocator s))(n \<mapsto> t') \<and>
    (\<forall>mac ip. t' mac = Some ip \<longleftrightarrow> (ip \<in> held m \<and> ip \<in> set ks \<and> m ip = Some mac \<or>
       t mac = Some ip \<and> (\<forall>ip'. ip' \<in> held m \<longrightarrow> ip' \<in> set ks \<longrightarrow> m ip' \<noteq> Some mac)))"
  using assms(2-7)
proof (induction ks arbitrary: s q t)
  case Nil
  then show ?case by (auto intro!: exI [of _ s] exI [of _ t] simp: fun_upd_idem)
next
  case (Cons ip ks)
  obtain mac where mac: "m ip = Some mac" using Cons.prems(5) by auto
  show ?case
  proof (cases "mac \<in> marks")
    case True
    then have "ip \<notin> held m" using mac by (auto simp: held_def)
    then have eq: "i \<in> held m \<and> i \<in> set (ip # ks) \<longleftrightarrow> i \<in> held m \<and> i \<in> set ks" for i by auto
    from \<open>ip \<notin> held m\<close> have imp: "(\<forall>i. i \<in> held m \<longrightarrow> i \<in> set (ip # ks) \<longrightarrow> P i) \<longleftrightarrow> (\<forall>i. i \<in> held m \<longrightarrow> i \<in> set ks \<longrightarrow> P i)" for P
      by auto
    have "rebuild rng n m (ip # ks) s = rebuild rng n m ks s" using True mac by (simp add: marks_def)
    moreover have "distinct ks" "set ks \<subseteq> dom m" using Cons.prems(4,5) by simp_all
    moreover have "\<And>i. i \<in> held m \<Longrightarrow> i \<in> set ks \<Longrightarrow> q i = Some False \<and> specified i" using Cons.prems(6) by simp
    ultimately show ?thesis using Cons.IH [OF Cons.prems(1-3)] unfolding imp eq conj_assoc [symmetric] by simp
  next
    case False
    then have hd: "ip \<in> held m" using mac by (auto simp: held_def)
    have free: "q ip = Some False" "specified ip" using Cons.prems(6) [OF hd] by simp_all
    obtain a c where ac: "AllocateIP rng (ipAllocator s) n ip = (a, ip, None)" "AddMAC (cacheAllocator s) n mac ip = (c, None)"
      and pa: "pool_of a = (pool_of (ipAllocator s))(n \<mapsto> q(ip \<mapsto> True))"
      and tc: "table_of c = (table_of (cacheAllocator s))(n \<mapsto> t(mac \<mapsto> ip))"
      using claim_free [OF rng Cons.prems(1-3) free] by blast
    let ?s = "s\<lparr>ipAllocator := a, cacheAllocator := c\<rparr>"
    have wf: "ipam_wf (ipAllocator ?s)" using AllocateIP_wf [OF rng Cons.prems(1), of n ip] ac(1) by simp
    have fresh: "ip' \<noteq> ip" if "ip' \<in> set ks" for ip' using that Cons.prems(4) by auto
    have uniq: "m ip' \<noteq> Some mac" if "ip' \<in> held m" "ip' \<in> set ks" for ip'
      using inj_onD [OF assms(8), of ip' ip] that hd mac fresh by auto
    obtain s' t' where IH: "rebuild rng n m ks ?s = (None, s')" "calls s' = calls ?s"
      "pool_of (ipAllocator s') = (pool_of (ipAllocator ?s))(n \<mapsto> (\<lambda>i. if i \<in> held m \<and> i \<in> set ks then Some True else (q(ip \<mapsto> True)) i))"
      "table_of (cacheAllocator s') = (table_of (cacheAllocator ?s))(n \<mapsto> t')"
      "\<forall>mac' i. t' mac' = Some i \<longleftrightarrow> (i \<in> held m \<and> i \<in> set ks \<and> m i = Some mac' \<or>
         (t(mac \<mapsto> ip)) mac' = Some i \<and> (\<forall>ip'. ip' \<in> held m \<longrightarrow> ip' \<in> set ks \<longrightarrow> m ip' \<noteq> Some mac'))"
      using Cons.IH [OF wf, of "q(ip \<mapsto> True)" "t(mac \<mapsto> ip)"] Cons.prems(4-6) pa tc fresh by fastforce
    have "rebuild rng n m (ip # ks) s = (None, s')" using IH(1) ac False mac by (simp add: marks_def)
    moreover have "(\<lambda>i. if i \<in> held m \<and> i \<in> set ks then Some True else (q(ip \<mapsto> True)) i) =
        (\<lambda>i. if i \<in> held m \<and> i \<in> set (ip # ks) then Some True else q i)"
      using hd by (auto simp: fun_eq_iff)
    moreover have "\<forall>mac' i. t' mac' = Some i \<longleftrightarrow> (i \<in> held m \<and> i \<in> set (ip # ks) \<and> m i = Some mac' \<or>
         t mac' = Some i \<and> (\<forall>ip'. ip' \<in> held m \<longrightarrow> ip' \<in> set (ip # ks) \<longrightarrow> m ip' \<noteq> Some mac'))"
      using IH(5) hd mac uniq by auto
    ultimately show ?thesis using IH(2-4) pa tc by (intro exI [of _ s'] exI [of _ t']) simp
  qed
qed

section \<open>BuildCache\<close>

definition recorded :: "IPPool \<Rightarrow> labels" where
  "recorded p = (case st_IPv4 (ip_Status p) of None \<Rightarrow> Map.empty | Some st4 \<Rightarrow> nil_make (s4_Allocated st4))"

definition reserved_ips :: "IPv4Config \<Rightarrow> string set" where
  "reserved_ips cfg = insert (c4_ServerIP cfg) (insert (c4_Router cfg) (set (pl_Exclude (c4_Pool cfg))))"

text \<open>The pool that a specification describes: its range without the reserved addresses.\<close>

definition spec_pool :: "IPv4Config \<Rightarrow> u32 \<Rightarrow> u32 \<Rightarrow> string set" where
  "spec_pool cfg s e = string4 ` {s..e} - reserved_ips cfg"

lemma BuildCache_guards:
  "pool_paused p \<Longrightarrow> BuildCache W p status s = Ret ((status, Some (disabled_error ''ippool'' (pool_key_name p))), s)"
  "\<not> pool_paused p \<Longrightarrow> x_IsTrue (w_ext W) CacheReady (st_Conditions (ip_Status p)) \<Longrightarrow> BuildCache W p status s = Ret ((status, None), s)"
  by (simp_all add: BuildCache_def)

lemma BuildCache_refused:
  assumes "\<not> pool_paused p" "\<not> x_IsTrue (w_ext W) CacheReady (st_Conditions (ip_Status p))"
    "NewIPSubnet (ipAllocator s) (pool_network p) (c4_CIDR (pool_config p)) (pl_Start (c4_Pool (pool_config p)))
       (pl_End (c4_Pool (pool_config p))) = Ret (a, Some e)"
  shows "BuildCache W p status s = Ret ((status, Some e), s\<lparr>ipAllocator := a\<rparr>)"
  using assms by (simp add: BuildCache_def Let_def)

text \<open>After the subnet, the table and the reserved addresses, what is left is the loop.\<close>

lemma BuildCache_loop:
  assumes "registry_ok s" "\<not> pool_paused p" "\<not> x_IsTrue (w_ext W) CacheReady (st_Conditions (ip_Status p))"
    "cidr4 (c4_CIDR (pool_config p)) w k" "pool_bounds w k (pl_Start (c4_Pool (pool_config p))) (pl_End (c4_Pool (pool_config p))) lo hi"
  shows "\<exists>s1. registry_ok s1 \<and> calls s1 = calls s \<and>
    pool_of (ipAllocator s1) = (pool_of (ipAllocator s))(pool_network p \<mapsto> (\<lambda>ip. if ip \<in> spec_pool (pool_config p) lo hi then Some False else None)) \<and>
    table_of (cacheAllocator s1) = (table_of (cacheAllocator s))(pool_network p \<mapsto> Map.empty) \<and>
    BuildCache W p status s = (case rebuild (w_rng W) (pool_network p) (recorded p)
        (if st_IPv4 (ip_Status p) = None then [] else w_rng W (dom (recorded p))) s1 of (err, s2) \<Rightarrow> Ret ((status, err), s2))"
proof -
  let ?n = "pool_network p" and ?cfg = "pool_config p"
  obtain c where c: "NewMACSet (cacheAllocator s) ?n = (c, None)" "table_of c = (table_of (cacheAllocator s))(?n \<mapsto> Map.empty)"
    using table_of_new [of "cacheAllocator s" ?n] by (auto simp: NewMACSet_def)
  let ?free = "mark_free (string4 ` {lo..hi}) Map.empty"
  obtain a where a: "NewIPSubnet (ipAllocator s) ?n (c4_CIDR ?cfg) (pl_Start (c4_Pool ?cfg)) (pl_End (c4_Pool ?cfg)) = Ret (a, None)"
    "pool_of a = (pool_of (ipAllocator s))(?n \<mapsto> ?free)"
    using NewIPSubnet_ok [OF assms(4,5), of "ipAllocator s" ?n] by (auto simp: pool_of_def fun_eq_iff subnet4_def)
  let ?s = "s\<lparr>ipAllocator := a, cacheAllocator := c\<rparr>" and ?rs = "[c4_ServerIP ?cfg, c4_Router ?cfg] @ pl_Exclude (c4_Pool ?cfg)"
  have "ipam_wf a" using NewIPSubnet_wf [OF registry_okD(1) [OF assms(1)] assms(4) a(1)] .
  moreover obtain s1 where s1: "revoke_all ?n ?rs ?s = (None, s1)" "cacheAllocator s1 = c" "calls s1 = calls s"
    "pool_of (ipAllocator s1) = (pool_of (ipAllocator ?s))(?n \<mapsto> ?free |` (- set ?rs))" "ipam_wf a \<longrightarrow> ipam_wf (ipAllocator s1)"
    using revoke_all_ok [of ?s ?n ?free ?rs] a(2) by auto
  moreover have "?free |` (- set ?rs) = (\<lambda>ip. if ip \<in> spec_pool ?cfg lo hi then Some False else None)"
    by (auto simp: fun_eq_iff mark_free_def restrict_map_def spec_pool_def reserved_ips_def)
  ultimately have pools: "pool_of (ipAllocator s1) = (pool_of (ipAllocator s))(?n \<mapsto> (\<lambda>ip. if ip \<in> spec_pool ?cfg lo hi then Some False else None))"
    and wf: "ipam_wf (ipAllocator s1)" using a(2) by simp_all
  have tables: "table_of (cacheAllocator s1) = (table_of (cacheAllocator s))(?n \<mapsto> Map.empty)" by (simp add: s1(2) c(2))
  have "registry.consistent (ipAllocator s1) (cacheAllocator s1)"
    by (rule consistent_upd [OF registry_okD(2) [OF assms(1)], of ?n]) (simp_all add: pools tables)
  with wf have "registry_ok s1" by (rule registry_okI)
  then show ?thesis using assms(2,3) a(1) c(1) s1(1,3) pools tables
    by (intro exI [of _ s1], cases "st_IPv4 (ip_Status p)")
      (simp_all add: BuildCache_def recorded_def Let_def del: revoke_all.simps split: prod.split)
qed

lemma BuildCache_exact:
  assumes "go_range (w_rng W)" "registry_ok s" "\<not> pool_paused p" "\<not> x_IsTrue (w_ext W) CacheReady (st_Conditions (ip_Status p))"
    "cidr4 (c4_CIDR (pool_config p)) w k" "pool_bounds w k (pl_Start (c4_Pool (pool_config p))) (pl_End (c4_Pool (pool_config p))) lo hi"
    "finite (dom (recorded p))" "held (recorded p) \<subseteq> spec_pool (pool_config p) lo hi" "inj_on (recorded p) (held (recorded p))" "0 < lo"
  shows "\<exists>s' t. BuildCache W p status s = Ret ((status, None), s') \<and> calls s' = calls s \<and>
    pool_of (ipAllocator s') = (pool_of (ipAllocator s))(pool_network p \<mapsto>
      (\<lambda>ip. if ip \<in> spec_pool (pool_config p) lo hi then Some (ip \<in> held (recorded p)) else None)) \<and>
    table_of (cacheAllocator s') = (table_of (cacheAllocator s))(pool_network p \<mapsto> t) \<and>
    (\<forall>mac ip. t mac = Some ip \<longleftrightarrow> recorded p ip = Some mac \<and> mac \<notin> marks)"
proof -
  let ?n = "pool_network p" and ?m = "recorded p" and ?q = "\<lambda>ip. if ip \<in> spec_pool (pool_config p) lo hi then Some False else None"
  obtain s1 where s1: "registry_ok s1" "calls s1 = calls s" "pool_of (ipAllocator s1) = (pool_of (ipAllocator s))(?n \<mapsto> ?q)"
    "table_of (cacheAllocator s1) = (table_of (cacheAllocator s))(?n \<mapsto> Map.empty)"
    "BuildCache W p status s = (case rebuild (w_rng W) ?n ?m (if st_IPv4 (ip_Status p) = None then [] else w_rng W (dom ?m)) s1 of
       (err, s2) \<Rightarrow> Ret ((status, err), s2))"
    using BuildCache_loop [OF assms(2-6)] by blast
  let ?ks = "if st_IPv4 (ip_Status p) = None then [] else w_rng W (dom ?m)"
  have ks: "distinct ?ks" "set ?ks = dom ?m"
    using go_rangeD [OF assms(1,7)] by (auto simp: ranges_def recorded_def)
  have free: "?q ip = Some False \<and> specified ip" if "ip \<in> held ?m" for ip
    using that assms(8,10) by (auto simp: spec_pool_def specified_def word_less_nat_alt)
  have hd: "held ?m \<subseteq> dom ?m" by (auto simp: held_def)
  obtain s2 t where s2: "rebuild (w_rng W) ?n ?m ?ks s1 = (None, s2)" "calls s2 = calls s1"
    "pool_of (ipAllocator s2) = (pool_of (ipAllocator s1))(?n \<mapsto> (\<lambda>ip. if ip \<in> held ?m \<and> ip \<in> set ?ks then Some True else ?q ip))"
    "table_of (cacheAllocator s2) = (table_of (cacheAllocator s1))(?n \<mapsto> t)"
    "\<forall>mac ip. t mac = Some ip \<longleftrightarrow> ip \<in> held ?m \<and> ip \<in> set ?ks \<and> ?m ip = Some mac"
    using rebuild_exact [OF assms(1) registry_okD(1) [OF s1(1)], of ?n ?q Map.empty ?ks ?m] s1(3,4) ks free assms(9) by auto
  have "(\<lambda>ip. if ip \<in> held ?m \<and> ip \<in> set ?ks then Some True else ?q ip) =
      (\<lambda>ip. if ip \<in> spec_pool (pool_config p) lo hi then Some (ip \<in> held ?m) else None)"
    using hd assms(8) unfolding ks(2) by (auto simp: fun_eq_iff)
  moreover have "\<forall>mac ip. t mac = Some ip \<longleftrightarrow> ?m ip = Some mac \<and> mac \<notin> marks"
    using s2(5) unfolding ks(2) by (auto simp: held_def)
  ultimately show ?thesis using s1 s2 by (intro exI [of _ s2] exI [of _ t]) simp
qed

text \<open>
  [C7] \<open>BuildCache\<close> restores both stores from the object.  For a pool over an IPv4 block whose
  recorded assignments are free addresses of the specification and use distinct hardware
  addresses, it succeeds; afterwards the pool of the network consists of the range without the
  server, router and excluded addresses, exactly the recorded addresses are in use, the table
  binds exactly the recorded pairs, and all other networks are untouched.
\<close>

theorem BuildCache_restores:
  assumes "go_range (w_rng W)" "registry_ok s" "\<not> pool_paused p" "\<not> x_IsTrue (w_ext W) CacheReady (st_Conditions (ip_Status p))"
    "cidr4 (c4_CIDR (pool_config p)) w k" "pool_bounds w k (pl_Start (c4_Pool (pool_config p))) (pl_End (c4_Pool (pool_config p))) lo hi"
    "finite (dom (recorded p))" "held (recorded p) \<subseteq> spec_pool (pool_config p) lo hi" "inj_on (recorded p) (held (recorded p))" "0 < lo"
  shows "\<exists>s' t. BuildCache W p status s = Ret ((status, None), s') \<and> calls s' = calls s \<and>
    pool_of (ipAllocator s') = (pool_of (ipAllocator s))(pool_network p \<mapsto>
      (\<lambda>ip. if ip \<in> spec_pool (pool_config p) lo hi then Some (ip \<in> held (recorded p)) else None)) \<and>
    table_of (cacheAllocator s') = (table_of (cacheAllocator s))(pool_network p \<mapsto> t) \<and>
    (\<forall>mac ip. t mac = Some ip \<longleftrightarrow> recorded p ip = Some mac \<and> mac \<notin> marks)"
  using assms by (rule BuildCache_exact)

text \<open>A pool of four addresses: the server's, an excluded one, one that is assigned and a free one.\<close>

definition example_config :: IPv4Config where
  "example_config = \<lparr>c4_CIDR = ''192.168.0.0/24'', c4_ServerIP = ''192.168.0.10'',
     c4_Pool = \<lparr>pl_Start = ''192.168.0.10'', pl_End = ''192.168.0.13'', pl_Exclude = [''192.168.0.11'']\<rparr>,
     c4_Router = ''192.168.0.1'', c4_DNS = [], c4_DomainName = None, c4_DomainSearch = [], c4_NTP = [], c4_LeaseTime = None\<rparr>"

definition example_IPPool :: IPPool where
  "example_IPPool = \<lparr>ip_Meta = empty_meta ''default'' ''pool'',
     ip_Spec = \<lparr>ps_IPv4Config = example_config, ps_NetworkName = ''default/net'', ps_Paused = None\<rparr>,
     ip_Status = \<lparr>st_LastUpdate = 0,
       st_IPv4 = Some \<lparr>s4_Allocated = Some [''192.168.0.10'' \<mapsto> ''RESERVED'', ''192.168.0.11'' \<mapsto> ''EXCLUDED'',
         ''192.168.0.12'' \<mapsto> ''aa:bb:cc:dd:ee:ff''], s4_Used = 1, s4_Available = 1\<rparr>,
       st_AgentPodRef = Some \<lparr>pr_Namespace = ''harvester-system'', pr_Name = ''default-pool-agent'', pr_Image = ''agent:v1'', pr_UID = ''u1''\<rparr>,
       st_Conditions = []\<rparr>\<rparr>"

lemma example_IPPool_simps:
  "pool_config example_IPPool = example_config" "pool_network example_IPPool = ''default/net''" "\<not> pool_paused example_IPPool"
  "st_Conditions (ip_Status example_IPPool) = []"
  "st_AgentPodRef (ip_Status example_IPPool) = Some \<lparr>pr_Namespace = ''harvester-system'', pr_Name = ''default-pool-agent'', pr_Image = ''agent:v1'', pr_UID = ''u1''\<rparr>"
  by (simp_all add: example_IPPool_def is_paused_def)

lemma example_recorded:
  "recorded example_IPPool = [''192.168.0.10'' \<mapsto> ''RESERVED'', ''192.168.0.11'' \<mapsto> ''EXCLUDED'', ''192.168.0.12'' \<mapsto> ''aa:bb:cc:dd:ee:ff'']"
  by (simp add: recorded_def example_IPPool_def nil_make_def)

lemma example_held: "held (recorded example_IPPool) = {''192.168.0.12''}"
  by (auto simp: held_def example_recorded marks_def ExcludedMark_def ReservedMark_def split: if_splits)

lemma example_bounds:
  "cidr4 (c4_CIDR example_config) 0xc0a80000 24"
  "pool_bounds 0xc0a80000 24 (pl_Start (c4_Pool example_config)) (pl_End (c4_Pool example_config)) 0xc0a8000a 0xc0a8000d"
  using cidr4_example by (simp_all add: example_config_def pool_bounds_def net_eval same_block_def mask_eq_exp_minus_1)

lemma string4_12: "string4 0xc0a8000c = ''192.168.0.12''"
  by (simp add: string4_def octets_def dec_string.simps)

lemma start_state_simps [simp]: "calls start_state = []" "ipAllocator start_state = NewIPAllocator" "cacheAllocator start_state = NewCacheAllocator"
  by (simp_all add: start_state_def)

lemma start_registry_ok: "registry_ok start_state"
  by (simp add: registry_ok_def start_state_def NewIPAllocator_wf registry.consistent_def table_of_def NewCacheAllocator_def)

lemma example_in_pool: "''192.168.0.12'' \<in> spec_pool example_config 0xc0a8000a 0xc0a8000d"
proof -
  have "string4 0xc0a8000c \<in> string4 ` {0xc0a8000a..0xc0a8000d}" by (rule imageI) simp
  then show ?thesis unfolding string4_12 by (simp add: spec_pool_def reserved_ips_def example_config_def)
qed

lemma example_build_hyps:
  "go_range (w_rng example_world)" "\<not> x_IsTrue (w_ext example_world) CacheReady (st_Conditions (ip_Status example_IPPool))"
  "finite (dom (recorded example_IPPool))" "inj_on (recorded example_IPPool) (held (recorded example_IPPool))"
  "held (recorded example_IPPool) \<subseteq> spec_pool (pool_config example_IPPool) 0xc0a8000a 0xc0a8000d" "(0 :: u32) < 0xc0a8000a"
  "''aa:bb:cc:dd:ee:ff'' \<notin> marks"
  using example_in_pool
  by (simp_all add: example_held go_range_sorted example_IPPool_simps marks_def ExcludedMark_def ReservedMark_def)
    (simp add: example_recorded)

lemmas example_build_facts = example_build_hyps(1) start_registry_ok example_IPPool_simps(3) example_build_hyps(2)
  example_bounds [folded example_IPPool_simps(1)] example_build_hyps(3,5,4,6)

lemma example_BuildCache:
  "\<exists>s' t. BuildCache example_world example_IPPool (ip_Status example_IPPool) start_state =
      Ret ((ip_Status example_IPPool, None), s') \<and>
    table_of (cacheAllocator s') ''default/net'' = Some t \<and> t ''aa:bb:cc:dd:ee:ff'' = Some ''192.168.0.12''"
  using BuildCache_exact [OF example_build_facts, of "ip_Status example_IPPool"] example_build_hyps(7)
  by (auto simp: example_IPPool_simps example_recorded)

theorem BuildCache_restores_witness:
  "\<exists>s' t. BuildCache example_world example_IPPool (ip_Status example_IPPool) start_state =
      Ret ((ip_Status example_IPPool, None), s') \<and>
    table_of (cacheAllocator s') ''default/net'' = Some t \<and> t ''aa:bb:cc:dd:ee:ff'' = Some ''192.168.0.12''"
  using BuildCache_restores [OF example_build_facts, of "ip_Status example_IPPool"] example_build_hyps(7)
  by (auto simp: example_IPPool_simps example_recorded)

lemma BuildCache_registry:
  assumes "go_range (w_rng W)" "registry_ok s" "cidr4 (c4_CIDR (pool_config p)) w k" "finite (dom (recorded p))"
    "\<forall>ip \<in> held (recorded p). specified ip"
  shows "\<exists>r s'. BuildCache W p status s = Ret (r, s') \<and> registry_ok s' \<and> calls s' = calls s"
proof (cases "pool_paused p \<or> x_IsTrue (w_ext W) CacheReady (st_Conditions (ip_Status p))")
  case True
  then show ?thesis using BuildCache_guards [of p W status s] assms(2) by (cases "pool_paused p") auto
next
  case False
  then have go: "\<not> pool_paused p" "\<not> x_IsTrue (w_ext W) CacheReady (st_Conditions (ip_Status p))" by blast+
  show ?thesis
  proof (cases "\<exists>lo hi. pool_bounds w k (pl_Start (c4_Pool (pool_config p))) (pl_End (c4_Pool (pool_config p))) lo hi")
    case True
    then obtain lo hi where b: "pool_bounds w k (pl_Start (c4_Pool (pool_config p))) (pl_End (c4_Pool (pool_config p))) lo hi" by blast
    let ?ks = "if st_IPv4 (ip_Status p) = None then [] else w_rng W (dom (recorded p))"
    obtain s1 where s1: "registry_ok s1" "calls s1 = calls s"
      "table_of (cacheAllocator s1) = (table_of (cacheAllocator s))(pool_network p \<mapsto> Map.empty)"
      "BuildCache W p status s = (case rebuild (w_rng W) (pool_network p) (recorded p) ?ks s1 of (err, s2) \<Rightarrow> Ret ((status, err), s2))"
      using BuildCache_loop [OF assms(2) go assms(3) b] by blast
    then have tbl: "table_of (cacheAllocator s1) (pool_network p) \<noteq> None" by simp
    obtain err s2 where r: "rebuild (w_rng W) (pool_network p) (recorded p) ?ks s1 = (err, s2)" by fastforce
    have "set ?ks \<subseteq> dom (recorded p)" using go_rangeD [OF assms(1,4)] by (auto simp: ranges_def)
    moreover have "specified ip" if "recorded p ip = Some mac" "mac \<notin> marks" for ip mac
      using assms(5) that by (auto simp: held_def)
    ultimately show ?thesis using rebuild_registry [OF assms(1) s1(1) tbl _ _ r] s1(2,4) r by auto
  next
    case False
    with NewIPSubnet_refused [OF assms(3) False] BuildCache_refused [OF go] assms(2) show ?thesis
      by (metis (no_types, lifting) ctl.surjective ctl.update_convs(1))
  qed
qed

text \<open>
  Over any IPv4 block and for any object whose recorded assignments are written as specified
  addresses, \<open>BuildCache\<close> returns, whether with an error or not, with the IPAM well formed and
  consistent with the MAC cache: no address is bound twice, and every bound address is in use.
\<close>

theorem BuildCache_keeps_registry:
  assumes "go_range (w_rng W)" "registry_ok s" "cidr4 (c4_CIDR (pool_config p)) w k" "finite (dom (recorded p))"
    "\<forall>ip \<in> held (recorded p). specified ip"
  shows "\<exists>r s'. BuildCache W p status s = Ret (r, s') \<and> registry_ok s' \<and> calls s' = calls s"
  using assms by (rule BuildCache_registry)

theorem BuildCache_keeps_registry_witness:
  "\<exists>r s'. BuildCache example_world example_IPPool (ip_Status example_IPPool) start_state = Ret (r, s') \<and> registry_ok s' \<and> calls s' = []"
proof -
  have "specified ''192.168.0.12''" using string4_12 [symmetric] by (simp add: specified_def)
  then have "\<forall>ip \<in> held (recorded example_IPPool). specified ip" by (simp add: example_held)
  moreover have "go_range (w_rng example_world)" by (simp add: example_world_def go_range_sorted)
  moreover have "finite (dom (recorded example_IPPool))" by (simp add: example_recorded)
  moreover have "cidr4 (c4_CIDR (pool_config example_IPPool)) 0xc0a80000 24"
    using example_bounds(1) by (simp add: example_IPPool_simps)
  ultimately show ?thesis
    using BuildCache_keeps_registry [of example_world start_state example_IPPool] start_registry_ok by (simp add: start_state_def)
qed

section \<open>OnChange and OnRemove\<close>

lemma ensureNADLabels_frame:
  assumes "ensureNADLabels W p s = (err, s')"
  shows "ipAllocator s' = ipAllocator s" "cacheAllocator s' = cacheAllocator s"
  using assms by (auto simp: ensureNADLabels_def Let_def ask_def split: prod.splits sum.splits if_splits)

lemma ippool_UpdateStatus_eq:
  "snd (ippool_UpdateStatus W p s) = emit (IPPoolUpdateStatus p) s"
  by (auto simp: ippool_UpdateStatus_def ask_def split: sum.splits)

lemma ippool_cleanup_done:
  assumes "st_AgentPodRef (ip_Status p) = Some ref" "err = e_done (w_env W) (calls s @ [PodDelete (pr_Namespace ref) (pr_Name ref)])"
    "err = None \<or> IsNotFound (the err)"
  shows "\<exists>s'. ippool_cleanup W p s = (None, s') \<and>
    pool_of (ipAllocator s') = (pool_of (ipAllocator s))(pool_network p := None) \<and>
    table_of (cacheAllocator s') = (table_of (cacheAllocator s))(pool_network p := None) \<and>
    calls s' = calls s @ [PodDelete (pr_Namespace ref) (pr_Name ref),
      GaugeDelete IPPoolUsed (pool_labels (pool_network p) (c4_CIDR (pool_config p)) (pool_network p)),
      GaugeDelete IPPoolAvailable (pool_labels (pool_network p) (c4_CIDR (pool_config p)) (pool_network p))]"
  using assms by (auto simp: ippool_cleanup_def ask_def DeleteIPPool_def pool_of_delete table_of_delete)

lemma ippool_cleanup_registry:
  assumes "registry_ok s"
  shows "registry_ok (snd (ippool_cleanup W p s))"
  using assms by (auto simp: ippool_cleanup_def ask_def split: option.splits
      intro!: registry_ok_frame [OF registry_ok_cleared [OF assms, of "pool_network p"]])

lemma ippool_refresh_registry: "registry_ok s \<Longrightarrow> registry_ok (snd (ippool_refresh W key p q s))"
  by (auto simp: ippool_refresh_def Let_def ask_def ippool_UpdateStatus_eq split: prod.splits option.splits
      elim!: registry_ok_frame)

text \<open>
  Pausing a pool that has an agent: the agent pod is deleted, the IPAM and the MAC cache
  forget the network and no other, and the stored status says that the pool is stopped and has
  no agent.
\<close>

theorem OnChange_pause_tears_down:
  assumes "cond_laws (w_ext W)" "om_DeletionTimestamp (ip_Meta p) = None" "pool_paused p" "st_AgentPodRef (ip_Status p) = Some ref"
    "ensureNADLabels W p s = (None, s1)"
    "e_done (w_env W) (calls s1 @ [PodDelete (pr_Namespace ref) (pr_Name ref)]) = None"
  shows "\<exists>r s' q. ippool_OnChange W key (Some p) s = (r, s') \<and>
    pool_of (ipAllocator s') = (pool_of (ipAllocator s))(pool_network p := None) \<and>
    table_of (cacheAllocator s') = (table_of (cacheAllocator s))(pool_network p := None) \<and>
    PodDelete (pr_Namespace ref) (pr_Name ref) \<in> set (calls s') \<and> last (calls s') = IPPoolUpdateStatus q \<and>
    ip_Spec q = ip_Spec p \<and> st_AgentPodRef (ip_Status q) = None \<and> x_IsTrue (w_ext W) Stopped (st_Conditions (ip_Status q))"
proof -
  obtain s2 where s2: "ippool_cleanup W p s1 = (None, s2)"
    "pool_of (ipAllocator s2) = (pool_of (ipAllocator s1))(pool_network p := None)"
    "table_of (cacheAllocator s2) = (table_of (cacheAllocator s1))(pool_network p := None)"
    "PodDelete (pr_Namespace ref) (pr_Name ref) \<in> set (calls s2)"
    using ippool_cleanup_done [OF assms(4) refl, of W s1] assms(6) by auto
  let ?q = "set_conditions (cond_True (w_ext W) Stopped) (p\<lparr>ip_Status := (ip_Status p)\<lparr>st_AgentPodRef := None\<rparr>\<rparr>)"
  have q: "ip_Spec ?q = ip_Spec p" "st_AgentPodRef (ip_Status ?q) = None" "x_IsTrue (w_ext W) Stopped (st_Conditions (ip_Status ?q))"
    using assms(1) by (simp_all add: set_conditions_def cond_True_def cond_laws_def)
  with assms(4) have "?q \<noteq> p" by auto
  with assms(2,3,5) s2(1) have "ippool_OnChange W key (Some p) s = ippool_UpdateStatus W ?q s2"
    by (simp add: ippool_OnChange_def Let_def)
  moreover have "snd (ippool_UpdateStatus W ?q s2) = emit (IPPoolUpdateStatus ?q) s2" by (rule ippool_UpdateStatus_eq)
  ultimately show ?thesis using q s2 ensureNADLabels_frame [OF assms(5)]
    by (intro exI [of _ "fst (ippool_UpdateStatus W ?q s2)"] exI [of _ "emit (IPPoolUpdateStatus ?q) s2"] exI [of _ ?q])
      (simp add: prod_eq_iff)
qed

definition nad_env :: env where
  "nad_env = example_env\<lparr>e_nad := (\<lambda>_. Inr \<lparr>nad_Meta = (empty_meta ''default'' ''net'')
     \<lparr>om_Labels := Some [clusterNetworkLabelKey \<mapsto> ''mgmt'']\<rparr>\<rparr>)\<rparr>"

lemma nad_env_simps [simp]: "e_done nad_env = (\<lambda>_. None)" "e_pod nad_env = (\<lambda>_. Inl missing)" "e_now nad_env = length"
  "e_nad nad_env h = Inr \<lparr>nad_Meta = (empty_meta ''default'' ''net'')\<lparr>om_Labels := Some [clusterNetworkLabelKey \<mapsto> ''mgmt'']\<rparr>\<rparr>"
  by (simp_all add: nad_env_def example_env_def)

lemma nad_env_labels: "\<exists>s1. ensureNADLabels (example_world\<lparr>w_env := nad_env\<rparr>) p s = (None, s1)"
  by (auto simp: ensureNADLabels_def ask_def Let_def split: prod.splits)

theorem OnChange_pause_tears_down_witness:
  "\<exists>r s' q. ippool_OnChange (example_world\<lparr>w_env := nad_env\<rparr>) ''default/pool''
      (Some (example_IPPool\<lparr>ip_Spec := (ip_Spec example_IPPool)\<lparr>ps_Paused := Some True\<rparr>\<rparr>)) start_state = (r, s') \<and>
    PodDelete ''harvester-system'' ''default-pool-agent'' \<in> set (calls s') \<and> last (calls s') = IPPoolUpdateStatus q"
proof -
  let ?W = "example_world\<lparr>w_env := nad_env\<rparr>" and ?p = "example_IPPool\<lparr>ip_Spec := (ip_Spec example_IPPool)\<lparr>ps_Paused := Some True\<rparr>\<rparr>"
  obtain s1 where s1: "ensureNADLabels ?W ?p start_state = (None, s1)" using nad_env_labels by blast
  have "cond_laws (w_ext ?W)" "om_DeletionTimestamp (ip_Meta ?p) = None" "pool_paused ?p"
    "st_AgentPodRef (ip_Status ?p) = Some \<lparr>pr_Namespace = ''harvester-system'', pr_Name = ''default-pool-agent'', pr_Image = ''agent:v1'', pr_UID = ''u1''\<rparr>"
    using example_ext_laws(1) by (simp_all add: example_world_def example_IPPool_def empty_meta_def is_paused_def)
  from OnChange_pause_tears_down [OF this s1, of "''default/pool''"] show ?thesis by simp blast
qed

lemma fold_upd_const: "fold (\<lambda>k m. m(k \<mapsto> v)) ks m = (\<lambda>k. if k \<in> set ks then Some v else m k)"
  by (induction ks arbitrary: m) (auto simp: fun_eq_iff)

lemma mark_reserved_eq:
  "mark_reserved cfg m ip =
     (if ip \<in> set (pl_Exclude (c4_Pool cfg)) then Some ExcludedMark
      else if ip \<in> {c4_ServerIP cfg, c4_Router cfg} \<and> IsIPInBetweenOf ip (pl_Start (c4_Pool cfg)) (pl_End (c4_Pool cfg)) then Some ReservedMark
      else m ip)"
  by (auto simp: mark_reserved_def fold_upd_const Let_def)

lemma recorded_copy:
  "nil_make (s4_Allocated (case st_IPv4 (ip_Status p) of None \<Rightarrow> new_IPv4Status | Some st \<Rightarrow> st)) = recorded p"
  by (simp add: recorded_def new_IPv4Status_def nil_make_def split: option.splits)

text \<open>What the refresh leaves in the status, whether it is stored or found there already.\<close>

definition status_reflects :: "IPPool \<Rightarrow> nat \<Rightarrow> nat \<Rightarrow> IPv4Status \<Rightarrow> bool" where
  "status_reflects p used available st \<longleftrightarrow> s4_Used st = used \<and> s4_Available st = available \<and>
     (\<forall>ip. nil_lookup (s4_Allocated st) ip = mark_reserved (pool_config p) (recorded p) ip)"

lemma ippool_refresh_reports:
  assumes "go_range (w_rng W)" "ipam_wf (ipAllocator s)" "pool_of (ipAllocator s) (pool_network p) = Some q"
    "st_IPv4 (ip_Status cpy) = st_IPv4 (ip_Status p)"
  shows "\<exists>r s' p' st. ippool_refresh W key p cpy s = (r, s') \<and>
    (last (calls s') = IPPoolUpdateStatus p' \<or> p' = p \<and> r = (Some p, None)) \<and>
    st_IPv4 (ip_Status p') = Some st \<and> status_reflects p (card {ip. q ip = Some True}) (card {ip. q ip = Some False}) st \<and>
    GaugeSet IPPoolUsed (pool_labels key (c4_CIDR (pool_config p)) (pool_network p)) (card {ip. q ip = Some True}) \<in> set (calls s')"
proof -
  obtain sn where sn: "ipam (ipAllocator s) (pool_network p) = Some sn" "ips sn = q" using assms(3) by (auto simp: pool_of_def)
  let ?u = "card {ip. q ip = Some True}" and ?f = "card {ip. q ip = Some False}" and ?cfg = "pool_config p"
  note counts = GetUsed_card [OF assms(1,2) sn(1), unfolded sn(2)]
  define st where "st = (case st_IPv4 (ip_Status cpy) of None \<Rightarrow> new_IPv4Status | Some st \<Rightarrow> st)"
  define al where "al = mark_reserved ?cfg (recorded p)"
  define st' where "st' = st\<lparr>s4_Used := ?u, s4_Available := ?f, s4_Allocated := (if al = Map.empty then None else Some al)\<rparr>"
  define cpy' where "cpy' = cpy\<lparr>ip_Status := (ip_Status cpy)\<lparr>st_IPv4 := Some st'\<rparr>\<rparr>"
  define s1 where "s1 = UpdateIPPoolAvailable key (c4_CIDR ?cfg) (pool_network p) ?f (UpdateIPPoolUsed key (c4_CIDR ?cfg) (pool_network p) ?u s)"
  have "nil_make (s4_Allocated st) = recorded p" using recorded_copy [of p] assms(4) by (simp add: st_def)
  then have eq: "ippool_refresh W key p cpy s =
      (if cpy' \<noteq> p then ippool_UpdateStatus W (cpy'\<lparr>ip_Status := (ip_Status cpy')\<lparr>st_LastUpdate := e_now (w_env W) (calls s1 @ [Now])\<rparr>\<rparr>) (emit Now s1)
       else ((Some p, None), s1))"
    by (simp add: ippool_refresh_def counts Let_def ask_def cpy'_def st'_def s1_def al_def flip: st_def)
  have st': "status_reflects p ?u ?f st'" by (simp add: status_reflects_def st'_def nil_lookup_def al_def)
  have g: "GaugeSet IPPoolUsed (pool_labels key (c4_CIDR ?cfg) (pool_network p)) ?u \<in> set (calls s1)"
    by (simp add: s1_def UpdateIPPoolAvailable_def UpdateIPPoolUsed_def)
  show ?thesis
  proof (cases "cpy' = p")
    case True
    then have "st_IPv4 (ip_Status p) = Some st'" by (metis IPPool.select_convs(3) IPPool.surjective IPPool.update_convs(3)
          IPPoolStatus.select_convs(2) IPPoolStatus.surjective IPPoolStatus.update_convs(2) cpy'_def)
    with True eq st' g show ?thesis by auto
  next
    case False
    let ?q = "cpy'\<lparr>ip_Status := (ip_Status cpy')\<lparr>st_LastUpdate := e_now (w_env W) (calls s1 @ [Now])\<rparr>\<rparr>"
    have "snd (ippool_UpdateStatus W ?q (emit Now s1)) = emit (IPPoolUpdateStatus ?q) (emit Now s1)" by (rule ippool_UpdateStatus_eq)
    with False eq st' g show ?thesis
      by (intro exI [of _ "fst (ippool_UpdateStatus W ?q (emit Now s1))"] exI [of _ "emit (IPPoolUpdateStatus ?q) (emit Now s1)"]
          exI [of _ ?q] exI [of _ st']) (simp add: prod_eq_iff cpy'_def)
  qed
qed

lemma OnChange_reports:
  assumes "go_range (w_rng W)" "ipam_wf (ipAllocator s)" "om_DeletionTimestamp (ip_Meta p) = None" "\<not> pool_paused p"
    "ensureNADLabels W p s = (None, s1)" "pool_of (ipAllocator s) (pool_network p) = Some q"
  shows "\<exists>r s' p' st. ippool_OnChange W key (Some p) s = (r, s') \<and>
    (last (calls s') = IPPoolUpdateStatus p' \<or> p' = p \<and> r = (Some p, None)) \<and>
    st_IPv4 (ip_Status p') = Some st \<and> status_reflects p (card {ip. q ip = Some True}) (card {ip. q ip = Some False}) st \<and>
    GaugeSet IPPoolUsed (pool_labels key (c4_CIDR (pool_config p)) (pool_network p)) (card {ip. q ip = Some True}) \<in> set (calls s')"
proof -
  let ?cpy = "set_conditions (cond_False (w_ext W) Stopped) p"
  note frame = ensureNADLabels_frame [OF assms(5)]
  have "ipam_wf (ipAllocator s1)" "pool_of (ipAllocator s1) (pool_network p) = Some q"
    "st_IPv4 (ip_Status ?cpy) = st_IPv4 (ip_Status p)"
    using assms(2,6) frame by (simp_all add: set_conditions_def)
  from ippool_refresh_reports [OF assms(1) this, of key] have "\<exists>r s' p' st. ippool_refresh W key p ?cpy s1 = (r, s') \<and>
    (last (calls s') = IPPoolUpdateStatus p' \<or> p' = p \<and> r = (Some p, None)) \<and>
    st_IPv4 (ip_Status p') = Some st \<and> status_reflects p (card {ip. q ip = Some True}) (card {ip. q ip = Some False}) st \<and>
    GaugeSet IPPoolUsed (pool_labels key (c4_CIDR (pool_config p)) (pool_network p)) (card {ip. q ip = Some True}) \<in> set (calls s')" .
  moreover have "IsNetworkInitialized (ipAllocator s1) (pool_network p)"
    using assms(6) frame by (auto simp: IsNetworkInitialized_def pool_of_def)
  then have "ippool_OnChange W key (Some p) s = ippool_refresh W key p ?cpy s1"
    using assms(3-5) by (simp add: ippool_OnChange_def Let_def)
  ultimately show ?thesis by simp
qed

text \<open>
  [C32] For an active pool whose network is known to the IPAM, \<open>OnChange\<close> leaves a status that
  reflects the IPAM: the numbers of used and available addresses are those of the pool, excluded
  addresses are marked \<open>EXCLUDED\<close>, server and router addresses inside the range \<open>RESERVED\<close>, and
  every other entry of the allocation record is kept.  The status is stored unless the object
  already has it, and the gauge of used addresses is set to the same number.
\<close>

theorem OnChange_reports_usage:
  assumes "go_range (w_rng W)" "ipam_wf (ipAllocator s)" "om_DeletionTimestamp (ip_Meta p) = None" "\<not> pool_paused p"
    "ensureNADLabels W p s = (None, s1)" "pool_of (ipAllocator s) (pool_network p) = Some q"
  shows "\<exists>r s' p' st. ippool_OnChange W key (Some p) s = (r, s') \<and>
    (last (calls s') = IPPoolUpdateStatus p' \<or> p' = p \<and> r = (Some p, None)) \<and>
    st_IPv4 (ip_Status p') = Some st \<and> s4_Used st = card {ip. q ip = Some True} \<and> s4_Available st = card {ip. q ip = Some False} \<and>
    (\<forall>ip. nil_lookup (s4_Allocated st) ip =
      (if ip \<in> set (pl_Exclude (c4_Pool (pool_config p))) then Some ExcludedMark
       else if ip \<in> {c4_ServerIP (pool_config p), c4_Router (pool_config p)} \<and>
          IsIPInBetweenOf ip (pl_Start (c4_Pool (pool_config p))) (pl_End (c4_Pool (pool_config p))) then Some ReservedMark
       else recorded p ip)) \<and>
    GaugeSet IPPoolUsed (pool_labels key (c4_CIDR (pool_config p)) (pool_network p)) (s4_Used st) \<in> set (calls s')"
  using OnChange_reports [OF assms, of key] unfolding status_reflects_def mark_reserved_eq by metis

theorem OnChange_reports_usage_witness:
  "\<exists>r s' p' st. ippool_OnChange (example_world\<lparr>w_env := nad_env\<rparr>) ''default/pool'' (Some example_IPPool)
      (start_state\<lparr>ipAllocator := example_ipam\<rparr>) = (r, s') \<and>
    (last (calls s') = IPPoolUpdateStatus p' \<or> p' = example_IPPool) \<and> st_IPv4 (ip_Status p') = Some st \<and> s4_Used st = 0 \<and> s4_Available st = 2 \<and>
    nil_lookup (s4_Allocated st) ''192.168.0.11'' = Some ''EXCLUDED''"
proof -
  let ?W = "example_world\<lparr>w_env := nad_env\<rparr>" and ?s = "start_state\<lparr>ipAllocator := example_ipam\<rparr>"
  let ?q = "[''192.168.0.10'' \<mapsto> False, ''192.168.0.11'' \<mapsto> False]"
  obtain s1 where s1: "ensureNADLabels ?W example_IPPool ?s = (None, s1)" using nad_env_labels by blast
  have h: "go_range (w_rng ?W)" "ipam_wf (ipAllocator ?s)" "om_DeletionTimestamp (ip_Meta example_IPPool) = None"
    "pool_of (ipAllocator ?s) (pool_network example_IPPool) = Some ?q"
    using ipam_reach_wf [OF example_reach] example_ipam_net
    by (simp_all add: example_world_def go_range_sorted example_IPPool_simps pool_of_def subnet4_def)
      (simp add: example_IPPool_def empty_meta_def)
  have "{ip. ?q ip = Some True} = {}" "{ip. ?q ip = Some False} = {''192.168.0.10'', ''192.168.0.11''}"
    by (auto split: if_splits)
  then have card: "card {ip. ?q ip = Some True} = 0" "card {ip. ?q ip = Some False} = 2" by simp_all
  have ex: "''192.168.0.11'' \<in> set (pl_Exclude (c4_Pool (pool_config example_IPPool)))"
    by (simp add: example_IPPool_simps example_config_def)
  obtain r s' p' st where *: "ippool_OnChange ?W ''default/pool'' (Some example_IPPool) ?s = (r, s')"
    "last (calls s') = IPPoolUpdateStatus p' \<or> p' = example_IPPool \<and> r = (Some example_IPPool, None)"
    "st_IPv4 (ip_Status p') = Some st" "s4_Used st = 0" "s4_Available st = 2"
    "\<forall>ip. nil_lookup (s4_Allocated st) ip =
      (if ip \<in> set (pl_Exclude (c4_Pool (pool_config example_IPPool))) then Some ExcludedMark
       else if ip \<in> {c4_ServerIP (pool_config example_IPPool), c4_Router (pool_config example_IPPool)} \<and>
          IsIPInBetweenOf ip (pl_Start (c4_Pool (pool_config example_IPPool))) (pl_End (c4_Pool (pool_config example_IPPool)))
       then Some ReservedMark else recorded example_IPPool ip)"
    using OnChange_reports_usage [OF h(1-3) example_IPPool_simps(3) s1 h(4), of "''default/pool''", unfolded card]
    by (elim exE conjE)
  have "nil_lookup (s4_Allocated st) ''192.168.0.11'' = Some ''EXCLUDED''"
    using spec [OF *(6), of "''192.168.0.11''"] ex by (simp add: ExcludedMark_def)
  with *(1-5) show ?thesis by blast
qed

section \<open>The agent\<close>

text \<open>The pod that an object expects: the one it refers to, running the recorded image.\<close>

definition pod_matches :: "PodReference \<Rightarrow> Pod \<Rightarrow> bool" where
  "pod_matches ref pod \<longleftrightarrow> om_UID (pod_Meta pod) = pr_UID ref \<and> ct_Image (hd (pod_Containers pod)) = pr_Image ref"

text \<open>
  \<open>MonitorAgent\<close> reports success exactly when the agent pod is the expected one and ready;
  it deletes the pod exactly when it is not the expected one and not already being deleted, and
  never deletes anything else.
\<close>

theorem MonitorAgent_verdict:
  assumes "\<not> pool_paused p" "\<not> noAgent h" "st_AgentPodRef (ip_Status p) = Some ref"
    "e_pod (w_env W) (calls s @ [PodGet (pr_Namespace ref) (pr_Name ref)]) = Inr pod" "pod_Containers pod \<noteq> []"
  shows "\<exists>err s'. MonitorAgent W h p status s = Ret ((status, err), s') \<and>
    (err = None \<longleftrightarrow> pod_matches ref pod \<and> isPodReady pod) \<and>
    calls s' = calls s @ PodGet (pr_Namespace ref) (pr_Name ref) #
      (if \<not> pod_matches ref pod \<and> om_DeletionTimestamp (pod_Meta pod) = None
       then [PodDelete (om_Namespace (pod_Meta pod)) (om_Name (pod_Meta pod))] else []) \<and>
    ipAllocator s' = ipAllocator s \<and> cacheAllocator s' = cacheAllocator s"
  using assms by (auto simp: MonitorAgent_def ask_def pod_matches_def Let_def split: option.splits)

definition example_handler :: Handler where
  "example_handler = \<lparr>agentNamespace = ''harvester-system'', agentImage = \<lparr>img_Repository = ''agent'', img_Tag = ''v1''\<rparr>,
     agentServiceAccountName = ''agent'', noAgent = False, noDHCP = False\<rparr>"

definition example_pod :: "string \<Rightarrow> Pod" where
  "example_pod uid = \<lparr>pod_Meta = (empty_meta ''harvester-system'' ''default-pool-agent'')\<lparr>om_UID := uid\<rparr>,
     pod_NodeAffinity = [], pod_ServiceAccountName = ''agent'', pod_InitContainers = [],
     pod_Containers = [\<lparr>ct_Name = ''agent'', ct_Image = ''agent:v1'', ct_Command = [], ct_Args = [], ct_Env = [], ct_Capabilities = [],
       ct_LivenessPath = None, ct_ReadinessPath = None\<rparr>],
     pod_Conditions = [(''Ready'', ''True'')]\<rparr>"

theorem MonitorAgent_verdict_witness:
  "\<exists>err s'. MonitorAgent (example_world\<lparr>w_env := nad_env\<lparr>e_pod := \<lambda>_. Inr (example_pod ''u1'')\<rparr>\<rparr>) example_handler example_IPPool
      (ip_Status example_IPPool) start_state = Ret ((ip_Status example_IPPool, err), s') \<and>
    (err = None \<longleftrightarrow> isPodReady (example_pod ''u1'')) \<and> calls s' = [PodGet ''harvester-system'' ''default-pool-agent'']"
proof -
  let ?W = "example_world\<lparr>w_env := nad_env\<lparr>e_pod := \<lambda>_. Inr (example_pod ''u1'')\<rparr>\<rparr>"
  have h: "\<not> noAgent example_handler" "e_pod (w_env ?W) h = Inr (example_pod ''u1'')" "pod_Containers (example_pod ''u1'') \<noteq> []" for h
    by (simp_all add: example_handler_def example_pod_def)
  have "pod_matches \<lparr>pr_Namespace = ''harvester-system'', pr_Name = ''default-pool-agent'', pr_Image = ''agent:v1'', pr_UID = ''u1''\<rparr> (example_pod ''u1'')"
    by (simp add: pod_matches_def example_pod_def)
  with MonitorAgent_verdict [OF example_IPPool_simps(3) h(1) example_IPPool_simps(5) h(2,3), of "ip_Status example_IPPool" start_state]
  show ?thesis by auto
qed

text \<open>The image that the agent should run: upgrades can be held back by an annotation.\<close>

definition expected_image :: "Handler \<Rightarrow> IPPool \<Rightarrow> PodReference \<Rightarrow> string" where
  "expected_image h p ref =
     (if nil_lookup (om_Annotations (ip_Meta p)) holdIPPoolAgentUpgradeAnnotationKey = None then Image_String (agentImage h)
      else pr_Image ref)"

text \<open>
  \<open>DeployAgent\<close> creates a pod only when the recorded one is gone.  While the recorded pod
  exists with the recorded identity it creates nothing and only refreshes the recorded image;
  when the API reports it missing, exactly one pod is created, under the deterministic agent
  name, and the returned status refers to it.
\<close>

theorem DeployAgent_single_pod:
  assumes "\<not> pool_paused p" "\<not> noAgent h" "status = ip_Status p" "st_AgentPodRef status = Some ref"
    "x_RSplit (w_ext W) (pool_network p) ''/'' = (ns, nm)"
    "e_nad (w_env W) (calls s @ [NadGet ns nm]) = Inr nad" "nil_lookup (om_Labels (nad_Meta nad)) clusterNetworkLabelKey = Some cn"
    "prepareAgentPod (w_ext W) p (noDHCP h) (agentNamespace h) cn (agentServiceAccountName h) (agentImage h) = Inr agent"
  shows "case e_pod (w_env W) (calls s @ [NadGet ns nm, PodGet (pr_Namespace ref) (pr_Name ref)]) of
      Inr pod \<Rightarrow> (\<exists>err. DeployAgent W h p status s = Ret ((status\<lparr>st_AgentPodRef := Some (ref\<lparr>pr_Image := expected_image h p ref\<rparr>)\<rparr>, err),
          emit (PodGet (pr_Namespace ref) (pr_Name ref)) (emit (NadGet ns nm) s)) \<and>
        (err = None \<longleftrightarrow> om_DeletionTimestamp (pod_Meta pod) = None \<and> om_UID (pod_Meta pod) = pr_UID ref))
    | Inl e \<Rightarrow> IsNotFound e \<longrightarrow>
        (case e_pod (w_env W) (calls s @ [NadGet ns nm, PodGet (pr_Namespace ref) (pr_Name ref), PodCreate agent]) of
           Inr pod \<Rightarrow> DeployAgent W h p status s =
             Ret ((status\<lparr>st_AgentPodRef := Some \<lparr>pr_Namespace = om_Namespace (pod_Meta pod), pr_Name = om_Name (pod_Meta pod),
                 pr_Image = Image_String (agentImage h), pr_UID = om_UID (pod_Meta pod)\<rparr>\<rparr>, None),
               emit (PodCreate agent) (emit (PodGet (pr_Namespace ref) (pr_Name ref)) (emit (NadGet ns nm) s)))
         | Inl e' \<Rightarrow> \<exists>st s'. DeployAgent W h p status s = Ret ((st, if IsAlreadyExists e' then None else Some e'), s'))"
  using assms
  by (auto simp: DeployAgent_def ask_def deploy_new_def getAgentImage_def expected_image_def Let_def split: sum.splits option.splits)

lemma prepareAgentPod_ok:
  assumes "cidr4 (c4_CIDR (pool_config p)) w k" "x_RSplit x (pool_network p) ''/'' = (ns, nm)"
    "x_MarshalNetworks x [(ns, nm, ''eth1'')] = Inr networks"
  shows "\<exists>agent. prepareAgentPod x p nodhcp ans cn sa img = Inr agent"
  using assms by (simp add: prepareAgentPod_def cidr4_def Let_def)

theorem DeployAgent_single_pod_witness:
  "\<exists>agent. prepareAgentPod example_ext example_IPPool False ''harvester-system'' ''mgmt'' ''agent'' (agentImage example_handler) = Inr agent \<and>
    (\<exists>st s'. DeployAgent (example_world\<lparr>w_env := nad_env\<rparr>) example_handler example_IPPool (ip_Status example_IPPool) start_state =
      Ret ((st, Some missing), s'))"
proof -
  let ?W = "example_world\<lparr>w_env := nad_env\<rparr>" and ?p = example_IPPool and ?h = example_handler
  have split: "x_RSplit (w_ext ?W) (pool_network ?p) ''/'' = (''default'', ''net'')"
    by (simp add: example_IPPool_simps split_last_def)
  have cidr: "cidr4 (c4_CIDR (pool_config ?p)) 0xc0a80000 24" using example_bounds(1) by (simp add: example_IPPool_simps)
  have marshal: "x_MarshalNetworks (w_ext ?W) [(''default'', ''net'', ''eth1'')] = Inr ''default/net@eth1''" by simp
  obtain agent where agent: "prepareAgentPod (w_ext ?W) ?p (noDHCP ?h) (agentNamespace ?h) ''mgmt'' (agentServiceAccountName ?h) (agentImage ?h) = Inr agent"
    using prepareAgentPod_ok [OF cidr split marshal] by blast
  have h: "\<not> noAgent ?h" by (simp add: example_handler_def)
  have nad: "e_nad (w_env ?W) x = Inr \<lparr>nad_Meta = (empty_meta ''default'' ''net'')\<lparr>om_Labels := Some [clusterNetworkLabelKey \<mapsto> ''mgmt'']\<rparr>\<rparr>"
    and lb: "nil_lookup (om_Labels (nad_Meta \<lparr>nad_Meta = (empty_meta ''default'' ''net'')\<lparr>om_Labels := Some [clusterNetworkLabelKey \<mapsto> ''mgmt'']\<rparr>\<rparr>)) clusterNetworkLabelKey = Some ''mgmt''" for x
    by (simp_all add: nil_lookup_def)
  have "\<exists>st s'. DeployAgent ?W ?h ?p (ip_Status ?p) start_state = Ret ((st, Some missing), s')"
    using DeployAgent_single_pod [OF example_IPPool_simps(3) h refl example_IPPool_simps(5) split nad lb agent]
    by (simp add: missing_def IsNotFound_def IsAlreadyExists_def)
  with agent show ?thesis by (auto simp: example_handler_def)
qed

text \<open>
  The name of the agent pod never exceeds the 63 characters of a DNS label, whatever the
  namespace and name of the pool, and two pools with short names get the same agent name only
  if their joined names agree.
\<close>

theorem agent_name_bound:
  "length (SafeAgentConcatName x name) \<le> 63 \<and>
   (length (join ''-'' name) < 58 \<longrightarrow> length (join ''-'' name') < 58 \<longrightarrow>
    SafeAgentConcatName x name = SafeAgentConcatName x name' \<longrightarrow> join ''-'' name = join ''-'' name')"
  by (auto simp: SafeAgentConcatName_def agentConcatName_def Let_def min_def)

theorem agent_name_bound_witness:
  "SafeAgentConcatName example_ext [''default'', ''pool''] \<noteq> SafeAgentConcatName example_ext [''default'', ''poor'']"
  using agent_name_bound [of example_ext "[''default'', ''pool'']" "[''default'', ''poor'']"] by auto

text \<open>
  The gauges of a pool outlive it.  \<open>OnChange\<close> labels them with the key of the object
  (\<open>namespace/name\<close>), but the cleanup of a paused or removed pool deletes the series labelled
  with the network name: whenever the two differ, the value that the gauge had before the
  cleanup is still there afterwards.
\<close>

theorem cleanup_leaves_gauges:
  assumes "key \<noteq> pool_network p" "g \<in> {IPPoolUsed, IPPoolAvailable}" "ippool_cleanup W p s = (err, s')"
  shows "gauge_value g (pool_labels key (c4_CIDR (pool_config p)) (pool_network p)) (calls s') v =
         gauge_value g (pool_labels key (c4_CIDR (pool_config p)) (pool_network p)) (calls s) v"
proof -
  have "set (pool_labels (pool_network p) (c4_CIDR (pool_config p)) (pool_network p)) \<noteq>
      set (pool_labels key (c4_CIDR (pool_config p)) (pool_network p))"
    using assms(1) pool_labels_inject by metis
  with assms(3) show ?thesis
    by (auto simp: ippool_cleanup_def ask_def DeleteIPPool_def gauge_value_append split: option.splits if_splits)
qed

theorem cleanup_leaves_gauges_witness:
  "\<exists>err s'. ippool_cleanup example_world example_IPPool
       (UpdateIPPoolUsed ''default/pool'' ''192.168.0.0/24'' ''default/net'' 1 start_state) = (err, s') \<and>
     gauge_value IPPoolUsed (pool_labels ''default/pool'' ''192.168.0.0/24'' ''default/net'') (calls s') None = Some 1"
proof -
  let ?s = "UpdateIPPoolUsed ''default/pool'' ''192.168.0.0/24'' ''default/net'' 1 start_state"
  obtain err s' where r: "ippool_cleanup example_world example_IPPool ?s = (err, s')" by fastforce
  have "gauge_value IPPoolUsed (pool_labels ''default/pool'' ''192.168.0.0/24'' ''default/net'') (calls ?s) None = Some 1"
    by (simp add: UpdateIPPoolUsed_def)
  with cleanup_leaves_gauges [of "''default/pool''" example_IPPool IPPoolUsed, OF _ _ r, of None] r show ?thesis
    by (simp add: example_IPPool_simps example_config_def)
qed

end
