(* ===== verification/Vmnetcfg_Controller.thy ===== *)
theory Vmnetcfg_Controller
  imports Ippool_Facts
begin

text \<open>
  \<open>pkg/controller/vmnetcfg/controller.go\<close>: the controller of VirtualMachineNetworkConfig
  objects.  \<open>Allocate\<close> gives every network interface an address, \<open>Sync\<close> drops the
  records of interfaces that left the specification, and pausing or removing the object releases
  its addresses.
\<close>

section \<open>Finding the pool and the previous address\<close>

definition getIPPoolFromNetworkName :: "world \<Rightarrow> string \<Rightarrow> ctl \<Rightarrow> (go_error + IPPool) \<times> ctl" where
  "getIPPoolFromNetworkName W networkName s =
     (case x_RSplit (w_ext W) networkName ''/'' of (nadNamespace, nadName) \<Rightarrow>
      case ask (e_nad (w_env W)) (NadGet nadNamespace nadName) s of
        (Inl e, s1) \<Rightarrow> (Inl e, s1)
      | (Inr nad, s1) \<Rightarrow>
          (case om_Labels (nad_Meta nad) of
             None \<Rightarrow> (Inl (Errorf (''network attachment definition '' @ nadNamespace @ ''/'' @ nadName @ '' has no labels'')), s1)
           | Some labels \<Rightarrow>
               (case labels IPPoolNamespaceLabelKey of
                  None \<Rightarrow> (Inl (Errorf (''network attachment definition '' @ nadNamespace @ ''/'' @ nadName
                                @ '' has no label '' @ IPPoolNamespaceLabelKey)), s1)
                | Some ipPoolNamespace \<Rightarrow>
                    (case labels IPPoolNameLabelKey of
                       None \<Rightarrow> (Inl (Errorf (''network attachment definition '' @ nadNamespace @ ''/'' @ nadName
                                     @ '' has no label '' @ IPPoolNameLabelKey)), s1)
                     | Some ipPoolName \<Rightarrow> ask (e_ippool (w_env W)) (IPPoolGet ipPoolNamespace ipPoolName) s1))))"

definition getIPPoolFromNetworkConfig :: "world \<Rightarrow> NetworkConfig \<Rightarrow> ctl \<Rightarrow> (go_error + IPPool) \<times> ctl" where
  "getIPPoolFromNetworkConfig W nc = getIPPoolFromNetworkName W (nc_NetworkName nc)"

definition getIPPoolFromNetworkConfigStatus :: "world \<Rightarrow> NetworkConfigStatus \<Rightarrow> ctl \<Rightarrow> (go_error + IPPool) \<times> ctl" where
  "getIPPoolFromNetworkConfigStatus W ncStatus = getIPPoolFromNetworkName W (ns_NetworkName ncStatus)"

fun findIPAddressFromNetworkConfigStatusByMACAddress :: "NetworkConfigStatus list \<Rightarrow> string \<Rightarrow> string gores" where
  "findIPAddressFromNetworkConfigStatusByMACAddress [] macAddress =
     (IP_String IPv4zero, Some (Errorf (''could not find allocated ip for mac '' @ macAddress)))"
| "findIPAddressFromNetworkConfigStatusByMACAddress (ncStatus # rest) macAddress =
     (if ns_MACAddress ncStatus = macAddress \<and> ns_AllocatedIPAddress ncStatus \<noteq> [] then (ns_AllocatedIPAddress ncStatus, None)
      else findIPAddressFromNetworkConfigStatusByMACAddress rest macAddress)"

definition updateAllNetworkConfigState :: "NetworkConfigStatus list \<Rightarrow> string \<Rightarrow> NetworkConfigStatus list" where
  "updateAllNetworkConfigState ncStatuses st = map (\<lambda>n. n\<lparr>ns_State := st\<rparr>) ncStatuses"

abbreviation vmnetcfg_paused :: "VirtualMachineNetworkConfig \<Rightarrow> bool" where
  "vmnetcfg_paused v \<equiv> is_paused (vs_Paused (vm_Spec v))"

definition vmnetcfg_key :: "VirtualMachineNetworkConfig \<Rightarrow> string" where
  "vmnetcfg_key v = om_Namespace (vm_Meta v) @ ''/'' @ om_Name (vm_Meta v)"

section \<open>Allocate\<close>

text \<open>The address that is requested for an interface unknown to the MAC cache.\<close>

definition desired_ip :: "VirtualMachineNetworkConfig \<Rightarrow> NetworkConfig \<Rightarrow> string" where
  "desired_ip vmNetCfg nc =
     (case findIPAddressFromNetworkConfigStatusByMACAddress (vst_NetworkConfigs (vm_Status vmNetCfg)) (nc_MACAddress nc) of
        (oIP, None) \<Rightarrow> oIP
      | (_, Some _) \<Rightarrow> (case nc_IPAddress nc of None \<Rightarrow> IP_String IPv4zero | Some ip \<Rightarrow> ip))"

text \<open>The address of an interface: recovered from the MAC cache, or newly allocated and entered there.\<close>

definition obtain_ip :: "world \<Rightarrow> VirtualMachineNetworkConfig \<Rightarrow> NetworkConfig \<Rightarrow> ctl \<Rightarrow> (go_error + string) \<times> ctl" where
  "obtain_ip W vmNetCfg nc s =
     (case HasMAC (cacheAllocator s) (nc_NetworkName nc) (nc_MACAddress nc) of
        (_, Some e) \<Rightarrow> (Inl e, s)
      | (True, None) \<Rightarrow>
          (case GetIPByMAC (cacheAllocator s) (nc_NetworkName nc) (nc_MACAddress nc) of
             (_, Some e) \<Rightarrow> (Inl e, s)
           | (ip, None) \<Rightarrow> (Inr ip, s))
      | (False, None) \<Rightarrow>
          (case AllocateIP (w_rng W) (ipAllocator s) (nc_NetworkName nc) (desired_ip vmNetCfg nc) of
             (a, _, Some e) \<Rightarrow> (Inl e, s\<lparr>ipAllocator := a\<rparr>)
           | (a, ip, None) \<Rightarrow>
               (case AddMAC (cacheAllocator s) (nc_NetworkName nc) (nc_MACAddress nc) ip of
                  (c, Some e) \<Rightarrow> (Inl e, s\<lparr>ipAllocator := a, cacheAllocator := c\<rparr>)
                | (c, None) \<Rightarrow> (Inr ip, s\<lparr>ipAllocator := a, cacheAllocator := c\<rparr>))))"

text \<open>The pool with the pair entered into its allocation record.\<close>

definition record_pair :: "IPPool \<Rightarrow> string \<Rightarrow> string \<Rightarrow> IPPool" where
  "record_pair ipPool ip mac =
     (let ipv4Status = (case st_IPv4 (ip_Status ipPool) of None \<Rightarrow> new_IPv4Status | Some st \<Rightarrow> st)
      in ipPool\<lparr>ip_Status := (ip_Status ipPool)\<lparr>st_IPv4 := Some (ipv4Status
           \<lparr>s4_Allocated := Some ((nil_make (s4_Allocated ipv4Status))(ip \<mapsto> mac))\<rparr>)\<rparr>\<rparr>)"

definition stamp :: "nat \<Rightarrow> IPPool \<Rightarrow> IPPool" where
  "stamp t p = p\<lparr>ip_Status := (ip_Status p)\<lparr>st_LastUpdate := t\<rparr>\<rparr>"

text \<open>Store a changed copy of a pool with a new time stamp.\<close>

definition store_pool :: "world \<Rightarrow> IPPool \<Rightarrow> IPPool \<Rightarrow> ctl \<Rightarrow> go_error option \<times> ctl" where
  "store_pool W ipPool ipPoolCpy s =
     (if ipPoolCpy \<noteq> ipPool
      then (case ask (e_now (w_env W)) Now s of (t, s1) \<Rightarrow>
              case ippool_UpdateStatus W (stamp t ipPoolCpy) s1 of ((_, err), s2) \<Rightarrow> (err, s2))
      else (None, s))"

definition allocate_one :: "world \<Rightarrow> VirtualMachineNetworkConfig \<Rightarrow> NetworkConfig \<Rightarrow> ctl \<Rightarrow> (go_error + NetworkConfigStatus) \<times> ctl" where
  "allocate_one W vmNetCfg nc s =
     (case getIPPoolFromNetworkConfig W nc s of
        (Inl e, s1) \<Rightarrow> (Inl e, s1)
      | (Inr ipPool, s1) \<Rightarrow>
          if \<not> x_IsTrue (w_ext W) CacheReady (st_Conditions (ip_Status ipPool))
          then (Inl (Errorf (''ippool '' @ pool_key_name ipPool @ '' is not ready'')), s1)
          else (case obtain_ip W vmNetCfg nc s1 of
              (Inl e, s2) \<Rightarrow> (Inl e, s2)
            | (Inr ip, s2) \<Rightarrow>
                let ncStatus = \<lparr>ns_AllocatedIPAddress = ip, ns_MACAddress = nc_MACAddress nc,
                                ns_NetworkName = nc_NetworkName nc, ns_State = AllocatedState\<rparr>;
                    s3 = UpdateVmNetCfgStatus (vmnetcfg_key vmNetCfg) (ns_NetworkName ncStatus) (ns_MACAddress ncStatus)
                           (ns_AllocatedIPAddress ncStatus) (ns_State ncStatus) s2
                in case store_pool W ipPool (record_pair ipPool ip (nc_MACAddress nc)) s3 of
                     (Some e, s4) \<Rightarrow> (Inl e, s4)
                   | (None, s4) \<Rightarrow> (Inr ncStatus, s4)))"

fun allocate_loop :: "world \<Rightarrow> VirtualMachineNetworkConfig \<Rightarrow> NetworkConfig list \<Rightarrow> NetworkConfigStatus list \<Rightarrow> ctl \<Rightarrow>
    (go_error + NetworkConfigStatus list) \<times> ctl" where
  "allocate_loop W vmNetCfg [] acc s = (Inr acc, s)"
| "allocate_loop W vmNetCfg (nc # ncs) acc s =
     (case allocate_one W vmNetCfg nc s of
        (Inl e, s1) \<Rightarrow> (Inl e, s1)
      | (Inr ncStatus, s1) \<Rightarrow> allocate_loop W vmNetCfg ncs (acc @ [ncStatus]) s1)"

definition Allocate :: "world \<Rightarrow> VirtualMachineNetworkConfig \<Rightarrow> VmNetCfgStatus \<Rightarrow> ctl \<Rightarrow> VmNetCfgStatus gores \<times> ctl" where
  "Allocate W vmNetCfg status s =
     (if vmnetcfg_paused vmNetCfg then ((status, Some (disabled_error ''vmnetcfg'' (vmnetcfg_key vmNetCfg))), s)
      else if x_IsFalse (w_ext W) InSynced (vst_Conditions (vm_Status vmNetCfg))
      then ((status, Some (Errorf (''vmnetcfg '' @ vmnetcfg_key vmNetCfg @ '' is out-of-sync; waiting for reconcile''))), s)
      else (case allocate_loop W vmNetCfg (vs_NetworkConfigs (vm_Spec vmNetCfg)) [] s of
          (Inl e, s1) \<Rightarrow> ((status, Some e), s1)
        | (Inr ncStatuses, s1) \<Rightarrow>
            if ncStatuses = []
            then ((status, Some (Errorf (''no network configs found for vmnetcfg '' @ vmnetcfg_key vmNetCfg))), s1)
            else ((status\<lparr>vst_NetworkConfigs := ncStatuses\<rparr>, None), s1)))"

section \<open>cleanup\<close>

text \<open>Release the address and the MAC cache entry of a status record.\<close>

definition release :: "NetworkConfigStatus \<Rightarrow> ctl \<Rightarrow> go_error option \<times> ctl" where
  "release ncStatus s =
     (case IsAllocated (ipAllocator s) (ns_NetworkName ncStatus) (ns_AllocatedIPAddress ncStatus) of
        (_, Some e) \<Rightarrow> (Some e, s)
      | (isAllocated, None) \<Rightarrow>
          (case (if isAllocated then DeallocateIP (ipAllocator s) (ns_NetworkName ncStatus) (ns_AllocatedIPAddress ncStatus)
                 else (ipAllocator s, None)) of
             (a, Some e) \<Rightarrow> (Some e, s\<lparr>ipAllocator := a\<rparr>)
           | (a, None) \<Rightarrow>
               (case HasMAC (cacheAllocator s) (ns_NetworkName ncStatus) (ns_MACAddress ncStatus) of
                  (_, Some e) \<Rightarrow> (Some e, s\<lparr>ipAllocator := a\<rparr>)
                | (exists, None) \<Rightarrow>
                    (case (if exists then DeleteMAC (cacheAllocator s) (ns_NetworkName ncStatus) (ns_MACAddress ncStatus)
                           else (cacheAllocator s, None)) of
                       (c, err) \<Rightarrow> (err, s\<lparr>ipAllocator := a, cacheAllocator := c\<rparr>)))))"

text \<open>
  The function that is retried on conflict: drop the address from the allocation record of the
  pool.  \<open>delete\<close> on a nil map does nothing; without an IPv4 status the selection of the
  map dereferences nil.
\<close>

definition drop_record :: "world \<Rightarrow> NetworkConfigStatus \<Rightarrow> ctl \<Rightarrow> (go_error option \<times> ctl) outcome" where
  "drop_record W ncStatus s =
     (case getIPPoolFromNetworkConfigStatus W ncStatus s of
        (Inl e, s1) \<Rightarrow> Ret (Some e, s1)
      | (Inr ipPool, s1) \<Rightarrow>
          (case st_IPv4 (ip_Status ipPool) of
             None \<Rightarrow> Panic ''nil pointer dereference''
           | Some st4 \<Rightarrow>
               let cpy = ipPool\<lparr>ip_Status := (ip_Status ipPool)\<lparr>st_IPv4 := Some (st4\<lparr>s4_Allocated :=
                           map_option (\<lambda>m. m(ns_AllocatedIPAddress ncStatus := None)) (s4_Allocated st4)\<rparr>)\<rparr>\<rparr>
               in Ret (store_pool W ipPool cpy s1)))"

fun cleanup_loop :: "world \<Rightarrow> bool \<Rightarrow> NetworkConfigStatus list \<Rightarrow> ctl \<Rightarrow> (go_error option \<times> ctl) outcome" where
  "cleanup_loop W cleanupStaleOnly [] s = Ret (None, s)"
| "cleanup_loop W cleanupStaleOnly (ncStatus # rest) s =
     (if \<not> cleanupStaleOnly \<or> ns_State ncStatus = StaleState then
        (case release ncStatus s of
           (Some e, s1) \<Rightarrow> Ret (Some e, s1)
         | (None, s1) \<Rightarrow>
             go_bind (x_RetryOnConflict (w_ext W) (drop_record W ncStatus) s1) (\<lambda>(err, s2).
               case err of Some e \<Rightarrow> Ret (Some e, s2) | None \<Rightarrow> cleanup_loop W cleanupStaleOnly rest s2))
      else cleanup_loop W cleanupStaleOnly rest s)"

definition vmnetcfg_cleanup :: "world \<Rightarrow> VirtualMachineNetworkConfig \<Rightarrow> bool \<Rightarrow> ctl \<Rightarrow> (go_error option \<times> ctl) outcome" where
  "vmnetcfg_cleanup W vmNetCfg cleanupStaleOnly s =
     cleanup_loop W cleanupStaleOnly (vst_NetworkConfigs (vm_Status vmNetCfg))
       (if cleanupStaleOnly then s else DeleteVmNetCfgStatus (w_env W) (vmnetcfg_key vmNetCfg) s)"

section \<open>Sync, OnChange, OnRemove\<close>

text \<open>
  \<open>Sync\<close> writes the stale state into the elements of the status slice and then cleans up from
  the object.  The handler is called with the status of that object, so the two slices share
  their elements and the cleanup sees the marks; \<open>shared\<close> says whether they do.
\<close>

definition mark_stale :: "string set \<Rightarrow> NetworkConfigStatus list \<Rightarrow> NetworkConfigStatus list" where
  "mark_stale macAddressSet = map (\<lambda>n. if ns_MACAddress n \<in> macAddressSet then n else n\<lparr>ns_State := StaleState\<rparr>)"

definition Sync :: "world \<Rightarrow> bool \<Rightarrow> VirtualMachineNetworkConfig \<Rightarrow> VmNetCfgStatus \<Rightarrow> ctl \<Rightarrow> (VmNetCfgStatus gores \<times> ctl) outcome" where
  "Sync W shared vmNetCfg status s =
     (if vmnetcfg_paused vmNetCfg then Ret ((status, Some (disabled_error ''vmnetcfg'' (vmnetcfg_key vmNetCfg))), s)
      else if x_IsTrue (w_ext W) InSynced (vst_Conditions (vm_Status vmNetCfg)) then Ret ((status, None), s)
      else
        let macAddressSet = set (map nc_MACAddress (vs_NetworkConfigs (vm_Spec vmNetCfg)));
            marked = mark_stale macAddressSet (vst_NetworkConfigs status);
            nonStale = filter (\<lambda>n. ns_MACAddress n \<in> macAddressSet) (vst_NetworkConfigs status);
            obj = (if shared then vmNetCfg\<lparr>vm_Status := (vm_Status vmNetCfg)\<lparr>vst_NetworkConfigs := marked\<rparr>\<rparr> else vmNetCfg)
        in go_bind (vmnetcfg_cleanup W obj True s) (\<lambda>(err, s1).
             case err of
               Some e \<Rightarrow> Ret ((status\<lparr>vst_NetworkConfigs := marked\<rparr>, Some e), s1)
             | None \<Rightarrow> Ret ((status\<lparr>vst_NetworkConfigs := nonStale\<rparr>, None), s1)))"

definition vmnetcfg_UpdateStatus :: "world \<Rightarrow> VirtualMachineNetworkConfig \<Rightarrow> ctl \<Rightarrow> (VirtualMachineNetworkConfig option \<times> go_error option) \<times> ctl" where
  "vmnetcfg_UpdateStatus W v s =
     (case ask (e_vmnetcfg (w_env W)) (VmNetCfgUpdateStatus v) s of
        (Inl e, s1) \<Rightarrow> ((None, Some e), s1)
      | (Inr v', s1) \<Rightarrow> ((Some v', None), s1))"

definition vm_conditions :: "(GenericCondition list \<Rightarrow> GenericCondition list) \<Rightarrow> VirtualMachineNetworkConfig \<Rightarrow> VirtualMachineNetworkConfig" where
  "vm_conditions f v = v\<lparr>vm_Status := (vm_Status v)\<lparr>vst_Conditions := f (vst_Conditions (vm_Status v))\<rparr>\<rparr>"

definition vmnetcfg_OnChange :: "world \<Rightarrow> string \<Rightarrow> VirtualMachineNetworkConfig option \<Rightarrow> ctl \<Rightarrow>
    ((VirtualMachineNetworkConfig option \<times> go_error option) \<times> ctl) outcome" where
  "vmnetcfg_OnChange W key obj s =
     (case obj of
        None \<Rightarrow> Ret ((None, None), s)
      | Some vmNetCfg \<Rightarrow>
          if om_DeletionTimestamp (vm_Meta vmNetCfg) \<noteq> None then Ret ((None, None), s)
          else if vmnetcfg_paused vmNetCfg then
            go_bind (vmnetcfg_cleanup W vmNetCfg False s) (\<lambda>(err, s1).
              case err of
                Some e \<Rightarrow> Ret ((Some vmNetCfg, Some e), s1)
              | None \<Rightarrow>
                  let cpy = vm_conditions (cond_True (w_ext W) Disabled) vmNetCfg;
                      cpy' = cpy\<lparr>vm_Status := (vm_Status cpy)\<lparr>vst_NetworkConfigs :=
                               updateAllNetworkConfigState (vst_NetworkConfigs (vm_Status cpy)) PendingState\<rparr>\<rparr>
                  in if cpy' \<noteq> vmNetCfg then Ret (vmnetcfg_UpdateStatus W cpy' s1) else Ret ((Some vmNetCfg, None), s1))
          else
            let cpy = vm_conditions (cond_False (w_ext W) Disabled) vmNetCfg
            in if cpy \<noteq> vmNetCfg then Ret (vmnetcfg_UpdateStatus W cpy s) else Ret ((Some vmNetCfg, None), s))"

definition vmnetcfg_OnRemove :: "world \<Rightarrow> VirtualMachineNetworkConfig option \<Rightarrow> ctl \<Rightarrow>
    ((VirtualMachineNetworkConfig option \<times> go_error option) \<times> ctl) outcome" where
  "vmnetcfg_OnRemove W obj s =
     (case obj of
        None \<Rightarrow> Ret ((None, None), s)
      | Some vmNetCfg \<Rightarrow>
          go_bind (vmnetcfg_cleanup W vmNetCfg False s) (\<lambda>(err, s1). Ret ((Some vmNetCfg, err), s1)))"

end
