(* ===== verification/Vmnetcfg_Facts.thy ===== *)
theory Vmnetcfg_Facts
  imports Vmnetcfg_Controller
begin

text \<open>
  Properties of the VirtualMachineNetworkConfig controller: allocation keeps the stores
  consistent, never moves an existing binding and reports what is bound; cleanup releases what
  the status records, safely as long as no other interface holds those addresses; and the two
  situations in which it goes wrong.
\<close>

section \<open>Frames\<close>

lemma getIPPoolFromNetworkName_frame:
  assumes "getIPPoolFromNetworkName W n s = (r, s')"
  shows "ipAllocator s' = ipAllocator s \<and> cacheAllocator s' = cacheAllocator s"
  using assms by (auto simp: getIPPoolFromNetworkName_def ask_def split: prod.splits sum.splits option.splits)

lemma store_pool_frame:
  assumes "store_pool W p q s = (r, s')"
  shows "ipAllocator s' = ipAllocator s \<and> cacheAllocator s' = cacheAllocator s"
  using assms by (auto simp: store_pool_def ippool_UpdateStatus_def ask_def split: prod.splits sum.splits if_splits)

lemmas pool_frames = getIPPoolFromNetworkName_frame store_pool_frame

lemma drop_record_frame:
  assumes "drop_record W n s = Ret (r, s')"
  shows "ipAllocator s' = ipAllocator s \<and> cacheAllocator s' = cacheAllocator s"
  using assms by (auto simp: drop_record_def getIPPoolFromNetworkConfigStatus_def Let_def dest!: pool_frames
      split: prod.splits sum.splits option.splits)

lemma retry_frame:
  assumes "retry_law x" "x_RetryOnConflict x (drop_record W n) s = Ret (err, s')"
  shows "ipAllocator s' = ipAllocator s \<and> cacheAllocator s' = cacheAllocator s"
proof -
  have "retry_runs (drop_record W n) s (Ret (err, s'))" using assms by (metis retry_law_def)
  then show ?thesis
    by (rule retry_runs_invariant [where P = "\<lambda>s'. ipAllocator s' = ipAllocator s \<and> cacheAllocator s' = cacheAllocator s"])
      (simp, metis drop_record_frame, rule refl)
qed

section \<open>Bindings\<close>

text \<open>\<open>bound s n mac ip\<close>: the MAC cache binds the hardware address to the address on network \<open>n\<close>.\<close>

definition bound :: "ctl \<Rightarrow> string \<Rightarrow> string \<Rightarrow> string \<Rightarrow> bool" where
  "bound s n mac ip \<longleftrightarrow> (\<exists>t. table_of (cacheAllocator s) n = Some t \<and> t mac = Some ip)"

lemma bound_frame: "cacheAllocator s' = cacheAllocator s \<Longrightarrow> bound s' = bound s"
  by (simp add: bound_def fun_eq_iff)

lemma bound_unique: "bound s n mac ip \<Longrightarrow> bound s n mac ip' \<Longrightarrow> ip = ip'"
  by (auto simp: bound_def)

lemma bound_exclusive: "registry_ok s \<Longrightarrow> bound s n mac ip \<Longrightarrow> bound s n mac' ip \<Longrightarrow> mac = mac'"
  unfolding bound_def by (metis map_injD option.inject registry.consistentD(1) registry_okD(2))

lemma bound_in_use: "registry_ok s \<Longrightarrow> bound s n mac ip \<Longrightarrow> ip \<in> ipam_pool.in_use (ipAllocator s) n"
  by (auto simp: bound_def dest!: registry_okD(2) dest: registry.consistentD(2))

lemma HasMAC_bound: "HasMAC (cacheAllocator s) n mac = (b, None) \<Longrightarrow> b \<longleftrightarrow> (\<exists>ip. bound s n mac ip)"
  by (auto simp: bound_def dest!: mac_cache.has_ok)

lemma GetIPByMAC_bound: "GetIPByMAC (cacheAllocator s) n mac = (ip, None) \<Longrightarrow> bound s n mac ip"
  by (auto simp: bound_def dest!: mac_cache.get_ok)

lemma bound_GetIPByMAC: "bound s n mac ip \<Longrightarrow> GetIPByMAC (cacheAllocator s) n mac = (ip, None)"
  by (auto simp: bound_def table_of_def GetIPByMAC_def)

lemma bound_HasMAC: "bound s n mac ip \<Longrightarrow> HasMAC (cacheAllocator s) n mac = (True, None)"
  by (auto simp: bound_def table_of_def HasMAC_def)

section \<open>Allocation\<close>

text \<open>What one successful step of the allocation loop does to the stores.\<close>

lemma obtain_ip_ok:
  assumes "go_range (w_rng W)" "registry_ok s" "obtain_ip W v nc s = (r, s')"
  shows "registry_ok s' \<and> (\<forall>n mac ip. bound s n mac ip \<longrightarrow> bound s' n mac ip) \<and>
    (\<forall>ip. r = Inr ip \<longrightarrow> bound s' (nc_NetworkName nc) (nc_MACAddress nc) ip)"
proof -
  let ?n = "nc_NetworkName nc" and ?mac = "nc_MACAddress nc"
  obtain b herr where has: "HasMAC (cacheAllocator s) ?n ?mac = (b, herr)" by fastforce
  show ?thesis
  proof (cases "herr \<noteq> None \<or> b")
    case True
    have "s' = s \<and> (\<forall>ip. r = Inr ip \<longrightarrow> GetIPByMAC (cacheAllocator s) ?n ?mac = (ip, None))"
      using True assms(3) has by (cases herr; cases b) (auto simp: obtain_ip_def split: prod.splits option.splits)
    with assms(2) show ?thesis by (auto dest: GetIPByMAC_bound)
  next
    case False
    then have has': "HasMAC (cacheAllocator s) ?n ?mac = (False, None)" using has by auto
    then have new: "\<not> bound s ?n ?mac ip" for ip by (auto dest: HasMAC_bound)
    have known: "\<exists>t. table_of (cacheAllocator s) ?n = Some t" using has' by (auto dest: mac_cache.has_ok)
    obtain a ip aerr where al: "AllocateIP (w_rng W) (ipAllocator s) ?n (desired_ip v nc) = (a, ip, aerr)" by (metis prod_cases3)
    obtain c where ad: "AddMAC (cacheAllocator s) ?n ?mac ip = (c, None)" using known mac_cache.add_known by blast
    show ?thesis
    proof (cases aerr)
      case None
      note al' = al [unfolded None]
      note ok = registry_okD [OF assms(2)]
      have s': "s' = s\<lparr>ipAllocator := a, cacheAllocator := c\<rparr>" "r = Inr ip"
        using assms(3) has' al' ad by (simp_all add: obtain_ip_def)
      have "registry_ok s'" using registry.bind_fresh [OF assms(1) ok al' ad] AllocateIP_wf [OF assms(1) ok(1), of ?n "desired_ip v nc"] al'
        by (simp add: s' registry_ok_def)
      moreover obtain t where t: "table_of (cacheAllocator s) ?n = Some t" "table_of c = (table_of (cacheAllocator s))(?n \<mapsto> t(?mac \<mapsto> ip))"
        using mac_cache.add_ok [OF ad AllocateIP_canonical [OF assms(1) ok(1) al']] by blast
      then have "bound s' n mac i" if "bound s n mac i" for n mac i
        using that new [of i] by (auto simp: bound_def s')
      ultimately show ?thesis using t by (auto simp: bound_def s')
    next
      case (Some e)
      then have "a = ipAllocator s" using AllocateIP_err al by blast
      with assms(2,3) has' al Some show ?thesis by (auto simp: obtain_ip_def bound_def registry_ok_def)
    qed
  qed
qed

lemma allocate_one_ok:
  assumes "go_range (w_rng W)" "registry_ok s" "allocate_one W v nc s = (r, s')"
  shows "registry_ok s' \<and> (\<forall>n mac ip. bound s n mac ip \<longrightarrow> bound s' n mac ip) \<and>
    (\<forall>st. r = Inr st \<longrightarrow> ns_NetworkName st = nc_NetworkName nc \<and> ns_MACAddress st = nc_MACAddress nc \<and>
       ns_State st = AllocatedState \<and> bound s' (ns_NetworkName st) (ns_MACAddress st) (ns_AllocatedIPAddress st))"
proof -
  obtain g s1 where g: "getIPPoolFromNetworkConfig W nc s = (g, s1)" by fastforce
  then have f1: "ipAllocator s1 = ipAllocator s" "cacheAllocator s1 = cacheAllocator s"
    by (auto simp: getIPPoolFromNetworkConfig_def dest: getIPPoolFromNetworkName_frame)
  then have ok1: "registry_ok s1" and b1: "bound s1 = bound s"
    using registry_ok_frame [OF assms(2)] bound_frame by blast+
  show ?thesis
  proof (cases "\<exists>p. g = Inr p \<and> x_IsTrue (w_ext W) CacheReady (st_Conditions (ip_Status p))")
    case False
    with assms(3) g have "s' = s1" "\<nexists>st. r = Inr st" by (auto simp: allocate_one_def split: sum.splits if_splits)
    with ok1 b1 show ?thesis by auto
  next
    case True
    then obtain p where p: "g = Inr p" "x_IsTrue (w_ext W) CacheReady (st_Conditions (ip_Status p))" by blast
    obtain q s2 where q: "obtain_ip W v nc s1 = (q, s2)" by fastforce
    note o = obtain_ip_ok [OF assms(1) ok1 q]
    show ?thesis
    proof (cases q)
      case (Inl e)
      with assms(3) g p q o b1 show ?thesis by (auto simp: allocate_one_def)
    next
      case (Inr ip)
      let ?st = "\<lparr>ns_AllocatedIPAddress = ip, ns_MACAddress = nc_MACAddress nc, ns_NetworkName = nc_NetworkName nc, ns_State = AllocatedState\<rparr>"
      let ?s3 = "UpdateVmNetCfgStatus (vmnetcfg_key v) (nc_NetworkName nc) (nc_MACAddress nc) ip AllocatedState s2"
      obtain e s4 where e: "store_pool W p (record_pair p ip (nc_MACAddress nc)) ?s3 = (e, s4)" by fastforce
      with assms(3) g p q Inr have r: "s' = s4" "r = (case e of None \<Rightarrow> Inr ?st | Some x \<Rightarrow> Inl x)"
        by (auto simp: allocate_one_def split: option.splits)
      have f4: "ipAllocator s' = ipAllocator s2" "cacheAllocator s' = cacheAllocator s2"
        using store_pool_frame [OF e] by (simp_all add: r)
      then have "registry_ok s'" "bound s' = bound s2" using o registry_ok_frame [of s2 s'] bound_frame by blast+
      with o b1 r Inr show ?thesis by (auto split: option.splits)
    qed
  qed
qed

definition bound_status :: "ctl \<Rightarrow> NetworkConfig \<Rightarrow> NetworkConfigStatus \<Rightarrow> bool" where
  "bound_status s nc st \<longleftrightarrow> ns_NetworkName st = nc_NetworkName nc \<and> ns_MACAddress st = nc_MACAddress nc \<and>
     ns_State st = AllocatedState \<and> bound s (ns_NetworkName st) (ns_MACAddress st) (ns_AllocatedIPAddress st)"

lemma allocate_loop_ok:
  assumes "go_range (w_rng W)"
  shows "registry_ok s \<Longrightarrow> allocate_loop W v ncs acc s = (r, s') \<Longrightarrow>
    registry_ok s' \<and> (\<forall>n mac ip. bound s n mac ip \<longrightarrow> bound s' n mac ip) \<and>
    (\<forall>sts. r = Inr sts \<longrightarrow> (\<exists>new. sts = acc @ new \<and> list_all2 (bound_status s') ncs new))"
proof (induction ncs arbitrary: acc s)
  case (Cons nc ncs)
  obtain q s1 where q: "allocate_one W v nc s = (q, s1)" by fastforce
  note one = allocate_one_ok [OF assms Cons.prems(1) q]
  show ?case
  proof (cases q)
    case (Inl e)
    with Cons.prems(2) q one show ?thesis by auto
  next
    case (Inr st)
    with Cons.prems(2) q have l: "allocate_loop W v ncs (acc @ [st]) s1 = (r, s')" by simp
    note IH = Cons.IH [OF conjunct1 [OF one] l]
    from one Inr have "bound_status s1 nc st" unfolding bound_status_def by blast
    with IH have "bound_status s' nc st" by (auto simp: bound_status_def)
    with IH one show ?thesis by fastforce
  qed
qed auto

lemma Allocate_ok:
  assumes "go_range (w_rng W)" "registry_ok s" "Allocate W v status s = ((status', err), s')"
  shows "registry_ok s' \<and> (\<forall>n mac ip. bound s n mac ip \<longrightarrow> bound s' n mac ip) \<and>
    (err = None \<longrightarrow> list_all2 (bound_status s') (vs_NetworkConfigs (vm_Spec v)) (vst_NetworkConfigs status') \<and>
      (\<forall>st \<in> set (vst_NetworkConfigs status'). ns_AllocatedIPAddress st \<in> ipam_pool.in_use (ipAllocator s') (ns_NetworkName st) \<and>
         (\<forall>mac. bound s' (ns_NetworkName st) mac (ns_AllocatedIPAddress st) \<longrightarrow> mac = ns_MACAddress st)))"
proof -
  obtain q s1 where q: "allocate_loop W v (vs_NetworkConfigs (vm_Spec v)) [] s = (q, s1)" by fastforce
  note loop = allocate_loop_ok [OF assms(1,2) q]
  have ok: "registry_ok s'" and mono: "\<forall>n mac ip. bound s n mac ip \<longrightarrow> bound s' n mac ip"
    and res: "err = None \<Longrightarrow> list_all2 (bound_status s') (vs_NetworkConfigs (vm_Spec v)) (vst_NetworkConfigs status')"
    using assms(2,3) q loop by (auto simp: Allocate_def split: if_splits sum.splits)
  have "ns_AllocatedIPAddress st \<in> ipam_pool.in_use (ipAllocator s') (ns_NetworkName st) \<and>
      (\<forall>mac. bound s' (ns_NetworkName st) mac (ns_AllocatedIPAddress st) \<longrightarrow> mac = ns_MACAddress st)"
    if e: "err = None" and st: "st \<in> set (vst_NetworkConfigs status')" for st
  proof -
    obtain nc where "bound_status s' nc st" using res [OF e] st by (auto simp: list_all2_conv_all_nth in_set_conv_nth)
    then have "bound s' (ns_NetworkName st) (ns_MACAddress st) (ns_AllocatedIPAddress st)" unfolding bound_status_def by blast
    with ok show ?thesis by (auto dest: bound_in_use bound_exclusive)
  qed
  with ok mono res show ?thesis by blast
qed

text \<open>
  [C6] \<open>Allocate\<close> keeps the IPAM and the MAC cache consistent whatever it returns, and never
  moves an interface that already has an address.  When it succeeds, the status lists the
  interfaces of the specification in order, each with the address that the MAC cache binds to
  it; these addresses are in use in the IPAM and no other interface of the network holds them.
\<close>

theorem Allocate_binds:
  assumes "go_range (w_rng W)" "registry_ok s" "Allocate W v status s = ((status', err), s')"
  shows "registry_ok s' \<and> (\<forall>n mac ip. bound s n mac ip \<longrightarrow> bound s' n mac ip) \<and>
    (err = None \<longrightarrow> list_all2 (bound_status s') (vs_NetworkConfigs (vm_Spec v)) (vst_NetworkConfigs status') \<and>
      (\<forall>st \<in> set (vst_NetworkConfigs status'). ns_AllocatedIPAddress st \<in> ipam_pool.in_use (ipAllocator s') (ns_NetworkName st) \<and>
         (\<forall>mac. bound s' (ns_NetworkName st) mac (ns_AllocatedIPAddress st) \<longrightarrow> mac = ns_MACAddress st)))"
  using assms by (rule Allocate_ok)

section \<open>Cleanup\<close>

text \<open>
  A status record may be cleaned up safely when no other interface of its network holds its
  address.
\<close>

definition not_stolen :: "ctl \<Rightarrow> NetworkConfigStatus \<Rightarrow> bool" where
  "not_stolen s st \<longleftrightarrow> (\<forall>mac. bound s (ns_NetworkName st) mac (ns_AllocatedIPAddress st) \<longrightarrow> mac = ns_MACAddress st)"

text \<open>What a successful release does to the two stores.\<close>

lemma release_ok:
  assumes "release st s = (None, s')"
  shows "\<exists>q t. pool_of (ipAllocator s) (ns_NetworkName st) = Some q \<and> q (ns_AllocatedIPAddress st) \<noteq> None \<and>
    pool_of (ipAllocator s') = (pool_of (ipAllocator s))(ns_NetworkName st \<mapsto> q(ns_AllocatedIPAddress st \<mapsto> False)) \<and>
    table_of (cacheAllocator s) (ns_NetworkName st) = Some t \<and>
    table_of (cacheAllocator s') = (table_of (cacheAllocator s))(ns_NetworkName st \<mapsto> t(ns_MACAddress st := None)) \<and> calls s' = calls s"
proof -
  let ?n = "ns_NetworkName st" and ?ip = "ns_AllocatedIPAddress st" and ?mac = "ns_MACAddress st"
  obtain b where b: "IsAllocated (ipAllocator s) ?n ?ip = (b, None)"
    using assms by (auto simp: release_def split: prod.splits option.splits)
  then obtain sn where sn: "ipam (ipAllocator s) ?n = Some sn" "ips sn ?ip = Some b"
    by (auto simp: IsAllocated_def split: option.splits)
  then have q: "pool_of (ipAllocator s) ?n = Some (ips sn)" by (simp add: pool_of_def)
  obtain a where a: "(if b then DeallocateIP (ipAllocator s) ?n ?ip else (ipAllocator s, None)) = (a, None)"
    using assms b by (auto simp: release_def split: prod.splits option.splits)
  have pa: "pool_of a = (pool_of (ipAllocator s))(?n \<mapsto> (ips sn)(?ip \<mapsto> False))"
  proof (cases b)
    case True
    with a ipam_pool.dealloc_ok [of "ipAllocator s" ?n ?ip a] q show ?thesis by auto
  next
    case False
    with a sn(2) q show ?thesis by (auto simp: fun_upd_idem)
  qed
  obtain h where h: "HasMAC (cacheAllocator s) ?n ?mac = (h, None)"
    using assms a b by (auto simp: release_def split: prod.splits option.splits)
  then obtain t where t: "table_of (cacheAllocator s) ?n = Some t" "h \<longleftrightarrow> ?mac \<in> dom t" using mac_cache.has_ok by blast
  obtain c where c: "(if h then DeleteMAC (cacheAllocator s) ?n ?mac else (cacheAllocator s, None)) = (c, None)"
    "s' = s\<lparr>ipAllocator := a, cacheAllocator := c\<rparr>"
    using assms a b h by (auto simp: release_def split: prod.splits)
  have "table_of c = (table_of (cacheAllocator s))(?n \<mapsto> t(?mac := None))"
  proof (cases h)
    case True
    with c mac_cache.del_ok [of "cacheAllocator s" ?n ?mac c] t show ?thesis by auto
  next
    case False
    with t have "t(?mac := None) = t" by auto
    with False c t show ?thesis by (auto simp: fun_upd_idem)
  qed
  with q sn(2) pa t c(2) show ?thesis by auto
qed

lemma release_err:
  assumes "release st s = (Some e, s')"
  shows "cacheAllocator s' = cacheAllocator s \<and> (ipAllocator s' = ipAllocator s \<or>
    table_of (cacheAllocator s) (ns_NetworkName st) = None \<and>
    ipAllocator s' = fst (DeallocateIP (ipAllocator s) (ns_NetworkName st) (ns_AllocatedIPAddress st)))"
  using assms
  by (auto simp: release_def HasMAC_def DeleteMAC_def table_of_def split: prod.splits option.splits if_splits dest: DeallocateIP_err)

lemma DeallocateIP_other: "n' \<noteq> n \<Longrightarrow> pool_of (fst (DeallocateIP a n ip)) n' = pool_of a n'"
  by (auto simp: DeallocateIP_def set_ip_def pool_of_def split: option.splits bool.splits)

lemma release_wf: "ipam_wf (ipAllocator s) \<Longrightarrow> release st s = (r, s') \<Longrightarrow> ipam_wf (ipAllocator s')"
  using DeallocateIP_wf [of "ipAllocator s" "ns_NetworkName st" "ns_AllocatedIPAddress st"]
  by (auto simp: release_def split: prod.splits option.splits if_splits)

lemma release_registry:
  assumes "registry_ok s" "not_stolen s st" "release st s = (r, s')"
  shows "registry_ok s'" "bound s' n mac ip \<Longrightarrow> bound s n mac ip"
proof -
  let ?n = "ns_NetworkName st" and ?ip = "ns_AllocatedIPAddress st"
  note ok = registry_okD [OF assms(1)]
  have wf: "ipam_wf (ipAllocator s')" using release_wf [OF ok(1) assms(3)] .
  have "registry_ok s' \<and> (bound s' n mac ip \<longrightarrow> bound s n mac ip)"
  proof (cases r)
    case None
    from release_ok [OF assms(3) [unfolded None]] obtain q t where qt: "pool_of (ipAllocator s) ?n = Some q"
      "pool_of (ipAllocator s') = (pool_of (ipAllocator s))(?n \<mapsto> q(?ip \<mapsto> False))"
      "table_of (cacheAllocator s) ?n = Some t"
      "table_of (cacheAllocator s') = (table_of (cacheAllocator s))(?n \<mapsto> t(ns_MACAddress st := None))" by blast
    have t: "map_inj t" "ran t \<subseteq> ipam_pool.in_use (ipAllocator s) ?n"
      using ok(2) qt(3) by (auto simp: registry.consistent_def)
    have "?ip \<notin> ran (t(ns_MACAddress st := None))"
      using assms(2) qt(3) by (auto simp: not_stolen_def bound_def ran_def split: if_splits)
    moreover have "ipam_pool.in_use (ipAllocator s') ?n = ipam_pool.in_use (ipAllocator s) ?n - {?ip}"
      using qt(1,2) by (auto simp: ipam_pool.in_use_def split: if_splits)
    ultimately have "map_inj (t(ns_MACAddress st := None)) \<and> ran (t(ns_MACAddress st := None)) \<subseteq> ipam_pool.in_use (ipAllocator s') ?n"
      using t ran_del_subset [of t "ns_MACAddress st"] by (auto intro: map_inj_del)
    then have "registry.consistent (ipAllocator s') (cacheAllocator s')"
      by (intro consistent_upd [OF ok(2), of ?n]) (simp_all add: qt(2,4))
    with wf qt(3,4) show ?thesis by (auto simp: registry_ok_def bound_def split: if_splits)
  next
    case (Some e)
    from release_err [OF assms(3) [unfolded Some]] consider "ipAllocator s' = ipAllocator s" "cacheAllocator s' = cacheAllocator s"
      | "table_of (cacheAllocator s) ?n = None" "cacheAllocator s' = cacheAllocator s"
        "ipAllocator s' = fst (DeallocateIP (ipAllocator s) ?n ?ip)" by metis
    then show ?thesis
    proof cases
      case 1
      then show ?thesis using assms(1) by (simp add: registry_ok_def bound_def)
    next
      case 2
      then have "registry.consistent (ipAllocator s') (cacheAllocator s')"
        by (intro consistent_upd [OF ok(2), of ?n]) (simp_all add: DeallocateIP_other)
      with wf 2 show ?thesis by (simp add: registry_ok_def bound_def)
    qed
  qed
  then show "registry_ok s'" "bound s' n mac ip \<Longrightarrow> bound s n mac ip" by blast+
qed

lemma cleanup_loop_registry:
  assumes "retry_law (w_ext W)"
  shows "registry_ok s \<Longrightarrow> \<forall>st \<in> set sts. not_stolen s st \<Longrightarrow> cleanup_loop W b sts s = Ret (err, s') \<Longrightarrow>
    registry_ok s' \<and> (\<forall>n mac ip. bound s' n mac ip \<longrightarrow> bound s n mac ip)"
proof (induction sts arbitrary: s)
  case (Cons st sts)
  show ?case
  proof (cases "\<not> b \<or> ns_State st = StaleState")
    case False
    with Cons show ?thesis by auto
  next
    case True
    obtain r s1 where r: "release st s = (r, s1)" by fastforce
    have st: "not_stolen s st" using Cons.prems(2) by simp
    note rel = release_registry [OF Cons.prems(1) st r]
    show ?thesis
    proof (cases r)
      case (Some e)
      with Cons.prems(3) True r rel show ?thesis by auto
    next
      case None
      with Cons.prems(3) True r obtain err2 s2 where s2: "x_RetryOnConflict (w_ext W) (drop_record W st) s1 = Ret (err2, s2)"
        "(case err2 of Some e \<Rightarrow> Ret (Some e, s2) | None \<Rightarrow> cleanup_loop W b sts s2) = Ret (err, s')"
        by (auto simp: go_bind_Ret_iff)
      note f = retry_frame [OF assms s2(1)]
      have ok2: "registry_ok s2" and b2: "bound s2 = bound s1"
        using registry_ok_frame [OF rel(1), of s2] bound_frame [of s2 s1] f by blast+
      have "\<forall>st \<in> set sts. not_stolen s2 st"
      proof
        fix st' assume "st' \<in> set sts"
        then have "not_stolen s st'" using Cons.prems(2) by simp
        then show "not_stolen s2 st'" unfolding not_stolen_def b2 using rel(2) by blast
      qed
      with Cons.IH [OF ok2] s2(2) rel(2) ok2 b2 show ?thesis by (cases err2) auto
    qed
  qed
qed auto

text \<open>The records that a cleanup handles, and what is left of them.\<close>

definition cleaned :: "bool \<Rightarrow> NetworkConfigStatus list \<Rightarrow> NetworkConfigStatus set" where
  "cleaned staleOnly sts = {st \<in> set sts. \<not> staleOnly \<or> ns_State st = StaleState}"

definition released :: "ctl \<Rightarrow> NetworkConfigStatus \<Rightarrow> bool" where
  "released s st \<longleftrightarrow> ns_AllocatedIPAddress st \<notin> ipam_pool.in_use (ipAllocator s) (ns_NetworkName st) \<and>
     (\<forall>ip. \<not> bound s (ns_NetworkName st) (ns_MACAddress st) ip)"

definition shrinks :: "ctl \<Rightarrow> ctl \<Rightarrow> bool" where
  "shrinks s s' \<longleftrightarrow> (\<forall>n. ipam_pool.in_use (ipAllocator s') n \<subseteq> ipam_pool.in_use (ipAllocator s) n) \<and>
     (\<forall>n mac ip. bound s' n mac ip \<longrightarrow> bound s n mac ip)"

lemma shrinks_refl [simp]: "shrinks s s"
  by (simp add: shrinks_def)

lemma shrinks_trans: "shrinks s s1 \<Longrightarrow> shrinks s1 s2 \<Longrightarrow> shrinks s s2"
  unfolding shrinks_def by (meson subset_trans)

lemma released_shrinks: "released s st \<Longrightarrow> shrinks s s' \<Longrightarrow> released s' st"
  unfolding released_def shrinks_def by (meson subsetD)

lemma shrinks_frame: "ipAllocator s' = ipAllocator s \<Longrightarrow> cacheAllocator s' = cacheAllocator s \<Longrightarrow> shrinks s s'"
  by (simp add: shrinks_def bound_def)

lemma release_effect:
  assumes "release st s = (None, s')"
  shows "released s' st \<and> shrinks s s' \<and>
    (\<forall>n mac ip. bound s n mac ip \<longrightarrow> (n, mac) \<noteq> (ns_NetworkName st, ns_MACAddress st) \<longrightarrow> bound s' n mac ip)"
proof -
  from release_ok [OF assms] obtain q t where
    qt: "pool_of (ipAllocator s) (ns_NetworkName st) = Some q"
    "pool_of (ipAllocator s') = (pool_of (ipAllocator s))(ns_NetworkName st \<mapsto> q(ns_AllocatedIPAddress st \<mapsto> False))"
    "table_of (cacheAllocator s) (ns_NetworkName st) = Some t"
    "table_of (cacheAllocator s') = (table_of (cacheAllocator s))(ns_NetworkName st \<mapsto> t(ns_MACAddress st := None))" by blast
  show ?thesis
    by (intro conjI) (auto simp: released_def shrinks_def ipam_pool.in_use_def bound_def qt split: if_splits)
qed

text \<open>One turn of a successful cleanup.\<close>

lemma cleanup_loop_step:
  assumes "retry_law (w_ext W)" "cleanup_loop W b (st # sts) s = Ret (None, s')" "\<not> b \<or> ns_State st = StaleState"
  shows "\<exists>s1 s2. release st s = (None, s1) \<and> ipAllocator s2 = ipAllocator s1 \<and> cacheAllocator s2 = cacheAllocator s1 \<and>
    cleanup_loop W b sts s2 = Ret (None, s')"
proof -
  obtain s1 where r: "release st s = (None, s1)"
    using assms(2,3) by (auto split: prod.splits option.splits)
  with assms(2,3) obtain err s2 where s2: "x_RetryOnConflict (w_ext W) (drop_record W st) s1 = Ret (err, s2)"
    "(case err of Some e \<Rightarrow> Ret (Some e, s2) | None \<Rightarrow> cleanup_loop W b sts s2) = Ret (None, s')"
    by (auto simp: go_bind_Ret_iff)
  with r retry_frame [OF assms(1) s2(1)] show ?thesis by (cases err) auto
qed

lemma cleanup_loop_effect:
  assumes "retry_law (w_ext W)"
  shows "cleanup_loop W b sts s = Ret (None, s') \<Longrightarrow> shrinks s s' \<and> (\<forall>st \<in> cleaned b sts. released s' st) \<and>
    (\<forall>n mac ip. bound s n mac ip \<longrightarrow> (\<forall>st \<in> cleaned b sts. (n, mac) \<noteq> (ns_NetworkName st, ns_MACAddress st)) \<longrightarrow> bound s' n mac ip)"
proof (induction sts arbitrary: s)
  case Nil
  then show ?case by (simp add: cleaned_def)
next
  case (Cons st sts)
  show ?case
  proof (cases "\<not> b \<or> ns_State st = StaleState")
    case False
    then have "cleaned b (st # sts) = cleaned b sts" by (auto simp: cleaned_def)
    with False Cons show ?thesis by simp
  next
    case True
    then have cl: "cleaned b (st # sts) = insert st (cleaned b sts)" by (auto simp: cleaned_def)
    from cleanup_loop_step [OF assms Cons.prems True] obtain s1 s2 where r: "release st s = (None, s1)"
      and f: "ipAllocator s2 = ipAllocator s1" "cacheAllocator s2 = cacheAllocator s1" and s2: "cleanup_loop W b sts s2 = Ret (None, s')" by blast
    note e = release_effect [OF r] and IH = Cons.IH [OF s2]
    have sh: "shrinks s1 s2" and b2: "bound s2 = bound s1" using f shrinks_frame bound_frame by blast+
    have "shrinks s s'" using e IH sh shrinks_trans by blast
    moreover have "released s' st" using e IH sh released_shrinks by blast
    ultimately show ?thesis using IH e by (auto simp: cl b2)
  qed
qed

text \<open>The set of networks with a table does not change.\<close>

lemma cleanup_loop_tables:
  assumes "retry_law (w_ext W)"
  shows "cleanup_loop W b sts s = Ret (None, s') \<Longrightarrow>
    (\<forall>n. table_of (cacheAllocator s') n = None \<longleftrightarrow> table_of (cacheAllocator s) n = None) \<and>
    (\<forall>st \<in> cleaned b sts. table_of (cacheAllocator s') (ns_NetworkName st) \<noteq> None)"
proof (induction sts arbitrary: s)
  case Nil
  then show ?case by (simp add: cleaned_def)
next
  case (Cons st sts)
  show ?case
  proof (cases "\<not> b \<or> ns_State st = StaleState")
    case False
    then have cl: "cleaned b (st # sts) = cleaned b sts" by (auto simp: cleaned_def)
    have "cleanup_loop W b sts s = Ret (None, s')" using Cons.prems False by simp
    from Cons.IH [OF this] show ?thesis unfolding cl .
  next
    case True
    then have cl: "cleaned b (st # sts) = insert st (cleaned b sts)" by (auto simp: cleaned_def)
    from cleanup_loop_step [OF assms Cons.prems True] obtain s1 s2 where s12: "release st s = (None, s1)"
      "cacheAllocator s2 = cacheAllocator s1" "cleanup_loop W b sts s2 = Ret (None, s')" by blast
    from release_ok [OF s12(1)] have "\<forall>n. table_of (cacheAllocator s1) n = None \<longleftrightarrow> table_of (cacheAllocator s) n = None"
      "table_of (cacheAllocator s) (ns_NetworkName st) \<noteq> None" by (auto split: if_splits)
    with Cons.IH [OF s12(3)] s12(2) show ?thesis unfolding cl by (metis insert_iff)
  qed
qed

lemma OnRemove_ok:
  assumes "retry_law (w_ext W)" "registry_ok s" "\<forall>st \<in> set (vst_NetworkConfigs (vm_Status v)). not_stolen s st"
    "vmnetcfg_OnRemove W (Some v) s = Ret ((r, err), s')"
  shows "registry_ok s' \<and> (err = None \<longrightarrow>
    (\<forall>st \<in> set (vst_NetworkConfigs (vm_Status v)).
       ns_AllocatedIPAddress st \<notin> ipam_pool.in_use (ipAllocator s') (ns_NetworkName st) \<and>
       HasMAC (cacheAllocator s') (ns_NetworkName st) (ns_MACAddress st) = (False, None)) \<and>
    (\<forall>n mac ip. bound s n mac ip \<longrightarrow>
       (\<forall>st \<in> set (vst_NetworkConfigs (vm_Status v)). (n, mac) \<noteq> (ns_NetworkName st, ns_MACAddress st)) \<longrightarrow> bound s' n mac ip))"
proof -
  let ?sts = "vst_NetworkConfigs (vm_Status v)" and ?s = "DeleteVmNetCfgStatus (w_env W) (vmnetcfg_key v) s"
  have ok: "registry_ok ?s" and b: "bound ?s = bound s" using registry_ok_frame [OF assms(2), of ?s] bound_frame [of ?s s] by simp_all
  have loop: "cleanup_loop W False ?sts ?s = Ret (err, s')"
    using assms(4) by (auto simp: vmnetcfg_OnRemove_def vmnetcfg_cleanup_def go_bind_Ret_iff)
  have "\<forall>st \<in> set ?sts. not_stolen ?s st" using assms(3) by (simp add: not_stolen_def b)
  from cleanup_loop_registry [OF assms(1) ok this loop] have "registry_ok s'" by blast
  moreover have cl: "cleaned False ?sts = set ?sts" by (simp add: cleaned_def)
  have "HasMAC (cacheAllocator s') (ns_NetworkName st) (ns_MACAddress st) = (False, None)"
    if e: "err = None" and st: "st \<in> set ?sts" for st
  proof -
    have "released s' st" using cleanup_loop_effect [OF assms(1) loop [unfolded e]] st cl by blast
    then have nb: "\<And>ip. \<not> bound s' (ns_NetworkName st) (ns_MACAddress st) ip" by (simp add: released_def)
    have "table_of (cacheAllocator s') (ns_NetworkName st) \<noteq> None"
      using cleanup_loop_tables [OF assms(1) loop [unfolded e]] st cl by blast
    then obtain x where x: "HasMAC (cacheAllocator s') (ns_NetworkName st) (ns_MACAddress st) = (x, None)"
      by (auto simp: HasMAC_def table_of_def)
    then have "\<not> x" using HasMAC_bound [OF x] nb by simp
    with x show ?thesis by simp
  qed
  moreover have "err = None \<Longrightarrow> (\<forall>st \<in> set ?sts. released s' st) \<and> (\<forall>n mac ip. bound s n mac ip \<longrightarrow>
      (\<forall>st \<in> set ?sts. (n, mac) \<noteq> (ns_NetworkName st, ns_MACAddress st)) \<longrightarrow> bound s' n mac ip)"
    using cleanup_loop_effect [OF assms(1), of False ?sts ?s s'] loop unfolding cl b by blast
  ultimately show ?thesis by (simp add: released_def)
qed

text \<open>
  [C11] Removing a VirtualMachineNetworkConfig gives everything back.  If no other interface holds
  the recorded addresses, the stores stay consistent even when the removal fails half way.  When
  it succeeds, every recorded address is no longer in use and every recorded hardware address is
  unknown, while the bindings of all other interfaces are untouched.
\<close>

theorem OnRemove_releases:
  assumes "retry_law (w_ext W)" "registry_ok s" "\<forall>st \<in> set (vst_NetworkConfigs (vm_Status v)). not_stolen s st"
    "vmnetcfg_OnRemove W (Some v) s = Ret ((r, err), s')"
  shows "registry_ok s' \<and> (err = None \<longrightarrow>
    (\<forall>st \<in> set (vst_NetworkConfigs (vm_Status v)).
       ns_AllocatedIPAddress st \<notin> ipam_pool.in_use (ipAllocator s') (ns_NetworkName st) \<and>
       HasMAC (cacheAllocator s') (ns_NetworkName st) (ns_MACAddress st) = (False, None)) \<and>
    (\<forall>n mac ip. bound s n mac ip \<longrightarrow>
       (\<forall>st \<in> set (vst_NetworkConfigs (vm_Status v)). (n, mac) \<noteq> (ns_NetworkName st, ns_MACAddress st)) \<longrightarrow> bound s' n mac ip))"
  using assms by (rule OnRemove_ok)

text \<open>A cleanup neither adds nor removes addresses of a pool.\<close>

lemma cleanup_loop_owned:
  assumes "retry_law (w_ext W)"
  shows "cleanup_loop W b sts s = Ret (None, s') \<Longrightarrow> pool_of (ipAllocator s) n = Some q \<Longrightarrow>
    \<exists>q'. pool_of (ipAllocator s') n = Some q' \<and> dom q' = dom q"
proof (induction sts arbitrary: s q)
  case (Cons st sts)
  show ?case
  proof (cases "\<not> b \<or> ns_State st = StaleState")
    case False
    with Cons show ?thesis by simp
  next
    case True
    from cleanup_loop_step [OF assms Cons.prems(1) True] obtain s1 s2 where s12: "release st s = (None, s1)"
      "ipAllocator s2 = ipAllocator s1" "cleanup_loop W b sts s2 = Ret (None, s')" by blast
    obtain q1 where q1: "pool_of (ipAllocator s2) n = Some q1" "dom q1 = dom q"
      using release_ok [OF s12(1)] Cons.prems(2) s12(2) by (cases "n = ns_NetworkName st") auto
    from Cons.IH [OF s12(3) q1(1)] q1(2) show ?thesis by simp
  qed
qed simp

section \<open>A ready network\<close>

definition example_nic :: "string \<Rightarrow> NetworkConfig" where
  "example_nic mac = \<lparr>nc_NetworkName = ''default/net'', nc_MACAddress = mac, nc_IPAddress = None\<rparr>"

definition example_record :: "string \<Rightarrow> string \<Rightarrow> NetworkConfigStatus" where
  "example_record mac ip = \<lparr>ns_AllocatedIPAddress = ip, ns_MACAddress = mac, ns_NetworkName = ''default/net'', ns_State = AllocatedState\<rparr>"

definition example_vmnetcfg :: "NetworkConfig list \<Rightarrow> NetworkConfigStatus list \<Rightarrow> bool option \<Rightarrow> VirtualMachineNetworkConfig" where
  "example_vmnetcfg ncs sts paused = \<lparr>vm_Meta = empty_meta ''default'' ''vm'',
     vm_Spec = \<lparr>vs_VMName = ''vm'', vs_NetworkConfigs = ncs, vs_Paused = paused\<rparr>,
     vm_Status = \<lparr>vst_NetworkConfigs = sts, vst_Conditions = []\<rparr>\<rparr>"

definition ready_IPPool :: IPPool where
  "ready_IPPool = set_conditions (set_status CacheReady ''True'') example_IPPool"

definition ready_env :: env where
  "ready_env = nad_env\<lparr>e_nad := (\<lambda>_. Inr \<lparr>nad_Meta = (empty_meta ''default'' ''net'')
       \<lparr>om_Labels := Some [IPPoolNamespaceLabelKey \<mapsto> ''default'', IPPoolNameLabelKey \<mapsto> ''pool'']\<rparr>\<rparr>),
     e_ippool := (\<lambda>_. Inr ready_IPPool), e_vmnetcfg := (\<lambda>_. Inr (example_vmnetcfg [] [] None))\<rparr>"

definition ready_world :: world where
  "ready_world = example_world\<lparr>w_env := ready_env\<rparr>"

lemma ready_world_simps [simp]:
  "w_ext ready_world = example_ext" "w_rng ready_world = sorted_list_of_set" "e_ippool (w_env ready_world) h = Inr ready_IPPool"
  "e_now (w_env ready_world) h = length h" "e_vmnetcfg (w_env ready_world) h = Inr (example_vmnetcfg [] [] None)" "e_gather (w_env ready_world) h = Inr []"
  by (simp_all add: ready_world_def ready_env_def nad_env_def example_env_def)

lemma ready_pool: "getIPPoolFromNetworkName ready_world ''default/net'' s =
    (Inr ready_IPPool, emit (IPPoolGet ''default'' ''pool'') (emit (NadGet ''default'' ''net'') s))"
  by (simp add: getIPPoolFromNetworkName_def ready_world_def ready_env_def split_last_def ask_def
      IPPoolNamespaceLabelKey_def IPPoolNameLabelKey_def)

text \<open>The first address of the pool is in use by the interface \<open>bb\<close>, the second is free.\<close>

definition busy_state :: ctl where
  "busy_state = \<lparr>ipAllocator = example_ipam_used,
     cacheAllocator = \<lparr>cache = [''default/net'' \<mapsto> \<lparr>macs = [''bb'' \<mapsto> IP16 (in6 0xc0a8000a)]\<rparr>]\<rparr>, calls = []\<rparr>"

lemma busy_table: "table_of (cacheAllocator busy_state) = [''default/net'' \<mapsto> [''bb'' \<mapsto> ''192.168.0.10'']]"
  by (auto simp: busy_state_def table_of_def string4_example fun_eq_iff)

lemma busy_pool: "pool_of (ipAllocator busy_state) ''default/net'' = Some [''192.168.0.10'' \<mapsto> True, ''192.168.0.11'' \<mapsto> False]"
  by (auto simp: busy_state_def example_ipam_used_def pool_of_def subnet4_def fun_eq_iff)

lemma busy_ok: "registry_ok busy_state"
proof (rule registry_okI)
  show "ipam_wf (ipAllocator busy_state)"
    using AllocateIP_wf [OF go_range_sorted ipam_reach_wf [OF example_reach], of "''default/net''" "[]"] example_alloc
    by (simp add: busy_state_def)
  show "registry.consistent (ipAllocator busy_state) (cacheAllocator busy_state)"
    using busy_pool by (auto simp: registry.consistent_def busy_table map_inj_def ipam_pool.in_use_def split: if_splits)
qed

lemma busy_bound: "bound busy_state ''default/net'' ''bb'' ''192.168.0.10''"
  by (simp add: bound_def busy_table)

theorem Allocate_binds_witness:
  "\<exists>status' s'. Allocate ready_world (example_vmnetcfg [example_nic ''bb''] [] None) \<lparr>vst_NetworkConfigs = [], vst_Conditions = []\<rparr> busy_state =
      ((status', None), s') \<and> registry_ok s' \<and> bound s' ''default/net'' ''bb'' ''192.168.0.10''"
proof -
  let ?v = "example_vmnetcfg [example_nic ''bb''] [] None" and ?st = "\<lparr>vst_NetworkConfigs = [], vst_Conditions = []\<rparr> :: VmNetCfgStatus"
  obtain status' err s' where r: "Allocate ready_world ?v ?st busy_state = ((status', err), s')" by (metis prod.exhaust_sel)
  have "status_of CacheReady (st_Conditions (ip_Status ready_IPPool)) = Some ''True''"
    by (simp add: ready_IPPool_def set_conditions_def)
  with r have "err = None"
    using bound_GetIPByMAC [OF busy_bound] bound_HasMAC [OF busy_bound]
    by (auto simp: Allocate_def example_vmnetcfg_def example_nic_def is_paused_def example_ext_def allocate_one_def ready_pool
        getIPPoolFromNetworkConfig_def obtain_ip_def store_pool_def ippool_UpdateStatus_def ask_def Let_def split: if_splits)
  with r Allocate_binds [OF _ busy_ok r] busy_bound show ?thesis by (auto simp: go_range_sorted)
qed

lemma busy_IsAllocated: "IsAllocated (ipAllocator busy_state) ''default/net'' ''192.168.0.10'' = (True, None)"
  by (simp add: busy_state_def example_ipam_used_def IsAllocated_def subnet4_def)

text \<open>In the example world every cleanup of a record of the network goes through.\<close>

lemma ready_drop_record:
  "ns_NetworkName st = ''default/net'' \<Longrightarrow> \<exists>s'. drop_record ready_world st s = Ret (None, s')"
  by (auto simp: drop_record_def getIPPoolFromNetworkConfigStatus_def ready_pool ready_IPPool_def set_conditions_def
      example_IPPool_def store_pool_def ippool_UpdateStatus_def ask_def Let_def)

lemma busy_cleanup:
  assumes "ns_NetworkName st = ''default/net''" "ns_AllocatedIPAddress st = ''192.168.0.10''" "\<not> b \<or> ns_State st = StaleState"
    "cacheAllocator s = cacheAllocator busy_state" "ipAllocator s = ipAllocator busy_state"
  shows "\<exists>s'. cleanup_loop ready_world b [st] s = Ret (None, s')"
proof -
  have "\<exists>s1. release st s = (None, s1)"
    using assms busy_IsAllocated
    by (auto simp: release_def busy_state_def example_ipam_used_def DeallocateIP_def subnet4_def HasMAC_def DeleteMAC_def)
  then obtain s1 where r: "release st s = (None, s1)" by blast
  obtain s2 where "drop_record ready_world st s1 = Ret (None, s2)"
    using ready_drop_record [OF assms(1), of s1] by auto
  with r assms(3) show ?thesis by auto
qed

lemma example_record_simps [simp]: "ns_NetworkName (example_record mac ip) = ''default/net''"
  "ns_AllocatedIPAddress (example_record mac ip) = ip" "ns_MACAddress (example_record mac ip) = mac"
  by (simp_all add: example_record_def)

theorem OnRemove_releases_witness:
  "\<exists>r s'. vmnetcfg_OnRemove ready_world (Some (example_vmnetcfg [] [example_record ''bb'' ''192.168.0.10''] None)) busy_state = Ret ((r, None), s') \<and>
    registry_ok s' \<and> ''192.168.0.10'' \<notin> ipam_pool.in_use (ipAllocator s') ''default/net'' \<and>
    HasMAC (cacheAllocator s') ''default/net'' ''bb'' = (False, None)"
proof -
  let ?v = "example_vmnetcfg [] [example_record ''bb'' ''192.168.0.10''] None"
  let ?s = "DeleteVmNetCfgStatus (w_env ready_world) (vmnetcfg_key ?v) busy_state"
  obtain s' where "cleanup_loop ready_world False [example_record ''bb'' ''192.168.0.10''] ?s = Ret (None, s')"
    using busy_cleanup [of "example_record ''bb'' ''192.168.0.10''" False ?s] by auto
  then have r: "vmnetcfg_OnRemove ready_world (Some ?v) busy_state = Ret ((Some ?v, None), s')"
    by (simp add: vmnetcfg_OnRemove_def vmnetcfg_cleanup_def example_vmnetcfg_def)
  have ns: "\<forall>st \<in> set (vst_NetworkConfigs (vm_Status ?v)). not_stolen busy_state st"
    by (simp add: example_vmnetcfg_def not_stolen_def example_record_def bound_def busy_table)
  have law: "retry_law (w_ext ready_world)" using example_ext_laws(3) by simp
  from OnRemove_releases [OF law busy_ok ns r] have "registry_ok s'"
    "\<forall>st \<in> set (vst_NetworkConfigs (vm_Status ?v)). ns_AllocatedIPAddress st \<notin> ipam_pool.in_use (ipAllocator s') (ns_NetworkName st) \<and>
       HasMAC (cacheAllocator s') (ns_NetworkName st) (ns_MACAddress st) = (False, None)" by blast+
  with r show ?thesis by (intro exI [of _ "Some ?v"] exI [of _ s']) (simp add: example_vmnetcfg_def example_record_def)
qed

section \<open>Where cleanup goes wrong\<close>

text \<open>
  [C33] A paused VirtualMachineNetworkConfig keeps its old addresses in its status, and every
  further change event cleans them up again.  If one of them has meanwhile been given to another
  interface, the event frees it although it is bound: the stores are inconsistent, and the next
  request for that address is granted, so two interfaces get the same address.
\<close>

theorem paused_cleanup_frees_reassigned:
  assumes "retry_law (w_ext W)" "registry_ok s" "vmnetcfg_paused v" "om_DeletionTimestamp (vm_Meta v) = None"
    "st \<in> set (vst_NetworkConfigs (vm_Status v))" "bound s (ns_NetworkName st) mac (ns_AllocatedIPAddress st)"
    "\<forall>st' \<in> set (vst_NetworkConfigs (vm_Status v)). ns_MACAddress st' \<noteq> mac"
    "vmnetcfg_OnChange W key (Some v) s = Ret ((r, None), s')"
  shows "bound s' (ns_NetworkName st) mac (ns_AllocatedIPAddress st) \<and>
    ns_AllocatedIPAddress st \<in> ipam_pool.available (ipAllocator s') (ns_NetworkName st) \<and> \<not> registry_ok s'"
proof -
  let ?sts = "vst_NetworkConfigs (vm_Status v)" and ?s = "DeleteVmNetCfgStatus (w_env W) (vmnetcfg_key v) s"
  obtain s1 where loop: "cleanup_loop W False ?sts ?s = Ret (None, s1)"
    and f: "ipAllocator s' = ipAllocator s1" "cacheAllocator s' = cacheAllocator s1"
    using assms(3,4,8)
    by (auto simp: vmnetcfg_OnChange_def vmnetcfg_cleanup_def go_bind_Ret_iff Let_def vmnetcfg_UpdateStatus_def ask_def
        split: option.splits if_splits sum.splits)
  have b: "bound ?s = bound s" by (rule bound_frame) simp
  have cl: "cleaned False ?sts = set ?sts" by (simp add: cleaned_def)
  note eff = cleanup_loop_effect [OF assms(1) loop, unfolded b cl]
  have "bound s1 (ns_NetworkName st) mac (ns_AllocatedIPAddress st)" using eff assms(6,7) by blast
  then have bd: "bound s' (ns_NetworkName st) mac (ns_AllocatedIPAddress st)" using bound_frame [OF f(2)] by simp
  have "released s1 st" using eff assms(5) by blast
  then have nu: "ns_AllocatedIPAddress st \<notin> ipam_pool.in_use (ipAllocator s') (ns_NetworkName st)" by (simp add: released_def f)
  have "ns_AllocatedIPAddress st \<in> ipam_pool.in_use (ipAllocator ?s) (ns_NetworkName st)"
    using bound_in_use [OF assms(2,6)] by simp
  then obtain q where q: "pool_of (ipAllocator ?s) (ns_NetworkName st) = Some q" "q (ns_AllocatedIPAddress st) = Some True"
    by (auto simp: ipam_pool.in_use_def)
  obtain q' where q': "pool_of (ipAllocator s') (ns_NetworkName st) = Some q'" "dom q' = dom q"
    using cleanup_loop_owned [OF assms(1) loop q(1)] f(1) by auto
  with q(2) obtain u where "q' (ns_AllocatedIPAddress st) = Some u" by blast
  with nu q'(1) have "ns_AllocatedIPAddress st \<in> ipam_pool.available (ipAllocator s') (ns_NetworkName st)"
    by (cases u) (auto simp: ipam_pool.in_use_def ipam_pool.available_def)
  with bd nu show ?thesis using bound_in_use by blast
qed

theorem paused_cleanup_frees_reassigned_witness:
  "\<exists>r s'. vmnetcfg_OnChange ready_world ''default/vm''
      (Some (example_vmnetcfg [] [example_record ''aa'' ''192.168.0.10''] (Some True))) busy_state = Ret ((r, None), s') \<and>
    bound s' ''default/net'' ''bb'' ''192.168.0.10'' \<and> ''192.168.0.10'' \<in> ipam_pool.available (ipAllocator s') ''default/net'' \<and> \<not> registry_ok s'"
proof -
  let ?v = "example_vmnetcfg [] [example_record ''aa'' ''192.168.0.10''] (Some True)" and ?st = "example_record ''aa'' ''192.168.0.10''"
  let ?s = "DeleteVmNetCfgStatus (w_env ready_world) (vmnetcfg_key ?v) busy_state"
  obtain s1 where l: "cleanup_loop ready_world False [?st] ?s = Ret (None, s1)"
    using busy_cleanup [of ?st False ?s] by auto
  then have cl: "vmnetcfg_cleanup ready_world ?v False busy_state = Ret (None, s1)"
    by (simp add: vmnetcfg_cleanup_def example_vmnetcfg_def)
  have v: "vmnetcfg_paused ?v" "om_DeletionTimestamp (vm_Meta ?v) = None" "?st \<in> set (vst_NetworkConfigs (vm_Status ?v))"
    "bound busy_state (ns_NetworkName ?st) ''bb'' (ns_AllocatedIPAddress ?st)"
    "\<forall>st' \<in> set (vst_NetworkConfigs (vm_Status ?v)). ns_MACAddress st' \<noteq> ''bb''"
    using busy_bound by (simp_all add: example_vmnetcfg_def is_paused_def empty_meta_def example_record_def)
  obtain r s' where r: "vmnetcfg_OnChange ready_world ''default/vm'' (Some ?v) busy_state = Ret ((r, None), s')"
    using cl v(1,2) that by (cases "vmnetcfg_OnChange ready_world ''default/vm'' (Some ?v) busy_state")
      (auto simp: vmnetcfg_OnChange_def Let_def vmnetcfg_UpdateStatus_def ask_def split: if_splits)
  have law: "retry_law (w_ext ready_world)" using example_ext_laws(3) by simp
  from paused_cleanup_frees_reassigned [OF law busy_ok v r] r show ?thesis
    by (intro exI [of _ r] exI [of _ s']) (simp add: example_record_def)
qed

text \<open>
  An interface that moves to another network but keeps its hardware address gets stuck:
  \<open>Allocate\<close> asks the new network for the address recorded for that hardware address on the old
  one.  When the new subnet does not contain it, every attempt fails and changes nothing.
\<close>

theorem moved_interface_stuck:
  assumes "findIPAddressFromNetworkConfigStatusByMACAddress (vst_NetworkConfigs (vm_Status v)) (nc_MACAddress nc) = (ip, None)"
    "getIPPoolFromNetworkConfig W nc s = (Inr p, s1)" "x_IsTrue (w_ext W) CacheReady (st_Conditions (ip_Status p))"
    "HasMAC (cacheAllocator s) (nc_NetworkName nc) (nc_MACAddress nc) = (False, None)"
    "ipam (ipAllocator s) (nc_NetworkName nc) = Some sn" "specified ip" "\<not> Contains (ipNet sn) (ParseIP ip)"
    "\<not> vmnetcfg_paused v" "\<not> x_IsFalse (w_ext W) InSynced (vst_Conditions (vm_Status v))"
    "vs_NetworkConfigs (vm_Spec v) = nc # ncs"
  shows "\<exists>e s'. Allocate W v status s = ((status, Some e), s') \<and> ipAllocator s' = ipAllocator s \<and> cacheAllocator s' = cacheAllocator s"
proof -
  have f: "ipAllocator s1 = ipAllocator s" "cacheAllocator s1 = cacheAllocator s"
    using getIPPoolFromNetworkName_frame assms(2) by (auto simp: getIPPoolFromNetworkConfig_def)
  have "\<exists>r e. AllocateIP (w_rng W) (ipAllocator s) (nc_NetworkName nc) (desired_ip v nc) = (ipAllocator s, r, Some e)"
    using assms(1,5-7) by (simp add: AllocateIP_def desired_ip_def specified_def)
  with assms f show ?thesis
    by (auto simp: Allocate_def allocate_one_def obtain_ip_def)
qed

theorem moved_interface_stuck_witness:
  "\<exists>e s'. Allocate ready_world (example_vmnetcfg [example_nic ''aa''] [example_record ''aa'' ''10.0.0.7''] None)
      \<lparr>vst_NetworkConfigs = [], vst_Conditions = []\<rparr> busy_state = ((\<lparr>vst_NetworkConfigs = [], vst_Conditions = []\<rparr>, Some e), s') \<and>
    ipAllocator s' = ipAllocator busy_state"
proof -
  let ?v = "example_vmnetcfg [example_nic ''aa''] [example_record ''aa'' ''10.0.0.7''] None"
  have ip: "ParseIP ''10.0.0.7'' = IP16 (in6 0x0a000007)" by (simp add: net_eval)
  have "specified ''10.0.0.7''" by (simp add: specified_def ip)
  moreover have "\<not> Contains (ipNet (subnet4 0xc0a80000 24 0xc0a8000a 0xc0a8000b [''192.168.0.10'' \<mapsto> True, ''192.168.0.11'' \<mapsto> False])) (ParseIP ''10.0.0.7'')"
    by (simp add: subnet4_def Contains_CIDR4 ip same_block_def)
  moreover have "status_of CacheReady (st_Conditions (ip_Status ready_IPPool)) = Some ''True''"
    by (simp add: ready_IPPool_def set_conditions_def)
  moreover have "getIPPoolFromNetworkConfig ready_world (example_nic ''aa'') busy_state =
      (Inr ready_IPPool, emit (IPPoolGet ''default'' ''pool'') (emit (NadGet ''default'' ''net'') busy_state))"
    by (simp add: getIPPoolFromNetworkConfig_def example_nic_def ready_pool)
  ultimately show ?thesis
    using moved_interface_stuck [of ?v "example_nic ''aa''" "''10.0.0.7''" ready_world busy_state ready_IPPool _
      "subnet4 0xc0a80000 24 0xc0a8000a 0xc0a8000b [''192.168.0.10'' \<mapsto> True, ''192.168.0.11'' \<mapsto> False]" "[]"]
    by (simp add: example_vmnetcfg_def example_nic_def example_record_def busy_state_def example_ipam_used_def HasMAC_def is_paused_def
        example_ext_def) blast
qed

section \<open>Sync\<close>

definition spec_macs :: "VirtualMachineNetworkConfig \<Rightarrow> string set" where
  "spec_macs v = nc_MACAddress ` set (vs_NetworkConfigs (vm_Spec v))"

lemma mark_stale_set:
  assumes "\<forall>st \<in> set sts. ns_State st \<noteq> StaleState"
  shows "cleaned True (mark_stale M sts) = (\<lambda>st. st\<lparr>ns_State := StaleState\<rparr>) ` {st \<in> set sts. ns_MACAddress st \<notin> M}"
  using assms by (auto simp: cleaned_def mark_stale_def image_iff)

lemma not_stolen_state: "not_stolen s (st\<lparr>ns_State := x\<rparr>) = not_stolen s st" "released s (st\<lparr>ns_State := x\<rparr>) = released s st"
  by (simp_all add: not_stolen_def released_def)

lemma mark_stale_not_stolen: "\<forall>st \<in> set sts. not_stolen s st \<Longrightarrow> \<forall>st \<in> set (mark_stale M sts). not_stolen s st"
  by (auto simp: mark_stale_def not_stolen_state)

lemma Sync_cleanup:
  assumes "\<not> vmnetcfg_paused v" "\<not> x_IsTrue (w_ext W) InSynced (vst_Conditions (vm_Status v))"
    "Sync W True v (vm_Status v) s = Ret ((st', err), s')"
  shows "cleanup_loop W True (mark_stale (spec_macs v) (vst_NetworkConfigs (vm_Status v))) s = Ret (err, s')"
    "err = None \<Longrightarrow> vst_NetworkConfigs st' = filter (\<lambda>st. ns_MACAddress st \<in> spec_macs v) (vst_NetworkConfigs (vm_Status v))"
  using assms by (auto simp: Sync_def vmnetcfg_cleanup_def Let_def go_bind_Ret_iff spec_macs_def split: option.splits)

lemma Sync_ok:
  assumes "retry_law (w_ext W)" "registry_ok s" "\<not> vmnetcfg_paused v" "\<not> x_IsTrue (w_ext W) InSynced (vst_Conditions (vm_Status v))"
    "\<forall>st \<in> set (vst_NetworkConfigs (vm_Status v)). not_stolen s st \<and> ns_State st \<noteq> StaleState"
    "Sync W True v (vm_Status v) s = Ret ((status', err), s')"
  shows "registry_ok s' \<and> (err = None \<longrightarrow>
    vst_NetworkConfigs status' = filter (\<lambda>st. ns_MACAddress st \<in> spec_macs v) (vst_NetworkConfigs (vm_Status v)) \<and>
    (\<forall>st \<in> set (vst_NetworkConfigs (vm_Status v)). ns_MACAddress st \<notin> spec_macs v \<longrightarrow> released s' st) \<and>
    (\<forall>n mac ip. mac \<in> spec_macs v \<longrightarrow> bound s' n mac ip \<longleftrightarrow> bound s n mac ip))"
proof -
  let ?sts = "vst_NetworkConfigs (vm_Status v)" and ?M = "spec_macs v"
  note loop = Sync_cleanup [OF assms(3,4,6)]
  have ns: "\<forall>st \<in> set (mark_stale ?M ?sts). not_stolen s st" using assms(5) by (intro mark_stale_not_stolen) blast
  have ok: "registry_ok s'" using cleanup_loop_registry [OF assms(1,2) ns loop(1)] by blast
  have live: "\<forall>st \<in> set ?sts. ns_State st \<noteq> StaleState" using assms(5) by blast
  have "(\<forall>st \<in> set ?sts. ns_MACAddress st \<notin> ?M \<longrightarrow> released s' st) \<and>
      (\<forall>n mac ip. mac \<in> ?M \<longrightarrow> bound s' n mac ip \<longleftrightarrow> bound s n mac ip)" if e: "err = None"
  proof -
    note eff = cleanup_loop_effect [OF assms(1) loop(1) [unfolded e], unfolded mark_stale_set [OF live]]
    have rel: "released s' st" if "st \<in> set ?sts" "ns_MACAddress st \<notin> ?M" for st
    proof -
      have "released s' (st\<lparr>ns_State := StaleState\<rparr>)" using eff that by blast
      then show ?thesis by (simp only: not_stolen_state)
    qed
    have "bound s' n mac ip" if "mac \<in> ?M" "bound s n mac ip" for n mac ip using eff that by auto
    moreover have "bound s n mac ip" if "bound s' n mac ip" for n mac ip using eff that by (auto simp: shrinks_def)
    ultimately show ?thesis using rel by blast
  qed
  with ok loop(2) show ?thesis by blast
qed

text \<open>
  [C15] \<open>Sync\<close>, called with the status of the object as the framework does, drops exactly the
  interfaces that left the specification: on success their addresses are free and their hardware
  addresses unknown, the returned status keeps the others in order, and no binding of an
  interface of the specification changes.  The stores stay consistent in any case.
\<close>

theorem Sync_prunes:
  assumes "retry_law (w_ext W)" "registry_ok s" "\<not> vmnetcfg_paused v" "\<not> x_IsTrue (w_ext W) InSynced (vst_Conditions (vm_Status v))"
    "\<forall>st \<in> set (vst_NetworkConfigs (vm_Status v)). not_stolen s st \<and> ns_State st \<noteq> StaleState"
    "Sync W True v (vm_Status v) s = Ret ((status', err), s')"
  shows "registry_ok s' \<and> (err = None \<longrightarrow>
    vst_NetworkConfigs status' = filter (\<lambda>st. ns_MACAddress st \<in> spec_macs v) (vst_NetworkConfigs (vm_Status v)) \<and>
    (\<forall>st \<in> set (vst_NetworkConfigs (vm_Status v)). ns_MACAddress st \<notin> spec_macs v \<longrightarrow> released s' st) \<and>
    (\<forall>n mac ip. mac \<in> spec_macs v \<longrightarrow> bound s' n mac ip \<longleftrightarrow> bound s n mac ip))"
  using assms by (rule Sync_ok)

theorem Sync_prunes_witness:
  "\<exists>status' s'. Sync ready_world True (example_vmnetcfg [example_nic ''cc''] [example_record ''bb'' ''192.168.0.10''] None)
      (vm_Status (example_vmnetcfg [example_nic ''cc''] [example_record ''bb'' ''192.168.0.10''] None)) busy_state = Ret ((status', None), s') \<and>
    registry_ok s' \<and> vst_NetworkConfigs status' = [] \<and> ''192.168.0.10'' \<notin> ipam_pool.in_use (ipAllocator s') ''default/net''"
proof -
  let ?v = "example_vmnetcfg [example_nic ''cc''] [example_record ''bb'' ''192.168.0.10''] None" and ?st = "example_record ''bb'' ''192.168.0.10''"
  have v: "vst_NetworkConfigs (vm_Status ?v) = [?st]" "spec_macs ?v = {''cc''}" "\<not> vmnetcfg_paused ?v"
    "\<not> x_IsTrue (w_ext ready_world) InSynced (vst_Conditions (vm_Status ?v))" "ns_MACAddress ?st = ''bb''"
    by (simp_all add: example_vmnetcfg_def spec_macs_def example_nic_def is_paused_def example_record_def)
  obtain s1 where l: "cleanup_loop ready_world True [?st\<lparr>ns_State := StaleState\<rparr>] busy_state = Ret (None, s1)"
    using busy_cleanup [of "?st\<lparr>ns_State := StaleState\<rparr>" True busy_state] by auto
  then have r: "Sync ready_world True ?v (vm_Status ?v) busy_state = Ret (((vm_Status ?v)\<lparr>vst_NetworkConfigs := []\<rparr>, None), s1)"
    using v by (simp add: Sync_def vmnetcfg_cleanup_def mark_stale_def Let_def) (simp add: example_vmnetcfg_def example_nic_def)
  have ns: "\<forall>st \<in> set (vst_NetworkConfigs (vm_Status ?v)). not_stolen busy_state st \<and> ns_State st \<noteq> StaleState"
    by (simp add: v(1)) (simp add: not_stolen_def example_record_def bound_def busy_table AllocatedState_def StaleState_def)
  have law: "retry_law (w_ext ready_world)" using example_ext_laws(3) by simp
  from Sync_prunes [OF law busy_ok v(3,4) ns r] have "registry_ok s1" "released s1 ?st" by (auto simp: v)
  with r show ?thesis by (auto simp: released_def example_record_def)
qed

text \<open>Without the sharing of the two slices, \<open>Sync\<close> would release nothing.\<close>

lemma Sync_unshared:
  assumes "\<forall>st \<in> set (vst_NetworkConfigs (vm_Status v)). ns_State st \<noteq> StaleState"
    "Sync W False v (vm_Status v) s = Ret ((status', err), s')"
  shows "s' = s"
proof -
  have "cleanup_loop W True sts s = Ret (None, s)" if "\<forall>st \<in> set sts. ns_State st \<noteq> StaleState" for sts
    using that by (induction sts) simp_all
  with assms show ?thesis by (auto simp: Sync_def vmnetcfg_cleanup_def Let_def split: if_splits)
qed

section \<open>Removal that cannot finish\<close>

text \<open>
  A removal needs the network: while the IPAM does not know the network of the first record
  (its pool is paused, gone or not loaded yet), or does not know the recorded address, the removal
  is refused and nothing is released.  When the pool is known but its status has no IPv4 part, the
  controller panics.
\<close>

theorem OnRemove_needs_network:
  assumes "vst_NetworkConfigs (vm_Status v) = st # sts" "x_RetryOnConflict (w_ext W) = (\<lambda>f. f)"
  shows "(ipam (ipAllocator s) (ns_NetworkName st) = None \<or>
      (\<exists>sn. ipam (ipAllocator s) (ns_NetworkName st) = Some sn \<and> ips sn (ns_AllocatedIPAddress st) = None) \<longrightarrow>
      (\<exists>e s'. vmnetcfg_OnRemove W (Some v) s = Ret ((Some v, Some e), s') \<and>
         ipAllocator s' = ipAllocator s \<and> cacheAllocator s' = cacheAllocator s)) \<and>
    (\<forall>s1 p s2. release st (DeleteVmNetCfgStatus (w_env W) (vmnetcfg_key v) s) = (None, s1) \<longrightarrow>
      getIPPoolFromNetworkConfigStatus W st s1 = (Inr p, s2) \<longrightarrow> st_IPv4 (ip_Status p) = None \<longrightarrow>
      (\<exists>m. vmnetcfg_OnRemove W (Some v) s = Panic m))"
  using assms by (auto simp: vmnetcfg_OnRemove_def vmnetcfg_cleanup_def release_def IsAllocated_def drop_record_def split: option.splits)

theorem OnRemove_needs_network_witness:
  "\<exists>e s'. vmnetcfg_OnRemove ready_world (Some (example_vmnetcfg [] [example_record ''bb'' ''192.168.0.10''] None)) start_state =
      Ret ((Some (example_vmnetcfg [] [example_record ''bb'' ''192.168.0.10''] None), Some e), s')"
proof -
  let ?v = "example_vmnetcfg [] [example_record ''bb'' ''192.168.0.10''] None"
  have "vst_NetworkConfigs (vm_Status ?v) = [example_record ''bb'' ''192.168.0.10'']" "x_RetryOnConflict (w_ext ready_world) = (\<lambda>f. f)"
    by (simp_all add: example_vmnetcfg_def fun_eq_iff)
  from OnRemove_needs_network [OF this, of start_state] show ?thesis by (auto simp: NewIPAllocator_def)
qed

end
