(* ===== verification/Dhcp.thy ===== *)
theory Dhcp
  imports Vmnetcfg_Facts
begin

text \<open>
  \<open>pkg/dhcp/dhcp.go\<close>: the lease store of the agent and the DHCP server on top of it.  The
  packet library is outside the repository: building a reply from a request and opening or
  closing a server socket are parameters, and a reply is modelled by the header fields and the
  options that the handler sets, in order.  \<open>net.ParseMAC\<close> and \<open>HardwareAddr.String\<close> of the
  standard library are modelled, because the key of the store is the text of an address.
\<close>

section \<open>Hardware addresses\<close>

text \<open>Two hex digits, followed by the separator if anything follows.\<close>

definition xtoi2 :: "string \<Rightarrow> char \<Rightarrow> nat option" where
  "xtoi2 t e =
     (case t of
        a # b # rest \<Rightarrow>
          if rest \<noteq> [] \<and> hd rest \<noteq> e then None
          else (case (hex_val a, hex_val b) of (Some x, Some y) \<Rightarrow> Some (16 * x + y) | _ \<Rightarrow> None)
      | _ \<Rightarrow> None)"

fun mac_pairs :: "nat \<Rightarrow> char \<Rightarrow> string \<Rightarrow> nat list option" where
  "mac_pairs 0 e t = Some []"
| "mac_pairs (Suc n) e t =
     (case xtoi2 t e of
        None \<Rightarrow> None
      | Some b \<Rightarrow> map_option (\<lambda>bs. b # bs) (mac_pairs n e (drop 3 t)))"

fun mac_quads :: "nat \<Rightarrow> char \<Rightarrow> string \<Rightarrow> nat list option" where
  "mac_quads 0 e t = Some []"
| "mac_quads (Suc n) e t =
     (case (xtoi2 (take 2 t) e, xtoi2 (drop 2 t) e) of
        (Some b, Some c) \<Rightarrow> map_option (\<lambda>bs. b # c # bs) (mac_quads n e (drop 5 t))
      | _ \<Rightarrow> None)"

definition ParseMAC :: "string \<Rightarrow> nat list gores" where
  "ParseMAC t =
     (let bad = ([], Some (ParseAddrError t ''invalid MAC address'')) in
      if length t < 14 then bad
      else if t ! 2 = CHR '':'' \<or> t ! 2 = CHR ''-'' then
        (let n = (length t + 1) div 3 in
         if (length t + 1) mod 3 \<noteq> 0 \<or> n \<notin> {6, 8, 20} then bad
         else (case mac_pairs n (t ! 2) t of None \<Rightarrow> bad | Some hw \<Rightarrow> (hw, None)))
      else if t ! 4 = CHR ''.'' then
        (let n = 2 * (length t + 1) div 5 in
         if (length t + 1) mod 5 \<noteq> 0 \<or> n \<notin> {6, 8, 20} then bad
         else (case mac_quads (n div 2) (t ! 4) t of None \<Rightarrow> bad | Some hw \<Rightarrow> (hw, None)))
      else bad)"

definition HardwareAddr_String :: "nat list \<Rightarrow> string" where
  "HardwareAddr_String hw = join '':'' (map (\<lambda>b. [hex_digit (b div 16), hex_digit (b mod 16)]) hw)"

section \<open>Leases\<close>

record DHCPLease =
  l_ServerIP :: net_ip
  l_ClientIP :: net_ip
  l_SubnetMask :: "ip_mask option"
  l_Router :: net_ip
  l_DNS :: "net_ip list"
  l_DomainName :: string
  l_DomainSearch :: "string list"
  l_NTP :: "net_ip list"
  l_LeaseTime :: int

definition zero_lease :: DHCPLease where
  "zero_lease = \<lparr>l_ServerIP = NilIP, l_ClientIP = NilIP, l_SubnetMask = None, l_Router = NilIP, l_DNS = [], l_DomainName = [],
     l_DomainSearch = [], l_NTP = [], l_LeaseTime = 0\<rparr>"

text \<open>A server is a handle; a nil server is \<open>None\<close>.\<close>

record DHCPAllocator =
  leases :: "string \<rightharpoonup> DHCPLease"
  servers :: "string \<rightharpoonup> nat option"

definition NewDHCPAllocator :: DHCPAllocator where
  "NewDHCPAllocator = \<lparr>leases = Map.empty, servers = Map.empty\<rparr>"

definition checkLease :: "DHCPAllocator \<Rightarrow> string \<Rightarrow> bool" where
  "checkLease a hwAddr \<longleftrightarrow> leases a hwAddr \<noteq> None"

text \<open>
  The NTP servers of a lease: an IPv4 address is taken as it is, any other entry is resolved and
  the IPv4 addresses of the answer are kept; a failed resolution is only logged.
\<close>

definition ntp_addrs :: "(string \<Rightarrow> net_ip list gores) \<Rightarrow> string list \<Rightarrow> net_ip list" where
  "ntp_addrs lookupIP ntpServers =
     concat (map (\<lambda>t. case To4 (ParseIP t) of
                        Some w \<Rightarrow> [IP4 w]
                      | None \<Rightarrow> concat (map (\<lambda>ip. case To4 ip of Some w \<Rightarrow> [IP4 w] | None \<Rightarrow> []) (fst (lookupIP t)))) ntpServers)"

definition make_lease :: "(string \<Rightarrow> net_ip list gores) \<Rightarrow> string \<Rightarrow> string \<Rightarrow> ip_mask \<Rightarrow> string \<Rightarrow> string list \<Rightarrow> string option \<Rightarrow>
    string list \<Rightarrow> string list \<Rightarrow> int option \<Rightarrow> DHCPLease" where
  "make_lease lookupIP serverIP clientIP m routerIP dnsServers domainName domainSearch ntpServers leaseTime =
     \<lparr>l_ServerIP = ParseIP serverIP, l_ClientIP = ParseIP clientIP, l_SubnetMask = Some m, l_Router = ParseIP routerIP,
      l_DNS = map ParseIP dnsServers, l_DomainName = (case domainName of None \<Rightarrow> [] | Some d \<Rightarrow> d), l_DomainSearch = domainSearch,
      l_NTP = ntp_addrs lookupIP ntpServers, l_LeaseTime = (case leaseTime of None \<Rightarrow> 0 | Some t \<Rightarrow> t)\<rparr>"

definition AddLease :: "(string \<Rightarrow> net_ip list gores) \<Rightarrow> DHCPAllocator \<Rightarrow> string \<Rightarrow> string \<Rightarrow> string \<Rightarrow> string \<Rightarrow> string \<Rightarrow>
    string list \<Rightarrow> string option \<Rightarrow> string list \<Rightarrow> string list \<Rightarrow> int option \<Rightarrow> DHCPAllocator \<times> go_error option" where
  "AddLease lookupIP a hwAddr serverIP clientIP cidr routerIP dnsServers domainName domainSearch ntpServers leaseTime =
     (if hwAddr = [] then (a, Some (Errorf ''hwaddr is empty''))
      else if snd (ParseMAC hwAddr) \<noteq> None then (a, Some (Errorf (''hwaddr '' @ hwAddr @ '' is not valid'')))
      else if checkLease a hwAddr then (a, Some (Errorf (''lease for hwaddr '' @ hwAddr @ '' already exists'')))
      else (case ParseCIDR cidr of
          (_, Some e) \<Rightarrow> (a, Some e)
        | ((_, net), None) \<Rightarrow>
            (a\<lparr>leases := (leases a)(hwAddr \<mapsto> make_lease lookupIP serverIP clientIP (case net of Some n \<Rightarrow> IPNet_Mask n | None \<Rightarrow> Mask4 0)
                 routerIP dnsServers domainName domainSearch ntpServers leaseTime)\<rparr>, None)))"

definition GetLease :: "DHCPAllocator \<Rightarrow> string \<Rightarrow> DHCPLease" where
  "GetLease a hwAddr = (case leases a hwAddr of None \<Rightarrow> zero_lease | Some l \<Rightarrow> l)"

definition DeleteLease :: "DHCPAllocator \<Rightarrow> string \<Rightarrow> DHCPAllocator \<times> go_error option" where
  "DeleteLease a hwAddr =
     (if \<not> checkLease a hwAddr then (a, Some (Errorf (''lease for hwaddr '' @ hwAddr @ '' does not exists'')))
      else (a\<lparr>leases := (leases a)(hwAddr := None)\<rparr>, None))"

text \<open>\<open>json.Marshal\<close> of a lease is a parameter; a failure prints as the empty string.\<close>

definition Lease_String :: "(DHCPLease \<Rightarrow> go_error + string) \<Rightarrow> DHCPLease \<Rightarrow> string" where
  "Lease_String marshal l = (case marshal l of Inl e \<Rightarrow> [] | Inr t \<Rightarrow> t)"

fun list_leases :: "(DHCPLease \<Rightarrow> go_error + string) \<Rightarrow> (string \<rightharpoonup> DHCPLease) \<Rightarrow> string list \<Rightarrow> (string \<rightharpoonup> string) \<Rightarrow> (string \<rightharpoonup> string)" where
  "list_leases marshal m [] acc = acc"
| "list_leases marshal m (mac # ks) acc = list_leases marshal m ks (acc(mac := map_option (Lease_String marshal) (m mac)))"

definition Dhcp_ListAll :: "range_order \<Rightarrow> (DHCPLease \<Rightarrow> go_error + string) \<Rightarrow> DHCPAllocator \<Rightarrow> (string \<rightharpoonup> string) gores" where
  "Dhcp_ListAll rng marshal a = (list_leases marshal (leases a) (rng (dom (leases a))) Map.empty, None)"

section \<open>The packet handler\<close>

datatype message_type = MsgDiscover | MsgOffer | MsgRequest | MsgAck | MsgOther nat

datatype dhcp_option =
    OptServerIdentifier net_ip
  | OptSubnetMask "ip_mask option"
  | OptRouter net_ip
  | OptDNS "net_ip list"
  | OptDomainName string
  | OptDomainSearch "string list"
  | OptNTPServers "net_ip list"
  | OptIPAddressLeaseTime int
  | OptMessageType message_type

record packet =
  p_BootRequest :: bool
  p_ClientHWAddr :: "nat list"
  p_TransactionID :: nat
  p_Flags :: nat
  p_GatewayIPAddr :: net_ip
  p_MessageType :: message_type

record 'b reply =
  r_Base :: 'b
  r_ClientIPAddr :: net_ip
  r_ServerIPAddr :: net_ip
  r_YourIPAddr :: net_ip
  r_TransactionID :: nat
  r_ClientHWAddr :: "nat list"
  r_Flags :: nat
  r_GatewayIPAddr :: net_ip
  r_Options :: "dhcp_option list"

text \<open>\<open>time.Duration\<close> counts nanoseconds in a signed 64-bit integer, and products wrap.\<close>

definition second :: int where "second = 1000000000"

definition duration :: "int \<Rightarrow> int" where
  "duration n = signed_take_bit 63 n"

definition lease_options :: "DHCPLease \<Rightarrow> dhcp_option list" where
  "lease_options l =
     [OptServerIdentifier (l_ServerIP l), OptSubnetMask (l_SubnetMask l), OptRouter (l_Router l)]
     @ (if l_DNS l \<noteq> [] then [OptDNS (l_DNS l)] else [])
     @ (if l_DomainName l \<noteq> [] then [OptDomainName (l_DomainName l)] else [])
     @ (if l_DomainSearch l \<noteq> [] then [OptDomainSearch (l_DomainSearch l)] else [])
     @ (if l_NTP l \<noteq> [] then [OptNTPServers (l_NTP l)] else [])
     @ [OptIPAddressLeaseTime (if l_LeaseTime l > 0 then duration (l_LeaseTime l * second) else duration (31536000 * second))]"

definition fill_reply :: "'b \<Rightarrow> DHCPLease \<Rightarrow> packet \<Rightarrow> message_type \<Rightarrow> 'b reply" where
  "fill_reply base l m t =
     \<lparr>r_Base = base, r_ClientIPAddr = l_ClientIP l, r_ServerIPAddr = l_ServerIP l, r_YourIPAddr = l_ClientIP l,
      r_TransactionID = p_TransactionID m, r_ClientHWAddr = p_ClientHWAddr m, r_Flags = p_Flags m,
      r_GatewayIPAddr = p_GatewayIPAddr m, r_Options = lease_options l @ [OptMessageType t]\<rparr>"

text \<open>The reply that is sent to the peer, if any.\<close>

definition dhcpHandler :: "(packet \<Rightarrow> go_error + 'b) \<Rightarrow> DHCPAllocator \<Rightarrow> packet option \<Rightarrow> 'b reply option" where
  "dhcpHandler newReplyFromRequest a pkt =
     (case pkt of
        None \<Rightarrow> None
      | Some m \<Rightarrow>
          if \<not> p_BootRequest m then None
          else (case newReplyFromRequest m of
              Inl e \<Rightarrow> None
            | Inr base \<Rightarrow>
                let lease = GetLease a (HardwareAddr_String (p_ClientHWAddr m)) in
                if l_ClientIP lease = NilIP then None
                else (case p_MessageType m of
                    MsgDiscover \<Rightarrow> Some (fill_reply base lease m MsgOffer)
                  | MsgRequest \<Rightarrow> Some (fill_reply base lease m MsgAck)
                  | _ \<Rightarrow> None)))"

section \<open>Starting and stopping\<close>

definition Dhcp_Run :: "(string \<Rightarrow> go_error + nat) \<Rightarrow> DHCPAllocator \<Rightarrow> string \<Rightarrow> DHCPAllocator \<times> go_error option" where
  "Dhcp_Run newServer a nic =
     (case newServer nic of
        Inl e \<Rightarrow> (a, Some e)
      | Inr server \<Rightarrow> (a\<lparr>servers := (servers a)(nic \<mapsto> Some server)\<rparr>, None))"

definition DryRun :: "DHCPAllocator \<Rightarrow> string \<Rightarrow> DHCPAllocator \<times> go_error option" where
  "DryRun a nic = (a\<lparr>servers := (servers a)(nic \<mapsto> None)\<rparr>, None)"

definition Dhcp_stop :: "(nat \<Rightarrow> go_error option) \<Rightarrow> DHCPAllocator \<Rightarrow> string \<Rightarrow> go_error option" where
  "Dhcp_stop closeServer a nic =
     (case servers a nic of Some (Some server) \<Rightarrow> closeServer server | _ \<Rightarrow> None)"

end
