(* ===== verification/Agent.thy ===== *)
theory Agent
  imports Dhcp
begin

text \<open>
  \<open>pkg/agent\<close>: the agent of one pool.  It follows the IPPool object and keeps the lease store
  of the DHCP server in line with the allocation record, remembering the record it has applied in
  \<open>poolCache\<close>.  The informer's store and the work queue are parts of client-go; here the store is
  a map from keys to objects, and the decision of \<open>handleErr\<close> is returned as a value.
\<close>

section \<open>Lease store updates\<close>

record Controller =
  dhcpAllocator :: DHCPAllocator
  poolCache :: "string \<rightharpoonup> string"

definition NewController :: "DHCPAllocator \<Rightarrow> (string \<rightharpoonup> string) \<Rightarrow> Controller" where
  "NewController d c = \<lparr>dhcpAllocator = d, poolCache = c\<rparr>"

text \<open>\<open>filterExcludedAndReserved\<close> deletes the marked entries of the map in place; the loop is over its keys.\<close>

fun filter_loop :: "labels \<Rightarrow> string list \<Rightarrow> labels" where
  "filter_loop m [] = m"
| "filter_loop m (ip # ks) =
     filter_loop (if m ip = Some ExcludedMark \<or> m ip = Some ReservedMark then m(ip := None) else m) ks"

definition filterExcludedAndReserved :: "range_order \<Rightarrow> labels option \<Rightarrow> labels option" where
  "filterExcludedAndReserved rng allocated = map_option (\<lambda>m. filter_loop m (rng (dom m))) allocated"

text \<open>The first loop: follow changed entries, drop the leases of removed ones.\<close>

fun prune_loop :: "labels \<Rightarrow> string list \<Rightarrow> Controller \<Rightarrow> Controller \<times> go_error option" where
  "prune_loop latest [] c = (c, None)"
| "prune_loop latest (ip # ks) c =
     (case latest ip of
        Some newMAC \<Rightarrow>
          prune_loop latest ks (if poolCache c ip \<noteq> Some newMAC then c\<lparr>poolCache := (poolCache c)(ip \<mapsto> newMAC)\<rparr> else c)
      | None \<Rightarrow>
          (case DeleteLease (dhcpAllocator c) (case poolCache c ip of None \<Rightarrow> [] | Some mac \<Rightarrow> mac) of
             (d, Some e) \<Rightarrow> (c\<lparr>dhcpAllocator := d\<rparr>, Some e)
           | (d, None) \<Rightarrow> prune_loop latest ks (c\<lparr>dhcpAllocator := d, poolCache := (poolCache c)(ip := None)\<rparr>)))"

text \<open>The second loop: add a lease for every new entry.\<close>

fun add_loop :: "(string \<Rightarrow> net_ip list gores) \<Rightarrow> labels \<Rightarrow> IPv4Config \<Rightarrow> string list \<Rightarrow> Controller \<Rightarrow> Controller \<times> go_error option" where
  "add_loop lookupIP latest cfg [] c = (c, None)"
| "add_loop lookupIP latest cfg (newIP # ks) c =
     (case poolCache c newIP of
        Some _ \<Rightarrow> add_loop lookupIP latest cfg ks c
      | None \<Rightarrow>
          let newMAC = (case latest newIP of None \<Rightarrow> [] | Some mac \<Rightarrow> mac) in
          case AddLease lookupIP (dhcpAllocator c) newMAC (c4_ServerIP cfg) newIP (c4_CIDR cfg) (c4_Router cfg) (c4_DNS cfg)
                 (c4_DomainName cfg) (c4_DomainSearch cfg) (c4_NTP cfg) (c4_LeaseTime cfg) of
            (d, Some e) \<Rightarrow> (c\<lparr>dhcpAllocator := d\<rparr>, Some e)
          | (d, None) \<Rightarrow> add_loop lookupIP latest cfg ks (c\<lparr>dhcpAllocator := d, poolCache := (poolCache c)(newIP \<mapsto> newMAC)\<rparr>))"

definition updatePoolCacheAndLeaseStore :: "range_order \<Rightarrow> (string \<Rightarrow> net_ip list gores) \<Rightarrow> Controller \<Rightarrow> labels \<Rightarrow> IPv4Config \<Rightarrow>
    Controller \<times> go_error option" where
  "updatePoolCacheAndLeaseStore rng lookupIP c latest cfg =
     (case prune_loop latest (rng (dom (poolCache c))) c of
        (c1, Some e) \<Rightarrow> (c1, Some e)
      | (c1, None) \<Rightarrow> add_loop lookupIP latest cfg (rng (dom latest)) c1)"

text \<open>
  \<open>Update\<close> returns the controller, the error and the object of the informer's store, whose
  allocation record it filters in place.
\<close>

definition Update :: "ext \<Rightarrow> range_order \<Rightarrow> (string \<Rightarrow> net_ip list gores) \<Rightarrow> Controller \<Rightarrow> IPPool \<Rightarrow> (Controller \<times> go_error option) \<times> IPPool" where
  "Update x rng lookupIP c ipPool =
     (if \<not> x_IsTrue x CacheReady (st_Conditions (ip_Status ipPool)) then ((c, None), ipPool)
      else (case st_IPv4 (ip_Status ipPool) of
          None \<Rightarrow> ((c, None), ipPool)
        | Some st4 \<Rightarrow>
            let allocated = filterExcludedAndReserved rng (s4_Allocated st4);
                ipPool' = ipPool\<lparr>ip_Status := (ip_Status ipPool)\<lparr>st_IPv4 := Some (st4\<lparr>s4_Allocated := allocated\<rparr>)\<rparr>\<rparr>
            in (updatePoolCacheAndLeaseStore rng lookupIP c (nil_make allocated) (ps_IPv4Config (ip_Spec ipPool)), ipPool')))"

section \<open>The event loop\<close>

definition ADD :: string where "ADD = ''add''"
definition UPDATE :: string where "UPDATE = ''update''"
definition DELETE :: string where "DELETE = ''delete''"

record Event =
  ev_key :: string
  ev_action :: string
  ev_poolName :: string
  ev_poolNetworkName :: string

text \<open>The event that the informer's update callback enqueues.\<close>

definition update_event :: "IPPool \<Rightarrow> Event" where
  "update_event p = \<lparr>ev_key = pool_key_name p, ev_action = UPDATE, ev_poolName = om_Name (ip_Meta p),
     ev_poolNetworkName = ps_NetworkName (ip_Spec p)\<rparr>"

record agent =
  ag_poolName :: string
  ag_controller :: Controller
  ag_store :: "string \<rightharpoonup> IPPool"

definition agent_sync :: "ext \<Rightarrow> range_order \<Rightarrow> (string \<Rightarrow> net_ip list gores) \<Rightarrow> (string \<Rightarrow> go_error option) \<Rightarrow> agent \<Rightarrow> Event \<Rightarrow>
    agent \<times> go_error option" where
  "agent_sync x rng lookupIP getErr a event =
     (case getErr (ev_key event) of
        Some e \<Rightarrow> (a, Some e)
      | None \<Rightarrow>
          if ag_store a (ev_key event) = None \<and> ev_action event \<noteq> DELETE then (a, None)
          else if ev_poolName event \<noteq> ag_poolName a then (a, None)
          else if ev_action event = UPDATE then
            (case ag_store a (ev_key event) of
               None \<Rightarrow> (a, None)
             | Some ipPool \<Rightarrow>
                 (case Update x rng lookupIP (ag_controller a) ipPool of
                    ((c, _), ipPool') \<Rightarrow>
                      (a\<lparr>ag_controller := c, ag_store := (ag_store a)(ev_key event \<mapsto> ipPool')\<rparr>, None)))
          else (a, None))"

datatype queue_op = Forget | AddRateLimited

definition handleErr :: "go_error option \<Rightarrow> nat \<Rightarrow> queue_op" where
  "handleErr err numRequeues =
     (if err = None then Forget else if numRequeues < 5 then AddRateLimited else Forget)"

definition processNextItem :: "ext \<Rightarrow> range_order \<Rightarrow> (string \<Rightarrow> net_ip list gores) \<Rightarrow> (string \<Rightarrow> go_error option) \<Rightarrow> agent \<Rightarrow> Event option \<Rightarrow> nat \<Rightarrow>
    (agent \<times> queue_op) option" where
  "processNextItem x rng lookupIP getErr a next numRequeues =
     (case next of
        None \<Rightarrow> None
      | Some event \<Rightarrow>
          (case agent_sync x rng lookupIP getErr a event of (a', err) \<Rightarrow> Some (a', handleErr err numRequeues)))"

end
