(* ===== verification/Agent_Facts.thy ===== *)
theory Agent_Facts
  imports Agent
begin

text \<open>
  Properties of the DHCP server and of the agent: hardware addresses survive printing and
  parsing, the reply carries the lease, an update makes the lease store serve exactly the
  allocation record, and the cases in which it does not.
\<close>

section \<open>Hardware addresses\<close>

lemma hex_val_digit [simp]: "n < 16 \<Longrightarrow> hex_val (hex_digit n) = Some n"
  by (auto simp: hex_val_def hex_digit_def Let_def)

lemma hex_pair: "b < 256 \<Longrightarrow> xtoi2 (hex_digit (b div 16) # hex_digit (b mod 16) # rest) e = (if rest \<noteq> [] \<and> hd rest \<noteq> e then None else Some b)"
  by (simp add: xtoi2_def)

lemma HardwareAddr_String_Cons:
  "HardwareAddr_String (b # hw) = hex_digit (b div 16) # hex_digit (b mod 16) # (if hw = [] then [] else CHR '':'' # HardwareAddr_String hw)"
  by (cases hw) (simp_all add: HardwareAddr_String_def)

lemma length_HardwareAddr_String: "length (HardwareAddr_String hw) = 3 * length hw - 1"
  by (induction hw) (auto simp: HardwareAddr_String_Cons, simp add: HardwareAddr_String_def)

lemma mac_pairs_String:
  "\<forall>b \<in> set hw. b < 256 \<Longrightarrow> mac_pairs (length hw) (CHR '':'') (HardwareAddr_String hw) = Some hw"
proof (induction hw)
  case (Cons b hw)
  then show ?case by (cases "hw = []") (simp_all add: HardwareAddr_String_Cons hex_pair)
qed simp

lemma ParseMAC_bytes:
  assumes "length hw \<in> {6, 8, 20}" "\<forall>b \<in> set hw. b < 256"
  shows "ParseMAC (HardwareAddr_String hw) = (hw, None)"
proof -
  let ?t = "HardwareAddr_String hw"
  have len: "length ?t = 3 * length hw - 1" by (rule length_HardwareAddr_String)
  obtain b c hw' where hw: "hw = b # c # hw'" using assms(1) by (cases hw; cases "tl hw") auto
  have "?t ! 2 = CHR '':''" by (simp add: hw HardwareAddr_String_Cons)
  moreover have "(length ?t + 1) div 3 = length hw" "(length ?t + 1) mod 3 = 0" "\<not> length ?t < 14"
    using assms(1) unfolding len by auto
  ultimately show ?thesis using assms(1) mac_pairs_String [OF assms(2)] by (simp add: ParseMAC_def Let_def)
qed

text \<open>
  A hardware address of 6, 8 or 20 bytes is parsed back from its text, so the key under
  which the server looks up a lease determines the address.
\<close>

theorem ParseMAC_String:
  assumes "length hw \<in> {6, 8, 20}" "\<forall>b \<in> set hw. b < 256"
  shows "ParseMAC (HardwareAddr_String hw) = (hw, None) \<and>
    (\<forall>hw'. length hw' \<in> {6, 8, 20} \<longrightarrow> (\<forall>b \<in> set hw'. b < 256) \<longrightarrow> HardwareAddr_String hw' = HardwareAddr_String hw \<longrightarrow> hw' = hw)"
proof (intro conjI allI impI)
  show "ParseMAC (HardwareAddr_String hw) = (hw, None)" by (rule ParseMAC_bytes [OF assms])
next
  fix hw' assume "length hw' \<in> {6, 8, 20}" "\<forall>b \<in> set hw'. b < 256" "HardwareAddr_String hw' = HardwareAddr_String hw"
  with ParseMAC_bytes [of hw'] ParseMAC_bytes [OF assms] show "hw' = hw" by (metis prod.inject)
qed

theorem ParseMAC_String_witness: "ParseMAC (HardwareAddr_String [0xaa, 0xbb, 0xcc, 0, 1, 2]) = ([0xaa, 0xbb, 0xcc, 0, 1, 2], None)"
  using ParseMAC_String [of "[0xaa, 0xbb, 0xcc, 0, 1, 2]"] by simp

section \<open>The handler\<close>

text \<open>
  [C9] The server answers exactly the discovers and requests of clients that have a lease with an
  address: an offer or an acknowledgement that carries the leased address, the server address and
  the transaction of the request.  Every other packet is left without an answer.
\<close>

theorem dhcpHandler_answers:
  "dhcpHandler newReply a (Some m) = Some r \<longleftrightarrow>
     p_BootRequest m \<and> (\<exists>base l t. newReply m = Inr base \<and> leases a (HardwareAddr_String (p_ClientHWAddr m)) = Some l \<and>
       l_ClientIP l \<noteq> NilIP \<and> (p_MessageType m, t) \<in> {(MsgDiscover, MsgOffer), (MsgRequest, MsgAck)} \<and>
       r_Base r = base \<and> r_YourIPAddr r = l_ClientIP l \<and> r_ClientIPAddr r = l_ClientIP l \<and> r_ServerIPAddr r = l_ServerIP l \<and>
       r_TransactionID r = p_TransactionID m \<and> r_ClientHWAddr r = p_ClientHWAddr m \<and> r_Flags r = p_Flags m \<and>
       r_GatewayIPAddr r = p_GatewayIPAddr m \<and> r_Options r = lease_options l @ [OptMessageType t])"
  by (auto simp: dhcpHandler_def GetLease_def zero_lease_def fill_reply_def Let_def split: sum.splits option.splits message_type.splits)

lemma duration_exact: "- (2 ^ 63) \<le> n \<Longrightarrow> n < 2 ^ 63 \<Longrightarrow> duration n = n"
  unfolding duration_def by (rule signed_take_bit_int_eq_self) simp_all



text \<open>
  The lease store is keyed by the text of the allocation record, the server looks a client
  up under the canonical text (lower case, colons).  A lease added under another valid spelling
  of the hardware address is accepted, but its client never gets an answer.
\<close>

theorem noncanonical_mac_unanswered:
  assumes "ParseMAC mac = (hw, None)" "mac \<noteq> HardwareAddr_String hw" "mac \<noteq> []" "cidr4 cidr w k"
    "leases a mac = None" "leases a (HardwareAddr_String hw) = None" "p_ClientHWAddr m = hw"
  shows "\<exists>a'. AddLease lookupIP a mac serverIP clientIP cidr router dns dn ds ntp lt = (a', None) \<and>
    checkLease a' mac \<and> dhcpHandler newReply a' (Some m) = None"
  using assms by (auto simp: AddLease_def checkLease_def cidr4_def dhcpHandler_def GetLease_def zero_lease_def Let_def split: sum.splits)

theorem noncanonical_mac_unanswered_witness:
  "\<exists>a'. AddLease (\<lambda>_. ([], None)) NewDHCPAllocator ''AA:BB:CC:00:01:02'' ''192.168.0.2'' ''192.168.0.10'' ''192.168.0.0/24'' ''192.168.0.1''
      [] None [] [] None = (a', None) \<and>
    dhcpHandler (\<lambda>_. Inr ()) a' (Some \<lparr>p_BootRequest = True, p_ClientHWAddr = [0xaa, 0xbb, 0xcc, 0, 1, 2], p_TransactionID = 1, p_Flags = 0,
      p_GatewayIPAddr = NilIP, p_MessageType = MsgDiscover\<rparr>) = None"
proof -
  have n6: "mac_pairs 6 = mac_pairs (Suc (Suc (Suc (Suc (Suc (Suc 0))))))" by (simp add: eval_nat_numeral)
  have hx: "hex_val (CHR ''A'') = Some 10" "hex_val (CHR ''B'') = Some 11" "hex_val (CHR ''C'') = Some 12" "hex_val (CHR ''0'') = Some 0"
    "hex_val (CHR ''1'') = Some 1" "hex_val (CHR ''2'') = Some 2" by (simp_all add: hex_val_def)
  have "ParseMAC ''AA:BB:CC:00:01:02'' = ([0xaa, 0xbb, 0xcc, 0, 1, 2], None)"
    by (simp add: ParseMAC_def n6 xtoi2_def hx Let_def)
  moreover have "''AA:BB:CC:00:01:02'' \<noteq> HardwareAddr_String [0xaa, 0xbb, 0xcc, 0, 1, 2]"
    by (simp add: HardwareAddr_String_def hex_digit_def char_of_def)
  ultimately show ?thesis
    using noncanonical_mac_unanswered [OF _ _ _ cidr4_example, of "''AA:BB:CC:00:01:02''" "[0xaa, 0xbb, 0xcc, 0, 1, 2]" NewDHCPAllocator
      "\<lparr>p_BootRequest = True, p_ClientHWAddr = [0xaa, 0xbb, 0xcc, 0, 1, 2], p_TransactionID = 1, p_Flags = 0,
      p_GatewayIPAddr = NilIP, p_MessageType = MsgDiscover\<rparr>" "\<lambda>_. ([], None)" "''192.168.0.2''" "''192.168.0.10''" "''192.168.0.1''" "[]" None "[]" "[]" None "\<lambda>_. Inr ()"]
    by (auto simp: NewDHCPAllocator_def)
qed

section \<open>The agent follows the allocation record\<close>

text \<open>
  \<open>mirrors\<close>: the lease store has exactly one lease for every remembered pair, for the address of
  that pair.
\<close>

definition mirrors :: "Controller \<Rightarrow> bool" where
  "mirrors c \<longleftrightarrow> map_inj (poolCache c) \<and> (\<forall>mac. leases (dhcpAllocator c) mac \<noteq> None \<longleftrightarrow> mac \<in> ran (poolCache c)) \<and>
     (\<forall>ip mac l. poolCache c ip = Some mac \<longrightarrow> leases (dhcpAllocator c) mac = Some l \<longrightarrow> l_ClientIP l = ParseIP ip)"

lemma mirrors_new: "mirrors (NewController NewDHCPAllocator Map.empty)"
  by (simp add: mirrors_def NewController_def NewDHCPAllocator_def)

text \<open>Dropping one pair together with its lease.\<close>

lemma mirrors_drop:
  assumes "mirrors c" "poolCache c ip = Some mac"
  shows "\<exists>d. DeleteLease (dhcpAllocator c) mac = (d, None) \<and> leases d = (leases (dhcpAllocator c))(mac := None) \<and>
    mirrors (c\<lparr>dhcpAllocator := d, poolCache := (poolCache c)(ip := None)\<rparr>)"
proof -
  let ?d = "(dhcpAllocator c)\<lparr>leases := (leases (dhcpAllocator c))(mac := None)\<rparr>"
  have inj: "map_inj (poolCache c)" and dom: "\<And>m. leases (dhcpAllocator c) m \<noteq> None \<longleftrightarrow> m \<in> ran (poolCache c)"
    and ips: "\<And>i m l. poolCache c i = Some m \<Longrightarrow> leases (dhcpAllocator c) m = Some l \<Longrightarrow> l_ClientIP l = ParseIP i"
    using assms(1) by (auto simp: mirrors_def)
  have "mac \<in> ran (poolCache c)" using assms(2) by (rule ranI)
  then have "DeleteLease (dhcpAllocator c) mac = (?d, None)" using dom by (simp add: DeleteLease_def checkLease_def)
  moreover have ran: "ran ((poolCache c)(ip := None)) = ran (poolCache c) - {mac}"
    using inj assms(2) by (auto simp: ran_def map_inj_def split: if_splits) (metis option.inject)+
  have "mirrors (c\<lparr>dhcpAllocator := ?d, poolCache := (poolCache c)(ip := None)\<rparr>)"
    unfolding mirrors_def using map_inj_del [OF inj] dom ips by (simp add: ran)
  ultimately show ?thesis by auto
qed

definition keeps_macs :: "(string \<rightharpoonup> string) \<Rightarrow> labels \<Rightarrow> bool" where
  "keeps_macs old latest \<longleftrightarrow> (\<forall>ip mac mac'. old ip = Some mac \<longrightarrow> latest ip = Some mac' \<longrightarrow> mac = mac')"

lemma prune_loop_ok:
  assumes "keeps_macs (poolCache c) latest"
    "mirrors c" "distinct ks" "set ks \<subseteq> dom (poolCache c)"
  shows "\<exists>c'. prune_loop latest ks c = (c', None) \<and> mirrors c' \<and>
    poolCache c' = (\<lambda>ip. if ip \<in> set ks \<and> latest ip = None then None else poolCache c ip)"
  using assms
proof (induction ks arbitrary: c)
  case (Cons ip ks)
  obtain mac where mac: "poolCache c ip = Some mac" using Cons.prems(4) by auto
  show ?case
  proof (cases "latest ip")
    case (Some mac')
    with Cons.prems(1) mac have "mac' = mac" by (auto simp: keeps_macs_def)
    with Some mac have "prune_loop latest (ip # ks) c = prune_loop latest ks c" by simp
    moreover obtain c' where "prune_loop latest ks c = (c', None)" "mirrors c'"
      "poolCache c' = (\<lambda>i. if i \<in> set ks \<and> latest i = None then None else poolCache c i)"
      using Cons.IH [OF Cons.prems(1,2)] Cons.prems(3,4) by auto
    ultimately show ?thesis using Some by (auto simp: fun_eq_iff)
  next
    case None
    obtain d where d: "DeleteLease (dhcpAllocator c) mac = (d, None)" "mirrors (c\<lparr>dhcpAllocator := d, poolCache := (poolCache c)(ip := None)\<rparr>)"
      using mirrors_drop [OF Cons.prems(2) mac] by blast
    let ?c = "c\<lparr>dhcpAllocator := d, poolCache := (poolCache c)(ip := None)\<rparr>"
    have p: "prune_loop latest (ip # ks) c = prune_loop latest ks ?c" using None mac d(1) by simp
    have "keeps_macs (poolCache ?c) latest" using Cons.prems(1) by (auto simp: keeps_macs_def)
    moreover have "distinct ks" "set ks \<subseteq> dom (poolCache ?c)" using Cons.prems(3,4) by auto
    ultimately obtain c' where "prune_loop latest ks ?c = (c', None)" "mirrors c'"
      "poolCache c' = (\<lambda>i. if i \<in> set ks \<and> latest i = None then None else poolCache ?c i)"
      using Cons.IH [of ?c] d(2) by blast
    with p None show ?thesis by (intro exI [of _ c']) (auto simp: fun_eq_iff)
  qed
qed auto

text \<open>Adding one pair together with its lease.\<close>

lemma mirrors_add:
  assumes "mirrors c" "poolCache c ip = None" "mac \<notin> ran (poolCache c)" "mac \<noteq> []" "snd (ParseMAC mac) = None" "cidr4 cidr w k"
  shows "\<exists>d. AddLease lookupIP (dhcpAllocator c) mac serverIP ip cidr router dns dn ds ntp lt = (d, None) \<and>
    mirrors (c\<lparr>dhcpAllocator := d, poolCache := (poolCache c)(ip \<mapsto> mac)\<rparr>)"
proof -
  have inj: "map_inj (poolCache c)" and dom: "\<And>m. leases (dhcpAllocator c) m \<noteq> None \<longleftrightarrow> m \<in> ran (poolCache c)"
    and ips: "\<And>i m l. poolCache c i = Some m \<Longrightarrow> leases (dhcpAllocator c) m = Some l \<Longrightarrow> l_ClientIP l = ParseIP i"
    using assms(1) by (auto simp: mirrors_def)
  obtain l where l: "AddLease lookupIP (dhcpAllocator c) mac serverIP ip cidr router dns dn ds ntp lt =
      ((dhcpAllocator c)\<lparr>leases := (leases (dhcpAllocator c))(mac \<mapsto> l)\<rparr>, None)" "l_ClientIP l = ParseIP ip"
    using assms(3-6) dom [of mac] by (auto simp: AddLease_def checkLease_def cidr4_def make_lease_def)
  have ran: "ran ((poolCache c)(ip \<mapsto> mac)) = insert mac (ran (poolCache c))" using assms(2) by simp
  have "mirrors (c\<lparr>dhcpAllocator := (dhcpAllocator c)\<lparr>leases := (leases (dhcpAllocator c))(mac \<mapsto> l)\<rparr>, poolCache := (poolCache c)(ip \<mapsto> mac)\<rparr>)"
    unfolding mirrors_def using map_inj_upd [OF inj assms(3)] dom ips l(2) assms(3) by (auto simp: ran ranI split: if_splits)
  with l(1) show ?thesis by blast
qed

definition valid_macs :: "labels \<Rightarrow> bool" where
  "valid_macs latest \<longleftrightarrow> (\<forall>ip mac. latest ip = Some mac \<longrightarrow> mac \<noteq> [] \<and> snd (ParseMAC mac) = None)"

lemma add_loop_ok:
  assumes "cidr4 (c4_CIDR cfg) w k" "map_inj latest" "valid_macs latest"
    "poolCache c \<subseteq>\<^sub>m latest" "mirrors c" "distinct ks" "set ks \<subseteq> dom latest"
  shows "\<exists>c'. add_loop lookupIP latest cfg ks c = (c', None) \<and> mirrors c' \<and>
    poolCache c' = (\<lambda>ip. if ip \<in> set ks then latest ip else poolCache c ip)"
  using assms(4-7)
proof (induction ks arbitrary: c)
  case (Cons ip ks)
  obtain mac where mac: "latest ip = Some mac" using Cons.prems(4) by auto
  show ?case
  proof (cases "poolCache c ip")
    case (Some mac')
    then have "mac' = mac" using Cons.prems(1) mac by (metis domI map_le_def option.inject)
    moreover have "add_loop lookupIP latest cfg (ip # ks) c = add_loop lookupIP latest cfg ks c" using Some by simp
    moreover obtain c' where "add_loop lookupIP latest cfg ks c = (c', None)" "mirrors c'"
      "poolCache c' = (\<lambda>i. if i \<in> set ks then latest i else poolCache c i)"
      using Cons.IH [OF Cons.prems(1,2)] Cons.prems(3,4) by auto
    ultimately show ?thesis using Some mac by (intro exI [of _ c']) (auto simp: fun_eq_iff)
  next
    case None
    have fresh: "mac \<notin> ran (poolCache c)"
    proof
      assume "mac \<in> ran (poolCache c)"
      then obtain i where "poolCache c i = Some mac" by (auto simp: ran_def)
      moreover from this have "latest i = Some mac" using Cons.prems(1) by (metis domI map_le_def)
      ultimately show False using map_injD [OF assms(2) mac] None by auto
    qed
    have vm: "mac \<noteq> []" "snd (ParseMAC mac) = None" using assms(3) mac by (simp_all add: valid_macs_def)
    obtain d where d: "AddLease lookupIP (dhcpAllocator c) mac (c4_ServerIP cfg) ip (c4_CIDR cfg) (c4_Router cfg) (c4_DNS cfg)
        (c4_DomainName cfg) (c4_DomainSearch cfg) (c4_NTP cfg) (c4_LeaseTime cfg) = (d, None)"
      "mirrors (c\<lparr>dhcpAllocator := d, poolCache := (poolCache c)(ip \<mapsto> mac)\<rparr>)"
      using mirrors_add [OF Cons.prems(2) None fresh vm assms(1)] by blast
    let ?c = "c\<lparr>dhcpAllocator := d, poolCache := (poolCache c)(ip \<mapsto> mac)\<rparr>"
    have "add_loop lookupIP latest cfg (ip # ks) c = add_loop lookupIP latest cfg ks ?c" using None mac d(1) by simp
    moreover have le: "poolCache ?c \<subseteq>\<^sub>m latest" using Cons.prems(1) mac by (auto simp: map_le_def)
    have ks: "distinct ks" "set ks \<subseteq> dom latest" using Cons.prems(3,4) by auto
    obtain c' where "add_loop lookupIP latest cfg ks ?c = (c', None)" "mirrors c'"
      "poolCache c' = (\<lambda>i. if i \<in> set ks then latest i else poolCache ?c i)"
      using Cons.IH [OF le d(2) ks] by blast
    ultimately show ?thesis using mac by (intro exI [of _ c']) (auto simp: fun_eq_iff)
  qed
qed auto

lemma update_ok:
  assumes "go_range rng" "mirrors c" "finite (dom (poolCache c))" "finite (dom latest)" "map_inj latest" "cidr4 (c4_CIDR cfg) w k"
    "valid_macs latest" "keeps_macs (poolCache c) latest"
  shows "\<exists>c'. updatePoolCacheAndLeaseStore rng lookupIP c latest cfg = (c', None) \<and> mirrors c' \<and> poolCache c' = latest"
proof -
  note r1 = go_rangeD [OF assms(1,3)] and r2 = go_rangeD [OF assms(1,4)]
  have k1: "distinct (rng (dom (poolCache c)))" "set (rng (dom (poolCache c))) = dom (poolCache c)"
    and k2: "distinct (rng (dom latest))" "set (rng (dom latest)) = dom latest" using r1 r2 by (auto simp: ranges_def)
  obtain c1 where c1: "prune_loop latest (rng (dom (poolCache c))) c = (c1, None)" "mirrors c1"
    "poolCache c1 = (\<lambda>ip. if ip \<in> dom (poolCache c) \<and> latest ip = None then None else poolCache c ip)"
    using prune_loop_ok [OF assms(8,2) k1(1)] k1(2) by auto
  have "poolCache c1 ip = latest ip" if "ip \<in> dom (poolCache c1)" for ip
    using that assms(8) by (auto simp: c1(3) keeps_macs_def split: if_splits)
  then have le: "poolCache c1 \<subseteq>\<^sub>m latest" by (simp add: map_le_def)
  obtain c2 where c2: "add_loop lookupIP latest cfg (rng (dom latest)) c1 = (c2, None)" "mirrors c2"
    "poolCache c2 = (\<lambda>ip. if ip \<in> dom latest then latest ip else poolCache c1 ip)"
    using add_loop_ok [OF assms(6,5,7) le c1(2) k2(1)] unfolding k2(2) by blast
  have "poolCache c2 = latest" using c2(3) c1(3) by (auto simp: fun_eq_iff domIff)
  with c1(1) c2(1,2) show ?thesis by (simp add: updatePoolCacheAndLeaseStore_def)
qed

text \<open>A server whose leases mirror the remembered pairs answers a client with its address.\<close>

lemma mirrors_answers:
  assumes "mirrors c" "poolCache c ip = Some (HardwareAddr_String (p_ClientHWAddr m))" "ParseIP ip \<noteq> NilIP"
    "p_BootRequest m" "newReply m = Inr base" "(p_MessageType m, t) \<in> {(MsgDiscover, MsgOffer), (MsgRequest, MsgAck)}"
  shows "\<exists>r. dhcpHandler newReply (dhcpAllocator c) (Some m) = Some r \<and> r_YourIPAddr r = ParseIP ip \<and>
    r_ClientHWAddr r = p_ClientHWAddr m \<and> r_TransactionID r = p_TransactionID m \<and> last (r_Options r) = OptMessageType t"
proof -
  have "HardwareAddr_String (p_ClientHWAddr m) \<in> ran (poolCache c)" using assms(2) by (rule ranI)
  then obtain l where l: "leases (dhcpAllocator c) (HardwareAddr_String (p_ClientHWAddr m)) = Some l"
    using assms(1) unfolding mirrors_def by blast
  moreover have "l_ClientIP l = ParseIP ip" using assms(1,2) l unfolding mirrors_def by blast
  ultimately show ?thesis using assms(3-6) by (auto simp: dhcpHandler_def GetLease_def fill_reply_def)
qed

text \<open>
  [C8] An update makes the DHCP server serve the allocation record.  From a store that mirrors the
  remembered pairs, and for a record with valid, distinct hardware addresses that changes no pair
  in place, the update succeeds, the record is remembered, and afterwards a discover of a client
  is answered with the address recorded for its hardware address, and with nothing if the record
  has none.
\<close>

theorem update_serves_record:
  assumes "go_range rng" "mirrors c" "finite (dom (poolCache c))" "finite (dom latest)" "map_inj latest" "cidr4 (c4_CIDR cfg) w k"
    "\<forall>ip mac. latest ip = Some mac \<longrightarrow> mac \<noteq> [] \<and> snd (ParseMAC mac) = None \<and> ParseIP ip \<noteq> NilIP" "keeps_macs (poolCache c) latest"
    "p_BootRequest m" "p_MessageType m = MsgDiscover" "newReply m = Inr base"
  shows "\<exists>c'. updatePoolCacheAndLeaseStore rng lookupIP c latest cfg = (c', None) \<and> mirrors c' \<and> poolCache c' = latest \<and>
    (\<forall>ip. latest ip = Some (HardwareAddr_String (p_ClientHWAddr m)) \<longrightarrow>
       (\<exists>r. dhcpHandler newReply (dhcpAllocator c') (Some m) = Some r \<and> r_YourIPAddr r = ParseIP ip)) \<and>
    (HardwareAddr_String (p_ClientHWAddr m) \<notin> ran latest \<longrightarrow> dhcpHandler newReply (dhcpAllocator c') (Some m) = None)"
proof -
  let ?mac = "HardwareAddr_String (p_ClientHWAddr m)"
  have valid: "valid_macs latest" using assms(7) by (simp add: valid_macs_def)
  obtain c' where c': "updatePoolCacheAndLeaseStore rng lookupIP c latest cfg = (c', None)" "mirrors c'" "poolCache c' = latest"
    using update_ok [OF assms(1-6) valid assms(8)] by blast
  have "\<exists>r. dhcpHandler newReply (dhcpAllocator c') (Some m) = Some r \<and> r_YourIPAddr r = ParseIP ip" if ip: "latest ip = Some ?mac" for ip
    using mirrors_answers [OF c'(2), of ip m newReply base MsgOffer] assms(7,9-11) ip c'(3) by auto
  moreover have "dhcpHandler newReply (dhcpAllocator c') (Some m) = None" if "?mac \<notin> ran latest"
  proof -
    have "leases (dhcpAllocator c') ?mac = None" using c'(2,3) that by (auto simp: mirrors_def)
    then show ?thesis using assms(9-11) by (simp add: dhcpHandler_def GetLease_def zero_lease_def)
  qed
  ultimately show ?thesis using c' by blast
qed

theorem update_serves_record_witness:
  "\<exists>c'. updatePoolCacheAndLeaseStore sorted_list_of_set (\<lambda>_. ([], None)) (NewController NewDHCPAllocator Map.empty)
      [''192.168.0.12'' \<mapsto> HardwareAddr_String [0xaa, 0xbb, 0xcc, 0, 1, 2]] example_config = (c', None) \<and>
    (\<exists>r. dhcpHandler (\<lambda>_. Inr ()) (dhcpAllocator c') (Some \<lparr>p_BootRequest = True, p_ClientHWAddr = [0xaa, 0xbb, 0xcc, 0, 1, 2],
        p_TransactionID = 1, p_Flags = 0, p_GatewayIPAddr = NilIP, p_MessageType = MsgDiscover\<rparr>) = Some r \<and>
      r_YourIPAddr r = ParseIP ''192.168.0.12'')"
proof -
  let ?c = "NewController NewDHCPAllocator Map.empty" and ?hw = "[0xaa, 0xbb, 0xcc, 0, 1, 2] :: nat list"
  let ?m = "\<lparr>p_BootRequest = True, p_ClientHWAddr = ?hw, p_TransactionID = 1, p_Flags = 0, p_GatewayIPAddr = NilIP, p_MessageType = MsgDiscover\<rparr>"
  let ?latest = "[''192.168.0.12'' \<mapsto> HardwareAddr_String ?hw]"
  have mac: "ParseMAC (HardwareAddr_String ?hw) = (?hw, None)" by (rule ParseMAC_bytes) simp_all
  have ip: "ParseIP ''192.168.0.12'' \<noteq> NilIP" using ParseIP_string4 [of "0xc0a8000c"] by (simp add: string4_12)
  have "HardwareAddr_String ?hw \<noteq> []" by (simp add: HardwareAddr_String_def)
  with mac ip have v: "\<forall>ip mac. ?latest ip = Some mac \<longrightarrow> mac \<noteq> [] \<and> snd (ParseMAC mac) = None \<and> ParseIP ip \<noteq> NilIP"
    by (auto split: if_splits)
  have f: "finite (dom (poolCache ?c))" "finite (dom ?latest)" "map_inj ?latest" "keeps_macs (poolCache ?c) ?latest"
    by (simp_all add: NewController_def map_inj_def keeps_macs_def)
  have m: "p_BootRequest ?m" "p_MessageType ?m = MsgDiscover" "(\<lambda>_. Inr ()) ?m = Inr ()" by simp_all
  from update_serves_record [OF go_range_sorted mirrors_new f(1-3) example_bounds(1) v f(4) m] show ?thesis by fastforce
qed



section \<open>Following the object\<close>

lemma filter_loop_eq: "filter_loop m ks = (\<lambda>ip. if ip \<in> set ks \<and> m ip \<in> Some ` marks then None else m ip)"
  by (induction ks arbitrary: m) (auto simp: fun_eq_iff marks_def)

lemma filtered_record:
  assumes "go_range rng" "finite (dom m)"
  shows "filter_loop m (rng (dom m)) = m |` held m"
  using ranges_set [OF go_rangeD [OF assms]]
  by (auto simp: filter_loop_eq fun_eq_iff restrict_map_def held_def split: option.splits)

lemma held_idem: "held (m |` held m) = held m"
  by (auto simp: held_def restrict_map_def split: if_splits)

lemma filtered_status:
  assumes "go_range rng" "finite (dom (recorded p))" "st_IPv4 (ip_Status p) = Some st4"
  shows "nil_make (filterExcludedAndReserved rng (s4_Allocated st4)) = recorded p |` held (recorded p)"
proof -
  have m: "recorded p = nil_make (s4_Allocated st4)" using assms(3) by (simp add: recorded_def)
  show ?thesis
  proof (cases "s4_Allocated st4")
    case None
    then show ?thesis by (simp add: filterExcludedAndReserved_def m nil_make_def)
  next
    case (Some al)
    then have "recorded p = al" by (simp add: m nil_make_def)
    with Some filtered_record [OF assms(1,2)] show ?thesis by (simp add: filterExcludedAndReserved_def nil_make_def)
  qed
qed

lemma agent_update_ok:
  assumes "go_range rng" "ag_store a (ev_key event) = Some p" "ev_poolName event = ag_poolName a" "ev_action event = UPDATE"
    "getErr (ev_key event) = None" "x_IsTrue x CacheReady (st_Conditions (ip_Status p))" "st_IPv4 (ip_Status p) \<noteq> None"
    "mirrors (ag_controller a)" "finite (dom (poolCache (ag_controller a)))" "finite (dom (recorded p))"
    "map_inj (recorded p |` held (recorded p))" "valid_macs (recorded p |` held (recorded p))"
    "keeps_macs (poolCache (ag_controller a)) (recorded p |` held (recorded p))" "cidr4 (c4_CIDR (ps_IPv4Config (ip_Spec p))) w k"
  shows "\<exists>a'. processNextItem x rng lookupIP getErr a (Some event) n = Some (a', Forget) \<and>
    poolCache (ag_controller a') = recorded p |` held (recorded p) \<and> mirrors (ag_controller a')"
proof -
  let ?m = "recorded p"
  obtain st4 where st4: "st_IPv4 (ip_Status p) = Some st4" using assms(7) by blast
  note flt = filtered_status [OF assms(1,10) st4]
  have "finite (dom (?m |` held ?m))" using assms(10) by simp
  from update_ok [OF assms(1,8,9) this assms(11,14,12,13)] obtain c' where
    c': "updatePoolCacheAndLeaseStore rng lookupIP (ag_controller a) (?m |` held ?m) (ps_IPv4Config (ip_Spec p)) = (c', None)"
    "mirrors c'" "poolCache c' = ?m |` held ?m" by blast
  then show ?thesis using assms(2-6) st4 flt
    by (simp add: processNextItem_def agent_sync_def Update_def handleErr_def Let_def)
qed

text \<open>
  An update event of the agent's own pool brings the agent in line with the object: for a
  ready pool whose recorded assignments are valid and change no pair in place, the remembered
  record becomes exactly the assignments of the object, without the excluded and reserved
  addresses, and the lease store mirrors it.  The event is never retried: \<open>sync\<close> reports
  success, whatever happened to the leases, and the queue forgets the event.
\<close>

theorem agent_sync_follows:
  assumes "go_range rng" "ag_store a (ev_key event) = Some p" "ev_poolName event = ag_poolName a" "ev_action event = UPDATE"
    "getErr (ev_key event) = None" "x_IsTrue x CacheReady (st_Conditions (ip_Status p))" "st_IPv4 (ip_Status p) \<noteq> None"
    "mirrors (ag_controller a)" "finite (dom (poolCache (ag_controller a)))" "finite (dom (recorded p))"
    "map_inj (recorded p |` held (recorded p))" "valid_macs (recorded p |` held (recorded p))"
    "keeps_macs (poolCache (ag_controller a)) (recorded p |` held (recorded p))" "cidr4 (c4_CIDR (ps_IPv4Config (ip_Spec p))) w k"
  shows "\<exists>a'. processNextItem x rng lookupIP getErr a (Some event) n = Some (a', Forget) \<and>
    poolCache (ag_controller a') = recorded p |` held (recorded p) \<and> mirrors (ag_controller a')"
  using assms by (rule agent_update_ok)

theorem agent_sync_follows_witness:
  "\<exists>a'. processNextItem example_ext sorted_list_of_set (\<lambda>_. ([], None)) (\<lambda>_. None)
      \<lparr>ag_poolName = ''pool'', ag_controller = NewController NewDHCPAllocator Map.empty,
       ag_store = [''default/pool'' \<mapsto> set_conditions (set_status CacheReady ''True'') (example_IPPool
          \<lparr>ip_Status := (ip_Status example_IPPool)\<lparr>st_IPv4 := Some \<lparr>s4_Allocated = Some [''192.168.0.10'' \<mapsto> ''RESERVED''], s4_Used = 0, s4_Available = 0\<rparr>\<rparr>\<rparr>)]\<rparr>
      (Some \<lparr>ev_key = ''default/pool'', ev_action = UPDATE, ev_poolName = ''pool'', ev_poolNetworkName = ''default/net''\<rparr>) 0 = Some (a', Forget) \<and>
    poolCache (ag_controller a') = Map.empty"
proof -
  let ?p = "set_conditions (set_status CacheReady ''True'') (example_IPPool
    \<lparr>ip_Status := (ip_Status example_IPPool)\<lparr>st_IPv4 := Some \<lparr>s4_Allocated = Some [''192.168.0.10'' \<mapsto> ''RESERVED''], s4_Used = 0, s4_Available = 0\<rparr>\<rparr>\<rparr>)"
  let ?e = "\<lparr>ev_key = ''default/pool'', ev_action = UPDATE, ev_poolName = ''pool'', ev_poolNetworkName = ''default/net''\<rparr>"
  let ?a = "\<lparr>ag_poolName = ''pool'', ag_controller = NewController NewDHCPAllocator Map.empty, ag_store = [''default/pool'' \<mapsto> ?p]\<rparr>"
  have rec: "recorded ?p = [''192.168.0.10'' \<mapsto> ''RESERVED'']" by (simp add: recorded_def set_conditions_def nil_make_def)
  have held: "held (recorded ?p) = {}" by (auto simp: held_def rec marks_def ReservedMark_def split: if_splits)
  have c: "c4_CIDR (ps_IPv4Config (ip_Spec ?p)) = c4_CIDR example_config" by (simp add: set_conditions_def example_IPPool_def)
  have h: "ag_store ?a (ev_key ?e) = Some ?p" "ev_poolName ?e = ag_poolName ?a" "ev_action ?e = UPDATE" "(\<lambda>_. None) (ev_key ?e) = None"
    "x_IsTrue example_ext CacheReady (st_Conditions (ip_Status ?p))" "st_IPv4 (ip_Status ?p) \<noteq> None" "mirrors (ag_controller ?a)"
    "finite (dom (poolCache (ag_controller ?a)))" "map_inj (recorded ?p |` held (recorded ?p))"
    "valid_macs (recorded ?p |` held (recorded ?p))" "keeps_macs (poolCache (ag_controller ?a)) (recorded ?p |` held (recorded ?p))"
    using mirrors_new
    by (simp_all only: held restrict_map_to_empty)
      (simp_all add: set_conditions_def valid_macs_def keeps_macs_def NewController_def)
  have fin: "finite (dom (recorded ?p))" by (simp only: rec) simp
  from agent_sync_follows [OF go_range_sorted h(1-8) fin h(9-11), unfolded c, OF example_bounds(1), of "\<lambda>_. ([], None)" 0]
  show ?thesis by (simp add: held) blast
qed

end
