(* ===== verification/Vm_Controller.thy ===== *)
theory Vm_Controller
  imports Agent_Facts
begin

text \<open>
  \<open>pkg/controller/vm\<close>: from the network interfaces of a virtual machine the controller derives
  the specification of its VirtualMachineNetworkConfig.  The map from interface names to network
  configurations is ranged over in an unspecified order, which is a parameter.
\<close>

section \<open>Data and operations\<close>

definition vmLabelKey :: string where "vmLabelKey = ''harvesterhci.io/vmName''"

type_synonym ncm = "string \<rightharpoonup> NetworkConfig"

definition mac_config :: "string \<Rightarrow> NetworkConfig" where
  "mac_config mac = \<lparr>nc_NetworkName = [], nc_MACAddress = mac, nc_IPAddress = None\<rparr>"

text \<open>The entries from the annotation; an empty hardware address is skipped.\<close>

definition from_annotation :: "(string \<rightharpoonup> string) \<Rightarrow> ncm" where
  "from_annotation nicToMacAddress =
     (\<lambda>nic. case nicToMacAddress nic of None \<Rightarrow> None | Some mac \<Rightarrow> if mac = [] then None else Some (mac_config mac))"

text \<open>The entries from the interfaces of the template override them.\<close>

fun from_interfaces :: "VMInterface list \<Rightarrow> ncm \<Rightarrow> ncm" where
  "from_interfaces [] m = m"
| "from_interfaces (nic # nics) m =
     from_interfaces nics (if vi_MacAddress nic = [] then m else m(vi_Name nic \<mapsto> mac_config (vi_MacAddress nic)))"

text \<open>Multus networks name the network of the interface of the same name.\<close>

fun from_networks :: "VMNetwork list \<Rightarrow> ncm \<Rightarrow> ncm" where
  "from_networks [] m = m"
| "from_networks (network # nets) m =
     from_networks nets
       (case vn_Multus network of
          None \<Rightarrow> m
        | Some networkName \<Rightarrow>
            (case m (vn_Name network) of
               None \<Rightarrow> m
             | Some nc \<Rightarrow> m(vn_Name network \<mapsto> nc\<lparr>nc_NetworkName := networkName\<rparr>)))"

definition complete_only :: "ncm \<Rightarrow> ncm" where
  "complete_only m = (\<lambda>nic. case m nic of None \<Rightarrow> None | Some nc \<Rightarrow> if nc_NetworkName nc = [] then None else Some nc)"

definition effective_configs :: "(string \<rightharpoonup> string) \<Rightarrow> VMTemplate \<Rightarrow> ncm" where
  "effective_configs nicToMacAddress t =
     complete_only (from_networks (vt_Networks t) (from_interfaces (vt_Interfaces t) (from_annotation nicToMacAddress)))"

definition prepareVmNetCfg :: "range_order \<Rightarrow> VirtualMachine \<Rightarrow> ncm \<Rightarrow> VirtualMachineNetworkConfig" where
  "prepareVmNetCfg rng vm ncm =
     \<lparr>vm_Meta = (empty_meta (om_Namespace (kv_Meta vm)) (om_Name (kv_Meta vm)))
        \<lparr>om_Labels := Some [vmLabelKey \<mapsto> om_Name (kv_Meta vm)],
         om_OwnerReferences := [\<lparr>or_APIVersion = kv_APIVersion vm, or_Kind = kv_Kind vm,
            or_Name = om_Name (kv_Meta vm), or_UID = om_UID (kv_Meta vm)\<rparr>]\<rparr>,
      vm_Spec = \<lparr>vs_VMName = om_Name (kv_Meta vm), vs_NetworkConfigs = map (\<lambda>nic. the (ncm nic)) (rng (dom ncm)), vs_Paused = None\<rparr>,
      vm_Status = \<lparr>vst_NetworkConfigs = [], vst_Conditions = []\<rparr>\<rparr>"

text \<open>The network configurations of the annotation: none without it, an error if it does not parse.\<close>

definition annotated_macs :: "ext \<Rightarrow> VirtualMachine \<Rightarrow> go_error + (string \<rightharpoonup> string)" where
  "annotated_macs x vm =
     (case nil_lookup (om_Annotations (kv_Meta vm)) (x_AnnotationMacAddressName x) of
        None \<Rightarrow> Inr Map.empty
      | Some t \<Rightarrow> if t = [] then Inr Map.empty else x_UnmarshalMap x t)"

text \<open>Bring an existing object in line: out-of-sync first, the new specification afterwards.\<close>

definition reconcile_vmnetcfg :: "world \<Rightarrow> VirtualMachine \<Rightarrow> VirtualMachineNetworkConfig \<Rightarrow> VirtualMachineNetworkConfig \<Rightarrow> ctl \<Rightarrow>
    go_error option \<times> ctl" where
  "reconcile_vmnetcfg W vm vmNetCfg old s =
     (let cpy = old\<lparr>vm_Spec := (vm_Spec old)\<lparr>vs_NetworkConfigs := vs_NetworkConfigs (vm_Spec vmNetCfg)\<rparr>\<rparr> in
      if vs_NetworkConfigs (vm_Spec cpy) = vs_NetworkConfigs (vm_Spec old) then (None, s)
      else if x_IsFalse (w_ext W) InSynced (vst_Conditions (vm_Status old)) then
        (case ask (e_vmnetcfg (w_env W)) (VmNetCfgUpdate cpy) s of
           (Inl e, s1) \<Rightarrow> (Some e, s1)
         | (Inr _, s1) \<Rightarrow> (None, s1))
      else
        let marked = vm_conditions (\<lambda>cs. x_Message (w_ext W) InSynced ''Network configuration of the upstrem virtual machine has been changed''
                       (x_Reason (w_ext W) InSynced ''NetworkConfigChanged'' (x_SetStatus (w_ext W) InSynced ''False'' cs))) cpy
        in (case ask (e_vmnetcfg (w_env W)) (VmNetCfgUpdateStatus marked) s of
              (Inl e, s1) \<Rightarrow> (Some e, s1)
            | (Inr _, s1) \<Rightarrow> (None, emit (VmEnqueue (om_Namespace (kv_Meta vm)) (om_Name (kv_Meta vm))) s1)))"

definition vm_OnChange :: "world \<Rightarrow> VirtualMachine option \<Rightarrow> ctl \<Rightarrow> ((VirtualMachine option \<times> go_error option) \<times> ctl) outcome" where
  "vm_OnChange W obj s =
     (case obj of
        None \<Rightarrow> Ret ((None, None), s)
      | Some vm \<Rightarrow>
          if om_DeletionTimestamp (kv_Meta vm) \<noteq> None then Ret ((None, None), s)
          else (case annotated_macs (w_ext W) vm of
              Inl e \<Rightarrow> Ret ((None, None), s)
            | Inr nicToMacAddress \<Rightarrow>
                (case kv_Template vm of
                   None \<Rightarrow> Panic ''nil pointer dereference''
                 | Some t \<Rightarrow>
                     let ncm = effective_configs nicToMacAddress t in
                     if ncm = Map.empty then Ret ((Some vm, None), s)
                     else
                       let vmNetCfg = prepareVmNetCfg (w_rng W) vm ncm in
                       case ask (e_vmnetcfg (w_env W)) (VmNetCfgGet (om_Namespace (kv_Meta vm)) (om_Name (kv_Meta vm))) s of
                         (Inl e, s1) \<Rightarrow>
                           if IsNotFound e then
                             (case ask (e_vmnetcfg (w_env W)) (VmNetCfgCreate vmNetCfg) s1 of
                                (Inl e2, s2) \<Rightarrow> Ret ((Some vm, Some e2), s2)
                              | (Inr _, s2) \<Rightarrow> Ret ((Some vm, None), s2))
                           else Ret ((Some vm, Some e), s1)
                       | (Inr old, s1) \<Rightarrow>
                           (case reconcile_vmnetcfg W vm vmNetCfg old s1 of (err, s2) \<Rightarrow> Ret ((Some vm, err), s2)))))"

section \<open>The effective configurations\<close>

lemma from_networks_source:
  "from_networks nets m nic = Some nc \<Longrightarrow> \<exists>nc0. m nic = Some nc0 \<and> nc_MACAddress nc = nc_MACAddress nc0 \<and>
     (nc_NetworkName nc = nc_NetworkName nc0 \<or> (\<exists>n \<in> set nets. vn_Name n = nic \<and> vn_Multus n = Some (nc_NetworkName nc)))"
  by (induction nets arbitrary: m) (fastforce split: option.splits if_splits)+

lemma from_interfaces_source:
  "from_interfaces nics m nic = Some nc \<Longrightarrow> m nic = Some nc \<or> (\<exists>v \<in> set nics. vi_Name v = nic \<and> vi_MacAddress v \<noteq> [] \<and> nc = mac_config (vi_MacAddress v))"
  by (induction nics arbitrary: m) (fastforce split: if_splits)+

lemma finite_from_networks: "finite (dom m) \<Longrightarrow> finite (dom (from_networks nets m))"
  by (induction nets arbitrary: m) (auto split: option.splits)

lemma finite_from_interfaces: "finite (dom m) \<Longrightarrow> finite (dom (from_interfaces nics m))"
  by (induction nics arbitrary: m) auto

lemma effective_finite: "finite (dom nm) \<Longrightarrow> finite (dom (effective_configs nm t))"
proof -
  assume "finite (dom nm)"
  then have "finite (dom (from_annotation nm))"
    by (rule rev_finite_subset) (auto simp: from_annotation_def split: option.splits)
  then have "finite (dom (from_networks (vt_Networks t) (from_interfaces (vt_Interfaces t) (from_annotation nm))))"
    by (intro finite_from_networks finite_from_interfaces)
  then show ?thesis unfolding effective_configs_def
    by (rule rev_finite_subset) (auto simp: complete_only_def split: option.splits)
qed

text \<open>Where the effective configuration of an interface comes from.\<close>

lemma effective_source:
  assumes "effective_configs nm t nic = Some nc"
  shows "nc_MACAddress nc \<noteq> [] \<and> nc_NetworkName nc \<noteq> [] \<and>
    (\<exists>n \<in> set (vt_Networks t). vn_Name n = nic \<and> vn_Multus n = Some (nc_NetworkName nc)) \<and>
    (nm nic = Some (nc_MACAddress nc) \<or> (\<exists>v \<in> set (vt_Interfaces t). vi_Name v = nic \<and> vi_MacAddress v = nc_MACAddress nc))"
proof -
  let ?m = "from_interfaces (vt_Interfaces t) (from_annotation nm)"
  have net: "nc_NetworkName nc \<noteq> []" and f: "from_networks (vt_Networks t) ?m nic = Some nc"
    using assms by (auto simp: effective_configs_def complete_only_def split: option.splits if_splits)
  obtain nc0 where nc0: "?m nic = Some nc0" "nc_MACAddress nc = nc_MACAddress nc0"
    "nc_NetworkName nc = nc_NetworkName nc0 \<or> (\<exists>n \<in> set (vt_Networks t). vn_Name n = nic \<and> vn_Multus n = Some (nc_NetworkName nc))"
    using from_networks_source [OF f] by blast
  have "from_annotation nm nic = Some nc0 \<or> (\<exists>v \<in> set (vt_Interfaces t). vi_Name v = nic \<and> vi_MacAddress v \<noteq> [] \<and> nc0 = mac_config (vi_MacAddress v))"
    by (rule from_interfaces_source [OF nc0(1)])
  then have "nc_NetworkName nc0 = [] \<and> nc_MACAddress nc0 \<noteq> [] \<and>
      (nm nic = Some (nc_MACAddress nc0) \<or> (\<exists>v \<in> set (vt_Interfaces t). vi_Name v = nic \<and> vi_MacAddress v = nc_MACAddress nc0))"
    by (auto simp: from_annotation_def mac_config_def split: option.splits if_splits)
  with nc0 net show ?thesis by auto
qed

section \<open>Properties\<close>

lemma prepare_configs:
  assumes "go_range rng" "finite (dom ncm)"
  shows "set (vs_NetworkConfigs (vm_Spec (prepareVmNetCfg rng vm ncm))) = ran ncm"
    "length (vs_NetworkConfigs (vm_Spec (prepareVmNetCfg rng vm ncm))) = card (dom ncm)"
proof -
  have r: "distinct (rng (dom ncm))" "set (rng (dom ncm)) = dom ncm" using go_rangeD [OF assms] by (auto simp: ranges_def)
  show "set (vs_NetworkConfigs (vm_Spec (prepareVmNetCfg rng vm ncm))) = ran ncm"
    by (auto simp: prepareVmNetCfg_def r ran_def image_iff) force
  show "length (vs_NetworkConfigs (vm_Spec (prepareVmNetCfg rng vm ncm))) = card (dom ncm)"
    using distinct_card [OF r(1)] by (simp add: prepareVmNetCfg_def r)
qed


definition example_vm :: VirtualMachine where
  "example_vm = \<lparr>kv_Meta = (empty_meta ''default'' ''vm'')\<lparr>om_UID := ''u7''\<rparr>, kv_APIVersion = ''kubevirt.io/v1'', kv_Kind = ''VirtualMachine'',
     kv_Template = Some \<lparr>vt_Interfaces = [\<lparr>vi_Name = ''nic-0'', vi_MacAddress = ''aa''\<rparr>, \<lparr>vi_Name = ''nic-1'', vi_MacAddress = ''bb''\<rparr>],
       vt_Networks = [\<lparr>vn_Name = ''nic-0'', vn_Multus = Some ''default/net''\<rparr>, \<lparr>vn_Name = ''nic-1'', vn_Multus = Some ''default/net''\<rparr>]\<rparr>\<rparr>"

definition nic_config :: "string \<Rightarrow> NetworkConfig" where
  "nic_config mac = \<lparr>nc_NetworkName = ''default/net'', nc_MACAddress = mac, nc_IPAddress = None\<rparr>"

lemma example_vm_configs:
  "annotated_macs x example_vm = Inr Map.empty"
  "effective_configs Map.empty (the (kv_Template example_vm)) = [''nic-0'' \<mapsto> nic_config ''aa'', ''nic-1'' \<mapsto> nic_config ''bb'']"
  by (simp_all add: example_vm_def annotated_macs_def nil_lookup_def empty_meta_def)
    (auto simp: effective_configs_def from_annotation_def complete_only_def mac_config_def nic_config_def fun_eq_iff)

lemma example_vm_meta: "om_DeletionTimestamp (kv_Meta example_vm) = None" "kv_Template example_vm = Some (the (kv_Template example_vm))"
  by (simp_all add: example_vm_def empty_meta_def)


text \<open>
  An existing VirtualMachineNetworkConfig is changed in two steps, so that addresses are
  released before new ones are allocated: when the interfaces changed and the object is not out of
  sync, only its status is updated, to out-of-sync, and the machine is queued again; the new
  specification is written only when the object is out of sync.  Unchanged interfaces cause no
  write, and a machine without any effective interface is left alone: its object keeps the old
  interfaces.
\<close>

theorem vm_OnChange_two_phase:
  assumes "cond_laws (w_ext W)" "om_DeletionTimestamp (kv_Meta vm) = None" "annotated_macs (w_ext W) vm = Inr nm" "kv_Template vm = Some t"
    "e_vmnetcfg (w_env W) (calls s @ [VmNetCfgGet (om_Namespace (kv_Meta vm)) (om_Name (kv_Meta vm))]) = Inr old"
    "ncs = vs_NetworkConfigs (vm_Spec (prepareVmNetCfg (w_rng W) vm (effective_configs nm t)))"
  shows "\<exists>r err s' written. vm_OnChange W (Some vm) s = Ret ((r, err), s') \<and> calls s' = calls s @ written \<and>
    (if effective_configs nm t = Map.empty then written = []
     else if ncs = vs_NetworkConfigs (vm_Spec old) then written = [VmNetCfgGet (om_Namespace (kv_Meta vm)) (om_Name (kv_Meta vm))]
     else if x_IsFalse (w_ext W) InSynced (vst_Conditions (vm_Status old)) then
       (\<exists>v. written = [VmNetCfgGet (om_Namespace (kv_Meta vm)) (om_Name (kv_Meta vm)), VmNetCfgUpdate v] \<and>
          vs_NetworkConfigs (vm_Spec v) = ncs \<and> vm_Status v = vm_Status old)
     else (\<exists>v rest. written = [VmNetCfgGet (om_Namespace (kv_Meta vm)) (om_Name (kv_Meta vm)), VmNetCfgUpdateStatus v] @ rest \<and>
          x_IsFalse (w_ext W) InSynced (vst_Conditions (vm_Status v)) \<and> vst_NetworkConfigs (vm_Status v) = vst_NetworkConfigs (vm_Status old) \<and>
          (err = None \<longrightarrow> rest = [VmEnqueue (om_Namespace (kv_Meta vm)) (om_Name (kv_Meta vm))]) \<and> (err \<noteq> None \<longrightarrow> rest = [])))"
  using assms
  by (auto simp: vm_OnChange_def reconcile_vmnetcfg_def vm_conditions_def cond_laws_def ask_def Let_def split: sum.splits)

theorem vm_OnChange_two_phase_witness:
  "\<exists>r err s' v rest. vm_OnChange (example_world\<lparr>w_env := example_env\<lparr>e_vmnetcfg := \<lambda>_. Inr (example_vmnetcfg [] [] None)\<rparr>\<rparr>) (Some example_vm) start_state =
      Ret ((r, err), s') \<and> calls s' = [VmNetCfgGet ''default'' ''vm'', VmNetCfgUpdateStatus v] @ rest"
proof -
  let ?W = "example_world\<lparr>w_env := example_env\<lparr>e_vmnetcfg := \<lambda>_. Inr (example_vmnetcfg [] [] None)\<rparr>\<rparr>"
  let ?ncm = "effective_configs Map.empty (the (kv_Template example_vm))"
  have law: "cond_laws (w_ext ?W)" using example_ext_laws(1) by simp
  have e: "e_vmnetcfg (w_env ?W) x = Inr (example_vmnetcfg [] [] None)" for x by simp
  have "go_range (w_rng ?W)" by (simp add: go_range_sorted)
  from prepare_configs(2) [OF this effective_finite [of Map.empty "the (kv_Template example_vm)"], of example_vm]
  have len: "length (vs_NetworkConfigs (vm_Spec (prepareVmNetCfg (w_rng ?W) example_vm ?ncm))) = 2" unfolding example_vm_configs(2) by simp
  have ne: "?ncm \<noteq> Map.empty" unfolding example_vm_configs(2) by simp
  have old: "vs_NetworkConfigs (vm_Spec (example_vmnetcfg [] [] None)) = []" "\<not> x_IsFalse (w_ext ?W) InSynced (vst_Conditions (vm_Status (example_vmnetcfg [] [] None)))"
    by (simp_all add: example_vmnetcfg_def example_ext_def)
  have "vs_NetworkConfigs (vm_Spec (prepareVmNetCfg (w_rng ?W) example_vm ?ncm)) \<noteq> vs_NetworkConfigs (vm_Spec (example_vmnetcfg [] [] None))"
    using len old(1) by auto
  moreover have "om_Namespace (kv_Meta example_vm) = ''default''" "om_Name (kv_Meta example_vm) = ''vm''"
    by (simp_all add: example_vm_def empty_meta_def)
  ultimately show ?thesis
    using vm_OnChange_two_phase [OF law example_vm_meta(1) example_vm_configs(1) example_vm_meta(2) e refl, of start_state] ne old(2)
    by simp blast
qed

text \<open>
  The order of the network configurations is that of ranging over a map, and the comparison
  with the existing object is by order.  For a machine with at least two interfaces whose object
  was written in one order, there is an order in which the next event of the unchanged machine
  finds a difference and marks the object out of sync.
\<close>

theorem vm_OnChange_order_flaps:
  assumes "go_range rng" "om_DeletionTimestamp (kv_Meta vm) = None" "annotated_macs (w_ext W) vm = Inr nm" "finite (dom nm)" "kv_Template vm = Some t"
    "2 \<le> card (dom (effective_configs nm t))" "inj_on (effective_configs nm t) (dom (effective_configs nm t))"
    "e_vmnetcfg (w_env W) (calls s @ [VmNetCfgGet (om_Namespace (kv_Meta vm)) (om_Name (kv_Meta vm))]) = Inr old"
    "vs_NetworkConfigs (vm_Spec old) = vs_NetworkConfigs (vm_Spec (prepareVmNetCfg rng vm (effective_configs nm t)))"
    "\<not> x_IsFalse (w_ext W) InSynced (vst_Conditions (vm_Status old))"
  shows "\<exists>rng' r err s' v. go_range rng' \<and> vm_OnChange (W\<lparr>w_rng := rng'\<rparr>) (Some vm) s = Ret ((r, err), s') \<and> VmNetCfgUpdateStatus v \<in> set (calls s')"
proof -
  let ?ncm = "effective_configs nm t" and ?rng = "\<lambda>D. rev (rng D)" and ?ks = "rng (dom (effective_configs nm t))"
  have rev: "go_range ?rng" using assms(1) by (simp add: go_range_def ranges_def)
  have r: "distinct ?ks" "set ?ks = dom ?ncm" using go_rangeD [OF assms(1) effective_finite [OF assms(4)]] by (auto simp: ranges_def)
  let ?f = "\<lambda>nic. the (?ncm nic)"
  have inj: "inj_on ?f (dom ?ncm)" using assms(7) by (auto simp: inj_on_def domIff)
  have d: "distinct (map ?f ?ks)" using r inj by (simp add: distinct_map)
  have len: "2 \<le> length (map ?f ?ks)" using distinct_card [OF r(1)] r(2) assms(6) by simp
  have "rev (map ?f ?ks) \<noteq> map ?f ?ks"
  proof
    assume eq: "rev (map ?f ?ks) = map ?f ?ks"
    obtain x y zs where xs: "map ?f ?ks = x # y # zs" using len by (cases "map ?f ?ks"; cases "tl (map ?f ?ks)") auto
    have "hd (rev (map ?f ?ks)) = last (map ?f ?ks)" by (simp add: hd_rev)
    with eq xs have "x = last (y # zs)" by auto
    with d xs show False using last_in_set [of "y # zs"] by auto
  qed
  then have ne: "vs_NetworkConfigs (vm_Spec (prepareVmNetCfg ?rng vm ?ncm)) \<noteq> vs_NetworkConfigs (vm_Spec old)"
    by (simp add: assms(9) prepareVmNetCfg_def rev_map)
  have "?ncm \<noteq> Map.empty" using assms(6) by auto
  then have "\<exists>r err s' v. vm_OnChange (W\<lparr>w_rng := ?rng\<rparr>) (Some vm) s = Ret ((r, err), s') \<and> VmNetCfgUpdateStatus v \<in> set (calls s')"
    using assms(2,3,5,8,10) ne by (auto simp: vm_OnChange_def reconcile_vmnetcfg_def ask_def Let_def split: sum.splits)
  with rev show ?thesis by blast
qed

theorem vm_OnChange_order_flaps_witness:
  "\<exists>rng' r err s' v. go_range rng' \<and>
     vm_OnChange (example_world\<lparr>w_env := example_env\<lparr>e_vmnetcfg := \<lambda>_. Inr (example_vmnetcfg [nic_config ''aa'', nic_config ''bb''] [] None)\<rparr>, w_rng := rng'\<rparr>)
       (Some example_vm) start_state = Ret ((r, err), s') \<and> VmNetCfgUpdateStatus v \<in> set (calls s')"
proof -
  let ?v = "example_vmnetcfg [nic_config ''aa'', nic_config ''bb''] [] None"
  let ?W = "example_world\<lparr>w_env := example_env\<lparr>e_vmnetcfg := \<lambda>_. Inr ?v\<rparr>\<rparr>"
  let ?ncm = "effective_configs Map.empty (the (kv_Template example_vm))"
  have dom: "dom ?ncm = {''nic-0'', ''nic-1''}" unfolding example_vm_configs(2) by auto
  have card: "2 \<le> card (dom ?ncm)" unfolding dom by simp
  have inj: "inj_on ?ncm (dom ?ncm)" unfolding dom example_vm_configs(2) by (simp add: nic_config_def)
  have e: "e_vmnetcfg (w_env ?W) x = Inr ?v" for x by simp
  have eq: "vs_NetworkConfigs (vm_Spec ?v) = vs_NetworkConfigs (vm_Spec (prepareVmNetCfg sorted_list_of_set example_vm ?ncm))"
    unfolding prepareVmNetCfg_def dom by (simp add: example_vm_configs(2)) (simp add: example_vmnetcfg_def)
  have "\<not> x_IsFalse (w_ext ?W) InSynced (vst_Conditions (vm_Status ?v))" by (simp add: example_vmnetcfg_def example_ext_def)
  from vm_OnChange_order_flaps [OF go_range_sorted example_vm_meta(1) example_vm_configs(1) _ example_vm_meta(2) card inj e eq this]
  show ?thesis by simp
qed

end
