(* ===== verification/Webhook.thy ===== *)
theory Webhook
  imports Vm_Controller
begin

text \<open>
  The admission webhook: \<open>pkg/webhook/common.go\<close>, the validator and the mutator of
  \<open>pkg/webhook/ippool\<close> and the validator of \<open>pkg/webhook/vmnetcfg\<close>.  The webhook is a
  process of its own; of the state it only uses the list of calls, through which it reads the
  informer caches.  \<open>As4\<close> panics on an IPv6 address, so the checks return an \<open>outcome\<close>.
  The \<open>Kind\<close> of an object, which some messages print, is passed beside the object.
\<close>

section \<open>common.go\<close>

definition CreateErr :: "string \<Rightarrow> ObjectMeta \<Rightarrow> go_error \<Rightarrow> go_error" where
  "CreateErr kind m = Wrapf (''cannot create '' @ kind @ '' '' @ om_Namespace m @ ''/'' @ om_Name m @ '' because '')"

definition UpdateErr :: "string \<Rightarrow> ObjectMeta \<Rightarrow> go_error \<Rightarrow> go_error" where
  "UpdateErr kind m = Wrapf (''cannot update '' @ kind @ '' '' @ om_Namespace m @ ''/'' @ om_Name m @ '' because '')"

definition DeleteErr :: "string \<Rightarrow> ObjectMeta \<Rightarrow> go_error \<Rightarrow> go_error" where
  "DeleteErr kind m = Wrapf (''cannot delete '' @ kind @ '' '' @ om_Namespace m @ ''/'' @ om_Name m @ '' because '')"

section \<open>The validator of pools\<close>

text \<open>A sequence of checks stops at the first error.\<close>

definition go_check :: "go_error option outcome \<Rightarrow> go_error option outcome \<Rightarrow> go_error option outcome" where
  "go_check m k = go_bind m (\<lambda>r. case r of Some e \<Rightarrow> Ret (Some e) | None \<Rightarrow> k)"

definition checkNAD :: "world \<Rightarrow> string \<Rightarrow> ctl \<Rightarrow> go_error option \<times> ctl" where
  "checkNAD w namespacedName s =
     (case x_RSplit (w_ext w) namespacedName ''/'' of (ns, nadName) \<Rightarrow>
      let nadNamespace = (if ns = [] then ''default'' else ns) in
      case ask (e_nad (w_env w)) (NadGet nadNamespace nadName) s of
        (Inl e, s') \<Rightarrow> (Some e, s')
      | (Inr _, s') \<Rightarrow> (None, s'))"

definition IPNet_String :: "IPNet \<Rightarrow> string" where
  "IPNet_String n =
     (case (To4 (IPNet_IP n), IPNet_Mask n) of
        (Some _, Mask16 m) \<Rightarrow> IP_String (IPNet_IP n) @ ''/'' @ dec_string (Mask_Size (Mask4 (ucast m)))
      | (_, m) \<Rightarrow> IP_String (IPNet_IP n) @ ''/'' @ dec_string (Mask_Size m))"

text \<open>A CIDR that does not load is let through here; the caller has loaded it before.\<close>

definition checkCIDR :: "string \<Rightarrow> string \<Rightarrow> go_error option outcome" where
  "checkCIDR serviceCIDR cidr =
     (case LoadCIDR cidr of
        (_, Some _) \<Rightarrow> Ret None
      | ((net, _, _), None) \<Rightarrow>
          (case LoadCIDR serviceCIDR of
             (_, Some e) \<Rightarrow> Ret (Some e)
           | ((svc, _, _), None) \<Rightarrow>
               (case (net, svc) of
                  (Some n, Some sn) \<Rightarrow>
                    if Contains n (IPNet_IP sn) \<or> Contains sn (IPNet_IP n)
                    then Ret (Some (Errorf (''cidr '' @ cidr @ '' overlaps cluster service cidr '' @ IPNet_String sn)))
                    else Ret None
                | _ \<Rightarrow> Panic ''nil pointer dereference'')))"

definition net_Contains :: "IPNet option \<Rightarrow> addr \<Rightarrow> bool outcome" where
  "net_Contains net a =
     (case net of None \<Rightarrow> Panic ''nil pointer dereference'' | Some n \<Rightarrow> Ret (Contains n (AsSlice a)))"

definition same4 :: "addr \<Rightarrow> addr \<Rightarrow> bool outcome" where
  "same4 a b = go_bind (As4 a) (\<lambda>x. go_bind (As4 b) (\<lambda>y. Ret (x = y)))"

text \<open>
  The three conditions that the validator tests, in this order, of the bounds of the range, the
  server address and the router; the router check prints the broadcast address in its last
  message.
\<close>

definition check_host :: "string \<Rightarrow> addr \<Rightarrow> PoolInfo \<Rightarrow> addr \<Rightarrow> go_error option outcome" where
  "check_host what shown pi a =
     go_bind (net_Contains (pi_IPNet pi) a) (\<lambda>inside.
       if \<not> inside then Ret (Some (Errorf (what @ '' ip '' @ Addr_String a @ '' is not within subnet'')))
       else go_bind (same4 a (pi_NetworkIPAddr pi)) (\<lambda>isnet.
         if isnet then Ret (Some (Errorf (what @ '' ip '' @ Addr_String a @ '' is the same as network ip'')))
         else go_bind (same4 a (pi_BroadcastIPAddr pi)) (\<lambda>isbc.
           if isbc then Ret (Some (Errorf (what @ '' ip '' @ Addr_String shown @ '' is the same as broadcast ip'')))
           else Ret None)))"

definition checkPoolRange :: "PoolInfo \<Rightarrow> go_error option outcome" where
  "checkPoolRange pi =
     go_check
       (if IsValid (pi_StartIPAddr pi) then check_host ''start'' (pi_StartIPAddr pi) pi (pi_StartIPAddr pi) else Ret None)
       (if IsValid (pi_EndIPAddr pi) then check_host ''end'' (pi_EndIPAddr pi) pi (pi_EndIPAddr pi) else Ret None)"

text \<open>The loop of \<open>checkServerIP\<close> over the addresses that are in use.\<close>

fun occupied :: "addr \<Rightarrow> addr list \<Rightarrow> go_error option" where
  "occupied a [] = None"
| "occupied a (ip # rest) =
     (if a = ip then Some (Errorf (''server ip '' @ Addr_String a @ '' is already occupied'')) else occupied a rest)"

definition checkServerIP :: "PoolInfo \<Rightarrow> addr list \<Rightarrow> go_error option outcome" where
  "checkServerIP pi unallocatables =
     (let a = pi_ServerIPAddr pi in
      if \<not> IsValid a then Ret None
      else go_check (check_host ''server'' a pi a)
        (go_bind (if IsValid (pi_RouterIPAddr pi) then same4 a (pi_RouterIPAddr pi) else Ret False) (\<lambda>isrouter.
           if isrouter then Ret (Some (Errorf (''server ip '' @ Addr_String a @ '' is the same as router ip'')))
           else Ret (occupied a unallocatables))))"

definition checkRouter :: "PoolInfo \<Rightarrow> go_error option outcome" where
  "checkRouter pi =
     (if \<not> IsValid (pi_RouterIPAddr pi) then Ret None
      else check_host ''router'' (pi_BroadcastIPAddr pi) pi (pi_RouterIPAddr pi))"

definition checkVmNetCfgs :: "world \<Rightarrow> IPPool \<Rightarrow> ctl \<Rightarrow> go_error option \<times> ctl" where
  "checkVmNetCfgs w ipPool s =
     (case WhoUseIPPool (w_env w) ipPool s of
        (Inl e, s') \<Rightarrow> (Some e, s')
      | (Inr vmNetCfgs, s') \<Rightarrow>
          (if length vmNetCfgs > 0 then
             Some (Errorf (''it's still used by VirtualMachineNetworkConfig(s) ''
               @ join '', '' (map (\<lambda>v. om_Namespace (vm_Meta v) @ ''/'' @ om_Name (vm_Meta v)) vmNetCfgs)
               @ '', which must be removed at first''))
           else None, s'))"

text \<open>The checks that \<open>Create\<close> and \<open>Update\<close> make after the network was found.\<close>

definition pool_checks :: "string \<Rightarrow> IPPool \<Rightarrow> PoolInfo \<Rightarrow> addr list \<Rightarrow> go_error option outcome" where
  "pool_checks serviceCIDR ipPool pi unallocatables =
     go_check (checkCIDR serviceCIDR (c4_CIDR (ps_IPv4Config (ip_Spec ipPool))))
       (go_check (checkPoolRange pi)
         (go_check (checkServerIP pi unallocatables) (checkRouter pi)))"

definition ippool_Validator_Create :: "world \<Rightarrow> string \<Rightarrow> IPPool \<Rightarrow> ctl \<Rightarrow> (go_error option \<times> ctl) outcome" where
  "ippool_Validator_Create w serviceCIDR ipPool s =
     (let fail = CreateErr ''IPPool'' (ip_Meta ipPool) in
      case LoadPool ipPool of
        (_, Some e) \<Rightarrow> Ret (Some (fail e), s)
      | (poolInfo, None) \<Rightarrow>
          (case checkNAD w (ps_NetworkName (ip_Spec ipPool)) s of
             (Some e, s') \<Rightarrow> Ret (Some (fail e), s')
           | (None, s') \<Rightarrow>
               go_bind (pool_checks serviceCIDR ipPool poolInfo []) (\<lambda>r. Ret (map_option fail r, s'))))"

definition ippool_Validator_Update :: "world \<Rightarrow> string \<Rightarrow> IPPool \<Rightarrow> ctl \<Rightarrow> (go_error option \<times> ctl) outcome" where
  "ippool_Validator_Update w serviceCIDR ipPool s =
     (let fail = UpdateErr ''IPPool'' (ip_Meta ipPool) in
      if om_DeletionTimestamp (ip_Meta ipPool) \<noteq> None then Ret (None, s)
      else case LoadPool ipPool of
        (_, Some e) \<Rightarrow> Ret (Some (fail e), s)
      | (poolInfo, None) \<Rightarrow>
          (case (case st_IPv4 (ip_Status ipPool) of
                   None \<Rightarrow> ([], [], [])
                 | Some st \<Rightarrow> LoadAllocated (w_rng w) (s4_Allocated st)) of
             (allocated, excluded, _) \<Rightarrow>
               (case checkNAD w (ps_NetworkName (ip_Spec ipPool)) s of
                  (Some e, s') \<Rightarrow> Ret (Some (fail e), s')
                | (None, s') \<Rightarrow>
                    go_bind (pool_checks serviceCIDR ipPool poolInfo (allocated @ excluded))
                      (\<lambda>r. Ret (map_option fail r, s')))))"

definition ippool_Validator_Delete :: "world \<Rightarrow> string \<Rightarrow> IPPool \<Rightarrow> ctl \<Rightarrow> go_error option \<times> ctl" where
  "ippool_Validator_Delete w kind ipPool s =
     (case checkVmNetCfgs w ipPool s of (r, s') \<Rightarrow> (map_option (DeleteErr kind (ip_Meta ipPool)) r, s'))"

section \<open>The mutator of pools\<close>

text \<open>The addresses that the server must not get: the router, if it parses, and the excluded ones.\<close>

fun load_excludes :: "string list \<Rightarrow> addr list \<Rightarrow> addr list gores" where
  "load_excludes [] acc = (acc, None)"
| "load_excludes (t # ts) acc =
     (case ParseAddr t of (_, Some e) \<Rightarrow> (acc, Some e) | (a, None) \<Rightarrow> load_excludes ts (acc @ [a]))"

text \<open>
  The search for a server address.  The search is partial: not returning is \<open>None\<close>.  It
  returns no address when it reaches the broadcast address or leaves the subnet.
\<close>

partial_function (option) pick_server :: "IPNet \<Rightarrow> addr list \<Rightarrow> addr \<Rightarrow> addr \<Rightarrow> addr option outcome option" where
  "pick_server net masked bcast a =
     (if Contains net (AsSlice a) then
        if IsIPAddrInList a masked then pick_server net masked bcast (Next a)
        else Some (go_bind (same4 a bcast) (\<lambda>b. Ret (if b then None else Some a)))
      else Some (Ret None))"

definition ensureServerIP :: "string \<Rightarrow> string \<Rightarrow> string \<Rightarrow> string list \<Rightarrow> string option gores outcome" where
  "ensureServerIP server cidr router excludes =
     (case LoadCIDR cidr of
        (_, Some e) \<Rightarrow> Ret (None, Some e)
      | ((net, networkIPAddr, broadcastIPAddr), None) \<Rightarrow>
          let masked0 = (case ParseAddr router of (r, None) \<Rightarrow> [r] | (_, Some _) \<Rightarrow> []);
              serverIPAddr = (case ParseAddr server of (a, None) \<Rightarrow> a | (_, Some _) \<Rightarrow> Invalid)
          in case load_excludes excludes masked0 of
               (_, Some e) \<Rightarrow> Ret (None, Some e)
             | (masked, None) \<Rightarrow>
                 if IsValid serverIPAddr then Ret (None, None)
                 else (case net of
                     None \<Rightarrow> Panic ''nil pointer dereference''
                   | Some n \<Rightarrow>
                       (case pick_server n masked broadcastIPAddr (Next networkIPAddr) of
                          None \<Rightarrow> Diverge
                        | Some r \<Rightarrow>
                            go_bind r (\<lambda>found. case found of
                                None \<Rightarrow> Ret (None, Some (Errorf ''fail to assign ip for dhcp server''))
                              | Some a \<Rightarrow> Ret (Some (Addr_String a), None)))))"

text \<open>The two subnet tests of \<open>ensurePoolRange\<close> only write a log line.\<close>

definition ensurePoolRange :: "Pool \<Rightarrow> string \<Rightarrow> Pool option gores" where
  "ensurePoolRange pool cidr =
     (let startIPAddr = (case ParseAddr (pl_Start pool) of (a, None) \<Rightarrow> a | (_, Some _) \<Rightarrow> Invalid);
          endIPAddr = (case ParseAddr (pl_End pool) of (a, None) \<Rightarrow> a | (_, Some _) \<Rightarrow> Invalid)
      in case LoadCIDR cidr of
           (_, Some e) \<Rightarrow> (None, Some e)
         | ((_, networkIPAddr, broadcastIPAddr), None) \<Rightarrow>
             let (startIPAddr', pool1) =
                   (if IsValid startIPAddr then (startIPAddr, pool)
                    else (Next networkIPAddr, pool\<lparr>pl_Start := Addr_String (Next networkIPAddr)\<rparr>));
                 (endIPAddr', newPool) =
                   (if IsValid endIPAddr then (endIPAddr, pool1)
                    else (Prev broadcastIPAddr, pool1\<lparr>pl_End := Addr_String (Prev broadcastIPAddr)\<rparr>))
             in if Compare startIPAddr' endIPAddr' > 0 then (None, Some (Errorf ''invalid pool range''))
                else if newPool \<noteq> pool then (Some newPool, None)
                else (None, None))"

datatype patch_value = PoolValue Pool | StringValue string

record PatchOp =
  po_Op :: string
  po_Path :: string
  po_Value :: patch_value

definition ippool_Mutator_Create :: "IPPool \<Rightarrow> PatchOp list gores outcome" where
  "ippool_Mutator_Create ipPool =
     (let cfg = ps_IPv4Config (ip_Spec ipPool); fail = CreateErr ''IPPool'' (ip_Meta ipPool) in
      go_bind (ensureServerIP (c4_ServerIP cfg) (c4_CIDR cfg) (c4_Router cfg) (pl_Exclude (c4_Pool cfg))) (\<lambda>sv.
        case sv of
          (_, Some e) \<Rightarrow> Ret ([], Some (fail e))
        | (serverIP, None) \<Rightarrow>
            (case ensurePoolRange (c4_Pool cfg) (c4_CIDR cfg) of
               (_, Some e) \<Rightarrow> Ret ([], Some (fail e))
             | (pool, None) \<Rightarrow>
                 Ret ((case pool of None \<Rightarrow> [] | Some p \<Rightarrow>
                         [\<lparr>po_Op = ''replace'', po_Path = ''/spec/ipv4Config/pool'', po_Value = PoolValue p\<rparr>]) @
                      (case serverIP of None \<Rightarrow> [] | Some t \<Rightarrow>
                         [\<lparr>po_Op = ''replace'', po_Path = ''/spec/ipv4Config/serverIP'', po_Value = StringValue t\<rparr>]),
                      None))))"

section \<open>The validator of network configurations\<close>

fun vmnetcfg_Validator_loop :: "world \<Rightarrow> (go_error \<Rightarrow> go_error) \<Rightarrow> NetworkConfig list \<Rightarrow> ctl \<Rightarrow> go_error option \<times> ctl" where
  "vmnetcfg_Validator_loop w fail [] s = (None, s)"
| "vmnetcfg_Validator_loop w fail (nc # ncs) s =
     (case x_RSplit (w_ext w) (nc_NetworkName nc) ''/'' of (ns, nadName) \<Rightarrow>
      let nadNamespace = (if ns = [] then ''default'' else ns) in
      case ask (e_nad (w_env w)) (NadGet nadNamespace nadName) s of
        (Inl e, s1) \<Rightarrow> (Some (fail e), s1)
      | (Inr nad, s1) \<Rightarrow>
          (case nil_lookup (om_Labels (nad_Meta nad)) IPPoolNamespaceLabelKey of
             None \<Rightarrow> (Some (fail (Errorf (IPPoolNamespaceLabelKey @ '' label not found''))), s1)
           | Some ipPoolNamespace \<Rightarrow>
               (case nil_lookup (om_Labels (nad_Meta nad)) IPPoolNameLabelKey of
                  None \<Rightarrow> (Some (fail (Errorf (IPPoolNameLabelKey @ '' label not found''))), s1)
                | Some ipPoolName \<Rightarrow>
                    (case ask (e_ippool (w_env w)) (IPPoolGet ipPoolNamespace ipPoolName) s1 of
                       (Inl e, s2) \<Rightarrow> (Some (fail e), s2)
                     | (Inr _, s2) \<Rightarrow> vmnetcfg_Validator_loop w fail ncs s2))))"

definition vmnetcfg_Validator_Create :: "world \<Rightarrow> string \<Rightarrow> VirtualMachineNetworkConfig \<Rightarrow> ctl \<Rightarrow> go_error option \<times> ctl" where
  "vmnetcfg_Validator_Create w kind vmNetCfg s =
     vmnetcfg_Validator_loop w (CreateErr kind (vm_Meta vmNetCfg)) (vs_NetworkConfigs (vm_Spec vmNetCfg)) s"

end
