(* ===== verification/Webhook_Facts.thy ===== *)
theory Webhook_Facts
  imports Webhook
begin

text \<open>
  What the admission webhook guarantees: the exact verdict of the pool validator on IPv4 pools,
  that an admitted range can be built by the IP address management, the defaults that the
  mutator fills in, and the verdicts on deleted pools and on new network configurations.
\<close>

section \<open>Blocks and hosts\<close>

definition in_block :: "u32 \<Rightarrow> nat \<Rightarrow> u32 \<Rightarrow> bool" where
  "in_block w k x \<longleftrightarrow> same_block (32 - k) x w"

definition network_of :: "u32 \<Rightarrow> nat \<Rightarrow> u32" where
  "network_of w k = w AND NOT (mask (32 - k))"

definition last_of :: "u32 \<Rightarrow> nat \<Rightarrow> u32" where
  "last_of w k = w OR mask (32 - k)"

text \<open>A host of a block: neither its network address nor its broadcast address.\<close>

definition host :: "u32 \<Rightarrow> nat \<Rightarrow> u32 \<Rightarrow> bool" where
  "host w k x \<longleftrightarrow> in_block w k x \<and> x \<noteq> network_of w k \<and> x \<noteq> last_of w k"

lemma in_block_iff: "in_block w k x \<longleftrightarrow> network_of w k \<le> x \<and> x \<le> last_of w k"
proof
  assume "in_block w k x"
  then show "network_of w k \<le> x \<and> x \<le> last_of w k"
    unfolding in_block_def network_of_def last_of_def
    by (simp add: same_block_ge_network same_block_le_broadcast)
next
  assume *: "network_of w k \<le> x \<and> x \<le> last_of w k"
  have "same_block (32 - k) (network_of w k) (last_of w k)"
    unfolding network_of_def last_of_def
    using network_same_block broadcast_same_block same_block_sym same_block_trans by blast
  with * have "same_block (32 - k) (network_of w k) x"
    using same_block_between by blast
  then show "in_block w k x"
    unfolding in_block_def network_of_def using network_same_block same_block_sym same_block_trans by blast
qed

lemma host_iff: "host w k x \<longleftrightarrow> network_of w k < x \<and> x < last_of w k"
  unfolding host_def in_block_iff by auto

lemma same_block_mono:
  assumes "i \<le> j" "same_block i x y"
  shows "same_block j x y"
proof -
  have "unat x div 2 ^ j = unat x div 2 ^ i div 2 ^ (j - i)" for x :: u32
    using assms(1) by (simp add: div_mult2_eq [symmetric] power_add [symmetric])
  with assms(2) show ?thesis by (simp add: same_block_nat)
qed

text \<open>Two blocks meet exactly when one contains the network address of the other.\<close>

lemma blocks_meet:
  "(\<exists>x. in_block w k x \<and> in_block v j x) \<longleftrightarrow> in_block w k (network_of v j) \<or> in_block v j (network_of w k)"
proof
  assume "\<exists>x. in_block w k x \<and> in_block v j x"
  then obtain x where x: "same_block (32 - k) x w" "same_block (32 - j) x v" unfolding in_block_def by blast
  have n: "same_block (32 - j) (network_of v j) x" "same_block (32 - k) (network_of w k) x"
    unfolding network_of_def using network_same_block x same_block_sym same_block_trans by blast+
  show "in_block w k (network_of v j) \<or> in_block v j (network_of w k)"
  proof (cases "32 - j \<le> 32 - k")
    case True
    then have "same_block (32 - k) (network_of v j) x" using n same_block_mono by blast
    with x show ?thesis unfolding in_block_def using same_block_trans by blast
  next
    case False
    then have "same_block (32 - j) (network_of w k) x" using n same_block_mono [of "32 - k" "32 - j"] by auto
    with x show ?thesis unfolding in_block_def using same_block_trans by blast
  qed
next
  assume "in_block w k (network_of v j) \<or> in_block v j (network_of w k)"
  moreover have "in_block w k (network_of w k)" for w k
    unfolding in_block_def network_of_def by (rule network_same_block)
  ultimately show "\<exists>x. in_block w k x \<and> in_block v j x" by blast
qed

lemma LoadCIDR_cidr4:
  assumes "cidr4 cidr w k"
  shows "LoadCIDR cidr = ((Some \<lparr>IPNet_IP = IP4 (w AND CIDRMask4 k), IPNet_Mask = Mask4 (CIDRMask4 k)\<rparr>,
    V4 (network_of w k), V4 (last_of w k)), None)"
proof -
  have "w AND NOT (mask (32 - k)) OR mask (32 - k) = w OR mask (32 - k)"
    by (rule bit_eqI) (auto simp: bit_simps)
  then show ?thesis
    using assms by (simp add: LoadCIDR_def cidr4_def CIDRMask4_def network_of_def last_of_def)
qed

lemma Contains_in_block:
  "Contains \<lparr>IPNet_IP = IP4 (w AND CIDRMask4 k), IPNet_Mask = Mask4 (CIDRMask4 k)\<rparr> (IP4 x) \<longleftrightarrow> in_block w k x"
  by (simp add: Contains_CIDR4 in_block_def)

lemma Contains_NilIP [simp]:
  "\<not> Contains \<lparr>IPNet_IP = IP4 (w AND CIDRMask4 k), IPNet_Mask = Mask4 (CIDRMask4 k)\<rparr> NilIP"
  by (simp add: Contains_CIDR4)

section \<open>IPv4 pool specifications\<close>

text \<open>An optional address field: empty, or the text of an IPv4 address.\<close>

fun opt4 :: "string \<Rightarrow> u32 option \<Rightarrow> bool" where
  "opt4 t None \<longleftrightarrow> t = []"
| "opt4 t (Some x) \<longleftrightarrow> t \<noteq> [] \<and> ParseAddr t = (V4 x, None)"

fun addr_of :: "u32 option \<Rightarrow> addr" where
  "addr_of None = Invalid"
| "addr_of (Some x) = V4 x"

lemma load_addr_opt4: "opt4 t a \<Longrightarrow> load_addr t = (addr_of a, None)"
  by (cases a) (auto simp: load_addr_def)

record spec4 =
  p_start :: "u32 option"
  p_end :: "u32 option"
  p_server :: "u32 option"
  p_router :: "u32 option"

text \<open>The specification of a pool in the block \<open>w/k\<close> with the given addresses.\<close>

definition pool4 :: "IPPool \<Rightarrow> u32 \<Rightarrow> nat \<Rightarrow> spec4 \<Rightarrow> bool" where
  "pool4 p w k a \<longleftrightarrow> (let c = ps_IPv4Config (ip_Spec p) in
     cidr4 (c4_CIDR c) w k \<and> opt4 (pl_Start (c4_Pool c)) (p_start a) \<and> opt4 (pl_End (c4_Pool c)) (p_end a) \<and>
     opt4 (c4_ServerIP c) (p_server a) \<and> opt4 (c4_Router c) (p_router a))"

definition info4 :: "u32 \<Rightarrow> nat \<Rightarrow> spec4 \<Rightarrow> PoolInfo" where
  "info4 w k a = \<lparr>pi_IPNet = Some \<lparr>IPNet_IP = IP4 (w AND CIDRMask4 k), IPNet_Mask = Mask4 (CIDRMask4 k)\<rparr>,
     pi_NetworkIPAddr = V4 (network_of w k), pi_BroadcastIPAddr = V4 (last_of w k),
     pi_StartIPAddr = addr_of (p_start a), pi_EndIPAddr = addr_of (p_end a),
     pi_ServerIPAddr = addr_of (p_server a), pi_RouterIPAddr = addr_of (p_router a)\<rparr>"

lemma LoadPool_pool4:
  assumes "pool4 p w k a"
  shows "LoadPool p = (info4 w k a, None)"
proof -
  let ?c = "ps_IPv4Config (ip_Spec p)"
  have "LoadCIDR (c4_CIDR ?c) = ((pi_IPNet (info4 w k a), V4 (network_of w k), V4 (last_of w k)), None)"
    "load_addr (pl_Start (c4_Pool ?c)) = (addr_of (p_start a), None)"
    "load_addr (pl_End (c4_Pool ?c)) = (addr_of (p_end a), None)"
    "load_addr (c4_ServerIP ?c) = (addr_of (p_server a), None)" "load_addr (c4_Router ?c) = (addr_of (p_router a), None)"
    using assms by (auto simp: pool4_def Let_def info4_def intro!: load_addr_opt4 dest!: LoadCIDR_cidr4)
  then show ?thesis
    by (simp add: LoadPool_def Let_def) (simp add: info4_def)
qed

definition field_ok :: "u32 \<Rightarrow> nat \<Rightarrow> u32 option \<Rightarrow> bool" where
  "field_ok w k a \<longleftrightarrow> (case a of None \<Rightarrow> True | Some x \<Rightarrow> host w k x)"

text \<open>The rules that the validator enforces on the addresses of a pool.\<close>

definition spec_ok :: "u32 \<Rightarrow> nat \<Rightarrow> spec4 \<Rightarrow> bool" where
  "spec_ok w k a \<longleftrightarrow> field_ok w k (p_start a) \<and> field_ok w k (p_end a) \<and> field_ok w k (p_server a) \<and>
     field_ok w k (p_router a) \<and> (p_server a = None \<or> p_server a \<noteq> p_router a)"

section \<open>The verdict of the validator\<close>

definition verdict :: "go_error option outcome \<Rightarrow> bool \<Rightarrow> bool" where
  "verdict r b \<longleftrightarrow> (\<exists>e. r = Ret e \<and> (e = None \<longleftrightarrow> b))"

lemma verdict_Ret [simp]: "verdict (Ret e) b \<longleftrightarrow> (e = None \<longleftrightarrow> b)"
  by (simp add: verdict_def)

lemma verdict_check: "verdict m a \<Longrightarrow> verdict n b \<Longrightarrow> verdict (go_check m n) (a \<and> b)"
  unfolding verdict_def go_check_def by auto

lemma check_host_verdict:
  "verdict (check_host what shown (info4 w k a) (V4 x)) (host w k x)"
  by (auto simp: check_host_def net_Contains_def info4_def same4_def Contains_in_block host_def)

lemma check_field_verdict:
  "verdict (if IsValid (addr_of f) then check_host what shown (info4 w k a) (addr_of f) else Ret None) (field_ok w k f)"
  using check_host_verdict by (cases f) (auto simp: field_ok_def)

lemma checkPoolRange_verdict:
  "verdict (checkPoolRange (info4 w k a)) (field_ok w k (p_start a) \<and> field_ok w k (p_end a))"
proof -
  have "pi_StartIPAddr (info4 w k a) = addr_of (p_start a)" "pi_EndIPAddr (info4 w k a) = addr_of (p_end a)"
    by (simp_all add: info4_def)
  then show ?thesis
    unfolding checkPoolRange_def by (simp only:) (intro verdict_check check_field_verdict)
qed

lemma checkRouter_verdict: "verdict (checkRouter (info4 w k a)) (field_ok w k (p_router a))"
proof -
  have "pi_RouterIPAddr (info4 w k a) = addr_of (p_router a)" by (simp add: info4_def)
  then show ?thesis
    unfolding checkRouter_def
    using check_field_verdict [of "p_router a" "''router''" "pi_BroadcastIPAddr (info4 w k a)" w k a] by auto
qed

lemma occupied_None: "occupied a xs = None \<longleftrightarrow> a \<notin> set xs"
  by (induction xs) auto

lemma checkServerIP_verdict:
  "verdict (checkServerIP (info4 w k a) xs)
     (field_ok w k (p_server a) \<and> (p_server a = None \<or> p_server a \<noteq> p_router a \<and> addr_of (p_server a) \<notin> set xs))"
proof (cases "p_server a")
  case None
  then show ?thesis by (simp add: checkServerIP_def info4_def field_ok_def)
next
  case (Some x)
  have r: "verdict (go_bind (if IsValid (addr_of (p_router a)) then same4 (V4 x) (addr_of (p_router a)) else Ret False) (\<lambda>b.
      if b then Ret (Some (Errorf t)) else Ret (occupied (V4 x) xs))) (p_router a \<noteq> Some x \<and> V4 x \<notin> set xs)" for t
    by (cases "p_router a") (auto simp: same4_def occupied_None)
  have "pi_ServerIPAddr (info4 w k a) = V4 x" "pi_RouterIPAddr (info4 w k a) = addr_of (p_router a)"
    using Some by (simp_all add: info4_def)
  then have "verdict (checkServerIP (info4 w k a) xs) (host w k x \<and> p_router a \<noteq> Some x \<and> V4 x \<notin> set xs)"
    unfolding checkServerIP_def Let_def
    by (simp only: IsValid.simps not_True_eq_False if_False) (intro verdict_check check_host_verdict r)
  then show ?thesis using Some by (simp add: field_ok_def eq_commute [of "Some x"])
qed

lemma checkCIDR_verdict:
  assumes "cidr4 cidr w k" "cidr4 svc v j"
  shows "verdict (checkCIDR svc cidr) (\<nexists>x. in_block w k x \<and> in_block v j x)"
proof -
  have "Contains \<lparr>IPNet_IP = IP4 (w AND CIDRMask4 k), IPNet_Mask = Mask4 (CIDRMask4 k)\<rparr> (IP4 (v AND CIDRMask4 j))
     \<longleftrightarrow> in_block w k (network_of v j)" for w k v j
    unfolding Contains_in_block by (simp add: network_of_def CIDRMask4_def)
  then have "verdict (checkCIDR svc cidr) (\<not> (in_block w k (network_of v j) \<or> in_block v j (network_of w k)))"
    by (simp add: checkCIDR_def LoadCIDR_cidr4 [OF assms(1)] LoadCIDR_cidr4 [OF assms(2)])
  then show ?thesis unfolding blocks_meet .
qed

lemma pool_checks_verdict:
  assumes "pool4 p w k a" "cidr4 svc v j"
  shows "verdict (pool_checks svc p (info4 w k a) xs)
    ((\<nexists>x. in_block w k x \<and> in_block v j x) \<and> spec_ok w k a \<and> (p_server a = None \<or> addr_of (p_server a) \<notin> set xs))"
proof -
  have c: "cidr4 (c4_CIDR (ps_IPv4Config (ip_Spec p))) w k" using assms(1) by (simp add: pool4_def Let_def)
  have "verdict (pool_checks svc p (info4 w k a) xs)
    ((\<nexists>x. in_block w k x \<and> in_block v j x) \<and> (field_ok w k (p_start a) \<and> field_ok w k (p_end a)) \<and>
     (field_ok w k (p_server a) \<and> (p_server a = None \<or> p_server a \<noteq> p_router a \<and> addr_of (p_server a) \<notin> set xs)) \<and>
     field_ok w k (p_router a))"
    unfolding pool_checks_def
    by (intro verdict_check checkCIDR_verdict [OF c assms(2)] checkPoolRange_verdict checkServerIP_verdict checkRouter_verdict)
  then show ?thesis
    unfolding spec_ok_def verdict_def by blast
qed

definition nad_found :: "world \<Rightarrow> IPPool \<Rightarrow> ctl \<Rightarrow> bool" where
  "nad_found W p s \<longleftrightarrow> fst (checkNAD W (ps_NetworkName (ip_Spec p)) s) = None"

definition in_use_of :: "world \<Rightarrow> IPPool \<Rightarrow> addr list" where
  "in_use_of W p = (case st_IPv4 (ip_Status p) of
     None \<Rightarrow> []
   | Some st \<Rightarrow> (case LoadAllocated (w_rng W) (s4_Allocated st) of (al, ex, _) \<Rightarrow> al @ ex))"

lemma Create_verdict_aux:
  assumes "pool4 p w k a" "cidr4 svc v j"
  shows "\<exists>err s'. ippool_Validator_Create W svc p s = Ret (err, s') \<and>
    (err = None \<longleftrightarrow> nad_found W p s \<and> (\<nexists>x. in_block w k x \<and> in_block v j x) \<and> spec_ok w k a)"
proof -
  obtain r where r: "pool_checks svc p (info4 w k a) [] = Ret r"
    "r = None \<longleftrightarrow> (\<nexists>x. in_block w k x \<and> in_block v j x) \<and> spec_ok w k a"
    using pool_checks_verdict [OF assms, of "[]"] unfolding verdict_def by auto
  show ?thesis
    unfolding ippool_Validator_Create_def LoadPool_pool4 [OF assms(1)] nad_found_def Let_def
    using r by (cases "checkNAD W (ps_NetworkName (ip_Spec p)) s") (auto split: option.splits)
qed

lemma Update_verdict_aux:
  assumes "pool4 p w k a" "cidr4 svc v j" "om_DeletionTimestamp (ip_Meta p) = None"
  shows "\<exists>err s'. ippool_Validator_Update W svc p s = Ret (err, s') \<and>
    (err = None \<longleftrightarrow> nad_found W p s \<and> (\<nexists>x. in_block w k x \<and> in_block v j x) \<and> spec_ok w k a \<and>
       (p_server a = None \<or> addr_of (p_server a) \<notin> set (in_use_of W p)))"
proof -
  obtain r where r: "pool_checks svc p (info4 w k a) (in_use_of W p) = Ret r"
    "r = None \<longleftrightarrow> (\<nexists>x. in_block w k x \<and> in_block v j x) \<and> spec_ok w k a \<and>
       (p_server a = None \<or> addr_of (p_server a) \<notin> set (in_use_of W p))"
    using pool_checks_verdict [OF assms(1,2), of "in_use_of W p"] unfolding verdict_def by auto
  obtain al ex rs where l: "(case st_IPv4 (ip_Status p) of None \<Rightarrow> ([], [], [])
      | Some st \<Rightarrow> LoadAllocated (w_rng W) (s4_Allocated st)) = (al, ex, rs)" "in_use_of W p = al @ ex"
    by (cases "st_IPv4 (ip_Status p)"; cases "LoadAllocated (w_rng W) (s4_Allocated (the (st_IPv4 (ip_Status p))))")
      (auto simp: in_use_of_def)
  show ?thesis
    unfolding ippool_Validator_Update_def LoadPool_pool4 [OF assms(1)] nad_found_def Let_def l(1)
    using r l(2) assms(3)
    by (cases "checkNAD W (ps_NetworkName (ip_Spec p)) s") (auto split: option.splits)
qed

section \<open>Admission of pools\<close>

text \<open>
  [C28] The validator returns a verdict on every IPv4 pool: creation is admitted exactly when the
  network exists, the block does not meet the service block of the cluster, every address given
  (bounds of the range, server, router) is a host of the block, and the server is not the
  router.
\<close>

theorem Validator_Create_verdict:
  assumes "pool4 p w k a" "cidr4 svc v j"
  shows "\<exists>err s'. ippool_Validator_Create W svc p s = Ret (err, s') \<and>
    (err = None \<longleftrightarrow> nad_found W p s \<and> (\<nexists>x. in_block w k x \<and> in_block v j x) \<and> spec_ok w k a)"
  using assms by (rule Create_verdict_aux)

lemma pool4_bounds:
  assumes "pool4 p w k a" "spec_ok w k a" "p_start a = Some x" "p_end a = Some y" "x \<le> y"
  shows "pool_bounds w k (pl_Start (c4_Pool (ps_IPv4Config (ip_Spec p)))) (pl_End (c4_Pool (ps_IPv4Config (ip_Spec p)))) x y"
  using assms
  by (simp add: pool4_def Let_def pool_bounds_def ParseIP_def spec_ok_def field_ok_def host_def in_block_def last_of_def)

lemma reversed_unbuildable:
  assumes "pool4 p w k a" "p_start a = Some x" "p_end a = Some y" "y < x"
  shows "\<exists>err. NewIPSubnet al n (c4_CIDR (ps_IPv4Config (ip_Spec p))) (pl_Start (c4_Pool (ps_IPv4Config (ip_Spec p))))
           (pl_End (c4_Pool (ps_IPv4Config (ip_Spec p)))) = Ret (al, Some err)"
proof (rule NewIPSubnet_refused)
  show "cidr4 (c4_CIDR (ps_IPv4Config (ip_Spec p))) w k" using assms(1) by (simp add: pool4_def Let_def)
  show "\<nexists>s e. pool_bounds w k (pl_Start (c4_Pool (ps_IPv4Config (ip_Spec p)))) (pl_End (c4_Pool (ps_IPv4Config (ip_Spec p)))) s e"
    using assms by (auto simp: pool4_def Let_def pool_bounds_def ParseIP_def)
qed

text \<open>
  Updates are admitted by the same rules plus one: the server address must not be allocated
  or excluded.  The order of the bounds is not among them.  An admitted update with ordered bounds
  gives a pool that the controller can build for any network; with reversed bounds, building fails
  and leaves the address management as it was.
\<close>

theorem Validator_Update_build:
  assumes "pool4 p w k a" "cidr4 svc v j" "om_DeletionTimestamp (ip_Meta p) = None"
    and "p_start a = Some x" "p_end a = Some y"
    and c: "c = ps_IPv4Config (ip_Spec p)"
  shows "\<exists>err s'. ippool_Validator_Update W svc p s = Ret (err, s') \<and>
    (err = None \<longleftrightarrow> nad_found W p s \<and> (\<nexists>x. in_block w k x \<and> in_block v j x) \<and> spec_ok w k a \<and>
       (p_server a = None \<or> addr_of (p_server a) \<notin> set (in_use_of W p))) \<and>
    (err = None \<and> x \<le> y \<longrightarrow>
       (\<exists>al'. NewIPSubnet al n (c4_CIDR c) (pl_Start (c4_Pool c)) (pl_End (c4_Pool c)) = Ret (al', None) \<and>
          pool_of al' n = Some (\<lambda>ip. if ip \<in> string4 ` {x..y} then Some False else None))) \<and>
    (y < x \<longrightarrow> (\<exists>e. NewIPSubnet al n (c4_CIDR c) (pl_Start (c4_Pool c)) (pl_End (c4_Pool c)) = Ret (al, Some e)))"
proof -
  have build: "\<exists>al'. NewIPSubnet al n (c4_CIDR c) (pl_Start (c4_Pool c)) (pl_End (c4_Pool c)) = Ret (al', None) \<and>
      pool_of al' n = Some (\<lambda>ip. if ip \<in> string4 ` {x..y} then Some False else None)" if "spec_ok w k a" "x \<le> y"
  proof -
    have "cidr4 (c4_CIDR c) w k" using assms(1) by (simp add: pool4_def Let_def c)
    then show ?thesis
      using NewIPSubnet_ok pool4_bounds [OF assms(1) that(1) assms(4,5) that(2)]
      by (auto simp: c pool_of_def subnet4_def mark_free_def fun_eq_iff)
  qed
  obtain err s' where "ippool_Validator_Update W svc p s = Ret (err, s')"
    "err = None \<longleftrightarrow> nad_found W p s \<and> (\<nexists>x. in_block w k x \<and> in_block v j x) \<and> spec_ok w k a \<and>
       (p_server a = None \<or> addr_of (p_server a) \<notin> set (in_use_of W p))"
    using Update_verdict_aux [OF assms(1,2,3), of W s] by blast
  with build reversed_unbuildable [OF assms(1,4,5), of al n] show ?thesis
    unfolding c by (intro exI [of _ err] exI [of _ s']) blast
qed

section \<open>The mutator\<close>

lemma pick_server_V4:
  assumes "network_of w k \<le> x" "x \<le> last_of w k"
    and net: "net = \<lparr>IPNet_IP = IP4 (w AND CIDRMask4 k), IPNet_Mask = Mask4 (CIDRMask4 k)\<rparr>"
  shows "\<exists>r. pick_server net masked (V4 (last_of w k)) (V4 x) = Some (Ret r) \<and>
    (case r of None \<Rightarrow> \<forall>y. x \<le> y \<longrightarrow> y < last_of w k \<longrightarrow> V4 y \<in> set masked
     | Some b \<Rightarrow> \<exists>y. b = V4 y \<and> x \<le> y \<and> y < last_of w k \<and> V4 y \<notin> set masked \<and>
                 (\<forall>z. x \<le> z \<longrightarrow> z < y \<longrightarrow> V4 z \<in> set masked))"
  using assms(1,2)
proof (induction "unat (last_of w k) - unat x" arbitrary: x rule: less_induct)
  case less
  have inb: "Contains net (IP4 x)" using less.prems by (simp add: net Contains_in_block in_block_iff)
  have masked: "IsIPAddrInList a masked \<longleftrightarrow> a \<in> set masked" for a
    by (auto simp: IsIPAddrInList_def list_ex_iff)
  consider "V4 x \<notin> set masked" | "V4 x \<in> set masked" "x = last_of w k" | "V4 x \<in> set masked" "x < last_of w k"
    using less.prems by fastforce
  then show ?case
  proof cases
    case 1
    then show ?thesis
      using less.prems inb by (subst pick_server.simps) (auto simp: masked same4_def not_less le_less)
  next
    case 2
    have "\<not> Contains net (AsSlice (Next (V4 x)))"
      using 2(2) by (auto simp: net Contains_in_block in_block_iff unat_inc word_le_nat_alt)
    then show ?thesis
      using 2 inb by (subst pick_server.simps, subst pick_server.simps) (auto simp: masked)
  next
    case 3
    have u2: "x + 1 \<noteq> 0"
      using 3(2) by (auto simp: eq_neg_iff_add_eq_0 [symmetric])
    then have u: "unat (x + 1) = Suc (unat x)" by (rule unat_inc)
    have le: "x + 1 \<le> y \<longleftrightarrow> x < y" for y by (simp add: word_le_nat_alt word_less_nat_alt Suc_le_eq u)
    have ih: "unat (last_of w k) - unat (x + 1) < unat (last_of w k) - unat x"
      "network_of w k \<le> x + 1" "x + 1 \<le> last_of w k"
      using less.prems 3(2) u by (simp_all add: word_less_nat_alt word_le_nat_alt)
    obtain r where r: "pick_server net masked (V4 (last_of w k)) (V4 (x + 1)) = Some (Ret r)"
      "case r of None \<Rightarrow> \<forall>y. x + 1 \<le> y \<longrightarrow> y < last_of w k \<longrightarrow> V4 y \<in> set masked
       | Some b \<Rightarrow> \<exists>y. b = V4 y \<and> x + 1 \<le> y \<and> y < last_of w k \<and> V4 y \<notin> set masked \<and>
                 (\<forall>z. x + 1 \<le> z \<longrightarrow> z < y \<longrightarrow> V4 z \<in> set masked)"
      using less.hyps [OF ih] by blast
    have "pick_server net masked (V4 (last_of w k)) (V4 x) = Some (Ret r)"
      using 3 inb u2 r(1) by (subst pick_server.simps) (auto simp: masked)
    then show ?thesis
      using r(2) 3(1) unfolding le by (auto simp: le_less split: option.splits)
  qed
qed
lemma pick_server_hosts:
  assumes net: "net = \<lparr>IPNet_IP = IP4 (w AND CIDRMask4 k), IPNet_Mask = Mask4 (CIDRMask4 k)\<rparr>"
  shows "\<exists>r. pick_server net masked (V4 (last_of w k)) (Next (V4 (network_of w k))) = Some (Ret r) \<and>
    (case r of None \<Rightarrow> \<forall>y. host w k y \<longrightarrow> V4 y \<in> set masked
     | Some b \<Rightarrow> \<exists>x. b = V4 x \<and> host w k x \<and> V4 x \<notin> set masked \<and>
                 (\<forall>y. host w k y \<longrightarrow> y < x \<longrightarrow> V4 y \<in> set masked))"
proof (cases "network_of w k < last_of w k")
  case True
  let ?x = "network_of w k + 1"
  have "?x \<noteq> 0" using True by (auto simp: eq_neg_iff_add_eq_0 [symmetric])
  moreover from this have "unat ?x = Suc (unat (network_of w k))" by (rule unat_inc)
  moreover from this have le: "?x \<le> y \<longleftrightarrow> network_of w k < y" for y
    by (simp add: word_le_nat_alt word_less_nat_alt Suc_le_eq)
  moreover have "network_of w k \<le> ?x" "?x \<le> last_of w k"
    using True calculation(2) by (simp_all add: word_le_nat_alt word_less_nat_alt)
  ultimately show ?thesis
    using pick_server_V4 [of w k ?x net masked] net unfolding le host_iff
    by (fastforce split: option.splits)
next
  case False
  have "network_of w k \<le> last_of w k"
    unfolding network_of_def last_of_def using word_and_le2 le_word_or2 order_trans by blast
  with False have eq: "network_of w k = last_of w k" by simp
  have "\<not> Contains net (AsSlice (Next (V4 (network_of w k))))"
    by (auto simp: net Contains_in_block in_block_iff eq unat_inc word_le_nat_alt)
  then show ?thesis
    by (subst pick_server.simps) (auto simp: host_iff eq)
qed

definition router_mask :: "string \<Rightarrow> addr list" where
  "router_mask router = (case ParseAddr router of (r, None) \<Rightarrow> [r] | (_, Some _) \<Rightarrow> [])"

lemma ensureServerIP_search:
  assumes "cidr4 cidr w k" "snd (ParseAddr server) \<noteq> None"
    and "load_excludes excludes (router_mask router) = (masked, None)"
  shows "case ensureServerIP server cidr router excludes of
      Ret (Some t, None) \<Rightarrow> \<exists>x. t = string4 x \<and> host w k x \<and> V4 x \<notin> set masked \<and>
         (\<forall>y. host w k y \<longrightarrow> y < x \<longrightarrow> V4 y \<in> set masked)
    | Ret (None, Some e) \<Rightarrow> e = Errorf ''fail to assign ip for dhcp server'' \<and> (\<forall>y. host w k y \<longrightarrow> V4 y \<in> set masked)
    | _ \<Rightarrow> False"
proof -
  let ?net = "\<lparr>IPNet_IP = IP4 (w AND CIDRMask4 k), IPNet_Mask = Mask4 (CIDRMask4 k)\<rparr>"
  obtain r where r: "pick_server ?net masked (V4 (last_of w k)) (Next (V4 (network_of w k))) = Some (Ret r)"
    "case r of None \<Rightarrow> \<forall>y. host w k y \<longrightarrow> V4 y \<in> set masked
     | Some b \<Rightarrow> \<exists>x. b = V4 x \<and> host w k x \<and> V4 x \<notin> set masked \<and>
                 (\<forall>y. host w k y \<longrightarrow> y < x \<longrightarrow> V4 y \<in> set masked)"
    using pick_server_hosts [OF refl] by blast
  obtain a e where "ParseAddr server = (a, Some e)" using assms(2) by (cases "ParseAddr server") auto
  then have "ensureServerIP server cidr router excludes = (case r of
      None \<Rightarrow> Ret (None, Some (Errorf ''fail to assign ip for dhcp server''))
    | Some a \<Rightarrow> Ret (Some (Addr_String a), None))"
    unfolding ensureServerIP_def LoadCIDR_cidr4 [OF assms(1)]
    using assms(3) r(1) by (simp add: router_mask_def Let_def del: Next.simps)
  then show ?thesis using r(2) by (cases r) auto
qed

text \<open>
  For a pool in an IPv4 block without a usable server address, the mutator's search returns:
  it yields the lowest host of the block that is neither the router nor excluded, and the
  error of the code only when there is none.
\<close>

theorem ensureServerIP_lowest:
  assumes "cidr4 cidr w k" "snd (ParseAddr server) \<noteq> None"
    and "load_excludes excludes (router_mask router) = (masked, None)"
  shows "case ensureServerIP server cidr router excludes of
      Ret (Some t, None) \<Rightarrow> \<exists>x. t = string4 x \<and> host w k x \<and> V4 x \<notin> set masked \<and>
         (\<forall>y. host w k y \<longrightarrow> y < x \<longrightarrow> V4 y \<in> set masked)
    | Ret (None, Some e) \<Rightarrow> e = Errorf ''fail to assign ip for dhcp server'' \<and> (\<forall>y. host w k y \<longrightarrow> V4 y \<in> set masked)
    | _ \<Rightarrow> False"
  using assms by (rule ensureServerIP_search)

text \<open>The effect of the two patch operations of the mutator (JSON patch \<open>replace\<close>) on a pool.\<close>

definition apply_op :: "PatchOp \<Rightarrow> IPv4Config \<Rightarrow> IPv4Config" where
  "apply_op q c =
     (case po_Value q of
        PoolValue p \<Rightarrow> if po_Op q = ''replace'' \<and> po_Path q = ''/spec/ipv4Config/pool'' then c\<lparr>c4_Pool := p\<rparr> else c
      | StringValue t \<Rightarrow> if po_Op q = ''replace'' \<and> po_Path q = ''/spec/ipv4Config/serverIP'' then c\<lparr>c4_ServerIP := t\<rparr> else c)"

definition patched :: "PatchOp list \<Rightarrow> IPPool \<Rightarrow> IPPool" where
  "patched ops p = p\<lparr>ip_Spec := (ip_Spec p)\<lparr>ps_IPv4Config := fold apply_op ops (ps_IPv4Config (ip_Spec p))\<rparr>\<rparr>"

lemma ParseAddr_empty [simp]: "ParseAddr [] = (Invalid, Some (ParseAddrError [] ''unable to parse IP''))"
  by (simp add: ParseAddr_def)

lemma load_excludes_keeps: "load_excludes ts acc = (m, None) \<Longrightarrow> set acc \<subseteq> set m"
  by (induction ts arbitrary: acc) (fastforce split: prod.splits option.splits)+

text \<open>A block of prefix length at most 30 has at least two hosts.\<close>

lemma small_prefix:
  assumes "k \<le> 30"
  shows "unat (network_of w k) + 3 \<le> unat (last_of w k)"
proof -
  have m: "unat x mod 4 = unat (take_bit 2 x)" for x :: u32
    by (simp only: unsigned_take_bit_eq) (simp add: take_bit_eq_mod)
  have "take_bit 2 (network_of w k) = 0" "take_bit 2 (last_of w k) = mask 2"
    unfolding network_of_def last_of_def using assms
    by (auto intro!: bit_eqI simp: bit_simps simp del: mask_numeral)
  then have "unat (network_of w k) mod 4 = 0" "unat (last_of w k) mod 4 = 3"
    by (simp_all add: m mask_eq_exp_minus_1)
  moreover have "unat (network_of w k) \<le> unat (last_of w k)"
    unfolding word_le_nat_alt [symmetric] network_of_def last_of_def
    using word_and_le2 le_word_or2 order_trans by blast
  ultimately show ?thesis by presburger
qed

lemma end_neighbours:
  assumes "k \<le> 30"
  shows "unat (network_of w k + 1) = Suc (unat (network_of w k))" "unat (last_of w k - 1) = unat (last_of w k) - 1"
  using small_prefix [OF assms, of w] unsigned_less [of "last_of w k", where ?'a = nat]
  by (simp_all add: unat_word_ariths unat_sub word_le_nat_alt)

lemma end_hosts:
  assumes "k \<le> 30"
  shows "host w k (network_of w k + 1)" "host w k (last_of w k - 1)" "network_of w k + 1 \<le> last_of w k - 1"
    "network_of w k + 1 \<noteq> 0" "last_of w k \<noteq> 0"
  using small_prefix [OF assms, of w] end_neighbours [OF assms, of w]
  by (auto simp: host_iff word_less_nat_alt word_le_nat_alt unat_eq_0 [symmetric])

lemma default_range:
  assumes "k \<le> 30"
  shows "{network_of w k + 1..last_of w k - 1} = {x. host w k x}"
proof -
  have "unat (network_of w k + 1) = Suc (unat (network_of w k))" "unat (last_of w k - 1) = unat (last_of w k) - 1"
    using end_neighbours [OF assms] by simp_all
  then show ?thesis
    using small_prefix [OF assms, of w] by (auto simp: host_iff word_le_nat_alt word_less_nat_alt)
qed

lemma ensurePoolRange_defaults:
  assumes "cidr4 cidr w k" "k \<le> 30" "pl_Start pool = []" "pl_End pool = []"
  shows "ensurePoolRange pool cidr =
    (Some (pool\<lparr>pl_Start := string4 (network_of w k + 1), pl_End := string4 (last_of w k - 1)\<rparr>), None)"
proof -
  have "pool\<lparr>pl_Start := string4 (network_of w k + 1), pl_End := string4 (last_of w k - 1)\<rparr> \<noteq> pool"
    using assms(3) by (metis Pool.select_convs(1) Pool.surjective Pool.update_convs(1,2) string4_nonempty)
  then show ?thesis
    using assms(3,4) end_hosts [OF assms(2), of w]
    by (simp add: ensurePoolRange_def LoadCIDR_cidr4 [OF assms(1)] Let_def not_less)
qed

text \<open>
  [C13] The mutator completes a pool that gives only a block of prefix length at most 30 (and
  possibly a router and excluded addresses): the range becomes all hosts of the block and the
  server a host that is neither router nor excluded.  The validator admits the completed pool
  and the IP address management builds it, provided that the network exists, the block does
  not meet the service block, the router is a host and some host is left for the server.
\<close>

theorem Mutator_defaults_admitted:
  assumes "c = ps_IPv4Config (ip_Spec p)" "cidr4 (c4_CIDR c) w k" "k \<le> 30" "cidr4 svc v j"
    and "pl_Start (c4_Pool c) = []" "pl_End (c4_Pool c) = []" "c4_ServerIP c = []"
    and "opt4 (c4_Router c) r" "field_ok w k r"
    and "load_excludes (pl_Exclude (c4_Pool c)) (router_mask (c4_Router c)) = (masked, None)"
    and "host w k h" "V4 h \<notin> set masked"
    and "nad_found W p s" "\<nexists>x. in_block w k x \<and> in_block v j x"
  shows "\<exists>ops x s' al'. ippool_Mutator_Create p = Ret (ops, None) \<and>
    pool4 (patched ops p) w k \<lparr>p_start = Some (network_of w k + 1), p_end = Some (last_of w k - 1),
      p_server = Some x, p_router = r\<rparr> \<and> V4 x \<notin> set masked \<and>
    ippool_Validator_Create W svc (patched ops p) s = Ret (None, s') \<and>
    NewIPSubnet al n (c4_CIDR c) (pl_Start (c4_Pool (ps_IPv4Config (ip_Spec (patched ops p)))))
      (pl_End (c4_Pool (ps_IPv4Config (ip_Spec (patched ops p))))) = Ret (al', None) \<and>
    dom (the (pool_of al' n)) = string4 ` {x. host w k x}"
proof -
  obtain x where sv: "ensureServerIP [] (c4_CIDR c) (c4_Router c) (pl_Exclude (c4_Pool c)) = Ret (Some (string4 x), None)"
    and x: "host w k x" "V4 x \<notin> set masked"
    using ensureServerIP_search [OF assms(2) _ assms(10), of "[]"] assms(11,12)
    by (auto split: outcome.splits prod.splits option.splits)
  let ?pool = "(c4_Pool c)\<lparr>pl_Start := string4 (network_of w k + 1), pl_End := string4 (last_of w k - 1)\<rparr>"
  let ?ops = "[\<lparr>po_Op = ''replace'', po_Path = ''/spec/ipv4Config/pool'', po_Value = PoolValue ?pool\<rparr>,
    \<lparr>po_Op = ''replace'', po_Path = ''/spec/ipv4Config/serverIP'', po_Value = StringValue (string4 x)\<rparr>]"
  let ?a = "\<lparr>p_start = Some (network_of w k + 1), p_end = Some (last_of w k - 1), p_server = Some x, p_router = r\<rparr>"
  have ops: "ippool_Mutator_Create p = Ret (?ops, None)"
    unfolding ippool_Mutator_Create_def Let_def assms(1) [symmetric] assms(7) sv
    by (simp add: ensurePoolRange_defaults [OF assms(2,3,5,6)])
  have cfg: "ps_IPv4Config (ip_Spec (patched ?ops p)) = c\<lparr>c4_Pool := ?pool, c4_ServerIP := string4 x\<rparr>"
    using assms(1) by (simp add: patched_def apply_op_def)
  have p4: "pool4 (patched ?ops p) w k ?a"
    using assms(2,8) unfolding pool4_def cfg by (simp add: Let_def)
  have "r \<noteq> Some x"
    using x(2) assms(8) load_excludes_keeps [OF assms(10)] by (auto simp: router_mask_def)
  then have ok: "spec_ok w k ?a"
    using x(1) assms(9) end_hosts [OF assms(3)] by (auto simp: spec_ok_def field_ok_def)
  have "nad_found W (patched ?ops p) s" using assms(13) by (simp add: nad_found_def patched_def)
  then obtain s' where create: "ippool_Validator_Create W svc (patched ?ops p) s = Ret (None, s')"
    using Create_verdict_aux [OF p4 assms(4), of W s] ok assms(14) by blast
  have b: "pool_bounds w k (string4 (network_of w k + 1)) (string4 (last_of w k - 1)) (network_of w k + 1) (last_of w k - 1)"
    using pool4_bounds [OF p4 ok] end_hosts [OF assms(3)] unfolding cfg by simp
  have hosts: "{network_of w k + 1..last_of w k - 1} = {x. host w k x}"
    by (rule default_range [OF assms(3)])
  have "\<exists>al'. NewIPSubnet al n (c4_CIDR c) (string4 (network_of w k + 1)) (string4 (last_of w k - 1)) = Ret (al', None) \<and>
      dom (the (pool_of al' n)) = string4 ` {x. host w k x}"
    using NewIPSubnet_ok [OF assms(2) b, of al n] unfolding hosts
    by (auto simp: pool_of_def subnet4_def mark_free_def dom_def)
  with ops p4 x(2) create show ?thesis
    by (intro exI [of _ ?ops] exI [of _ x] exI [of _ s']) (auto simp: cfg simp del: opt4.simps)
qed

text \<open>
  The webhook handles IPv4 only: on a pool whose CIDR is an IPv6 block, with no server
  address given and the first address of the block neither router nor excluded, the mutator
  panics in \<open>As4\<close>.
\<close>

theorem Mutator_panics_on_IPv6:
  assumes "c = ps_IPv4Config (ip_Spec p)" "LoadCIDR (c4_CIDR c) = ((Some net, V6 a [], bc), None)"
    and "a + 1 \<noteq> 0" "\<not> is4in6 (a + 1)" "Contains net (IP16 (a + 1))" "snd (ParseAddr (c4_ServerIP c)) \<noteq> None"
    and "load_excludes (pl_Exclude (c4_Pool c)) (router_mask (c4_Router c)) = (masked, None)" "V6 (a + 1) [] \<notin> set masked"
  shows "ippool_Mutator_Create p = Panic ''As4 called on IPv6 address''"
proof -
  obtain b e where pa: "ParseAddr (c4_ServerIP c) = (b, Some e)" using assms(6) by (cases "ParseAddr (c4_ServerIP c)") auto
  have "\<not> IsIPAddrInList (V6 (a + 1) []) masked" using assms(8) by (auto simp: IsIPAddrInList_def list_ex_iff)
  then have pick: "pick_server net masked bc (V6 (a + 1) []) = Some (Panic ''As4 called on IPv6 address'')"
    using assms(4,5) by (subst pick_server.simps) (simp add: same4_def)
  have "ensureServerIP (c4_ServerIP c) (c4_CIDR c) (c4_Router c) (pl_Exclude (c4_Pool c)) = Panic ''As4 called on IPv6 address''"
    unfolding ensureServerIP_def assms(2)
    using assms(3,7) pa pick by (simp add: router_mask_def Let_def)
  then show ?thesis by (simp add: ippool_Mutator_Create_def Let_def assms(1))
qed

section \<open>Deleting pools\<close>

text \<open>The index of the cache answers with the stored objects whose index values contain the key.\<close>

definition indexed :: "world \<Rightarrow> VirtualMachineNetworkConfig list \<Rightarrow> bool" where
  "indexed W objs \<longleftrightarrow> (\<forall>cs key. e_vmnetcfgs (w_env W) (cs @ [VmNetCfgByIndex VmNetCfgByNetworkIndex key]) =
     Inr (filter (\<lambda>v. key \<in> set (fst (VmNetCfgByNetwork v))) objs))"

definition uses_network :: "VirtualMachineNetworkConfig \<Rightarrow> string \<Rightarrow> bool" where
  "uses_network v n \<longleftrightarrow> (\<exists>nc \<in> set (vs_NetworkConfigs (vm_Spec v)). nc_NetworkName nc = n)"

lemma VmNetCfgByNetwork_uses: "n \<in> set (fst (VmNetCfgByNetwork v)) \<longleftrightarrow> uses_network v n"
  by (auto simp: VmNetCfgByNetwork_def uses_network_def)

text \<open>
  [C36] Deleting a pool is admitted exactly when no stored network configuration names the network
  called like the pool itself, \<open>namespace/name\<close>.  A pool that shares its name with its network
  is therefore protected while it is used; a pool with another name is not, whoever uses its
  network.
\<close>

theorem Validator_Delete_verdict:
  assumes "indexed W objs" "key = om_Namespace (ip_Meta p) @ ''/'' @ om_Name (ip_Meta p)"
  shows "fst (ippool_Validator_Delete W kind p s) = None \<longleftrightarrow> (\<forall>v \<in> set objs. \<not> uses_network v key)"
  using assms(1)
  by (auto simp: ippool_Validator_Delete_def checkVmNetCfgs_def WhoUseIPPool_def Let_def ask_def indexed_def assms(2)
      VmNetCfgByNetwork_uses filter_empty_conv)

section \<open>Admission of network configurations\<close>

text \<open>Caches whose answers do not change between calls.\<close>

definition cached :: "world \<Rightarrow> (string \<Rightarrow> string \<Rightarrow> go_error + NAD) \<Rightarrow> (string \<Rightarrow> string \<Rightarrow> go_error + IPPool) \<Rightarrow> bool" where
  "cached W nads pools \<longleftrightarrow> (\<forall>cs ns n. e_nad (w_env W) (cs @ [NadGet ns n]) = nads ns n \<and>
     e_ippool (w_env W) (cs @ [IPPoolGet ns n]) = pools ns n)"

text \<open>The network resolves to a pool: its definition has both labels and they name a stored pool.\<close>

definition resolves :: "(string \<Rightarrow> string \<Rightarrow> go_error + NAD) \<Rightarrow> (string \<Rightarrow> string \<Rightarrow> go_error + IPPool) \<Rightarrow> string \<times> string \<Rightarrow> IPPool \<Rightarrow> bool" where
  "resolves nads pools nn p \<longleftrightarrow> (\<exists>nad pns pn. nads (fst nn) (snd nn) = Inr nad \<and>
     nil_lookup (om_Labels (nad_Meta nad)) IPPoolNamespaceLabelKey = Some pns \<and>
     nil_lookup (om_Labels (nad_Meta nad)) IPPoolNameLabelKey = Some pn \<and> pools pns pn = Inr p)"

definition default_ns :: "string \<times> string \<Rightarrow> string \<times> string" where
  "default_ns nn = (if fst nn = [] then (''default'', snd nn) else nn)"

lemma cached_ask:
  assumes "cached W nads pools"
  shows "ask (e_nad (w_env W)) (NadGet ns n) s = (nads ns n, emit (NadGet ns n) s)"
    "ask (e_ippool (w_env W)) (IPPoolGet ns n) s = (pools ns n, emit (IPPoolGet ns n) s)"
  using assms by (auto simp: cached_def ask_def)

lemma validator_loop_verdict:
  assumes "cached W nads pools"
  shows "fst (vmnetcfg_Validator_loop W fail ncs s) = None \<longleftrightarrow>
    (\<forall>nc \<in> set ncs. \<exists>p. resolves nads pools (default_ns (x_RSplit (w_ext W) (nc_NetworkName nc) ''/'')) p)"
proof (induction ncs arbitrary: s)
  case Nil
  then show ?case by simp
next
  case (Cons nc ncs)
  obtain a n where nn: "x_RSplit (w_ext W) (nc_NetworkName nc) ''/'' = (a, n)" by (metis surj_pair)
  define ns where "ns = (if a = [] then ''default'' else a)"
  have d: "default_ns (a, n) = (ns, n)" by (simp add: default_ns_def ns_def)
  have "fst (vmnetcfg_Validator_loop W fail (nc # ncs) s) = None \<longleftrightarrow>
    (\<exists>p. resolves nads pools (ns, n) p) \<and>
    (\<forall>nc \<in> set ncs. \<exists>p. resolves nads pools (default_ns (x_RSplit (w_ext W) (nc_NetworkName nc) ''/'')) p)"
    by (simp add: nn ns_def [symmetric] Let_def cached_ask [OF assms] resolves_def Cons.IH split: sum.split option.split)
  then show ?case by (simp add: nn d)
qed

lemma resolves_getIPPool:
  assumes "cached W nads pools"
  shows "(\<exists>s'. getIPPoolFromNetworkName W n s = (Inr p, s')) \<longleftrightarrow> resolves nads pools (x_RSplit (w_ext W) n ''/'') p"
  unfolding resolves_def getIPPoolFromNetworkName_def
  by (cases "x_RSplit (w_ext W) n ''/''")
    (auto simp: cached_ask [OF assms] nil_lookup_def simp del: ask_eq split: sum.splits option.splits)

text \<open>
  A new network configuration is admitted exactly when every interface's network resolves to
  a stored pool, an empty namespace standing for \<open>default\<close>.  For interfaces that name their
  namespace the controller's lookup then finds the same pool; it does not know the default,
  so without a namespace its lookup is the one of the empty namespace.
\<close>

theorem vmnetcfg_Validator_verdict:
  assumes "cached W nads pools" "ncs = vs_NetworkConfigs (vm_Spec v)"
  shows "(fst (vmnetcfg_Validator_Create W kind v s) = None \<longleftrightarrow>
      (\<forall>nc \<in> set ncs. \<exists>p. resolves nads pools (default_ns (x_RSplit (w_ext W) (nc_NetworkName nc) ''/'')) p)) \<and>
    (fst (vmnetcfg_Validator_Create W kind v s) = None \<longrightarrow>
      (\<forall>nc \<in> set ncs. fst (x_RSplit (w_ext W) (nc_NetworkName nc) ''/'') \<noteq> [] \<longrightarrow>
         (\<exists>p s''. getIPPoolFromNetworkName W (nc_NetworkName nc) s' = (Inr p, s''))))"
  using validator_loop_verdict [OF assms(1), of _ ncs s] resolves_getIPPool [OF assms(1), of _ s']
  unfolding vmnetcfg_Validator_Create_def assms(2) default_ns_def by auto

section \<open>Examples\<close>

lemma cidr4_service: "cidr4 ''10.53.0.0/16'' 0x0a350000 16"
  by (simp add: cidr4_def net_eval CIDRMask4_def)

definition example_spec4 :: spec4 where
  "example_spec4 = \<lparr>p_start = Some 0xc0a8000a, p_end = Some 0xc0a8000d, p_server = Some 0xc0a8000a, p_router = Some 0xc0a80001\<rparr>"

lemma pool4_example: "pool4 example_IPPool 0xc0a80000 24 example_spec4"
  using cidr4_example by (simp add: pool4_def example_IPPool_def example_config_def example_spec4_def net_eval)

lemma example_no_overlap: "\<nexists>x. in_block 0xc0a80000 24 x \<and> in_block 0x0a350000 16 x"
  unfolding blocks_meet by (simp add: in_block_iff network_of_def last_of_def mask_eq_exp_minus_1)

lemma example_spec_ok: "spec_ok 0xc0a80000 24 example_spec4"
  by (simp add: spec_ok_def example_spec4_def field_ok_def host_iff network_of_def last_of_def mask_eq_exp_minus_1)

lemma example_nad_found: "nad_found ready_world p s"
  by (simp add: nad_found_def checkNAD_def Let_def ask_def ready_world_def ready_env_def split: prod.splits)

theorem Validator_Create_verdict_witness:
  "\<exists>s'. ippool_Validator_Create ready_world ''10.53.0.0/16'' example_IPPool start_state = Ret (None, s')"
  using Validator_Create_verdict [OF pool4_example cidr4_service, of ready_world start_state]
    example_nad_found example_no_overlap example_spec_ok by blast

text \<open>The record of the example pool holds no address that is its server's.\<close>

definition swapped_IPPool :: IPPool where
  "swapped_IPPool = example_IPPool
     \<lparr>ip_Spec := (ip_Spec example_IPPool)\<lparr>ps_IPv4Config := example_config
        \<lparr>c4_Pool := \<lparr>pl_Start = ''192.168.0.13'', pl_End = ''192.168.0.10'', pl_Exclude = []\<rparr>\<rparr>\<rparr>,
      ip_Status := (ip_Status example_IPPool)\<lparr>st_IPv4 := None\<rparr>\<rparr>"

definition swapped_spec4 :: spec4 where
  "swapped_spec4 = \<lparr>p_start = Some 0xc0a8000d, p_end = Some 0xc0a8000a, p_server = Some 0xc0a8000a, p_router = Some 0xc0a80001\<rparr>"

lemma pool4_swapped: "pool4 swapped_IPPool 0xc0a80000 24 swapped_spec4"
  using cidr4_example by (simp add: pool4_def swapped_IPPool_def example_IPPool_def example_config_def swapped_spec4_def net_eval)

lemma swapped_spec_ok: "spec_ok 0xc0a80000 24 swapped_spec4"
  by (simp add: spec_ok_def swapped_spec4_def field_ok_def host_iff network_of_def last_of_def mask_eq_exp_minus_1)

theorem Validator_Update_build_witness:
  "(\<exists>s'. ippool_Validator_Update ready_world ''10.53.0.0/16'' swapped_IPPool start_state = Ret (None, s')) \<and>
   (\<exists>e. NewIPSubnet NewIPAllocator ''default/net'' ''192.168.0.0/24'' ''192.168.0.13'' ''192.168.0.10'' = Ret (NewIPAllocator, Some e))"
proof -
  have "om_DeletionTimestamp (ip_Meta swapped_IPPool) = None" "in_use_of ready_world swapped_IPPool = []"
    "p_start swapped_spec4 = Some 0xc0a8000d" "p_end swapped_spec4 = Some 0xc0a8000a"
    by (simp_all add: swapped_IPPool_def example_IPPool_def empty_meta_def in_use_of_def swapped_spec4_def)
  with Validator_Update_build [OF pool4_swapped cidr4_service _ _ _ refl, of "0xc0a8000d" "0xc0a8000a" ready_world start_state NewIPAllocator "''default/net''"]
    example_nad_found example_no_overlap swapped_spec_ok
  show ?thesis by (auto simp: swapped_IPPool_def example_config_def)
qed

theorem ensureServerIP_lowest_witness:
  "ensureServerIP [] ''192.168.0.0/24'' ''192.168.0.1'' [''192.168.0.2''] = Ret (Some ''192.168.0.3'', None)"
proof -
  have le: "load_excludes [''192.168.0.2''] (router_mask ''192.168.0.1'') = ([V4 0xc0a80001, V4 0xc0a80002], None)"
    by (simp add: router_mask_def net_eval)
  have h: "host 0xc0a80000 24 x \<longleftrightarrow> 0xc0a80000 < x \<and> x < 0xc0a800ff" for x
    by (simp add: host_iff network_of_def last_of_def mask_eq_exp_minus_1)
  have pin: "x = 0xc0a80003" if "0xc0a80000 < x" "x \<noteq> 0xc0a80001" "x \<noteq> 0xc0a80002" "\<not> 0xc0a80003 < x" for x :: u32
  proof -
    have "0xc0a80000 < unat x" "unat x \<le> 0xc0a80003" "unat x \<noteq> 0xc0a80001" "unat x \<noteq> 0xc0a80002"
      using that by (simp_all add: word_less_nat_alt word_unat_eq_iff not_less word_le_nat_alt)
    then have "unat x = 0xc0a80003" by simp
    then show ?thesis by (simp add: word_unat_eq_iff)
  qed
  have s: "string4 0xc0a80003 = ''192.168.0.3''"
    by (simp add: string4_def octets_def dec_string1 dec_string2 dec_string3)
  show ?thesis
    using ensureServerIP_lowest [OF cidr4_example _ le, of "[]"] unfolding h
    by (auto simp: s split: outcome.splits prod.splits option.splits dest!: pin dest: spec [of _ "0xc0a80003"])
qed

definition bare_IPPool :: IPPool where
  "bare_IPPool = example_IPPool\<lparr>ip_Spec := (ip_Spec example_IPPool)\<lparr>ps_IPv4Config := example_config
     \<lparr>c4_ServerIP := [], c4_Pool := \<lparr>pl_Start = [], pl_End = [], pl_Exclude = []\<rparr>\<rparr>\<rparr>\<rparr>"

theorem Mutator_defaults_admitted_witness:
  "\<exists>ops s'. ippool_Mutator_Create bare_IPPool = Ret (ops, None) \<and>
     ippool_Validator_Create ready_world ''10.53.0.0/16'' (patched ops bare_IPPool) start_state = Ret (None, s')"
proof -
  let ?c = "ps_IPv4Config (ip_Spec bare_IPPool)"
  have c: "c4_CIDR ?c = ''192.168.0.0/24''" "c4_Router ?c = ''192.168.0.1''" "c4_Pool ?c = \<lparr>pl_Start = [], pl_End = [], pl_Exclude = []\<rparr>"
    "c4_ServerIP ?c = []"
    by (simp_all add: bare_IPPool_def example_config_def)
  have le: "load_excludes (pl_Exclude (c4_Pool ?c)) (router_mask (c4_Router ?c)) = ([V4 0xc0a80001], None)"
    unfolding c by (simp add: router_mask_def net_eval)
  have r: "opt4 (c4_Router ?c) (Some 0xc0a80001)" unfolding c by (simp add: net_eval)
  have h: "field_ok 0xc0a80000 24 (Some 0xc0a80001)" "host 0xc0a80000 24 0xc0a80002"
    by (simp_all add: field_ok_def host_iff network_of_def last_of_def mask_eq_exp_minus_1)
  have "cidr4 (c4_CIDR ?c) 0xc0a80000 24" unfolding c by (rule cidr4_example)
  from Mutator_defaults_admitted [OF refl this _ cidr4_service _ _ c(4) r h(1) le h(2) _ example_nad_found example_no_overlap] c
  show ?thesis by fastforce
qed

definition v6_IPPool :: IPPool where
  "v6_IPPool = bare_IPPool\<lparr>ip_Spec := (ip_Spec bare_IPPool)\<lparr>ps_IPv4Config := (ps_IPv4Config (ip_Spec bare_IPPool))
     \<lparr>c4_CIDR := ''fd00::/64'', c4_Router := []\<rparr>\<rparr>\<rparr>"

theorem Mutator_panics_on_IPv6_witness:
  "ippool_Mutator_Create v6_IPPool = Panic ''As4 called on IPv6 address''"
proof -
  let ?c = "ps_IPv4Config (ip_Spec v6_IPPool)" and ?a = "0xfd000000000000000000000000000000 :: u128"
  have c: "c4_CIDR ?c = ''fd00::/64''" "c4_Router ?c = []" "c4_Pool ?c = \<lparr>pl_Start = [], pl_End = [], pl_Exclude = []\<rparr>"
    "c4_ServerIP ?c = []"
    by (simp_all add: v6_IPPool_def bare_IPPool_def example_config_def)
  have "parse6 (Suc 7) [] None ''fd00::'' = Inr ([0xfd00], Some (Suc 0), [])"
    by (subst parse6.simps) (simp add: hex_val_def)
  then have p6: "parse6 8 [] None ''fd00::'' = Inr ([0xfd00], Some (Suc 0), [])"
    by (simp del: parse6.simps)
  have "replicate 7 (0 :: nat) = [0, 0, 0, 0, 0, 0, 0]" by (simp add: numeral_eq_Suc)
  then have w: "word6 (0xfd00 # replicate 7 0) = ?a" by (simp add: word6_def)
  have "ParseAddr ''fd00::'' = (V6 ?a [], None)"
    by (simp add: ParseAddr_def parseIPv6_def p6 w Let_def)
  then have "ParseCIDR ''fd00::/64'' = ((IP16 ?a, Some \<lparr>IPNet_IP = IP16 ?a, IPNet_Mask = Mask16 (CIDRMask16 64)\<rparr>), None)"
    by (simp add: ParseCIDR_def is_digit_def digit_val_def CIDRMask16_def mask_eq_exp_minus_1)
  then have l: "LoadCIDR (c4_CIDR ?c) = ((Some \<lparr>IPNet_IP = IP16 ?a, IPNet_Mask = Mask16 (CIDRMask16 64)\<rparr>, V6 ?a [],
      V6 (?a OR NOT (CIDRMask16 64)) []), None)"
    by (simp add: c LoadCIDR_def)
  have "Contains \<lparr>IPNet_IP = IP16 ?a, IPNet_Mask = Mask16 (CIDRMask16 64)\<rparr> (IP16 (?a + 1))"
    by (simp add: Contains.simps is4in6_def CIDRMask16_def mask_eq_exp_minus_1)
  with Mutator_panics_on_IPv6 [OF refl l, of "[]"] show ?thesis
    by (simp add: c router_mask_def is4in6_def)
qed

text \<open>A cache with one network configuration, on the network of the example pool.\<close>

definition used_world :: world where
  "used_world = example_world\<lparr>w_env := example_env\<lparr>e_vmnetcfgs := (\<lambda>cs. case last cs of
     VmNetCfgByIndex _ key \<Rightarrow> Inr (filter (\<lambda>v. key \<in> set (fst (VmNetCfgByNetwork v))) [example_vmnetcfg [example_nic ''bb''] [] None])
   | _ \<Rightarrow> Inr [])\<rparr>\<rparr>"

theorem Validator_Delete_verdict_witness:
  "uses_network (example_vmnetcfg [example_nic ''bb''] [] None) (ps_NetworkName (ip_Spec example_IPPool)) \<and>
   fst (ippool_Validator_Delete used_world ''IPPool'' example_IPPool start_state) = None"
proof -
  have "indexed used_world [example_vmnetcfg [example_nic ''bb''] [] None]"
    by (simp add: indexed_def used_world_def)
  from Validator_Delete_verdict [OF this refl, of "''IPPool''" example_IPPool start_state] show ?thesis
    by (simp add: uses_network_def example_vmnetcfg_def example_nic_def example_IPPool_def empty_meta_def)
qed

theorem vmnetcfg_Validator_verdict_witness:
  "fst (vmnetcfg_Validator_Create ready_world ''VirtualMachineNetworkConfig'' (example_vmnetcfg [example_nic ''bb''] [] None) start_state) = None"
proof -
  have "cached ready_world (\<lambda>_ _. e_nad ready_env []) (\<lambda>_ _. Inr ready_IPPool)"
    by (simp add: cached_def ready_world_def ready_env_def)
  from vmnetcfg_Validator_verdict [OF this refl, of "''VirtualMachineNetworkConfig''" "example_vmnetcfg [example_nic ''bb''] [] None" start_state]
  show ?thesis
    by (simp add: example_vmnetcfg_def resolves_def ready_env_def nil_lookup_def IPPoolNamespaceLabelKey_def IPPoolNameLabelKey_def)
qed

end
