(* ===== verification/Status_Handler.thy ===== *)
theory Status_Handler
  imports Webhook_Facts
begin

text \<open>
  The generated status handlers of \<open>pkg/generated/controllers\<close>, through which the framework
  calls \<open>DeployAgent\<close>, \<open>BuildCache\<close>, \<open>MonitorAgent\<close>, \<open>Allocate\<close> and \<open>Sync\<close>, and
  the generated handlers that apply child objects.  The generator writes the same code for every
  resource; it is modelled once, over the operations that the resource provides, and
  instantiated for each generated file.
\<close>

section \<open>The status handler\<close>

text \<open>What the generated code uses of a resource: its status, the conditions of the status, the
  semantic equality of statuses, and the client's \<open>UpdateStatus\<close>.\<close>

record ('o, 'st) status_client =
  sc_status :: "'o \<Rightarrow> 'st"
  sc_with :: "'st \<Rightarrow> 'o \<Rightarrow> 'o"
  sc_conditions :: "'st \<Rightarrow> GenericCondition list"
  sc_with_conditions :: "GenericCondition list \<Rightarrow> 'st \<Rightarrow> 'st"
  sc_equal :: "'st \<Rightarrow> 'st \<Rightarrow> bool"
  sc_UpdateStatus :: "'o \<Rightarrow> ctl \<Rightarrow> ('o option \<times> go_error option) \<times> ctl"

text \<open>
  A handler gets a deep copy of the object and its status.  It returns a status and an error,
  and leaves the copy in some state, because the status shares memory with it.
\<close>

type_synonym ('o, 'st) status_handler = "'o \<Rightarrow> 'st \<Rightarrow> ctl \<Rightarrow> (('st gores \<times> 'o) \<times> ctl) outcome"

text \<open>The status that is compared and stored: the original one after an error, and the
  condition, which records a conflict as no error.\<close>

definition next_status :: "ext \<Rightarrow> ('o, 'st) status_client \<Rightarrow> string \<Rightarrow> 'st \<Rightarrow> 'st gores \<Rightarrow> 'st" where
  "next_status x cl cond origStatus r =
     (case r of (newStatus, err) \<Rightarrow>
      let st = (if err \<noteq> None then origStatus else newStatus);
          conflict = (case err of None \<Rightarrow> False | Some e \<Rightarrow> IsConflict e)
      in if cond \<noteq> []
         then sc_with_conditions cl (x_SetError x cond [] (if conflict then None else err) (sc_conditions cl st)) st
         else st)"

definition status_sync :: "ext \<Rightarrow> env \<Rightarrow> ('o, 'st) status_client \<Rightarrow> string \<Rightarrow> ('o, 'st) status_handler \<Rightarrow> 'o option \<Rightarrow> ctl \<Rightarrow>
    (('o option \<times> go_error option) \<times> ctl) outcome" where
  "status_sync x v cl cond handler obj s =
     (case obj of
        None \<Rightarrow> Ret ((None, None), s)
      | Some orig \<Rightarrow>
          go_bind (handler orig (sc_status cl orig) s) (\<lambda>((r, cpy), s1).
            let origStatus = sc_status cl orig;
                newStatus = next_status x cl cond origStatus r;
                err = snd r
            in if \<not> sc_equal cl origStatus newStatus then
                 let (newStatus', s2) =
                       (if cond \<noteq> []
                        then (case ask (e_now v) Now s1 of (t, s2) \<Rightarrow>
                                (sc_with_conditions cl (x_LastUpdated x cond t (sc_conditions cl newStatus)) newStatus, s2))
                        else (newStatus, s1));
                     cpy' = sc_with cl newStatus' cpy
                 in case sc_UpdateStatus cl cpy' s2 of ((newObj, newErr), s3) \<Rightarrow>
                      Ret ((if newErr = None then newObj else Some cpy', if err = None then newErr else err), s3)
               else Ret ((Some cpy, err), s1)))"

section \<open>The handlers that apply child objects\<close>

text \<open>
  \<open>apply.Apply\<close> is a parameter that gets the owner and the objects.  The versions that have
  been applied are kept per key, when the option asks for one application per version.
\<close>

record 'o generating =
  g_Unique :: bool
  g_key :: "'o \<Rightarrow> string"
  g_version :: "'o \<Rightarrow> string"
  g_deleted :: "'o \<Rightarrow> bool"

type_synonym seen = "string \<rightharpoonup> string"

definition isNewResourceVersion :: "'o generating \<Rightarrow> seen \<Rightarrow> 'o \<Rightarrow> bool" where
  "isNewResourceVersion g sn obj \<longleftrightarrow> \<not> g_Unique g \<or> sn (g_key g obj) \<noteq> Some (g_version g obj)"

definition storeResourceVersion :: "'o generating \<Rightarrow> seen \<Rightarrow> 'o \<Rightarrow> seen" where
  "storeResourceVersion g sn obj = (if \<not> g_Unique g then sn else sn(g_key g obj \<mapsto> g_version g obj))"

definition generating_Handle :: "'o generating \<Rightarrow> ('o \<Rightarrow> 'c list \<Rightarrow> ctl \<Rightarrow> go_error option \<times> ctl) \<Rightarrow>
    ('o \<Rightarrow> 'st \<Rightarrow> ctl \<Rightarrow> ('c list \<times> 'st gores) \<times> ctl) \<Rightarrow> 'o \<Rightarrow> 'st \<Rightarrow> seen \<Rightarrow> ctl \<Rightarrow> ('st gores \<times> seen) \<times> ctl" where
  "generating_Handle g apply handler obj status sn s =
     (if g_deleted g obj then (((status, None), sn), s)
      else (case handler obj status s of
          ((objs, (newStatus, Some e)), s1) \<Rightarrow> (((newStatus, Some e), sn), s1)
        | ((objs, (newStatus, None)), s1) \<Rightarrow>
            if \<not> isNewResourceVersion g sn obj then (((newStatus, None), sn), s1)
            else (case apply obj objs s1 of
                (Some e, s2) \<Rightarrow> (((newStatus, Some e), sn), s2)
              | (None, s2) \<Rightarrow> (((newStatus, None), storeResourceVersion g sn obj), s2))))"

text \<open>For a deleted object, \<open>Remove\<close> applies the empty set on behalf of an object that has
  only the name in the key.\<close>

definition generating_Remove :: "'o generating \<Rightarrow> (string \<Rightarrow> 'o) \<Rightarrow> ('o \<Rightarrow> 'c list \<Rightarrow> ctl \<Rightarrow> go_error option \<times> ctl) \<Rightarrow>
    string \<Rightarrow> 'o option \<Rightarrow> seen \<Rightarrow> ctl \<Rightarrow> (('o option \<times> go_error option) \<times> seen) \<times> ctl" where
  "generating_Remove g named apply key obj sn s =
     (case obj of
        Some x \<Rightarrow> (((Some x, None), sn), s)
      | None \<Rightarrow>
          (case apply (named key) [] s of (err, s1) \<Rightarrow>
             (((None, err), if g_Unique g then sn(key := None) else sn), s1)))"

section \<open>The generated files\<close>

definition ippool_client :: "world \<Rightarrow> (IPPool, IPPoolStatus) status_client" where
  "ippool_client W = \<lparr>sc_status = ip_Status, sc_with = (\<lambda>st p. p\<lparr>ip_Status := st\<rparr>), sc_conditions = st_Conditions,
     sc_with_conditions = (\<lambda>cs st. st\<lparr>st_Conditions := cs\<rparr>), sc_equal = x_PoolStatusEqual (w_ext W),
     sc_UpdateStatus = ippool_UpdateStatus W\<rparr>"

definition vmnetcfg_client :: "world \<Rightarrow> (VirtualMachineNetworkConfig, VmNetCfgStatus) status_client" where
  "vmnetcfg_client W = \<lparr>sc_status = vm_Status, sc_with = (\<lambda>st v. v\<lparr>vm_Status := st\<rparr>), sc_conditions = vst_Conditions,
     sc_with_conditions = (\<lambda>cs st. st\<lparr>vst_Conditions := cs\<rparr>), sc_equal = x_VmStatusEqual (w_ext W),
     sc_UpdateStatus = vmnetcfg_UpdateStatus W\<rparr>"

definition iPPoolStatusHandler_sync :: "world \<Rightarrow> string \<Rightarrow> (IPPool, IPPoolStatus) status_handler \<Rightarrow> IPPool option \<Rightarrow> ctl \<Rightarrow>
    ((IPPool option \<times> go_error option) \<times> ctl) outcome" where
  "iPPoolStatusHandler_sync W = status_sync (w_ext W) (w_env W) (ippool_client W)"

definition virtualMachineNetworkConfigStatusHandler_sync :: "world \<Rightarrow> string \<Rightarrow>
    (VirtualMachineNetworkConfig, VmNetCfgStatus) status_handler \<Rightarrow> VirtualMachineNetworkConfig option \<Rightarrow> ctl \<Rightarrow>
    ((VirtualMachineNetworkConfig option \<times> go_error option) \<times> ctl) outcome" where
  "virtualMachineNetworkConfigStatusHandler_sync W = status_sync (w_ext W) (w_env W) (vmnetcfg_client W)"

text \<open>Pods, nodes and virtual machines are types of other repositories; their statuses stay abstract.\<close>

definition podStatusHandler_sync :: "world \<Rightarrow> ('pod, 'st) status_client \<Rightarrow> string \<Rightarrow> ('pod, 'st) status_handler \<Rightarrow> 'pod option \<Rightarrow> ctl \<Rightarrow>
    (('pod option \<times> go_error option) \<times> ctl) outcome" where
  "podStatusHandler_sync W = status_sync (w_ext W) (w_env W)"

definition nodeStatusHandler_sync :: "world \<Rightarrow> ('node, 'st) status_client \<Rightarrow> string \<Rightarrow> ('node, 'st) status_handler \<Rightarrow> 'node option \<Rightarrow> ctl \<Rightarrow>
    (('node option \<times> go_error option) \<times> ctl) outcome" where
  "nodeStatusHandler_sync W = status_sync (w_ext W) (w_env W)"

definition virtualMachineStatusHandler_sync :: "world \<Rightarrow> ('vm, 'st) status_client \<Rightarrow> string \<Rightarrow> ('vm, 'st) status_handler \<Rightarrow> 'vm option \<Rightarrow> ctl \<Rightarrow>
    (('vm option \<times> go_error option) \<times> ctl) outcome" where
  "virtualMachineStatusHandler_sync W = status_sync (w_ext W) (w_env W)"

section \<open>The generated handlers for child objects\<close>

text \<open>What they read of the two resources of this program; the resource version is not part of the
  modelled metadata and is passed in.\<close>

definition iPPoolGeneratingHandler :: "bool \<Rightarrow> (IPPool \<Rightarrow> string) \<Rightarrow> IPPool generating" where
  "iPPoolGeneratingHandler unique version = \<lparr>g_Unique = unique,
     g_key = (\<lambda>p. om_Namespace (ip_Meta p) @ ''/'' @ om_Name (ip_Meta p)), g_version = version,
     g_deleted = (\<lambda>p. om_DeletionTimestamp (ip_Meta p) \<noteq> None)\<rparr>"

definition virtualMachineNetworkConfigGeneratingHandler ::
    "bool \<Rightarrow> (VirtualMachineNetworkConfig \<Rightarrow> string) \<Rightarrow> VirtualMachineNetworkConfig generating" where
  "virtualMachineNetworkConfigGeneratingHandler unique version = \<lparr>g_Unique = unique,
     g_key = (\<lambda>v. om_Namespace (vm_Meta v) @ ''/'' @ om_Name (vm_Meta v)), g_version = version,
     g_deleted = (\<lambda>v. om_DeletionTimestamp (vm_Meta v) \<noteq> None)\<rparr>"

definition iPPoolGeneratingHandler_Remove :: "bool \<Rightarrow> (IPPool \<Rightarrow> string) \<Rightarrow> (string \<Rightarrow> IPPool) \<Rightarrow>
    (IPPool \<Rightarrow> 'c list \<Rightarrow> ctl \<Rightarrow> go_error option \<times> ctl) \<Rightarrow> string \<Rightarrow> IPPool option \<Rightarrow> seen \<Rightarrow> ctl \<Rightarrow>
    ((IPPool option \<times> go_error option) \<times> seen) \<times> ctl" where
  "iPPoolGeneratingHandler_Remove unique version = generating_Remove (iPPoolGeneratingHandler unique version)"

definition iPPoolGeneratingHandler_Handle :: "bool \<Rightarrow> (IPPool \<Rightarrow> string) \<Rightarrow>
    (IPPool \<Rightarrow> 'c list \<Rightarrow> ctl \<Rightarrow> go_error option \<times> ctl) \<Rightarrow>
    (IPPool \<Rightarrow> IPPoolStatus \<Rightarrow> ctl \<Rightarrow> ('c list \<times> IPPoolStatus gores) \<times> ctl) \<Rightarrow> IPPool \<Rightarrow> IPPoolStatus \<Rightarrow> seen \<Rightarrow> ctl \<Rightarrow>
    (IPPoolStatus gores \<times> seen) \<times> ctl" where
  "iPPoolGeneratingHandler_Handle unique version = generating_Handle (iPPoolGeneratingHandler unique version)"

definition virtualMachineNetworkConfigGeneratingHandler_Remove :: "bool \<Rightarrow> (VirtualMachineNetworkConfig \<Rightarrow> string) \<Rightarrow> (string \<Rightarrow> VirtualMachineNetworkConfig) \<Rightarrow>
    (VirtualMachineNetworkConfig \<Rightarrow> 'c list \<Rightarrow> ctl \<Rightarrow> go_error option \<times> ctl) \<Rightarrow> string \<Rightarrow> VirtualMachineNetworkConfig option \<Rightarrow> seen \<Rightarrow> ctl \<Rightarrow>
    ((VirtualMachineNetworkConfig option \<times> go_error option) \<times> seen) \<times> ctl" where
  "virtualMachineNetworkConfigGeneratingHandler_Remove unique version = generating_Remove (virtualMachineNetworkConfigGeneratingHandler unique version)"

definition virtualMachineNetworkConfigGeneratingHandler_Handle :: "bool \<Rightarrow> (VirtualMachineNetworkConfig \<Rightarrow> string) \<Rightarrow>
    (VirtualMachineNetworkConfig \<Rightarrow> 'c list \<Rightarrow> ctl \<Rightarrow> go_error option \<times> ctl) \<Rightarrow>
    (VirtualMachineNetworkConfig \<Rightarrow> VmNetCfgStatus \<Rightarrow> ctl \<Rightarrow> ('c list \<times> VmNetCfgStatus gores) \<times> ctl) \<Rightarrow> VirtualMachineNetworkConfig \<Rightarrow> VmNetCfgStatus \<Rightarrow> seen \<Rightarrow> ctl \<Rightarrow>
    (VmNetCfgStatus gores \<times> seen) \<times> ctl" where
  "virtualMachineNetworkConfigGeneratingHandler_Handle unique version = generating_Handle (virtualMachineNetworkConfigGeneratingHandler unique version)"

text \<open>Again the objects of other repositories stay abstract.\<close>

definition podGeneratingHandler_Remove :: "'pod generating \<Rightarrow> (string \<Rightarrow> 'pod) \<Rightarrow>
    ('pod \<Rightarrow> 'c list \<Rightarrow> ctl \<Rightarrow> go_error option \<times> ctl) \<Rightarrow> string \<Rightarrow> 'pod option \<Rightarrow> seen \<Rightarrow> ctl \<Rightarrow>
    (('pod option \<times> go_error option) \<times> seen) \<times> ctl" where
  "podGeneratingHandler_Remove = generating_Remove"

definition podGeneratingHandler_Handle :: "'pod generating \<Rightarrow>
    ('pod \<Rightarrow> 'c list \<Rightarrow> ctl \<Rightarrow> go_error option \<times> ctl) \<Rightarrow>
    ('pod \<Rightarrow> 'st \<Rightarrow> ctl \<Rightarrow> ('c list \<times> 'st gores) \<times> ctl) \<Rightarrow> 'pod \<Rightarrow> 'st \<Rightarrow> seen \<Rightarrow> ctl \<Rightarrow>
    ('st gores \<times> seen) \<times> ctl" where
  "podGeneratingHandler_Handle = generating_Handle"

definition nodeGeneratingHandler_Remove :: "'node generating \<Rightarrow> (string \<Rightarrow> 'node) \<Rightarrow>
    ('node \<Rightarrow> 'c list \<Rightarrow> ctl \<Rightarrow> go_error option \<times> ctl) \<Rightarrow> string \<Rightarrow> 'node option \<Rightarrow> seen \<Rightarrow> ctl \<Rightarrow>
    (('node option \<times> go_error option) \<times> seen) \<times> ctl" where
  "nodeGeneratingHandler_Remove = generating_Remove"

definition nodeGeneratingHandler_Handle :: "'node generating \<Rightarrow>
    ('node \<Rightarrow> 'c list \<Rightarrow> ctl \<Rightarrow> go_error option \<times> ctl) \<Rightarrow>
    ('node \<Rightarrow> 'st \<Rightarrow> ctl \<Rightarrow> ('c list \<times> 'st gores) \<times> ctl) \<Rightarrow> 'node \<Rightarrow> 'st \<Rightarrow> seen \<Rightarrow> ctl \<Rightarrow>
    ('st gores \<times> seen) \<times> ctl" where
  "nodeGeneratingHandler_Handle = generating_Handle"

definition virtualMachineGeneratingHandler_Remove :: "'vm generating \<Rightarrow> (string \<Rightarrow> 'vm) \<Rightarrow>
    ('vm \<Rightarrow> 'c list \<Rightarrow> ctl \<Rightarrow> go_error option \<times> ctl) \<Rightarrow> string \<Rightarrow> 'vm option \<Rightarrow> seen \<Rightarrow> ctl \<Rightarrow>
    (('vm option \<times> go_error option) \<times> seen) \<times> ctl" where
  "virtualMachineGeneratingHandler_Remove = generating_Remove"

definition virtualMachineGeneratingHandler_Handle :: "'vm generating \<Rightarrow>
    ('vm \<Rightarrow> 'c list \<Rightarrow> ctl \<Rightarrow> go_error option \<times> ctl) \<Rightarrow>
    ('vm \<Rightarrow> 'st \<Rightarrow> ctl \<Rightarrow> ('c list \<times> 'st gores) \<times> ctl) \<Rightarrow> 'vm \<Rightarrow> 'st \<Rightarrow> seen \<Rightarrow> ctl \<Rightarrow>
    ('st gores \<times> seen) \<times> ctl" where
  "virtualMachineGeneratingHandler_Handle = generating_Handle"

section \<open>The registered handlers\<close>

text \<open>A handler that does not write to the copy it got.\<close>

definition plain :: "('o \<Rightarrow> 'st \<Rightarrow> ctl \<Rightarrow> ('st gores \<times> ctl) outcome) \<Rightarrow> ('o, 'st) status_handler" where
  "plain f obj status s = go_bind (f obj status s) (\<lambda>(r, s1). Ret ((r, obj), s1))"

text \<open>The name and condition under which \<open>Register\<close> of the two controllers installs each handler.\<close>

definition ippool_register :: "world \<Rightarrow> Handler \<Rightarrow> IPPool option \<Rightarrow> ctl \<Rightarrow> ((IPPool option \<times> go_error option) \<times> ctl) outcome" where
  "ippool_register W h = iPPoolStatusHandler_sync W Registered (plain (DeployAgent W h))"

definition ippool_cache_builder :: "world \<Rightarrow> IPPool option \<Rightarrow> ctl \<Rightarrow> ((IPPool option \<times> go_error option) \<times> ctl) outcome" where
  "ippool_cache_builder W = iPPoolStatusHandler_sync W CacheReady (plain (BuildCache W))"

definition ippool_agent_monitor :: "world \<Rightarrow> Handler \<Rightarrow> IPPool option \<Rightarrow> ctl \<Rightarrow> ((IPPool option \<times> go_error option) \<times> ctl) outcome" where
  "ippool_agent_monitor W h = iPPoolStatusHandler_sync W AgentReady (plain (MonitorAgent W h))"

text \<open>The keys that the watch on pods enqueues: the pool named by the labels of each agent pod.\<close>

definition ippool_trigger :: "Pod list \<Rightarrow> (string \<times> string) list" where
  "ippool_trigger pods = map (\<lambda>pod. (case nil_lookup (om_Labels (pod_Meta pod)) IPPoolNamespaceLabelKey of None \<Rightarrow> [] | Some ns \<Rightarrow> ns,
     case nil_lookup (om_Labels (pod_Meta pod)) IPPoolNameLabelKey of None \<Rightarrow> [] | Some n \<Rightarrow> n)) pods"

definition vmnetcfg_allocate :: "world \<Rightarrow> VirtualMachineNetworkConfig option \<Rightarrow> ctl \<Rightarrow>
    ((VirtualMachineNetworkConfig option \<times> go_error option) \<times> ctl) outcome" where
  "vmnetcfg_allocate W = virtualMachineNetworkConfigStatusHandler_sync W Allocated (plain (\<lambda>v st s. Ret (Allocate W v st s)))"

text \<open>\<open>Sync\<close> writes the stale marks through the status it got, so they are in the copy afterwards.\<close>

definition marked_object :: "world \<Rightarrow> VirtualMachineNetworkConfig \<Rightarrow> VirtualMachineNetworkConfig" where
  "marked_object W v =
     (if vmnetcfg_paused v \<or> x_IsTrue (w_ext W) InSynced (vst_Conditions (vm_Status v)) then v
      else v\<lparr>vm_Status := (vm_Status v)\<lparr>vst_NetworkConfigs :=
             mark_stale (set (map nc_MACAddress (vs_NetworkConfigs (vm_Spec v)))) (vst_NetworkConfigs (vm_Status v))\<rparr>\<rparr>)"

definition vmnetcfg_sync :: "world \<Rightarrow> VirtualMachineNetworkConfig option \<Rightarrow> ctl \<Rightarrow>
    ((VirtualMachineNetworkConfig option \<times> go_error option) \<times> ctl) outcome" where
  "vmnetcfg_sync W = virtualMachineNetworkConfigStatusHandler_sync W InSynced
     (\<lambda>v st s. go_bind (Sync W True v st s) (\<lambda>(r, s1). Ret ((r, marked_object W v), s1)))"

end
