(* ===== verification/Status_Facts.thy ===== *)
theory Status_Facts
  imports Status_Handler
begin

text \<open>
  What the generated status handlers guarantee, proved once for every resource and carried over
  to IPPools and network configurations by interpretation; then the handlers of the two
  controllers as the framework calls them.
\<close>

section \<open>Resources with a status\<close>

locale status_resource =
  fixes cl :: "('o, 'st) status_client"
  assumes status_with: "sc_status cl (sc_with cl st obj) = st"
    and conditions_with: "sc_conditions cl (sc_with_conditions cl cs st) = cs"
    and with_with: "sc_with_conditions cl cs (sc_with_conditions cl ds st) = sc_with_conditions cl cs st"
begin

text \<open>Two statuses that differ in their conditions at most.\<close>

definition same_body :: "'st \<Rightarrow> 'st \<Rightarrow> bool" where
  "same_body st st' \<longleftrightarrow> sc_with_conditions cl [] st = sc_with_conditions cl [] st'"

lemma same_body_refl [simp]: "same_body st st"
  by (simp add: same_body_def)

lemma same_body_with [simp]: "same_body (sc_with_conditions cl cs st) st'\<longleftrightarrow> same_body st st'"
  by (simp add: same_body_def with_with)

definition base_status :: "'o \<Rightarrow> 'st gores \<Rightarrow> 'st" where
  "base_status obj r = (if snd r \<noteq> None then sc_status cl obj else fst r)"

definition conflict :: "go_error option \<Rightarrow> bool" where
  "conflict err \<longleftrightarrow> (\<exists>e. err = Some e \<and> IsConflict e)"

text \<open>What is known of the status that is stored.\<close>

definition records :: "ext \<Rightarrow> string \<Rightarrow> 'o \<Rightarrow> 'st gores \<Rightarrow> 'st \<Rightarrow> bool" where
  "records x cond obj r st \<longleftrightarrow> same_body st (base_status obj r) \<and>
     (x_IsTrue x cond (sc_conditions cl st) \<longleftrightarrow> snd r = None \<or> conflict (snd r)) \<and>
     (x_IsFalse x cond (sc_conditions cl st) \<longleftrightarrow> snd r \<noteq> None \<and> \<not> conflict (snd r)) \<and>
     (\<forall>c. c \<noteq> cond \<longrightarrow> x_IsTrue x c (sc_conditions cl st) = x_IsTrue x c (sc_conditions cl (base_status obj r)) \<and>
        x_IsFalse x c (sc_conditions cl st) = x_IsFalse x c (sc_conditions cl (base_status obj r)))"

lemma next_status_records:
  assumes "set_error_laws x" "cond \<noteq> []"
  shows "records x cond obj r (next_status x cl cond (sc_status cl obj) r)"
  using assms
  by (cases r) (auto simp: records_def next_status_def base_status_def conflict_def set_error_laws_def conditions_with Let_def
      split: option.splits)

lemma last_updated_records:
  assumes "set_error_laws x" "records x cond obj r st"
  shows "records x cond obj r (sc_with_conditions cl (x_LastUpdated x cond t (sc_conditions cl st)) st)"
  using assms by (auto simp: records_def set_error_laws_def conditions_with)

text \<open>A run of the handler ends without a write, or with one that stores such a status.\<close>

lemma status_sync_effect:
  assumes "set_error_laws x" "cond \<noteq> []" "handler obj (sc_status cl obj) s = Ret ((r, cpy), s1)"
    and "status_sync x v cl cond handler (Some obj) s = Ret ((res, err'), s')"
  shows "(s' = s1 \<and> res = Some cpy \<and> err' = snd r \<and> sc_equal cl (sc_status cl obj) (next_status x cl cond (sc_status cl obj) r)) \<or>
    (\<exists>q newObj newErr. sc_UpdateStatus cl q (emit Now s1) = ((newObj, newErr), s') \<and> q = sc_with cl (sc_status cl q) cpy \<and>
       records x cond obj r (sc_status cl q) \<and> res = (if newErr = None then newObj else Some q) \<and>
       err' = (if snd r = None then newErr else snd r))"
proof (cases "sc_equal cl (sc_status cl obj) (next_status x cl cond (sc_status cl obj) r)")
  case True
  with assms(3,4) show ?thesis by (simp add: status_sync_def Let_def)
next
  case False
  let ?st = "next_status x cl cond (sc_status cl obj) r"
  define st where "st = sc_with_conditions cl (x_LastUpdated x cond (e_now v (calls s1 @ [Now])) (sc_conditions cl ?st)) ?st"
  have rec: "records x cond obj r st"
    unfolding st_def by (intro last_updated_records next_status_records assms(1,2))
  obtain newObj newErr s2 where u: "sc_UpdateStatus cl (sc_with cl st cpy) (emit Now s1) = ((newObj, newErr), s2)"
    by (metis prod.exhaust)
  from assms(2-4) False u have "s' = s2" "res = (if newErr = None then newObj else Some (sc_with cl st cpy))"
    "err' = (if snd r = None then newErr else snd r)"
    by (auto simp: status_sync_def Let_def ask_def st_def)
  with u rec show ?thesis
    by (intro disjI2 exI [of _ "sc_with cl st cpy"] exI [of _ newObj] exI [of _ newErr]) (auto simp: status_with)
qed

text \<open>A run returns when the handler does, and writes when the status changed.\<close>

lemma status_sync_total:
  assumes "handler obj (sc_status cl obj) s = Ret ((r, cpy), s1)" "cond \<noteq> []"
  shows "\<exists>res err s'. status_sync x v cl cond handler (Some obj) s = Ret ((res, err), s') \<and>
    (\<not> sc_equal cl (sc_status cl obj) (next_status x cl cond (sc_status cl obj) r) \<longrightarrow>
       (\<exists>q. s' = snd (sc_UpdateStatus cl q (emit Now s1))))"
proof (cases "sc_equal cl (sc_status cl obj) (next_status x cl cond (sc_status cl obj) r)")
  case False
  let ?st = "next_status x cl cond (sc_status cl obj) r"
  define q where "q = sc_with cl (sc_with_conditions cl (x_LastUpdated x cond (e_now v (calls s1 @ [Now])) (sc_conditions cl ?st)) ?st) cpy"
  obtain newObj newErr s2 where u: "sc_UpdateStatus cl q (emit Now s1) = ((newObj, newErr), s2)"
    by (metis prod.exhaust)
  with assms False show ?thesis
    by (auto simp: status_sync_def Let_def ask_def q_def intro!: exI [of _ q])
qed (use assms in \<open>simp add: status_sync_def Let_def\<close>)

end

interpretation pool_status: status_resource "ippool_client W" for W
  by unfold_locales (simp_all add: ippool_client_def)

interpretation vm_status: status_resource "vmnetcfg_client W" for W
  by unfold_locales (simp_all add: vmnetcfg_client_def)

section \<open>Status handlers of pools\<close>

lemma pool_client_simps [simp]:
  "sc_status (ippool_client W) = ip_Status" "sc_conditions (ippool_client W) = st_Conditions"
  "sc_with (ippool_client W) st p = p\<lparr>ip_Status := st\<rparr>" "sc_UpdateStatus (ippool_client W) = ippool_UpdateStatus W"
  "sc_equal (ippool_client W) = x_PoolStatusEqual (w_ext W)"
  "sc_with_conditions (ippool_client W) cs st = st\<lparr>st_Conditions := cs\<rparr>"
  by (simp_all add: ippool_client_def)

lemma vm_client_simps [simp]:
  "sc_status (vmnetcfg_client W) = vm_Status" "sc_conditions (vmnetcfg_client W) = vst_Conditions"
  "sc_with (vmnetcfg_client W) st v = v\<lparr>vm_Status := st\<rparr>" "sc_UpdateStatus (vmnetcfg_client W) = vmnetcfg_UpdateStatus W"
  "sc_equal (vmnetcfg_client W) = x_VmStatusEqual (w_ext W)"
  "sc_with_conditions (vmnetcfg_client W) cs st = st\<lparr>vst_Conditions := cs\<rparr>"
  by (simp_all add: vmnetcfg_client_def)

lemma vmnetcfg_UpdateStatus_eq:
  "vmnetcfg_UpdateStatus W q s = ((newObj, newErr), s') \<Longrightarrow> s' = emit (VmNetCfgUpdateStatus q) s"
  by (auto simp: vmnetcfg_UpdateStatus_def ask_def split: sum.splits)

lemma ippool_UpdateStatus_state:
  "ippool_UpdateStatus W q s = ((newObj, newErr), s') \<Longrightarrow> s' = emit (IPPoolUpdateStatus q) s"
  using ippool_UpdateStatus_eq [of W q s] by simp

text \<open>The error is a conflict reported by the API server.\<close>

definition is_conflict :: "go_error option \<Rightarrow> bool" where
  "is_conflict err \<longleftrightarrow> (\<exists>e. err = Some e \<and> IsConflict e)"

text \<open>
  What the framework makes of the result of an IPPool handler.  It writes nothing, or stores
  exactly one status.  That status is the handler's on success and the original one on an
  error, up to its conditions; the handler's condition is true on success and after a conflict,
  false after any other error, and no other condition changes.  The error of the handler is
  returned, so that the object is retried.
\<close>

theorem pool_status_recorded:
  assumes "set_error_laws (w_ext W)" "cond \<noteq> []" "handler p (ip_Status p) s = Ret (((st, err), cpy), s1)"
    and "iPPoolStatusHandler_sync W cond handler (Some p) s = Ret ((res, err'), s')"
    and "base = (if err = None then st else ip_Status p)"
  shows "s' = s1 \<and> err' = err \<or>
    (\<exists>q. s' = emit (IPPoolUpdateStatus q) (emit Now s1) \<and> ip_Spec q = ip_Spec cpy \<and> (err \<noteq> None \<longrightarrow> err' = err) \<and>
       (ip_Status q)\<lparr>st_Conditions := []\<rparr> = base\<lparr>st_Conditions := []\<rparr> \<and>
       (x_IsTrue (w_ext W) cond (st_Conditions (ip_Status q)) \<longleftrightarrow> err = None \<or> is_conflict err) \<and>
       (x_IsFalse (w_ext W) cond (st_Conditions (ip_Status q)) \<longleftrightarrow> err \<noteq> None \<and> \<not> is_conflict err) \<and>
       (\<forall>c. c \<noteq> cond \<longrightarrow> x_IsTrue (w_ext W) c (st_Conditions (ip_Status q)) = x_IsTrue (w_ext W) c (st_Conditions base)))"
proof -
  have h: "handler p (sc_status (ippool_client W) p) s = Ret (((st, err), cpy), s1)" using assms(3) by simp
  have y: "status_sync (w_ext W) (w_env W) (ippool_client W) cond handler (Some p) s = Ret ((res, err'), s')"
    using assms(4) by (simp add: iPPoolStatusHandler_sync_def)
  consider "s' = s1" "err' = err" | q newObj newErr where "ippool_UpdateStatus W q (emit Now s1) = ((newObj, newErr), s')"
      "q = cpy\<lparr>ip_Status := ip_Status q\<rparr>" "pool_status.records W (w_ext W) cond p (st, err) (ip_Status q)"
      "err' = (if err = None then newErr else err)"
    using pool_status.status_sync_effect [OF assms(1,2) h y] by auto
  then show ?thesis
  proof cases
    case 2
    have spec: "ip_Spec q = ip_Spec cpy" by (subst 2(2)) simp
    have base: "pool_status.base_status W p (st, err) = base" by (simp add: pool_status.base_status_def assms(5))
    have r: "(ip_Status q)\<lparr>st_Conditions := []\<rparr> = base\<lparr>st_Conditions := []\<rparr>"
      "x_IsTrue (w_ext W) cond (st_Conditions (ip_Status q)) \<longleftrightarrow> err = None \<or> is_conflict err"
      "x_IsFalse (w_ext W) cond (st_Conditions (ip_Status q)) \<longleftrightarrow> err \<noteq> None \<and> \<not> is_conflict err"
      "\<forall>c. c \<noteq> cond \<longrightarrow> x_IsTrue (w_ext W) c (st_Conditions (ip_Status q)) = x_IsTrue (w_ext W) c (st_Conditions base)"
      using 2(3) by (simp_all add: pool_status.records_def base pool_status.same_body_def pool_status.conflict_def is_conflict_def)
    show ?thesis
      by (intro disjI2 exI [of _ q]) (use ippool_UpdateStatus_state [OF 2(1)] spec r 2(4) in auto)
  qed simp
qed

section \<open>Allocate under the framework\<close>

lemma vm_status_effect:
  assumes "set_error_laws (w_ext W)" "cond \<noteq> []" "handler v (vm_Status v) s = Ret (((st, err), cpy), s1)"
    and "virtualMachineNetworkConfigStatusHandler_sync W cond handler (Some v) s = Ret ((res, err'), s')"
    and "base = (if err = None then st else vm_Status v)"
  shows "s' = s1 \<and> err' = err \<and>
       x_VmStatusEqual (w_ext W) (vm_Status v) (next_status (w_ext W) (vmnetcfg_client W) cond (vm_Status v) (st, err)) \<or>
    (\<exists>q newErr. s' = emit (VmNetCfgUpdateStatus q) (emit Now s1) \<and> vm_Spec q = vm_Spec cpy \<and>
       err' = (if err = None then newErr else err) \<and>
       newErr = snd (fst (vmnetcfg_UpdateStatus W q (emit Now s1))) \<and>
       vst_NetworkConfigs (vm_Status q) = vst_NetworkConfigs base \<and>
       (x_IsTrue (w_ext W) cond (vst_Conditions (vm_Status q)) \<longleftrightarrow> err = None \<or> is_conflict err) \<and>
       (x_IsFalse (w_ext W) cond (vst_Conditions (vm_Status q)) \<longleftrightarrow> err \<noteq> None \<and> \<not> is_conflict err))"
proof -
  have h: "handler v (sc_status (vmnetcfg_client W) v) s = Ret (((st, err), cpy), s1)" using assms(3) by simp
  have y: "status_sync (w_ext W) (w_env W) (vmnetcfg_client W) cond handler (Some v) s = Ret ((res, err'), s')"
    using assms(4) by (simp add: virtualMachineNetworkConfigStatusHandler_sync_def)
  consider "s' = s1" "err' = err" "x_VmStatusEqual (w_ext W) (vm_Status v) (next_status (w_ext W) (vmnetcfg_client W) cond (vm_Status v) (st, err))"
    | q newObj newErr where "vmnetcfg_UpdateStatus W q (emit Now s1) = ((newObj, newErr), s')"
      "q = cpy\<lparr>vm_Status := vm_Status q\<rparr>" "vm_status.records W (w_ext W) cond v (st, err) (vm_Status q)"
      "err' = (if err = None then newErr else err)"
    using vm_status.status_sync_effect [OF assms(1,2) h y] by auto
  then show ?thesis
  proof cases
    case 2
    have spec: "vm_Spec q = vm_Spec cpy" by (subst 2(2)) simp
    have base: "vm_status.base_status W v (st, err) = base" by (simp add: vm_status.base_status_def assms(5))
    have body: "(vm_Status q)\<lparr>vst_Conditions := []\<rparr> = base\<lparr>vst_Conditions := []\<rparr>"
      and c: "x_IsTrue (w_ext W) cond (vst_Conditions (vm_Status q)) \<longleftrightarrow> err = None \<or> is_conflict err"
      "x_IsFalse (w_ext W) cond (vst_Conditions (vm_Status q)) \<longleftrightarrow> err \<noteq> None \<and> \<not> is_conflict err"
      using 2(3) by (simp_all add: vm_status.records_def base vm_status.same_body_def vm_status.conflict_def is_conflict_def)
    have n: "vst_NetworkConfigs (vm_Status q) = vst_NetworkConfigs base"
      using arg_cong [OF body, of vst_NetworkConfigs] by simp
    show ?thesis
      by (intro disjI2 exI [of _ q] exI [of _ newErr]) (use vmnetcfg_UpdateStatus_eq [OF 2(1)] 2(1) spec n c 2(4) in auto)
  qed simp
qed


section \<open>Progress of an out-of-sync object\<close>

text \<open>The stores know the network and the address of a record.\<close>

definition known :: "ctl \<Rightarrow> NetworkConfigStatus \<Rightarrow> bool" where
  "known s st \<longleftrightarrow> ns_AllocatedIPAddress st \<noteq> [] \<and> table_of (cacheAllocator s) (ns_NetworkName st) \<noteq> None \<and>
     (\<exists>q. pool_of (ipAllocator s) (ns_NetworkName st) = Some q \<and> q (ns_AllocatedIPAddress st) \<noteq> None)"

lemma release_total:
  assumes "known s st"
  shows "\<exists>s1. release st s = (None, s1)"
proof -
  obtain sn where sn: "ipam (ipAllocator s) (ns_NetworkName st) = Some sn" "ips sn (ns_AllocatedIPAddress st) \<noteq> None"
    using assms by (auto simp: known_def pool_of_def)
  obtain ms where "cache (cacheAllocator s) (ns_NetworkName st) = Some ms" using assms by (auto simp: known_def table_of_def)
  then show ?thesis
    using sn assms by (auto simp: release_def IsAllocated_def DeallocateIP_def HasMAC_def DeleteMAC_def known_def split: bool.splits)
qed

lemma known_release:
  assumes "release st s = (None, s1)" "known s st'"
  shows "known s1 st'"
proof -
  from release_ok [OF assms(1)] obtain q t where
    "pool_of (ipAllocator s) (ns_NetworkName st) = Some q"
    "pool_of (ipAllocator s1) = (pool_of (ipAllocator s))(ns_NetworkName st \<mapsto> q(ns_AllocatedIPAddress st \<mapsto> False))"
    "table_of (cacheAllocator s1) = (table_of (cacheAllocator s))(ns_NetworkName st \<mapsto> t(ns_MACAddress st := None))" by blast
  with assms(2) show ?thesis by (auto simp: known_def)
qed

text \<open>An API server that accepts every write to a pool, and a network that resolves to a pool with a record.\<close>

definition accepting :: "world \<Rightarrow> bool" where
  "accepting W \<longleftrightarrow> (\<forall>cs p. \<exists>p'. e_ippool (w_env W) (cs @ [IPPoolUpdateStatus p]) = Inr p')"

definition recorded_net :: "world \<Rightarrow> string \<Rightarrow> bool" where
  "recorded_net W n \<longleftrightarrow> (\<exists>nads pools p. cached W nads pools \<and> resolves nads pools (x_RSplit (w_ext W) n ''/'') p \<and> st_IPv4 (ip_Status p) \<noteq> None)"

lemma drop_record_total:
  assumes "accepting W" "recorded_net W (ns_NetworkName st)"
  shows "\<exists>s'. drop_record W st s = Ret (None, s')"
proof -
  obtain p s1 st4 where p: "getIPPoolFromNetworkName W (ns_NetworkName st) s = (Inr p, s1)" "st_IPv4 (ip_Status p) = Some st4"
    using assms(2) resolves_getIPPool unfolding recorded_net_def by blast
  have "\<exists>s'. store_pool W p q s1 = (None, s')" for q
  proof (cases "q = p")
    case False
    obtain p' where "e_ippool (w_env W) (calls (emit Now s1) @ [IPPoolUpdateStatus (stamp (e_now (w_env W) (calls s1 @ [Now])) q)]) = Inr p'"
      using assms(1) unfolding accepting_def by blast
    with False show ?thesis by (simp add: store_pool_def ask_def ippool_UpdateStatus_def)
  qed (simp add: store_pool_def)
  with p show ?thesis by (simp add: drop_record_def getIPPoolFromNetworkConfigStatus_def Let_def)
qed

lemma retry_total:
  assumes "retry_law x" "\<forall>s. \<exists>s'. f s = Ret (None, s')"
  shows "\<exists>s'. x_RetryOnConflict x f s = Ret (None, s')"
proof -
  have "retry_runs f s r \<Longrightarrow> \<exists>s'. r = Ret (None, s')" for s r
    by (induction rule: retry_runs.induct) (use assms(2) in auto)
  with assms(1) show ?thesis unfolding retry_law_def by blast
qed

lemma cleanup_loop_total:
  assumes "retry_law (w_ext W)" "accepting W"
  shows "\<forall>st \<in> cleaned b sts. known s st \<and> recorded_net W (ns_NetworkName st) \<Longrightarrow> \<exists>s'. cleanup_loop W b sts s = Ret (None, s')"
proof (induction sts arbitrary: s)
  case (Cons st sts)
  have rest: "\<forall>st \<in> cleaned b sts. known s st \<and> recorded_net W (ns_NetworkName st)"
    using Cons.prems by (auto simp: cleaned_def)
  show ?case
  proof (cases "\<not> b \<or> ns_State st = StaleState")
    case True
    then have st: "known s st" "recorded_net W (ns_NetworkName st)" using Cons.prems by (auto simp: cleaned_def)
    obtain s1 where s1: "release st s = (None, s1)" using release_total [OF st(1)] by blast
    obtain s2 where s2: "x_RetryOnConflict (w_ext W) (drop_record W st) s1 = Ret (None, s2)"
      using retry_total [OF assms(1)] drop_record_total [OF assms(2) st(2)] by blast
    have "known s2 st'" if "known s st'" for st'
      using known_release [OF s1 that] retry_frame [OF assms(1) s2] by (simp add: known_def)
    with rest have "\<forall>st \<in> cleaned b sts. known s2 st \<and> recorded_net W (ns_NetworkName st)" by blast
    from Cons.IH [OF this] True s1 s2 show ?thesis by auto
  qed (use Cons.IH [OF rest] in simp)
qed simp

lemma Sync_total:
  assumes "retry_law (w_ext W)" "accepting W" "\<not> vmnetcfg_paused v" "\<not> x_IsTrue (w_ext W) InSynced (vst_Conditions (vm_Status v))"
    and "\<forall>st \<in> set (vst_NetworkConfigs (vm_Status v)).
      ns_MACAddress st \<notin> spec_macs v \<or> ns_State st = StaleState \<longrightarrow> known s st \<and> recorded_net W (ns_NetworkName st)"
  shows "\<exists>st' s1. Sync W True v (vm_Status v) s = Ret ((st', None), s1) \<and>
    vst_NetworkConfigs st' = filter (\<lambda>st. ns_MACAddress st \<in> spec_macs v) (vst_NetworkConfigs (vm_Status v))"
proof -
  have "\<forall>st \<in> cleaned True (mark_stale (spec_macs v) (vst_NetworkConfigs (vm_Status v))). known s st \<and> recorded_net W (ns_NetworkName st)"
    using assms(5) by (auto simp: cleaned_def mark_stale_def known_def split: if_splits)
  from cleanup_loop_total [OF assms(1,2) this] assms(3,4) show ?thesis
    by (auto simp: Sync_def vmnetcfg_cleanup_def Let_def spec_macs_def)
qed

text \<open>
  [C18] An object that is out of sync gets back in sync in one run, provided that its machine is
  not paused, the stores know every record that has to go, its pool can be found, and the API
  server accepts the writes to the pools: the run stores a status whose \<open>InSynced\<close> condition
  is true, which opens the gate of \<open>Allocate\<close>, and which lists exactly the records of interfaces
  that are still specified.
\<close>

theorem resync_progress:
  assumes "set_error_laws (w_ext W)" "retry_law (w_ext W)" "accepting W" "x_VmStatusEqual (w_ext W) = (=)"
    and "\<not> vmnetcfg_paused v" "\<not> x_IsTrue (w_ext W) InSynced (vst_Conditions (vm_Status v))"
    and "\<forall>st \<in> set (vst_NetworkConfigs (vm_Status v)).
      ns_MACAddress st \<notin> spec_macs v \<or> ns_State st = StaleState \<longrightarrow> known s st \<and> recorded_net W (ns_NetworkName st)"
  shows "\<exists>res err s1 q. vmnetcfg_sync W (Some v) s = Ret ((res, err), emit (VmNetCfgUpdateStatus q) (emit Now s1)) \<and>
    vm_Spec q = vm_Spec v \<and> x_IsTrue (w_ext W) InSynced (vst_Conditions (vm_Status q)) \<and>
    \<not> x_IsFalse (w_ext W) InSynced (vst_Conditions (vm_Status q)) \<and>
    vst_NetworkConfigs (vm_Status q) = filter (\<lambda>st. ns_MACAddress st \<in> spec_macs v) (vst_NetworkConfigs (vm_Status v)) \<and>
    err = snd (fst (vmnetcfg_UpdateStatus W q (emit Now s1)))"
proof -
  let ?h = "\<lambda>v st s. go_bind (Sync W True v st s) (\<lambda>(r, s1). Ret ((r, marked_object W v), s1))"
  obtain st' s1 where y: "Sync W True v (vm_Status v) s = Ret ((st', None), s1)"
    "vst_NetworkConfigs st' = filter (\<lambda>st. ns_MACAddress st \<in> spec_macs v) (vst_NetworkConfigs (vm_Status v))"
    using Sync_total [OF assms(2,3,5,6,7)] by blast
  have h: "?h v (vm_Status v) s = Ret (((st', None), marked_object W v), s1)" by (simp add: y(1))
  have ne: "InSynced \<noteq> []" by (simp add: InSynced_def)
  obtain res err s' where run: "virtualMachineNetworkConfigStatusHandler_sync W InSynced ?h (Some v) s = Ret ((res, err), s')"
    using vm_status.status_sync_total [of ?h v W s "(st', None)" "marked_object W v" s1 InSynced] h ne
    unfolding virtualMachineNetworkConfigStatusHandler_sync_def by force
  have "x_IsTrue (w_ext W) InSynced (vst_Conditions (next_status (w_ext W) (vmnetcfg_client W) InSynced (vm_Status v) (st', None)))"
    using vm_status.next_status_records [OF assms(1) ne, of W v "(st', None)"] by (simp add: vm_status.records_def)
  then have "\<not> x_VmStatusEqual (w_ext W) (vm_Status v) (next_status (w_ext W) (vmnetcfg_client W) InSynced (vm_Status v) (st', None))"
    using assms(4,6) by auto
  with vm_status_effect [OF assms(1) ne h run refl] obtain q where
    q: "s' = emit (VmNetCfgUpdateStatus q) (emit Now s1)" "vm_Spec q = vm_Spec (marked_object W v)"
    "err = snd (fst (vmnetcfg_UpdateStatus W q (emit Now s1)))" "vst_NetworkConfigs (vm_Status q) = vst_NetworkConfigs st'"
    "x_IsTrue (w_ext W) InSynced (vst_Conditions (vm_Status q))" "\<not> x_IsFalse (w_ext W) InSynced (vst_Conditions (vm_Status q))" by auto
  have "vm_Spec (marked_object W v) = vm_Spec v" by (simp add: marked_object_def)
  with q y(2) run show ?thesis
    unfolding vmnetcfg_sync_def by (intro exI [of _ res] exI [of _ err] exI [of _ s1] exI [of _ q]) simp
qed

section \<open>One application per version\<close>

text \<open>
  The generated handlers that apply child objects apply a version once when asked to: after a
  successful application of an object, handling the same version again does not apply anything,
  until the object is deleted; without the option every successful handling applies.
\<close>

theorem applied_once:
  assumes "\<not> g_deleted g obj" "handler obj status s = ((objs, (st, None)), s1)" "apply obj objs s1 = (None, s2)"
    "isNewResourceVersion g sn obj" "generating_Handle g apply handler obj status sn s = ((r, sn'), s')"
    "handler obj status' t = ((objs', (st', None)), t1)"
  shows "r = (st, None) \<and> s' = s2 \<and>
    (if g_Unique g then generating_Handle g apply handler obj status' sn' t = (((st', None), sn'), t1)
     else snd (generating_Handle g apply handler obj status' sn' t) = snd (apply obj objs' t1)) \<and>
    isNewResourceVersion g (snd (fst (generating_Remove g named apply (g_key g obj) None sn' t))) obj"
  using assms
  by (auto simp: generating_Handle_def generating_Remove_def isNewResourceVersion_def storeResourceVersion_def split: option.splits prod.splits)

section \<open>Examples\<close>

definition paused_IPPool :: IPPool where
  "paused_IPPool = example_IPPool\<lparr>ip_Spec := (ip_Spec example_IPPool)\<lparr>ps_Paused := Some True\<rparr>\<rparr>"

theorem pool_status_recorded_witness:
  "\<exists>res err q. ippool_cache_builder example_world (Some paused_IPPool) start_state =
      Ret ((res, err), emit (IPPoolUpdateStatus q) (emit Now start_state)) \<and>
    err \<noteq> None \<and> x_IsFalse example_ext CacheReady (st_Conditions (ip_Status q)) \<and> st_IPv4 (ip_Status q) = st_IPv4 (ip_Status paused_IPPool)"
proof -
  let ?W = example_world and ?h = "plain (BuildCache example_world)"
  let ?e = "disabled_error ''ippool'' (pool_key_name paused_IPPool)"
  have h: "?h paused_IPPool (ip_Status paused_IPPool) start_state = Ret (((ip_Status paused_IPPool, Some ?e), paused_IPPool), start_state)"
    by (simp add: plain_def BuildCache_def paused_IPPool_def is_paused_def)
  have nc: "\<not> is_conflict (Some ?e)" by (simp add: is_conflict_def IsConflict_def disabled_error_def)
  have c: "st_Conditions (ip_Status paused_IPPool) = []" by (simp add: paused_IPPool_def example_IPPool_def)
  have eq: "x_PoolStatusEqual example_ext = (=)" by (simp add: example_ext_def)
  have ne: "ip_Status paused_IPPool \<noteq> (ip_Status paused_IPPool)\<lparr>st_Conditions := x_SetError example_ext CacheReady [] e []\<rparr>" for e
  proof
    assume "ip_Status paused_IPPool = (ip_Status paused_IPPool)\<lparr>st_Conditions := x_SetError example_ext CacheReady [] e []\<rparr>"
    then have "st_Conditions (ip_Status paused_IPPool) = x_SetError example_ext CacheReady [] e []" by (metis IPPoolStatus.select_convs(4) IPPoolStatus.surjective IPPoolStatus.update_convs(4))
    then show False by (simp add: c example_ext_def set_status_def)
  qed
  have "CacheReady \<noteq> []" by (simp add: CacheReady_def)
  moreover have "\<not> x_PoolStatusEqual (w_ext ?W) (ip_Status paused_IPPool)
      (next_status (w_ext ?W) (ippool_client ?W) CacheReady (ip_Status paused_IPPool) (ip_Status paused_IPPool, Some ?e))"
    using ne by (simp add: next_status_def Let_def CacheReady_def c eq)
  ultimately obtain res err q' where run: "iPPoolStatusHandler_sync ?W CacheReady ?h (Some paused_IPPool) start_state =
      Ret ((res, err), snd (ippool_UpdateStatus ?W q' (emit Now start_state)))"
    using pool_status.status_sync_total [of ?h paused_IPPool ?W start_state _ _ start_state CacheReady] h
    unfolding iPPoolStatusHandler_sync_def by force
  then have neq: "snd (ippool_UpdateStatus ?W q' (emit Now start_state)) \<noteq> start_state"
    unfolding ippool_UpdateStatus_eq by (metis emit_simps(3) append_is_Nil_conv start_state_simps(1) list.distinct(1))
  have "set_error_laws (w_ext ?W)" using example_ext_laws by simp
  from pool_status_recorded [OF this _ h run refl] neq nc obtain q where
    q: "snd (ippool_UpdateStatus ?W q' (emit Now start_state)) = emit (IPPoolUpdateStatus q) (emit Now start_state)" "err = Some ?e"
    "(ip_Status q)\<lparr>st_Conditions := []\<rparr> = (ip_Status paused_IPPool)\<lparr>st_Conditions := []\<rparr>" "x_IsFalse example_ext CacheReady (st_Conditions (ip_Status q))"
    by (auto simp: CacheReady_def)
  have "st_IPv4 (ip_Status q) = st_IPv4 (ip_Status paused_IPPool)" using arg_cong [OF q(3), of st_IPv4] by simp
  with q run show ?thesis
    unfolding ippool_cache_builder_def by (intro exI [of _ res] exI [of _ err] exI [of _ q]) simp
qed

lemma ready_Allocate:
  "\<exists>st s1. Allocate ready_world (example_vmnetcfg [example_nic ''bb''] [] None) (vm_Status (example_vmnetcfg [example_nic ''bb''] [] None)) busy_state = ((st, None), s1)"
proof -
  have "status_of CacheReady (st_Conditions (ip_Status ready_IPPool)) = Some ''True''"
    by (simp add: ready_IPPool_def set_conditions_def)
  then show ?thesis
    using bound_GetIPByMAC [OF busy_bound] bound_HasMAC [OF busy_bound]
    by (auto simp: Allocate_def example_vmnetcfg_def example_nic_def is_paused_def example_ext_def allocate_one_def ready_pool
        getIPPoolFromNetworkConfig_def obtain_ip_def store_pool_def ippool_UpdateStatus_def ask_def Let_def)
qed


theorem resync_progress_witness:
  "\<exists>res err s1 q. vmnetcfg_sync ready_world (Some (example_vmnetcfg [] [example_record ''bb'' ''192.168.0.10''] None)) busy_state =
      Ret ((res, err), emit (VmNetCfgUpdateStatus q) (emit Now s1)) \<and> vst_NetworkConfigs (vm_Status q) = []"
proof -
  let ?v = "example_vmnetcfg [] [example_record ''bb'' ''192.168.0.10''] None"
  have c: "cached ready_world (\<lambda>_ _. e_nad ready_env []) (\<lambda>_ _. Inr ready_IPPool)"
    by (simp add: cached_def ready_world_def ready_env_def)
  have "st_IPv4 (ip_Status ready_IPPool) \<noteq> None" by (simp add: ready_IPPool_def set_conditions_def example_IPPool_def)
  then have n: "recorded_net ready_world ''default/net''"
    unfolding recorded_net_def
    by (intro exI [of _ "\<lambda>_ _. e_nad ready_env []"] exI [of _ "\<lambda>_ _. Inr ready_IPPool"] exI [of _ ready_IPPool])
      (intro conjI c, simp_all add: resolves_def ready_env_def nil_lookup_def IPPoolNamespaceLabelKey_def IPPoolNameLabelKey_def)
  have k: "known busy_state (example_record ''bb'' ''192.168.0.10'')"
    using busy_pool by (auto simp: known_def example_record_def busy_table)
  have st: "vst_NetworkConfigs (vm_Status ?v) = [example_record ''bb'' ''192.168.0.10'']" "vst_Conditions (vm_Status ?v) = []" "\<not> vmnetcfg_paused ?v"
    by (simp_all add: example_vmnetcfg_def is_paused_def)
  have m: "spec_macs ?v = {}" by (simp add: spec_macs_def example_vmnetcfg_def)
  have w: "set_error_laws (w_ext ready_world)" "retry_law (w_ext ready_world)" "accepting ready_world" "x_VmStatusEqual (w_ext ready_world) = (=)"
    using example_ext_laws by (simp_all add: accepting_def) (simp add: example_ext_def)
  from resync_progress [OF w st(3), of busy_state] show ?thesis
    by (simp add: st m n k) blast
qed

theorem applied_once_witness:
  "isNewResourceVersion \<lparr>g_Unique = True, g_key = (\<lambda>_. ''default/pool''), g_version = (\<lambda>_. ''7''), g_deleted = (\<lambda>_. False)\<rparr>
     (snd (fst (generating_Remove \<lparr>g_Unique = True, g_key = (\<lambda>_. ''default/pool''), g_version = (\<lambda>_. ''7''), g_deleted = (\<lambda>_. False)\<rparr>
       (\<lambda>_. example_IPPool) (\<lambda>_ (_ :: nat list) s. (None, s)) ''default/pool'' None [''default/pool'' \<mapsto> ''7''] start_state))) example_IPPool"
  using applied_once [of "\<lparr>g_Unique = True, g_key = (\<lambda>_. ''default/pool''), g_version = (\<lambda>_. ''7''), g_deleted = (\<lambda>_. False)\<rparr>" example_IPPool
      "\<lambda>_ st s. (([1], (st, None)), s)" "0 :: nat" start_state "[1]" 0 start_state "\<lambda>_ (_ :: nat list) s. (None, s)" start_state Map.empty _ "[''default/pool'' \<mapsto> ''7'']" _
      0 start_state "[1]" 0 start_state "\<lambda>_. example_IPPool"]
  by (simp add: generating_Handle_def isNewResourceVersion_def storeResourceVersion_def)

end
