(* ===== verification/System.thy ===== *)
theory System
  imports Status_Facts
begin

text \<open>
  The controller process as a whole.  Its handlers are called by the framework one at a time, in
  any order and on any objects; an \<open>event\<close> is such a call.  The theory shows that the process
  implements an abstract book of leases: every handler changes the book only by the actions
  that its object permits, no matter what the API server answers.
\<close>

section \<open>Events\<close>

text \<open>The stores of the process; everything else in its state is the history of its calls.\<close>

definition stores :: "ctl \<Rightarrow> IPAllocator \<times> CacheAllocator" where
  "stores s = (ipAllocator s, cacheAllocator s)"

lemma stores_simps [simp]: "stores (emit c s) = stores s"
  by (simp add: stores_def)

lemma stores_eqD: "stores s' = stores s \<Longrightarrow> ipAllocator s' = ipAllocator s \<and> cacheAllocator s' = cacheAllocator s"
  by (simp add: stores_def)

datatype event =
    PoolDeploy IPPool
  | PoolBuild IPPool
  | PoolMonitor IPPool
  | PoolChange string IPPool
  | PoolRemove IPPool
  | CfgAllocate VirtualMachineNetworkConfig
  | CfgSync VirtualMachineNetworkConfig
  | CfgChange string VirtualMachineNetworkConfig
  | CfgRemove VirtualMachineNetworkConfig
  | VmChange VirtualMachine
  | Restart

definition finish :: "('r \<times> ctl) outcome \<Rightarrow> ctl outcome" where
  "finish r = go_bind r (\<lambda>(_, s). Ret s)"

lemma finish_Ret_iff: "finish r = Ret s' \<longleftrightarrow> (\<exists>x. r = Ret (x, s'))"
  by (auto simp: finish_def go_bind_Ret_iff)

text \<open>What the process does on an event: the handler that \<open>Register\<close> of the controllers installs.\<close>

fun handle :: "world \<Rightarrow> Handler \<Rightarrow> event \<Rightarrow> ctl \<Rightarrow> ctl outcome" where
  "handle W h (PoolDeploy p) s = finish (ippool_register W h (Some p) s)"
| "handle W h (PoolBuild p) s = finish (ippool_cache_builder W (Some p) s)"
| "handle W h (PoolMonitor p) s = finish (ippool_agent_monitor W h (Some p) s)"
| "handle W h (PoolChange key p) s = finish (Ret (ippool_OnChange W key (Some p) s))"
| "handle W h (PoolRemove p) s = finish (Ret (ippool_OnRemove W h (Some p) s))"
| "handle W h (CfgAllocate v) s = finish (vmnetcfg_allocate W (Some v) s)"
| "handle W h (CfgSync v) s = finish (vmnetcfg_sync W (Some v) s)"
| "handle W h (CfgChange key v) s = finish (vmnetcfg_OnChange W key (Some v) s)"
| "handle W h (CfgRemove v) s = finish (vmnetcfg_OnRemove W (Some v) s)"
| "handle W h (VmChange vm) s = finish (vm_OnChange W (Some vm) s)"
| "handle W h Restart s = Ret (s\<lparr>ipAllocator := NewIPAllocator, cacheAllocator := NewCacheAllocator\<rparr>)"

text \<open>
  The events that the process is expected to survive: a pool that is loaded is over an IPv4 block
  and records specified addresses, and a record that is cleaned up does not name an address
  that meanwhile belongs to another interface.  The second condition is needed, see
  \<open>paused_cleanup_frees_reassigned\<close>.
\<close>

definition loadable :: "IPPool \<Rightarrow> bool" where
  "loadable p \<longleftrightarrow> (\<exists>w k. cidr4 (c4_CIDR (pool_config p)) w k) \<and> finite (dom (recorded p)) \<and> (\<forall>ip \<in> held (recorded p). specified ip)"

definition own_records :: "ctl \<Rightarrow> VirtualMachineNetworkConfig \<Rightarrow> bool" where
  "own_records s v \<longleftrightarrow> (\<forall>st \<in> set (vst_NetworkConfigs (vm_Status v)). not_stolen s st)"

fun admissible :: "event \<Rightarrow> ctl \<Rightarrow> bool" where
  "admissible (PoolBuild p) s = loadable p"
| "admissible (CfgSync v) s = own_records s v"
| "admissible (CfgChange _ v) s = (vmnetcfg_paused v \<longrightarrow> own_records s v)"
| "admissible (CfgRemove v) s = own_records s v"
| "admissible _ s = True"

section \<open>The book of leases\<close>

text \<open>For every open network, the address that each hardware address holds.\<close>

type_synonym book = "string \<rightharpoonup> (string \<rightharpoonup> string)"

datatype action =
    Grant string string string
  | Revoke string string
  | Open string
  | Close string
  | Reset

text \<open>A lease is granted only to an interface that has none, and only for an address that nobody
  else on the network holds.\<close>

inductive book_step :: "action \<Rightarrow> book \<Rightarrow> book \<Rightarrow> bool" where
  grant: "b n = Some t \<Longrightarrow> t mac = None \<Longrightarrow> ip \<notin> ran t \<Longrightarrow> book_step (Grant n mac ip) b (b(n \<mapsto> t(mac \<mapsto> ip)))"
| revoke: "b n = Some t \<Longrightarrow> book_step (Revoke n mac) b (b(n \<mapsto> t(mac := None)))"
| opened: "book_step (Open n) b (b(n \<mapsto> Map.empty))"
| closed: "book_step (Close n) b (b(n := None))"
| reset: "book_step Reset b Map.empty"

inductive_cases book_stepE:
  "book_step (Grant n mac ip) b b'" "book_step (Revoke n mac) b b'" "book_step (Open n) b b'"
  "book_step (Close n) b b'" "book_step Reset b b'"

definition allowed_step :: "(action \<Rightarrow> bool) \<Rightarrow> book \<Rightarrow> book \<Rightarrow> bool" where
  "allowed_step P b b' \<longleftrightarrow> (\<exists>a. P a \<and> book_step a b b')"

abbreviation book_run :: "(action \<Rightarrow> bool) \<Rightarrow> book \<Rightarrow> book \<Rightarrow> bool" where
  "book_run P \<equiv> (allowed_step P)\<^sup>*\<^sup>*"

definition book_of :: "ctl \<Rightarrow> book" where
  "book_of s = table_of (cacheAllocator s)"

lemma book_of_simps [simp]: "book_of (emit c s) = book_of s"
  by (simp add: book_of_def)

lemma book_of_stores: "stores s' = stores s \<Longrightarrow> book_of s' = book_of s"
  by (simp add: book_of_def stores_def)

lemma bound_book: "bound s n mac ip \<longleftrightarrow> (\<exists>t. book_of s n = Some t \<and> t mac = Some ip)"
  by (simp add: bound_def book_of_def)

lemma run1: "P a \<Longrightarrow> book_step a b b' \<Longrightarrow> book_run P b b'"
  unfolding allowed_step_def by (rule r_into_rtranclp) blast

lemma run_mono:
  assumes "book_run P b b'" "\<And>a. P a \<Longrightarrow> Q a"
  shows "book_run Q b b'"
  using assms(1) by (induction rule: rtranclp_induct) (use assms(2) in \<open>auto simp: allowed_step_def intro: rtranclp.rtrancl_into_rtrancl\<close>)

text \<open>What the handler of an event may do to the book.\<close>

fun permits :: "event \<Rightarrow> action \<Rightarrow> bool" where
  "permits (PoolBuild p) (Open n) = (n = pool_network p)"
| "permits (PoolBuild p) (Revoke n mac) = (n = pool_network p)"
| "permits (PoolBuild p) (Grant n mac ip) = (n = pool_network p \<and> mac \<notin> marks \<and>
     (\<exists>r. recorded p r = Some mac \<and> ParseIP ip = ParseIP r))"
| "permits (PoolChange _ p) (Close n) = (pool_paused p \<and> n = pool_network p)"
| "permits (PoolRemove p) (Close n) = (n = pool_network p)"
| "permits (CfgAllocate v) (Grant n mac ip) = (\<not> vmnetcfg_paused v \<and>
     (\<exists>nc \<in> set (vs_NetworkConfigs (vm_Spec v)). nc_NetworkName nc = n \<and> nc_MACAddress nc = mac))"
| "permits (CfgSync v) (Revoke n mac) = (\<exists>st \<in> set (vst_NetworkConfigs (vm_Status v)).
     ns_NetworkName st = n \<and> ns_MACAddress st = mac \<and> (mac \<notin> spec_macs v \<or> ns_State st = StaleState))"
| "permits (CfgChange _ v) (Revoke n mac) = (vmnetcfg_paused v \<and>
     (\<exists>st \<in> set (vst_NetworkConfigs (vm_Status v)). ns_NetworkName st = n \<and> ns_MACAddress st = mac))"
| "permits (CfgRemove v) (Revoke n mac) =
     (\<exists>st \<in> set (vst_NetworkConfigs (vm_Status v)). ns_NetworkName st = n \<and> ns_MACAddress st = mac)"
| "permits Restart Reset = True"
| "permits _ _ = False"

section \<open>The steps of the handlers\<close>

lemma obtain_ip_book:
  assumes "go_range (w_rng W)" "registry_ok s" "obtain_ip W v nc s = (r, s')"
  shows "book_run (\<lambda>a. \<exists>ip. a = Grant (nc_NetworkName nc) (nc_MACAddress nc) ip) (book_of s) (book_of s')"
proof (cases "stores s' = stores s")
  case True
  then have "book_of s' = book_of s" by (rule book_of_stores)
  then show ?thesis by simp
next
  case False
  let ?n = "nc_NetworkName nc" and ?mac = "nc_MACAddress nc"
  note ok = registry_okD [OF assms(2)]
  from False assms(3) have has: "HasMAC (cacheAllocator s) ?n ?mac = (False, None)"
    by (auto simp: obtain_ip_def split: prod.splits option.splits bool.splits)
  then obtain t where t: "table_of (cacheAllocator s) ?n = Some t" "t ?mac = None" using mac_cache.has_ok by fastforce
  obtain a ip aerr where al: "AllocateIP (w_rng W) (ipAllocator s) ?n (desired_ip v nc) = (a, ip, aerr)" by (metis prod_cases3)
  have e: "aerr = None"
    using False assms(3) has al by (cases aerr) (auto simp: obtain_ip_def stores_def dest: AllocateIP_err)
  obtain c where ad: "AddMAC (cacheAllocator s) ?n ?mac ip = (c, None)" using t(1) mac_cache.add_known by blast
  have s': "s' = s\<lparr>ipAllocator := a, cacheAllocator := c\<rparr>"
    using assms(3) has al ad e by (simp add: obtain_ip_def)
  from mac_cache.add_ok [OF ad AllocateIP_canonical [OF assms(1) ok(1) al [unfolded e]]] t(1)
  have c: "table_of c = (table_of (cacheAllocator s))(?n \<mapsto> t(?mac \<mapsto> ip))" by auto
  have "ip \<notin> ran t"
    using ipam_pool.alloc_moves(4) [OF assms(1) ok(1) al [unfolded e]] registry.consistentD(2) [OF ok(2) t(1)] by (auto simp: ran_def)
  with t have "book_step (Grant ?n ?mac ip) (book_of s) (book_of s')"
    unfolding book_of_def s' by (simp add: c book_step.grant)
  then show ?thesis by (intro run1) auto
qed

lemma allocate_one_book:
  assumes "go_range (w_rng W)" "registry_ok s" "allocate_one W v nc s = (r, s')"
  shows "book_run (\<lambda>a. \<exists>ip. a = Grant (nc_NetworkName nc) (nc_MACAddress nc) ip) (book_of s) (book_of s')"
proof -
  obtain g s1 where g: "getIPPoolFromNetworkConfig W nc s = (g, s1)" by fastforce
  then have f: "stores s1 = stores s" by (auto simp: getIPPoolFromNetworkConfig_def stores_def dest: getIPPoolFromNetworkName_frame)
  then have ok1: "registry_ok s1" using registry_ok_frame [OF assms(2), of s1] by (simp add: stores_def)
  obtain q s2 where q: "obtain_ip W v nc s1 = (q, s2)" by fastforce
  note o = obtain_ip_book [OF assms(1) ok1 q]
  have "stores s' = stores s1 \<or> stores s' = stores s2"
    using assms(3) g q
    by (auto simp: allocate_one_def stores_def Let_def split: sum.splits if_splits prod.splits option.splits dest!: store_pool_frame)
  then have "book_of s' = book_of s1 \<or> book_of s' = book_of s2" by (auto dest: book_of_stores)
  with o book_of_stores [OF f] show ?thesis by auto
qed

lemma allocate_loop_book:
  assumes "go_range (w_rng W)"
  shows "registry_ok s \<Longrightarrow> allocate_loop W v ncs acc s = (r, s') \<Longrightarrow>
    book_run (\<lambda>a. \<exists>nc \<in> set ncs. \<exists>ip. a = Grant (nc_NetworkName nc) (nc_MACAddress nc) ip) (book_of s) (book_of s')"
proof (induction ncs arbitrary: acc s)
  case (Cons nc ncs)
  obtain q s1 where q: "allocate_one W v nc s = (q, s1)" by fastforce
  have one: "book_run (\<lambda>a. \<exists>nc \<in> set (nc # ncs). \<exists>ip. a = Grant (nc_NetworkName nc) (nc_MACAddress nc) ip) (book_of s) (book_of s1)"
    by (rule run_mono [OF allocate_one_book [OF assms Cons.prems(1) q]]) auto
  show ?case
  proof (cases q)
    case (Inl e)
    with Cons.prems(2) q one show ?thesis by auto
  next
    case (Inr st)
    with Cons.prems(2) q have l: "allocate_loop W v ncs (acc @ [st]) s1 = (r, s')" by simp
    have "registry_ok s1" using allocate_one_ok [OF assms Cons.prems(1) q] by blast
    from run_mono [OF Cons.IH [OF this l]]
    have "book_run (\<lambda>a. \<exists>nc \<in> set (nc # ncs). \<exists>ip. a = Grant (nc_NetworkName nc) (nc_MACAddress nc) ip) (book_of s1) (book_of s')" by auto
    with one show ?thesis by (rule rtranclp_trans)
  qed
qed auto

lemma release_book:
  assumes "release st s = (r, s')"
  shows "book_run (\<lambda>a. a = Revoke (ns_NetworkName st) (ns_MACAddress st)) (book_of s) (book_of s')"
proof (cases r)
  case None
  from release_ok [OF assms [unfolded None]] obtain t where "table_of (cacheAllocator s) (ns_NetworkName st) = Some t"
    "table_of (cacheAllocator s') = (table_of (cacheAllocator s))(ns_NetworkName st \<mapsto> t(ns_MACAddress st := None))" by blast
  then have "book_step (Revoke (ns_NetworkName st) (ns_MACAddress st)) (book_of s) (book_of s')"
    unfolding book_of_def by (simp add: book_step.revoke)
  then show ?thesis by (intro run1) auto
next
  case (Some e)
  with release_err [of st s e s'] assms show ?thesis by (simp add: book_of_def)
qed

lemma cleanup_loop_book:
  assumes "retry_law (w_ext W)"
  shows "cleanup_loop W b sts s = Ret (err, s') \<Longrightarrow>
    book_run (\<lambda>a. \<exists>st \<in> cleaned b sts. a = Revoke (ns_NetworkName st) (ns_MACAddress st)) (book_of s) (book_of s')"
proof (induction sts arbitrary: s)
  case (Cons st sts)
  let ?P = "\<lambda>a. \<exists>st' \<in> cleaned b (st # sts). a = Revoke (ns_NetworkName st') (ns_MACAddress st')"
  have mono: "book_run ?P b1 b2" if "book_run (\<lambda>a. \<exists>st \<in> cleaned b sts. a = Revoke (ns_NetworkName st) (ns_MACAddress st)) b1 b2" for b1 b2
    using that by (rule run_mono) (auto simp: cleaned_def)
  show ?case
  proof (cases "\<not> b \<or> ns_State st = StaleState")
    case False
    with Cons mono show ?thesis by simp
  next
    case True
    obtain r s1 where r: "release st s = (r, s1)" by fastforce
    have one: "book_run ?P (book_of s) (book_of s1)"
      by (rule run_mono [OF release_book [OF r]]) (use True in \<open>auto simp: cleaned_def\<close>)
    show ?thesis
    proof (cases r)
      case (Some e)
      with Cons.prems True r one show ?thesis by auto
    next
      case None
      with Cons.prems True r obtain err2 s2 where s2: "x_RetryOnConflict (w_ext W) (drop_record W st) s1 = Ret (err2, s2)"
        "(case err2 of Some e \<Rightarrow> Ret (Some e, s2) | None \<Rightarrow> cleanup_loop W b sts s2) = Ret (err, s')"
        by (auto simp: go_bind_Ret_iff)
      have b2: "book_of s2 = book_of s1" using retry_frame [OF assms s2(1)] by (simp add: book_of_def)
      have "book_run ?P (book_of s2) (book_of s')"
        using s2(2) Cons.IH [of s2] mono by (cases err2) auto
      with one b2 show ?thesis by simp
    qed
  qed
qed auto

lemma cleanup_book:
  assumes "retry_law (w_ext W)" "vmnetcfg_cleanup W v b s = Ret (err, s')"
  shows "book_run (\<lambda>a. \<exists>st \<in> cleaned b (vst_NetworkConfigs (vm_Status v)). a = Revoke (ns_NetworkName st) (ns_MACAddress st))
    (book_of s) (book_of s')"
  using cleanup_loop_book [OF assms(1)] assms(2) by (fastforce simp: vmnetcfg_cleanup_def book_of_def split: if_splits)

text \<open>Loading a record: the interface loses what it held, and gets the recorded address.\<close>

lemma bind_recorded_book:
  assumes "go_range rng" "registry_ok s" "specified ip" "table_of (cacheAllocator s) n \<noteq> None"
    "AllocateIP rng (ipAllocator s) n ip = (a, ip', None)" "AddMAC (cacheAllocator s) n mac ip = (c, None)"
  shows "book_run (\<lambda>x. x = Revoke n mac \<or> (\<exists>i. ParseIP i = ParseIP ip \<and> x = Grant n mac i)) (book_of s) (table_of c)"
proof -
  note ok = registry_okD [OF assms(2)]
  obtain x where x: "ParseIP ip = IP16 (in6 x)" "ip' = string4 x"
    using AllocateIP_specified [OF assms(1) ok(1) assms(5,3)] by blast
  have "AddMAC (cacheAllocator s) n mac ip' = (c, None)" using assms(6) AddMAC_same [of ip "string4 x"] x by simp
  from mac_cache.add_ok [OF this AllocateIP_canonical [OF assms(1) ok(1) assms(5)]] obtain t where
    t: "table_of (cacheAllocator s) n = Some t" "table_of c = (table_of (cacheAllocator s))(n \<mapsto> t(mac \<mapsto> ip'))" by blast
  have "ip' \<notin> ran t"
    using ipam_pool.alloc_moves(4) [OF assms(1) ok(1) assms(5)] registry.consistentD(2) [OF ok(2) t(1)] by (auto simp: ran_def)
  then have fresh: "ip' \<notin> ran (t(mac := None))" using ran_del_subset [of t mac] by blast
  let ?P = "\<lambda>x. x = Revoke n mac \<or> (\<exists>i. ParseIP i = ParseIP ip \<and> x = Grant n mac i)"
  let ?b = "(book_of s)(n \<mapsto> t(mac := None))"
  have "allowed_step ?P (book_of s) ?b" using t(1) unfolding allowed_step_def book_of_def by (blast intro: book_step.revoke)
  moreover have "book_step (Grant n mac ip') ?b (?b(n \<mapsto> (t(mac := None))(mac \<mapsto> ip')))" by (rule book_step.grant) (simp_all add: fresh)
  then have "book_step (Grant n mac ip') ?b (table_of c)" by (simp add: t(2) book_of_def)
  then have "allowed_step ?P ?b (table_of c)" unfolding allowed_step_def using x by (intro exI [of _ "Grant n mac ip'"]) simp
  ultimately show ?thesis by (meson converse_rtranclp_into_rtranclp r_into_rtranclp)
qed

definition load_action :: "string \<Rightarrow> labels \<Rightarrow> action \<Rightarrow> bool" where
  "load_action n m a \<longleftrightarrow> (\<exists>mac. a = Revoke n mac) \<or>
     (\<exists>mac ip r. a = Grant n mac ip \<and> m r = Some mac \<and> mac \<notin> marks \<and> ParseIP ip = ParseIP r)"

lemma rebuild_book:
  assumes "go_range rng"
  shows "registry_ok s \<Longrightarrow> table_of (cacheAllocator s) n \<noteq> None \<Longrightarrow> (\<forall>ip \<in> held m. specified ip) \<Longrightarrow> set ks \<subseteq> dom m \<Longrightarrow>
    rebuild rng n m ks s = (err, s') \<Longrightarrow> book_run (load_action n m) (book_of s) (book_of s')"
proof (induction ks arbitrary: s)
  case (Cons ip ks)
  obtain mac where mac: "m ip = Some mac" using Cons.prems(4) by auto
  show ?case
  proof (cases "mac \<in> marks")
    case True
    with Cons mac show ?thesis by (auto simp: marks_def)
  next
    case False
    then have sp: "specified ip" using Cons.prems(3) mac by (auto simp: held_def)
    obtain a ip' aerr where al: "AllocateIP rng (ipAllocator s) n ip = (a, ip', aerr)" by (metis prod_cases3)
    obtain c where ad: "AddMAC (cacheAllocator s) n mac ip = (c, None)" using Cons.prems(2) AddMAC_known by blast
    show ?thesis
    proof (cases aerr)
      case None
      let ?s = "s\<lparr>ipAllocator := a, cacheAllocator := c\<rparr>"
      note al' = al [unfolded None]
      have "registry_ok ?s" by (rule bind_recorded [OF assms Cons.prems(1) sp al' ad])
      moreover have "table_of (cacheAllocator ?s) n \<noteq> None" using AddMAC_keeps_table [OF ad Cons.prems(2)] by simp
      moreover have "rebuild rng n m ks ?s = (err, s')" using Cons.prems(5) mac False al' ad by (simp add: marks_def)
      ultimately have "book_run (load_action n m) (book_of ?s) (book_of s')" using Cons.IH [of ?s] Cons.prems(3,4) by auto
      moreover have "book_run (load_action n m) (book_of s) (book_of ?s)"
        using bind_recorded_book [OF assms Cons.prems(1) sp Cons.prems(2) al' ad] mac False
        by (auto simp: book_of_def load_action_def elim!: run_mono)
      ultimately show ?thesis by simp
    next
      case (Some e)
      with Cons.prems(5) mac False al show ?thesis by (auto simp: marks_def book_of_def)
    qed
  qed
qed auto

lemma BuildCache_book:
  assumes "go_range (w_rng W)" "registry_ok s" "loadable p" "BuildCache W p status s = Ret (r, s')"
  shows "book_run (permits (PoolBuild p)) (book_of s) (book_of s')"
proof (cases "pool_paused p \<or> x_IsTrue (w_ext W) CacheReady (st_Conditions (ip_Status p))")
  case True
  then show ?thesis using BuildCache_guards [of p W status s] assms(4) by (cases "pool_paused p") auto
next
  case False
  then have go: "\<not> pool_paused p" "\<not> x_IsTrue (w_ext W) CacheReady (st_Conditions (ip_Status p))" by blast+
  obtain w k where wk: "cidr4 (c4_CIDR (pool_config p)) w k" using assms(3) by (auto simp: loadable_def)
  show ?thesis
  proof (cases "\<exists>lo hi. pool_bounds w k (pl_Start (c4_Pool (pool_config p))) (pl_End (c4_Pool (pool_config p))) lo hi")
    case True
    then obtain lo hi where b: "pool_bounds w k (pl_Start (c4_Pool (pool_config p))) (pl_End (c4_Pool (pool_config p))) lo hi" by blast
    let ?ks = "if st_IPv4 (ip_Status p) = None then [] else w_rng W (dom (recorded p))" and ?n = "pool_network p"
    obtain s1 where s1: "registry_ok s1"
      "table_of (cacheAllocator s1) = (table_of (cacheAllocator s))(?n \<mapsto> Map.empty)"
      "BuildCache W p status s = (case rebuild (w_rng W) ?n (recorded p) ?ks s1 of (err, s2) \<Rightarrow> Ret ((status, err), s2))"
      using BuildCache_loop [OF assms(2) go wk b] by blast
    obtain err where r: "rebuild (w_rng W) ?n (recorded p) ?ks s1 = (err, s')" using s1(3) assms(4) by (auto split: prod.splits)
    have "set ?ks \<subseteq> dom (recorded p)" using go_rangeD [OF assms(1)] assms(3) by (auto simp: ranges_def loadable_def)
    with rebuild_book [OF assms(1) s1(1) _ _ _ r] s1(2) assms(3)
    have "book_run (load_action ?n (recorded p)) (book_of s1) (book_of s')" by (simp add: loadable_def)
    then have "book_run (permits (PoolBuild p)) (book_of s1) (book_of s')"
      by (rule run_mono) (auto simp: load_action_def)
    moreover have "allowed_step (permits (PoolBuild p)) (book_of s) (book_of s1)"
      unfolding allowed_step_def by (intro exI [of _ "Open ?n"]) (auto simp: book_of_def s1(2) intro: book_step.opened)
    ultimately show ?thesis by simp
  next
    case False
    with NewIPSubnet_refused [OF wk False, of "ipAllocator s" "pool_network p"] BuildCache_refused [OF go] assms(4) show ?thesis
      by (auto simp: book_of_def)
  qed
qed

lemma ippool_cleanup_book:
  assumes "ippool_cleanup W p s = (err, s')"
  shows "book_run (\<lambda>a. a = Close (pool_network p)) (book_of s) (book_of s')"
proof (cases "book_of s' = book_of s")
  case False
  with assms have "book_of s' = (book_of s)(pool_network p := None)"
    by (auto simp: ippool_cleanup_def ask_def book_of_def table_of_delete split: option.splits if_splits)
  then show ?thesis using book_step.closed by (intro run1) auto
qed simp

section \<open>The handlers under the framework\<close>

text \<open>The framework itself does not touch the stores.\<close>

lemma status_sync_stores:
  assumes "status_sync x v cl cond handler (Some obj) s = Ret (res, s')"
    and "\<And>q s. stores (snd (sc_UpdateStatus cl q s)) = stores s"
  shows "\<exists>r cpy s1. handler obj (sc_status cl obj) s = Ret ((r, cpy), s1) \<and> stores s' = stores s1"
proof -
  obtain r cpy s1 where h: "handler obj (sc_status cl obj) s = Ret ((r, cpy), s1)"
    using assms(1) by (auto simp: status_sync_def go_bind_Ret_iff)
  have "stores s' = stores s1"
  proof (cases "sc_equal cl (sc_status cl obj) (next_status x cl cond (sc_status cl obj) r)")
    case True
    with assms(1) h show ?thesis by (auto simp: status_sync_def Let_def)
  next
    case False
    with assms(1) h have "\<exists>q. s' = snd (sc_UpdateStatus cl q (if cond = [] then s1 else emit Now s1))"
      by (auto simp: status_sync_def Let_def ask_def split: prod.split_asm) (metis snd_conv)+
    with assms(2) show ?thesis by auto
  qed
  with h show ?thesis by blast
qed

lemma pool_sync_stores:
  assumes "iPPoolStatusHandler_sync W cond (plain f) (Some p) s = Ret (res, s')"
  shows "\<exists>r s1. f p (ip_Status p) s = Ret (r, s1) \<and> stores s' = stores s1"
  using status_sync_stores [OF assms [unfolded iPPoolStatusHandler_sync_def]]
  by (fastforce simp: ippool_UpdateStatus_eq plain_def go_bind_Ret_iff)

lemma vm_UpdateStatus_stores: "stores (snd (vmnetcfg_UpdateStatus W q s)) = stores s"
  by (auto simp: vmnetcfg_UpdateStatus_def ask_def split: sum.splits)

lemma vm_sync_stores:
  assumes "virtualMachineNetworkConfigStatusHandler_sync W cond handler (Some v) s = Ret (res, s')"
  shows "\<exists>r cpy s1. handler v (vm_Status v) s = Ret ((r, cpy), s1) \<and> stores s' = stores s1"
  using status_sync_stores [OF assms [unfolded virtualMachineNetworkConfigStatusHandler_sync_def]]
  by (fastforce simp: vm_UpdateStatus_stores)

lemma deploy_new_stores: "deploy_new W h p st n s = (r, s') \<Longrightarrow> stores s' = stores s"
  by (auto simp: deploy_new_def Let_def ask_def split: sum.split_asm if_split_asm)

lemma DeployAgent_stores: "DeployAgent W h p st s = Ret (r, s') \<Longrightarrow> stores s' = stores s"
  by (auto simp: DeployAgent_def Let_def ask_def dest!: deploy_new_stores elim!: go_bind_RetE
      split: if_split_asm prod.split_asm sum.split_asm option.split_asm)

lemma MonitorAgent_stores: "MonitorAgent W h p st s = Ret (r, s') \<Longrightarrow> stores s' = stores s"
  by (auto simp: MonitorAgent_def Let_def ask_def split: if_splits prod.splits sum.splits option.splits)

lemma vm_OnChange_stores: "vm_OnChange W obj s = Ret (r, s') \<Longrightarrow> stores s' = stores s"
  by (auto simp: vm_OnChange_def reconcile_vmnetcfg_def Let_def ask_def split: if_splits prod.splits sum.splits option.splits)

lemma ippool_refresh_stores: "ippool_refresh W key p q s = (r, s') \<Longrightarrow> stores s' = stores s"
  by (auto simp: ippool_refresh_def Let_def ask_def ippool_UpdateStatus_def stores_def split: if_splits prod.splits sum.splits option.splits)

lemma ippool_OnChange_stores:
  assumes "ippool_OnChange W key (Some p) s = (r, s')"
  shows "stores s' = stores s \<or> pool_paused p \<and> (\<exists>t err s1. stores t = stores s \<and> ippool_cleanup W p t = (err, s1) \<and> stores s' = stores s1)"
proof -
  obtain err s1 where e: "ensureNADLabels W p s = (err, s1)" by fastforce
  have f: "stores s1 = stores s" using ensureNADLabels_frame [OF e] by (simp add: stores_def)
  show ?thesis
  proof (cases "om_DeletionTimestamp (ip_Meta p) = None \<and> err = None")
    case False
    with assms e f show ?thesis by (auto simp: ippool_OnChange_def split: if_splits option.splits)
  next
    case True
    show ?thesis
    proof (cases "pool_paused p")
      case True
      obtain err2 s2 where c: "ippool_cleanup W p s1 = (err2, s2)" by fastforce
      have "stores s' = stores s2"
        using assms e c True \<open>om_DeletionTimestamp (ip_Meta p) = None \<and> err = None\<close>
        by (auto simp: ippool_OnChange_def Let_def ippool_UpdateStatus_def ask_def split: option.splits if_splits sum.splits)
      with True f c show ?thesis by blast
    next
      case False
      have "stores s' = stores s1"
        using assms e False \<open>om_DeletionTimestamp (ip_Meta p) = None \<and> err = None\<close>
        by (auto simp: ippool_OnChange_def Let_def ippool_UpdateStatus_def ask_def split: option.splits if_splits sum.splits
            dest!: ippool_refresh_stores)
      with f show ?thesis by simp
    qed
  qed
qed

lemma vmnetcfg_OnChange_stores:
  assumes "vmnetcfg_OnChange W key (Some v) s = Ret (r, s')"
  shows "stores s' = stores s \<or>
    vmnetcfg_paused v \<and> (\<exists>err s1. vmnetcfg_cleanup W v False s = Ret (err, s1) \<and> stores s' = stores s1)"
  using assms
  by (auto simp: vmnetcfg_OnChange_def go_bind_Ret_iff Let_def vmnetcfg_UpdateStatus_def ask_def
      split: if_splits option.splits sum.splits)

lemma Sync_stores:
  assumes "Sync W True v (vm_Status v) s = Ret (r, s')"
  shows "s' = s \<or> (\<exists>err. cleanup_loop W True (mark_stale (spec_macs v) (vst_NetworkConfigs (vm_Status v))) s = Ret (err, s'))"
  using assms by (auto simp: Sync_def vmnetcfg_cleanup_def spec_macs_def Let_def go_bind_Ret_iff split: if_splits option.splits)

end
