(* ===== verification/System_Facts.thy ===== *)
theory System_Facts
  imports System
begin

text \<open>
  Executions of the controller process: the refinement of the abstract book of leases, the
  exclusiveness of leases in every reachable state, and their stability.
\<close>

section \<open>Implementations of the book\<close>

inductive exec :: "('e \<Rightarrow> 's \<Rightarrow> 's \<Rightarrow> bool) \<Rightarrow> 's \<Rightarrow> 'e list \<Rightarrow> 's \<Rightarrow> bool" for step where
  Nil: "exec step s [] s"
| Cons: "step e s s1 \<Longrightarrow> exec step s1 es s' \<Longrightarrow> exec step s (e # es) s'"

inductive_simps exec_Nil_iff [simp]: "exec step s [] s'"
inductive_simps exec_Cons_iff: "exec step s (e # es) s'"

text \<open>The action takes a lease away from an interface.\<close>

fun takes :: "action \<Rightarrow> string \<Rightarrow> string \<Rightarrow> bool" where
  "takes (Revoke n' mac') n mac = (n' = n \<and> mac' = mac)"
| "takes (Open n') n mac = (n' = n)"
| "takes (Close n') n mac = (n' = n)"
| "takes Reset n mac = True"
| "takes (Grant _ _ _) n mac = False"

definition holds :: "book \<Rightarrow> string \<Rightarrow> string \<Rightarrow> string \<Rightarrow> bool" where
  "holds b n mac ip \<longleftrightarrow> (\<exists>t. b n = Some t \<and> t mac = Some ip)"

definition exclusive :: "book \<Rightarrow> bool" where
  "exclusive b \<longleftrightarrow> (\<forall>n mac mac' ip. holds b n mac ip \<longrightarrow> holds b n mac' ip \<longrightarrow> mac = mac')"

text \<open>The book on its own: leases stay exclusive, and an action only takes the leases it names.\<close>

lemma book_step_exclusive: "book_step a b b' \<Longrightarrow> exclusive b \<Longrightarrow> exclusive b'"
  by (induction rule: book_step.induct) (fastforce simp: exclusive_def holds_def ran_def split: if_splits)+

lemma book_step_keeps: "book_step a b b' \<Longrightarrow> \<not> takes a n mac \<Longrightarrow> holds b n mac ip \<Longrightarrow> holds b' n mac ip"
  by (induction rule: book_step.induct) (auto simp: holds_def)

lemma book_run_exclusive: "book_run P b b' \<Longrightarrow> exclusive b \<Longrightarrow> exclusive b'"
  by (induction rule: rtranclp_induct) (auto simp: allowed_step_def dest: book_step_exclusive)

lemma book_run_keeps: "book_run P b b' \<Longrightarrow> (\<forall>a. P a \<longrightarrow> \<not> takes a n mac) \<Longrightarrow> holds b n mac ip \<Longrightarrow> holds b' n mac ip"
  by (induction rule: rtranclp_induct) (auto simp: allowed_step_def dest: book_step_keeps)

text \<open>
  A system whose steps are labelled with events implements the book when every step keeps an
  invariant and acts on the book only as its event permits.
\<close>

locale lease_implementation =
  fixes step :: "'e \<Rightarrow> 's \<Rightarrow> 's \<Rightarrow> bool"
    and inv :: "'s \<Rightarrow> bool"
    and book :: "'s \<Rightarrow> book"
    and may :: "'e \<Rightarrow> action \<Rightarrow> bool"
  assumes step_inv: "inv s \<Longrightarrow> step e s s' \<Longrightarrow> inv s'"
    and step_book: "inv s \<Longrightarrow> step e s s' \<Longrightarrow> book_run (may e) (book s) (book s')"
begin

lemma exec_refines:
  "exec step s es s' \<Longrightarrow> inv s \<Longrightarrow> inv s' \<and> book_run (\<lambda>a. \<exists>e \<in> set es. may e a) (book s) (book s')"
proof (induction rule: exec.induct)
  case (Cons e s s1 es s')
  have "book_run (\<lambda>a. \<exists>x \<in> set (e # es). may x a) (book s) (book s1)"
    by (rule run_mono [OF step_book [OF Cons.prems Cons.hyps(1)]]) simp
  moreover have "book_run (\<lambda>a. \<exists>x \<in> set (e # es). may x a) (book s1) (book s')"
    using Cons.IH step_inv [OF Cons.prems Cons.hyps(1)] by (auto elim!: run_mono)
  ultimately show ?case using Cons.IH step_inv [OF Cons.prems Cons.hyps(1)] by auto
qed simp

lemma exec_exclusive:
  assumes "exec step s es s'" "inv s" "exclusive (book s)"
  shows "exclusive (book s')"
  using exec_refines [OF assms(1,2)] assms(3) by (blast intro: book_run_exclusive)

lemma exec_keeps:
  assumes "exec step s es s'" "inv s" "holds (book s) n mac ip" "\<forall>e \<in> set es. \<forall>a. may e a \<longrightarrow> \<not> takes a n mac"
  shows "holds (book s') n mac ip"
proof (rule book_run_keeps [OF conjunct2 [OF exec_refines [OF assms(1,2)]] _ assms(3)])
  show "\<forall>a. (\<exists>e \<in> set es. may e a) \<longrightarrow> \<not> takes a n mac" using assms(4) by blast
qed

end

section \<open>The controller implements the book\<close>

definition lawful :: "world \<Rightarrow> bool" where
  "lawful W \<longleftrightarrow> go_range (w_rng W) \<and> retry_law (w_ext W)"

definition controller_step :: "world \<Rightarrow> Handler \<Rightarrow> event \<Rightarrow> ctl \<Rightarrow> ctl \<Rightarrow> bool" where
  "controller_step W h e s s' \<longleftrightarrow> admissible e s \<and> handle W h e s = Ret s'"

lemma holds_bound: "holds (book_of s) = bound s"
  by (simp add: fun_eq_iff holds_def bound_book)

text \<open>An event on which the stores end up as in some other state.\<close>

definition good :: "event \<Rightarrow> ctl \<Rightarrow> ctl \<Rightarrow> bool" where
  "good e s s' \<longleftrightarrow> registry_ok s' \<and> book_run (permits e) (book_of s) (book_of s')"

lemma good_frame:
  assumes "stores s' = stores s1" "good e s s1"
  shows "good e s s'"
  using assms(2) book_of_stores [OF assms(1)] registry_ok_frame [of s1 s'] stores_eqD [OF assms(1)] by (simp add: good_def)

lemma good_same: "registry_ok s \<Longrightarrow> stores s' = stores s \<Longrightarrow> good e s s'"
  by (rule good_frame [of s' s]) (simp_all add: good_def)

lemma good_build:
  assumes "lawful W" "registry_ok s" "loadable p" "handle W h (PoolBuild p) s = Ret s'"
  shows "good (PoolBuild p) s s'"
proof -
  obtain r s1 where b: "BuildCache W p (ip_Status p) s = Ret (r, s1)" "stores s' = stores s1"
    using assms(4) pool_sync_stores [of W CacheReady "BuildCache W" p s] by (fastforce simp: ippool_cache_builder_def finish_Ret_iff)
  have law: "go_range (w_rng W)" using assms(1) by (simp add: lawful_def)
  obtain w k where p: "cidr4 (c4_CIDR (pool_config p)) w k" "finite (dom (recorded p))" "\<forall>ip \<in> held (recorded p). specified ip"
    using assms(3) by (auto simp: loadable_def)
  from BuildCache_registry [OF law assms(2) p, of "ip_Status p"] b(1) have "registry_ok s1" by auto
  with BuildCache_book [OF law assms(2,3) b(1)] show ?thesis by (intro good_frame [OF b(2)]) (simp add: good_def)
qed

lemma good_teardown:
  assumes "registry_ok s" "stores t = stores s" "ippool_cleanup W p t = (err, s1)" "stores s' = stores s1"
    "permits e (Close (pool_network p))"
  shows "good e s s'"
proof (rule good_frame [OF assms(4)])
  have "registry_ok t" using registry_ok_frame [OF assms(1)] stores_eqD [OF assms(2)] by blast
  then have "registry_ok s1" using ippool_cleanup_registry [of t W p] assms(3) by simp
  moreover have "book_run (permits e) (book_of t) (book_of s1)"
    using ippool_cleanup_book [OF assms(3)] by (rule run_mono) (simp add: assms(5))
  ultimately show "good e s s1" using book_of_stores [OF assms(2)] by (simp add: good_def)
qed

lemma good_allocate:
  assumes "lawful W" "registry_ok s" "handle W h (CfgAllocate v) s = Ret s'"
  shows "good (CfgAllocate v) s s'"
proof -
  have law: "go_range (w_rng W)" using assms(1) by (simp add: lawful_def)
  obtain res where "virtualMachineNetworkConfigStatusHandler_sync W Allocated (plain (\<lambda>v st s. Ret (Allocate W v st s))) (Some v) s = Ret (res, s')"
    using assms(3) by (auto simp: vmnetcfg_allocate_def finish_Ret_iff)
  from vm_sync_stores [OF this] obtain st err s1 where a: "Allocate W v (vm_Status v) s = ((st, err), s1)" "stores s' = stores s1"
    by (auto simp: plain_def split: prod.splits)
  have "book_run (permits (CfgAllocate v)) (book_of s) (book_of s1)"
  proof (cases "s1 = s")
    case False
    with a(1) obtain q where p: "\<not> vmnetcfg_paused v" and l: "allocate_loop W v (vs_NetworkConfigs (vm_Spec v)) [] s = (q, s1)"
      by (auto simp: Allocate_def split: if_splits prod.splits sum.splits)
    show ?thesis by (rule run_mono [OF allocate_loop_book [OF law assms(2) l]]) (use p in auto)
  qed simp
  with Allocate_ok [OF law assms(2) a(1)] show ?thesis by (intro good_frame [OF a(2)]) (simp add: good_def)
qed

lemma good_cleanup:
  assumes "lawful W" "registry_ok s" "own_records s v" "vmnetcfg_cleanup W v False s = Ret (err, s1)" "stores s' = stores s1"
    "\<And>st. st \<in> set (vst_NetworkConfigs (vm_Status v)) \<Longrightarrow> permits e (Revoke (ns_NetworkName st) (ns_MACAddress st))"
  shows "good e s s'"
proof (rule good_frame [OF assms(5)])
  have law: "retry_law (w_ext W)" using assms(1) by (simp add: lawful_def)
  let ?s = "DeleteVmNetCfgStatus (w_env W) (vmnetcfg_key v) s" and ?sts = "vst_NetworkConfigs (vm_Status v)"
  have ok: "registry_ok ?s" and b: "bound ?s = bound s" using registry_ok_frame [OF assms(2), of ?s] bound_frame [of ?s s] by simp_all
  have "\<forall>st \<in> set ?sts. not_stolen ?s st" using assms(3) by (simp add: own_records_def not_stolen_def b)
  from cleanup_loop_registry [OF law ok this, of False err s1] assms(4) have "registry_ok s1" by (simp add: vmnetcfg_cleanup_def)
  moreover have "book_run (permits e) (book_of s) (book_of s1)"
    using cleanup_book [OF law assms(4)] by (rule run_mono) (use assms(6) in \<open>auto simp: cleaned_def\<close>)
  ultimately show "good e s s1" by (simp add: good_def)
qed

lemma good_sync:
  assumes "lawful W" "registry_ok s" "own_records s v" "handle W h (CfgSync v) s = Ret s'"
  shows "good (CfgSync v) s s'"
proof -
  have law: "retry_law (w_ext W)" using assms(1) by (simp add: lawful_def)
  let ?sts = "mark_stale (spec_macs v) (vst_NetworkConfigs (vm_Status v))"
  obtain r s1 where y: "Sync W True v (vm_Status v) s = Ret (r, s1)" "stores s' = stores s1"
    using assms(4) vm_sync_stores [of W InSynced "\<lambda>v st s. go_bind (Sync W True v st s) (\<lambda>(r, s1). Ret ((r, marked_object W v), s1))" v s]
    by (fastforce simp: vmnetcfg_sync_def finish_Ret_iff go_bind_Ret_iff)
  from Sync_stores [OF y(1)] show ?thesis
  proof (elim disjE exE)
    fix err assume c: "cleanup_loop W True ?sts s = Ret (err, s1)"
    have "\<forall>st \<in> set ?sts. not_stolen s st" using assms(3) by (intro mark_stale_not_stolen) (auto simp: own_records_def)
    from cleanup_loop_registry [OF law assms(2) this c] have "registry_ok s1" by blast
    moreover have "book_run (permits (CfgSync v)) (book_of s) (book_of s1)"
      by (rule run_mono [OF cleanup_loop_book [OF law c]]) (auto simp: cleaned_def mark_stale_def split: if_splits)
    ultimately show ?thesis by (intro good_frame [OF y(2)]) (simp add: good_def)
  next
    assume "s1 = s"
    with y(2) show ?thesis by (intro good_same [OF assms(2)]) simp
  qed
qed

lemma good_restart: "good Restart s (s\<lparr>ipAllocator := NewIPAllocator, cacheAllocator := NewCacheAllocator\<rparr>)"
proof -
  let ?s = "s\<lparr>ipAllocator := NewIPAllocator, cacheAllocator := NewCacheAllocator\<rparr>"
  have "registry_ok ?s" using registry_ok_frame [OF start_registry_ok, of ?s] by simp
  moreover have "book_of ?s = Map.empty" by (simp add: book_of_def table_of_def NewCacheAllocator_def fun_eq_iff)
  then have "book_run (permits Restart) (book_of s) (book_of ?s)" by (intro run1 [of _ Reset]) (simp_all add: book_step.reset)
  ultimately show ?thesis by (simp add: good_def)
qed

lemma controller_step_good:
  assumes "lawful W" "registry_ok s" "admissible e s" "handle W h e s = Ret s'"
  shows "good e s s'"
proof (cases e)
  case (PoolDeploy p)
  with assms(4) pool_sync_stores [of W Registered "DeployAgent W h" p s] have "stores s' = stores s"
    by (fastforce simp: ippool_register_def finish_Ret_iff dest: DeployAgent_stores)
  then show ?thesis by (rule good_same [OF assms(2)])
next
  case (PoolMonitor p)
  with assms(4) pool_sync_stores [of W AgentReady "MonitorAgent W h" p s] have "stores s' = stores s"
    by (fastforce simp: ippool_agent_monitor_def finish_Ret_iff dest: MonitorAgent_stores)
  then show ?thesis by (rule good_same [OF assms(2)])
next
  case (PoolChange key p)
  with assms(4) obtain r where "ippool_OnChange W key (Some p) s = (r, s')" by (auto simp: finish_Ret_iff)
  from ippool_OnChange_stores [OF this] show ?thesis
    by (elim disjE exE conjE) (auto intro: good_same [OF assms(2)] good_teardown [OF assms(2)] simp: PoolChange)
next
  case (PoolRemove p)
  with assms(4) have "s' = s \<or> (\<exists>err. ippool_cleanup W p s = (err, s'))"
    by (auto simp: finish_Ret_iff ippool_OnRemove_def split: if_splits prod.splits)
  then show ?thesis by (elim disjE exE) (auto intro: good_same [OF assms(2)] good_teardown [OF assms(2)] simp: PoolRemove)
next
  case (CfgChange key v)
  with assms(4) obtain r where "vmnetcfg_OnChange W key (Some v) s = Ret (r, s')" by (auto simp: finish_Ret_iff)
  from vmnetcfg_OnChange_stores [OF this] show ?thesis
  proof (elim disjE conjE exE)
    fix err s1 assume c: "vmnetcfg_paused v" "vmnetcfg_cleanup W v False s = Ret (err, s1)" "stores s' = stores s1"
    with assms(3) have "own_records s v" by (simp add: CfgChange)
    then show ?thesis unfolding CfgChange by (rule good_cleanup [OF assms(1,2) _ c(2,3)]) (use c(1) in auto)
  qed (rule good_same [OF assms(2)])
next
  case (CfgRemove v)
  with assms(4) obtain err where c: "vmnetcfg_cleanup W v False s = Ret (err, s')"
    by (auto simp: finish_Ret_iff vmnetcfg_OnRemove_def go_bind_Ret_iff)
  have "own_records s v" using assms(3) by (simp add: CfgRemove)
  then show ?thesis unfolding CfgRemove by (rule good_cleanup [OF assms(1,2) _ c refl]) auto
next
  case (VmChange vm)
  with assms(4) have "stores s' = stores s" by (auto simp: finish_Ret_iff dest: vm_OnChange_stores)
  then show ?thesis by (rule good_same [OF assms(2)])
qed (use assms good_build good_allocate good_sync good_restart in auto)

interpretation controller: lease_implementation "controller_step W h" "\<lambda>s. lawful W \<and> registry_ok s" book_of permits for W h
  by unfold_locales (auto simp: controller_step_def good_def dest: controller_step_good)

section \<open>Properties of executions\<close>

text \<open>
  [C1] The controller refines the abstract book of leases.  Whatever handler runs on an admissible
  event, and whatever the API server answers meanwhile, the handler leaves the two stores
  consistent, and its effect on the bindings is a sequence of actions of the book that the
  event permits: an allocation only grants leases to the interfaces of its object, a
  cleanup only revokes leases recorded in its object, a pool handler only touches its network.
\<close>

theorem event_refines_book:
  assumes "lawful W" "registry_ok s" "admissible e s" "handle W h e s = Ret s'"
  shows "registry_ok s' \<and> book_run (permits e) (book_of s) (book_of s')"
  using controller_step_good [OF assms] by (simp add: good_def)


text \<open>
  [C12] Leases are stable.  An interface keeps its address throughout any execution that neither
  loads, pauses or removes the pool of its network, nor restarts the process, nor cleans up an
  object that records the interface: other machines coming and going do not affect it.
\<close>

theorem lease_stable:
  assumes "lawful W" "registry_ok s" "exec (controller_step W h) s es s'" "bound s n mac ip"
    "\<forall>e \<in> set es. \<not> permits e (Revoke n mac) \<and> \<not> permits e (Open n) \<and> \<not> permits e (Close n) \<and> e \<noteq> Restart"
  shows "bound s' n mac ip \<and> GetIPByMAC (cacheAllocator s') n mac = (ip, None)"
proof -
  have "\<not> takes a n mac" if "e \<in> set es" "permits e a" for e a
    using bspec [OF assms(5) that(1)] that(2) by (cases a; cases e) auto
  then have "holds (book_of s') n mac ip"
    using controller.exec_keeps [OF assms(3)] assms(1,2,4) by (simp add: holds_bound)
  then show ?thesis by (simp add: holds_bound bound_GetIPByMAC)
qed

section \<open>Examples\<close>

lemma lawful_examples [simp]: "lawful example_world" "lawful ready_world"
  using example_ext_laws(3) by (simp_all add: lawful_def go_range_sorted)

lemma example_loadable: "loadable example_IPPool"
proof -
  have "specified ''192.168.0.12''" using string4_12 [symmetric] by (simp add: specified_def)
  then show ?thesis unfolding loadable_def
    using example_bounds(1) example_build_hyps(3) by (auto simp: example_held example_IPPool_simps)
qed

text \<open>Loading the example pool is an execution from the start that binds the recorded interface.\<close>

lemma example_build:
  "\<exists>s. handle example_world h (PoolBuild example_IPPool) start_state = Ret s \<and> bound s ''default/net'' ''aa:bb:cc:dd:ee:ff'' ''192.168.0.12''"
proof -
  obtain s1 t where b: "BuildCache example_world example_IPPool (ip_Status example_IPPool) start_state = Ret ((ip_Status example_IPPool, None), s1)"
    "table_of (cacheAllocator s1) ''default/net'' = Some t" "t ''aa:bb:cc:dd:ee:ff'' = Some ''192.168.0.12''"
    using example_BuildCache by blast
  let ?h = "plain (BuildCache example_world)"
  have r: "?h example_IPPool (sc_status (ippool_client example_world) example_IPPool) start_state =
      Ret (((ip_Status example_IPPool, None), example_IPPool), s1)" by (simp add: plain_def b(1))
  have "CacheReady \<noteq> []" by (simp add: CacheReady_def)
  then obtain res s' where run: "iPPoolStatusHandler_sync example_world CacheReady ?h (Some example_IPPool) start_state = Ret (res, s')"
    using pool_status.status_sync_total [of ?h example_IPPool example_world start_state _ example_IPPool s1 CacheReady] r
    unfolding iPPoolStatusHandler_sync_def by force
  from pool_sync_stores [OF run] b have "stores s' = stores s1" by auto
  with b have "bound s' ''default/net'' ''aa:bb:cc:dd:ee:ff'' ''192.168.0.12''" by (simp add: bound_def stores_def)
  with run show ?thesis by (auto simp: ippool_cache_builder_def finish_def)
qed

theorem event_refines_book_witness:
  "\<exists>s'. handle example_world example_handler (PoolBuild example_IPPool) start_state = Ret s' \<and> registry_ok s' \<and>
    book_run (permits (PoolBuild example_IPPool)) Map.empty (book_of s')"
proof -
  obtain s' where s: "handle example_world example_handler (PoolBuild example_IPPool) start_state = Ret s'" using example_build by blast
  have "book_of start_state = Map.empty" by (simp add: book_of_def table_of_def NewCacheAllocator_def fun_eq_iff)
  with event_refines_book [OF lawful_examples(1) start_registry_ok _ s] s example_loadable show ?thesis by simp
qed


theorem lease_stable_witness:
  "\<exists>s'. exec (controller_step ready_world example_handler) busy_state [CfgAllocate (example_vmnetcfg [example_nic ''bb''] [] None)] s' \<and>
    GetIPByMAC (cacheAllocator s') ''default/net'' ''bb'' = (''192.168.0.10'', None)"
proof -
  let ?v = "example_vmnetcfg [example_nic ''bb''] [] None" and ?h = "plain (\<lambda>v st s. Ret (Allocate ready_world v st s))"
  obtain st s1 where a: "Allocate ready_world ?v (vm_Status ?v) busy_state = ((st, None), s1)" using ready_Allocate by blast
  have "?h ?v (vm_Status ?v) busy_state = Ret (((st, None), ?v), s1)" by (simp add: plain_def a)
  then obtain res s' where run: "vmnetcfg_allocate ready_world (Some ?v) busy_state = Ret (res, s')"
    using vm_status.status_sync_total [of ?h ?v ready_world busy_state "(st, None)" ?v s1 Allocated]
    unfolding vmnetcfg_allocate_def virtualMachineNetworkConfigStatusHandler_sync_def by (force simp: Allocated_def)
  then have x: "exec (controller_step ready_world example_handler) busy_state [CfgAllocate ?v] s'"
    by (simp add: exec_Cons_iff controller_step_def finish_def)
  from lease_stable [OF lawful_examples(2) busy_ok x busy_bound] x show ?thesis by auto
qed

end
