(* ===== verification/Interleaving.thy ===== *)
theory Interleaving
  imports System_Facts
begin

text \<open>
  Interleaving inside a handler.  The workers of different resources run concurrently and the
  stores exclude each other per operation only, so a handler of a pool can run between
  the allocation of an address and its entry into the MAC cache by \<open>Allocate\<close>.  The theory splits
  that step at this point: tearing the pool down in between is harmless, loading it is not.
\<close>

section \<open>Two halves of an allocation\<close>

datatype pending = Done "go_error + string" | Bind string

definition obtain_begin :: "world \<Rightarrow> VirtualMachineNetworkConfig \<Rightarrow> NetworkConfig \<Rightarrow> ctl \<Rightarrow> pending \<times> ctl" where
  "obtain_begin W vmNetCfg nc s =
     (case HasMAC (cacheAllocator s) (nc_NetworkName nc) (nc_MACAddress nc) of
        (_, Some e) \<Rightarrow> (Done (Inl e), s)
      | (True, None) \<Rightarrow>
          (case GetIPByMAC (cacheAllocator s) (nc_NetworkName nc) (nc_MACAddress nc) of
             (_, Some e) \<Rightarrow> (Done (Inl e), s)
           | (ip, None) \<Rightarrow> (Done (Inr ip), s))
      | (False, None) \<Rightarrow>
          (case AllocateIP (w_rng W) (ipAllocator s) (nc_NetworkName nc) (desired_ip vmNetCfg nc) of
             (a, _, Some e) \<Rightarrow> (Done (Inl e), s\<lparr>ipAllocator := a\<rparr>)
           | (a, ip, None) \<Rightarrow> (Bind ip, s\<lparr>ipAllocator := a\<rparr>)))"

definition obtain_end :: "NetworkConfig \<Rightarrow> pending \<Rightarrow> ctl \<Rightarrow> (go_error + string) \<times> ctl" where
  "obtain_end nc p s =
     (case p of
        Done r \<Rightarrow> (r, s)
      | Bind ip \<Rightarrow>
          (case AddMAC (cacheAllocator s) (nc_NetworkName nc) (nc_MACAddress nc) ip of
             (c, Some e) \<Rightarrow> (Inl e, s\<lparr>cacheAllocator := c\<rparr>)
           | (c, None) \<Rightarrow> (Inr ip, s\<lparr>cacheAllocator := c\<rparr>)))"

lemma obtain_ip_halves:
  "obtain_ip W v nc s = (case obtain_begin W v nc s of (p, s1) \<Rightarrow> obtain_end nc p s1)"
  by (auto simp: obtain_ip_def obtain_begin_def obtain_end_def split: prod.splits option.splits bool.splits)

text \<open>After the first half the address is in use, but nobody holds it yet.\<close>

lemma obtain_begin_bind:
  assumes "go_range (w_rng W)" "registry_ok s" "obtain_begin W v nc s = (Bind ip, s1)"
  shows "registry_ok s1 \<and> cacheAllocator s1 = cacheAllocator s \<and> ip \<in> ipam_pool.in_use (ipAllocator s1) (nc_NetworkName nc) \<and>
    canonical_ip ip \<and> (\<forall>mac. \<not> bound s (nc_NetworkName nc) mac ip) \<and> (\<forall>i. \<not> bound s (nc_NetworkName nc) (nc_MACAddress nc) i)"
proof -
  let ?n = "nc_NetworkName nc"
  note ok = registry_okD [OF assms(2)]
  obtain a where al: "AllocateIP (w_rng W) (ipAllocator s) ?n (desired_ip v nc) = (a, ip, None)" "s1 = s\<lparr>ipAllocator := a\<rparr>"
    and has: "HasMAC (cacheAllocator s) ?n (nc_MACAddress nc) = (False, None)"
    using assms(3) by (auto simp: obtain_begin_def split: prod.splits option.splits bool.splits)
  note m = ipam_pool.alloc_moves [OF assms(1) ok(1) al(1)] and o = ipam_pool.alloc_other(1) [OF assms(1) ok(1) al(1)]
  have "registry.consistent a (cacheAllocator s)"
    unfolding registry.consistent_def
  proof (intro allI impI)
    fix n' t assume t: "table_of (cacheAllocator s) n' = Some t"
    with ok(2) have "map_inj t \<and> ran t \<subseteq> ipam_pool.in_use (ipAllocator s) n'" by (simp add: registry.consistent_def)
    then show "map_inj t \<and> ran t \<subseteq> ipam_pool.in_use a n'" using m(2) o [of n'] by (cases "n' = ?n") auto
  qed
  moreover have "ipam_wf a" using AllocateIP_wf [OF assms(1) ok(1), of ?n "desired_ip v nc"] al(1) by simp
  moreover have "\<not> bound s ?n mac ip" for mac using m(4) bound_in_use [OF assms(2)] by blast
  moreover have "\<not> bound s ?n (nc_MACAddress nc) i" for i using HasMAC_bound [OF has] by blast
  ultimately show ?thesis using m(2) AllocateIP_canonical [OF assms(1) ok(1) al(1)] by (simp add: registry_ok_def al(2))
qed

text \<open>The second half binds the address when the network still has a table, and fails otherwise.\<close>

lemma obtain_end_bind:
  assumes "canonical_ip ip" "obtain_end nc (Bind ip) s = (r, s')"
  shows "(table_of (cacheAllocator s) (nc_NetworkName nc) = None \<and> (\<exists>e. r = Inl e) \<and> stores s' = stores s) \<or>
    (\<exists>t. table_of (cacheAllocator s) (nc_NetworkName nc) = Some t \<and> r = Inr ip \<and> ipAllocator s' = ipAllocator s \<and>
      table_of (cacheAllocator s') = (table_of (cacheAllocator s))(nc_NetworkName nc \<mapsto> t(nc_MACAddress nc \<mapsto> ip)))"
proof -
  let ?n = "nc_NetworkName nc"
  obtain c err where ad: "AddMAC (cacheAllocator s) ?n (nc_MACAddress nc) ip = (c, err)" by fastforce
  show ?thesis
  proof (cases err)
    case (Some e)
    with ad AddMAC_err [of "cacheAllocator s" ?n "nc_MACAddress nc" ip c e] assms(2) show ?thesis
      by (auto simp: obtain_end_def stores_def)
  next
    case None
    with ad mac_cache.add_ok [of "cacheAllocator s" ?n "nc_MACAddress nc" ip c] assms show ?thesis
      by (auto simp: obtain_end_def)
  qed
qed

text \<open>A run of the first half: the example pool is loaded, and an interface asks for its last address.\<close>

definition asking_nic :: NetworkConfig where
  "asking_nic = \<lparr>nc_NetworkName = ''default/net'', nc_MACAddress = ''cc'', nc_IPAddress = Some ''192.168.0.13''\<rparr>"

lemma asking_in_pool: "''192.168.0.13'' \<in> spec_pool (pool_config example_IPPool) 0xc0a8000a 0xc0a8000d"
proof -
  have s: "string4 0xc0a8000d = ''192.168.0.13''" by (simp add: string4_def octets_def dec_string.simps)
  have "string4 0xc0a8000d \<in> string4 ` {0xc0a8000a..0xc0a8000d}" by (rule imageI) simp
  then show ?thesis unfolding s by (simp add: spec_pool_def reserved_ips_def example_config_def example_IPPool_simps)
qed

lemma asking_begins:
  "\<exists>s s1. registry_ok s \<and> obtain_begin example_world (example_vmnetcfg [asking_nic] [] None) asking_nic s = (Bind ''192.168.0.13'', s1)"
proof -
  let ?ip = "''192.168.0.13''" and ?n = "''default/net''"
  define q where "q = (\<lambda>ip. if ip \<in> spec_pool (pool_config example_IPPool) 0xc0a8000a 0xc0a8000d then Some (ip \<in> held (recorded example_IPPool)) else None)"
  obtain s t where s: "BuildCache example_world example_IPPool (ip_Status example_IPPool) start_state = Ret ((ip_Status example_IPPool, None), s)"
    "pool_of (ipAllocator s) = (pool_of (ipAllocator start_state))(?n \<mapsto> q)" "table_of (cacheAllocator s) = (table_of (cacheAllocator start_state))(?n \<mapsto> t)"
    "\<forall>mac ip. t mac = Some ip \<longleftrightarrow> recorded example_IPPool ip = Some mac \<and> mac \<notin> marks"
    using BuildCache_exact [OF example_build_facts, of "ip_Status example_IPPool"] unfolding example_IPPool_simps(2) q_def [symmetric]
    by (elim exE conjE)
  have ok: "registry_ok s"
  proof -
    have "specified ''192.168.0.12''" using string4_12 [symmetric] by (simp add: specified_def)
    then have "\<forall>ip \<in> held (recorded example_IPPool). specified ip" by (simp add: example_held)
    from BuildCache_registry [OF example_build_facts(1,2,5,7) this, of "ip_Status example_IPPool"] s(1) show ?thesis by simp
  qed
  have "recorded example_IPPool ip \<noteq> Some ''cc''" for ip by (simp add: example_recorded)
  then have t: "t ''cc'' = None" using s(4) by (cases "t ''cc''") simp_all
  have q: "q ?ip = Some False" using asking_in_pool by (simp add: q_def example_held)
  have sp: "specified ?ip" using asking_in_pool example_build_hyps(6) by (auto simp: spec_pool_def specified_def word_less_nat_alt)
  have p: "pool_of (ipAllocator s) ?n = Some q" "table_of (cacheAllocator s) ?n = Some t" using s(2,3) by simp_all
  obtain a where a: "AllocateIP (w_rng example_world) (ipAllocator s) ?n ?ip = (a, ?ip, None)"
    using claim_free [where q = q and ip = ?ip, OF example_build_facts(1) registry_okD(1) [OF ok] p q sp] by blast
  have h: "HasMAC (cacheAllocator s) ?n ''cc'' = (False, None)" using p(2) t by (auto simp: table_of_def HasMAC_def)
  have "desired_ip (example_vmnetcfg [asking_nic] [] None) asking_nic = ?ip"
    by (simp add: desired_ip_def example_vmnetcfg_def asking_nic_def)
  with a h ok show ?thesis by (intro exI [of _ s] exI [of _ "s\<lparr>ipAllocator := a\<rparr>"]) (simp add: obtain_begin_def asking_nic_def)
qed

section \<open>A pool handler in between\<close>

text \<open>
  Tearing down a pool in the middle of an allocation is harmless.  The stores stay
  consistent; when it was the pool of that interface, the allocation fails instead of binding
  an address of a network that is gone.
\<close>

theorem teardown_between_safe:
  assumes "go_range (w_rng W)" "registry_ok s" "obtain_begin W v nc s = (Bind ip, s1)"
    "ippool_cleanup W p s1 = (err, s2)" "obtain_end nc (Bind ip) s2 = (r, s3)"
  shows "registry_ok s3 \<and> (table_of (cacheAllocator s2) (nc_NetworkName nc) = None \<longrightarrow> (\<exists>e. r = Inl e) \<and> stores s3 = stores s2) \<and>
    (table_of (cacheAllocator s2) (nc_NetworkName nc) \<noteq> None \<longrightarrow> r = Inr ip \<and> bound s3 (nc_NetworkName nc) (nc_MACAddress nc) ip)"
proof -
  let ?n = "nc_NetworkName nc"
  note b = obtain_begin_bind [OF assms(1-3)]
  have ok2: "registry_ok s2" using ippool_cleanup_registry [of s1 W p] b assms(4) by simp
  note ok = registry_okD [OF ok2]
  have can: "canonical_ip ip" using b by blast
  from obtain_end_bind [OF can assms(5)] consider (gone) "table_of (cacheAllocator s2) ?n = None" "\<exists>e. r = Inl e" "stores s3 = stores s2"
    | (there) t where "table_of (cacheAllocator s2) ?n = Some t" "r = Inr ip" "ipAllocator s3 = ipAllocator s2"
      "table_of (cacheAllocator s3) = (table_of (cacheAllocator s2))(?n \<mapsto> t(nc_MACAddress nc \<mapsto> ip))"
    by (elim disjE exE conjE) (simp, simp)
  then show ?thesis
  proof cases
    case gone
    with registry_ok_frame [OF ok2, of s3] stores_eqD [OF gone(3)] show ?thesis by simp
  next
    case there
    have same: "pool_of (ipAllocator s2) ?n = pool_of (ipAllocator s1) ?n \<and> table_of (cacheAllocator s2) ?n = table_of (cacheAllocator s1) ?n"
      using assms(4) there(1)
      by (auto simp: ippool_cleanup_def ask_def pool_of_delete table_of_delete split: option.splits if_splits)
    then have use: "ip \<in> ipam_pool.in_use (ipAllocator s2) ?n" using b by (simp add: ipam_pool.in_use_def)
    have t: "map_inj t" "ran t \<subseteq> ipam_pool.in_use (ipAllocator s2) ?n" using ok(2) there(1) by (auto simp: registry.consistent_def)
    have "table_of (cacheAllocator s) ?n = Some t" using same b there(1) by simp
    then have "ip \<notin> ran t" using b by (auto simp: ran_def bound_def)
    then have "map_inj (t(nc_MACAddress nc \<mapsto> ip)) \<and> ran (t(nc_MACAddress nc \<mapsto> ip)) \<subseteq> ipam_pool.in_use (ipAllocator s3) ?n"
      using t use ran_upd_subset [of t "nc_MACAddress nc" ip] by (auto simp: there(3) intro: map_inj_upd)
    then have "registry.consistent (ipAllocator s3) (cacheAllocator s3)"
      by (intro consistent_upd [OF ok(2), of ?n]) (simp_all add: there(3,4))
    with ok(1) there show ?thesis by (auto simp: registry_ok_def bound_def)
  qed
qed

theorem teardown_between_safe_witness:
  "\<exists>s1 err s2 r s3. ippool_cleanup example_world example_IPPool s1 = (err, s2) \<and> obtain_end asking_nic (Bind ''192.168.0.13'') s2 = (r, s3) \<and> registry_ok s3"
proof -
  obtain s s1 where b: "registry_ok s" "obtain_begin example_world (example_vmnetcfg [asking_nic] [] None) asking_nic s = (Bind ''192.168.0.13'', s1)"
    using asking_begins by blast
  obtain err s2 r s3 where r: "ippool_cleanup example_world example_IPPool s1 = (err, s2)" "obtain_end asking_nic (Bind ''192.168.0.13'') s2 = (r, s3)"
    by fastforce
  from teardown_between_safe [OF example_build_hyps(1) b r] r show ?thesis by blast
qed

text \<open>
  [C38] Loading the pool in the middle of an allocation makes the address available again.  If
  \<open>BuildCache\<close> runs for the pool of the interface after its address was allocated and before it is
  entered into the MAC cache, and the record of the pool does not list the address yet, then the
  allocation still succeeds, but the IPAM counts the address as free and gives it to the next one
  who asks: two interfaces get the same address.
\<close>

theorem load_between_duplicates:
  assumes "go_range (w_rng W)" "registry_ok s" "obtain_begin W v nc s = (Bind ip, s1)"
    "\<not> pool_paused p" "\<not> x_IsTrue (w_ext W) CacheReady (st_Conditions (ip_Status p))" "pool_network p = nc_NetworkName nc"
    "cidr4 (c4_CIDR (pool_config p)) w k" "pool_bounds w k (pl_Start (c4_Pool (pool_config p))) (pl_End (c4_Pool (pool_config p))) lo hi"
    "finite (dom (recorded p))" "held (recorded p) \<subseteq> spec_pool (pool_config p) lo hi" "inj_on (recorded p) (held (recorded p))" "0 < lo"
    "ip \<in> spec_pool (pool_config p) lo hi" "ip \<notin> held (recorded p)" "BuildCache W p (ip_Status p) s1 = Ret (res, s2)"
    "obtain_end nc (Bind ip) s2 = (r, s3)"
  shows "r = Inr ip \<and> bound s3 (nc_NetworkName nc) (nc_MACAddress nc) ip \<and>
    ip \<in> ipam_pool.available (ipAllocator s3) (nc_NetworkName nc) \<and> \<not> registry_ok s3 \<and>
    (\<exists>a. AllocateIP (w_rng W) (ipAllocator s3) (nc_NetworkName nc) ip = (a, ip, None))"
proof -
  let ?n = "nc_NetworkName nc"
  note b = obtain_begin_bind [OF assms(1-3)]
  obtain s2' t where x: "BuildCache W p (ip_Status p) s1 = Ret ((ip_Status p, None), s2')"
    "pool_of (ipAllocator s2') = (pool_of (ipAllocator s1))(?n \<mapsto>
      (\<lambda>ip. if ip \<in> spec_pool (pool_config p) lo hi then Some (ip \<in> held (recorded p)) else None))"
    "table_of (cacheAllocator s2') = (table_of (cacheAllocator s1))(?n \<mapsto> t)"
    using BuildCache_exact [OF assms(1) conjunct1 [OF b] assms(4,5,7-12), of "ip_Status p"] unfolding assms(6) by blast
  then have s2: "s2' = s2" using assms(15) by simp
  define q where "q = (\<lambda>ip. if ip \<in> spec_pool (pool_config p) lo hi then Some (ip \<in> held (recorded p)) else None)"
  have q: "pool_of (ipAllocator s2) ?n = Some q" "q ip = Some False" using x(2) assms(13,14) by (simp_all add: s2 q_def)
  have e: "r = Inr ip" "ipAllocator s3 = ipAllocator s2" "table_of (cacheAllocator s3) = (table_of (cacheAllocator s2))(?n \<mapsto> t(nc_MACAddress nc \<mapsto> ip))"
    using obtain_end_bind [OF _ assms(16)] b x(3) by (auto simp: s2)
  have free: "ip \<in> ipam_pool.available (ipAllocator s3) ?n" "ip \<notin> ipam_pool.in_use (ipAllocator s3) ?n"
    using q by (auto simp: e(2) ipam_pool.available_def ipam_pool.in_use_def)
  have bd: "bound s3 ?n (nc_MACAddress nc) ip" by (simp add: bound_def e(3))
  have wf: "ipam_wf (ipAllocator s3)"
  proof -
    have "specified ip" if "ip \<in> held (recorded p)" for ip
    proof -
      from that assms(10) have "ip \<in> spec_pool (pool_config p) lo hi" by blast
      then show ?thesis using assms(12) by (auto simp: spec_pool_def specified_def word_less_nat_alt)
    qed
    then have "\<forall>ip \<in> held (recorded p). specified ip" by blast
    from BuildCache_registry [OF assms(1) conjunct1 [OF b] assms(7,9) this, of "ip_Status p"] assms(15) have "registry_ok s2" by auto
    then show ?thesis by (simp add: e(2) registry_ok_def)
  qed
  have "specified ip" using assms(12,13) by (auto simp: spec_pool_def specified_def word_less_nat_alt)
  moreover have pool: "pool_of (ipAllocator s3) ?n = Some q" using q(1) by (simp add: e(2))
  moreover obtain t3 where t3: "table_of (cacheAllocator s3) ?n = Some t3" using e(3) by simp
  ultimately obtain a where "AllocateIP (w_rng W) (ipAllocator s3) ?n ip = (a, ip, None)"
    using claim_free [where q = q and ip = ip, OF assms(1) wf pool t3 q(2)] by blast
  with e(1) bd free show ?thesis using bound_in_use [OF _ bd] by blast
qed

theorem load_between_duplicates_witness:
  "\<exists>s3 a. bound s3 ''default/net'' ''cc'' ''192.168.0.13'' \<and> AllocateIP (w_rng example_world) (ipAllocator s3) ''default/net'' ''192.168.0.13'' = (a, ''192.168.0.13'', None)"
proof -
  obtain s s1 where b: "registry_ok s" "obtain_begin example_world (example_vmnetcfg [asking_nic] [] None) asking_nic s = (Bind ''192.168.0.13'', s1)"
    using asking_begins by blast
  have ok: "registry_ok s1" using obtain_begin_bind [OF example_build_hyps(1) b] by blast
  obtain s2 where l: "BuildCache example_world example_IPPool (ip_Status example_IPPool) s1 = Ret ((ip_Status example_IPPool, None), s2)"
    using BuildCache_exact [OF example_build_facts(1) ok example_build_facts(3-10), of "ip_Status example_IPPool"] by blast
  obtain r s3 where e: "obtain_end asking_nic (Bind ''192.168.0.13'') s2 = (r, s3)" by fastforce
  have n: "pool_network example_IPPool = nc_NetworkName asking_nic" "''192.168.0.13'' \<notin> held (recorded example_IPPool)"
    by (simp_all add: example_IPPool_simps asking_nic_def example_held)
  from load_between_duplicates [OF example_build_hyps(1) b example_build_facts(3,4) n(1) example_build_facts(5-10) asking_in_pool n(2) l e]
  show ?thesis by (auto simp: asking_nic_def)
qed

end
