(* ===== verification/Workers.thy ===== *)
theory Workers
  imports Interleaving
begin

text \<open>
  Any number of workers.  The handlers of \<open>pkg/controller/vmnetcfg\<close> and of \<open>pkg/controller/ippool\<close> are
  sequences of operations on the IPAM and the MAC cache, each of which takes the lock of its store
  for itself.  The theory splits \<open>obtain_ip\<close>, \<open>release\<close>, the teardown of a pool and \<open>BuildCache\<close> into these
  operations and lets any number of workers interleave them in any order.  The four operations
  of a pool that the code calls without the lock are taken to be atomic as well.
\<close>

section \<open>Tasks, one operation at a time\<close>

text \<open>
  Where a worker is: in the allocation for an interface, in the release of a record of a
  network configuration, in the teardown of a network, in loading a pool, or at the end of one of
  them.  The operation a worker is about to call is named after the state; a worker that loads a
  pool keeps the addresses that it still has to revoke or to enter.
\<close>

datatype worker =
    AtHasMAC VirtualMachineNetworkConfig NetworkConfig
  | AtGetIPByMAC NetworkConfig
  | AtAllocateIP VirtualMachineNetworkConfig NetworkConfig
  | AtAddMAC NetworkConfig string
  | Obtained "go_error + string"
  | AtIsAllocated NetworkConfigStatus
  | AtDeallocateIP NetworkConfigStatus
  | AtHasEntry NetworkConfigStatus
  | AtDeleteMAC NetworkConfigStatus
  | Released "go_error option"
  | AtDeleteIPSubnet string
  | AtDeleteMACSet string
  | TornDown
  | AtNewIPSubnet IPPool
  | AtNewMACSet IPPool
  | AtRevokeIP IPPool "string list"
  | AtRebuild IPPool "string list"
  | AtRebuildAdd IPPool string string "string list"
  | Loaded "go_error option"
  | Dead

definition obtain_HasMAC :: "VirtualMachineNetworkConfig \<Rightarrow> NetworkConfig \<Rightarrow> ctl \<Rightarrow> worker \<times> ctl" where [simp]:
  "obtain_HasMAC v nc s =
     (case HasMAC (cacheAllocator s) (nc_NetworkName nc) (nc_MACAddress nc) of
        (_, Some e) \<Rightarrow> (Obtained (Inl e), s)
      | (exists, None) \<Rightarrow> (if exists then AtGetIPByMAC nc else AtAllocateIP v nc, s))"

definition obtain_GetIPByMAC :: "NetworkConfig \<Rightarrow> ctl \<Rightarrow> worker \<times> ctl" where [simp]:
  "obtain_GetIPByMAC nc s =
     (case GetIPByMAC (cacheAllocator s) (nc_NetworkName nc) (nc_MACAddress nc) of
        (_, Some e) \<Rightarrow> (Obtained (Inl e), s)
      | (ip, None) \<Rightarrow> (Obtained (Inr ip), s))"

definition obtain_AllocateIP :: "world \<Rightarrow> VirtualMachineNetworkConfig \<Rightarrow> NetworkConfig \<Rightarrow> ctl \<Rightarrow> worker \<times> ctl" where [simp]:
  "obtain_AllocateIP W v nc s =
     (case AllocateIP (w_rng W) (ipAllocator s) (nc_NetworkName nc) (desired_ip v nc) of
        (a, _, Some e) \<Rightarrow> (Obtained (Inl e), s\<lparr>ipAllocator := a\<rparr>)
      | (a, ip, None) \<Rightarrow> (AtAddMAC nc ip, s\<lparr>ipAllocator := a\<rparr>))"

definition obtain_AddMAC :: "NetworkConfig \<Rightarrow> string \<Rightarrow> ctl \<Rightarrow> worker \<times> ctl" where [simp]:
  "obtain_AddMAC nc ip s =
     (case AddMAC (cacheAllocator s) (nc_NetworkName nc) (nc_MACAddress nc) ip of
        (c, Some e) \<Rightarrow> (Obtained (Inl e), s\<lparr>cacheAllocator := c\<rparr>)
      | (c, None) \<Rightarrow> (Obtained (Inr ip), s\<lparr>cacheAllocator := c\<rparr>))"

definition release_IsAllocated :: "NetworkConfigStatus \<Rightarrow> ctl \<Rightarrow> worker \<times> ctl" where [simp]:
  "release_IsAllocated st s =
     (case IsAllocated (ipAllocator s) (ns_NetworkName st) (ns_AllocatedIPAddress st) of
        (_, Some e) \<Rightarrow> (Released (Some e), s)
      | (isAllocated, None) \<Rightarrow> (if isAllocated then AtDeallocateIP st else AtHasEntry st, s))"

definition release_DeallocateIP :: "NetworkConfigStatus \<Rightarrow> ctl \<Rightarrow> worker \<times> ctl" where [simp]:
  "release_DeallocateIP st s =
     (case DeallocateIP (ipAllocator s) (ns_NetworkName st) (ns_AllocatedIPAddress st) of
        (a, Some e) \<Rightarrow> (Released (Some e), s\<lparr>ipAllocator := a\<rparr>)
      | (a, None) \<Rightarrow> (AtHasEntry st, s\<lparr>ipAllocator := a\<rparr>))"

definition release_HasMAC :: "NetworkConfigStatus \<Rightarrow> ctl \<Rightarrow> worker \<times> ctl" where [simp]:
  "release_HasMAC st s =
     (case HasMAC (cacheAllocator s) (ns_NetworkName st) (ns_MACAddress st) of
        (_, Some e) \<Rightarrow> (Released (Some e), s)
      | (exists, None) \<Rightarrow> (if exists then AtDeleteMAC st else Released None, s))"

definition release_DeleteMAC :: "NetworkConfigStatus \<Rightarrow> ctl \<Rightarrow> worker \<times> ctl" where [simp]:
  "release_DeleteMAC st s =
     (case DeleteMAC (cacheAllocator s) (ns_NetworkName st) (ns_MACAddress st) of
        (c, err) \<Rightarrow> (Released err, s\<lparr>cacheAllocator := c\<rparr>))"

definition teardown_DeleteIPSubnet :: "string \<Rightarrow> ctl \<Rightarrow> worker \<times> ctl" where [simp]:
  "teardown_DeleteIPSubnet n s = (AtDeleteMACSet n, s\<lparr>ipAllocator := DeleteIPSubnet (ipAllocator s) n\<rparr>)"

definition teardown_DeleteMACSet :: "string \<Rightarrow> ctl \<Rightarrow> worker \<times> ctl" where [simp]:
  "teardown_DeleteMACSet n s = (TornDown, s\<lparr>cacheAllocator := DeleteMACSet (cacheAllocator s) n\<rparr>)"

text \<open>
  Loading a pool.  A panic ends the process, and a loop without end holds the worker: \<open>Dead\<close>.
  The loop over the record skips the marks; the address that the IPAM returns is kept beside the
  one of the record, which is entered.
\<close>

definition load_NewIPSubnet :: "IPPool \<Rightarrow> ctl \<Rightarrow> worker \<times> ctl" where [simp]:
  "load_NewIPSubnet p s =
     (case NewIPSubnet (ipAllocator s) (pool_network p) (c4_CIDR (pool_config p)) (pl_Start (c4_Pool (pool_config p))) (pl_End (c4_Pool (pool_config p))) of
        Ret (a, Some e) \<Rightarrow> (Loaded (Some e), s\<lparr>ipAllocator := a\<rparr>)
      | Ret (a, None) \<Rightarrow> (AtNewMACSet p, s\<lparr>ipAllocator := a\<rparr>)
      | _ \<Rightarrow> (Dead, s))"

definition load_NewMACSet :: "IPPool \<Rightarrow> ctl \<Rightarrow> worker \<times> ctl" where [simp]:
  "load_NewMACSet p s =
     (case NewMACSet (cacheAllocator s) (pool_network p) of
        (c, Some e) \<Rightarrow> (Loaded (Some e), s\<lparr>cacheAllocator := c\<rparr>)
      | (c, None) \<Rightarrow> (AtRevokeIP p ([c4_ServerIP (pool_config p), c4_Router (pool_config p)] @ pl_Exclude (c4_Pool (pool_config p))), s\<lparr>cacheAllocator := c\<rparr>))"

definition load_RevokeIP :: "world \<Rightarrow> IPPool \<Rightarrow> string list \<Rightarrow> ctl \<Rightarrow> worker \<times> ctl" where [simp]:
  "load_RevokeIP W p rs s =
     (case rs of
        [] \<Rightarrow> (AtRebuild p (if st_IPv4 (ip_Status p) = None then [] else w_rng W (dom (recorded p))), s)
      | ip # rest \<Rightarrow>
          (case RevokeIP (ipAllocator s) (pool_network p) ip of
             (a, Some e) \<Rightarrow> (Loaded (Some e), s\<lparr>ipAllocator := a\<rparr>)
           | (a, None) \<Rightarrow> (AtRevokeIP p rest, s\<lparr>ipAllocator := a\<rparr>)))"

definition load_AllocateIP :: "world \<Rightarrow> IPPool \<Rightarrow> string list \<Rightarrow> ctl \<Rightarrow> worker \<times> ctl" where [simp]:
  "load_AllocateIP W p ks s =
     (case ks of
        [] \<Rightarrow> (Loaded None, s)
      | ip # rest \<Rightarrow>
          if the (recorded p ip) = ExcludedMark \<or> the (recorded p ip) = ReservedMark then (AtRebuild p rest, s)
          else (case AllocateIP (w_rng W) (ipAllocator s) (pool_network p) ip of
              (a, _, Some e) \<Rightarrow> (Loaded (Some e), s\<lparr>ipAllocator := a\<rparr>)
            | (a, ip', None) \<Rightarrow> (AtRebuildAdd p ip' ip rest, s\<lparr>ipAllocator := a\<rparr>)))"

definition load_AddMAC :: "IPPool \<Rightarrow> string \<Rightarrow> string list \<Rightarrow> ctl \<Rightarrow> worker \<times> ctl" where [simp]:
  "load_AddMAC p ip rest s =
     (case AddMAC (cacheAllocator s) (pool_network p) (the (recorded p ip)) ip of
        (c, Some e) \<Rightarrow> (Loaded (Some e), s\<lparr>cacheAllocator := c\<rparr>)
      | (c, None) \<Rightarrow> (AtRebuild p rest, s\<lparr>cacheAllocator := c\<rparr>))"

fun advance :: "world \<Rightarrow> worker \<Rightarrow> ctl \<Rightarrow> worker \<times> ctl" where
  "advance W (AtHasMAC v nc) s = obtain_HasMAC v nc s"
| "advance W (AtGetIPByMAC nc) s = obtain_GetIPByMAC nc s"
| "advance W (AtAllocateIP v nc) s = obtain_AllocateIP W v nc s"
| "advance W (AtAddMAC nc ip) s = obtain_AddMAC nc ip s"
| "advance W (AtIsAllocated st) s = release_IsAllocated st s"
| "advance W (AtDeallocateIP st) s = release_DeallocateIP st s"
| "advance W (AtHasEntry st) s = release_HasMAC st s"
| "advance W (AtDeleteMAC st) s = release_DeleteMAC st s"
| "advance W (AtDeleteIPSubnet n) s = teardown_DeleteIPSubnet n s"
| "advance W (AtDeleteMACSet n) s = teardown_DeleteMACSet n s"
| "advance W (AtNewIPSubnet p) s = load_NewIPSubnet p s"
| "advance W (AtNewMACSet p) s = load_NewMACSet p s"
| "advance W (AtRevokeIP p rs) s = load_RevokeIP W p rs s"
| "advance W (AtRebuild p ks) s = load_AllocateIP W p ks s"
| "advance W (AtRebuildAdd p ip' ip rest) s = load_AddMAC p ip rest s"
| "advance W t s = (t, s)"

fun idle :: "worker \<Rightarrow> bool" where
  "idle (Obtained _) = True"
| "idle (Released _) = True"
| "idle TornDown = True"
| "idle (Loaded _) = True"
| "idle _ = False"

text \<open>A worker that runs alone: four operations are enough for every task.\<close>

definition alone :: "world \<Rightarrow> worker \<Rightarrow> ctl \<Rightarrow> worker \<times> ctl" where
  "alone W t s = ((\<lambda>(t, s). advance W t s) ^^ 4) (t, s)"

lemma alone_steps: "alone W t s = (case advance W t s of (t1, s1) \<Rightarrow> case advance W t1 s1 of (t2, s2) \<Rightarrow>
    case advance W t2 s2 of (t3, s3) \<Rightarrow> advance W t3 s3)"
  by (simp add: alone_def numeral_eq_Suc split: prod.splits)

text \<open>
  The splitting is the one of the handlers: a worker that nobody interrupts computes
  what \<open>Allocate\<close> and \<open>cleanup\<close> compute.
\<close>

lemma alone_obtain: "alone W (AtHasMAC v nc) s = (case obtain_ip W v nc s of (r, s') \<Rightarrow> (Obtained r, s'))"
  by (auto simp: alone_steps obtain_ip_def split: prod.splits option.splits bool.splits)

lemma alone_release: "alone W (AtIsAllocated st) s = (case release st s of (err, s') \<Rightarrow> (Released err, s'))"
  by (auto simp: alone_steps release_def split: prod.splits option.splits bool.splits)

lemma alone_teardown:
  "alone W (AtDeleteIPSubnet n) s =
     (TornDown, s\<lparr>ipAllocator := DeleteIPSubnet (ipAllocator s) n, cacheAllocator := DeleteMACSet (cacheAllocator s) n\<rparr>)"
  by (simp add: alone_steps)

text \<open>Loading takes as many operations as there are addresses.\<close>

definition steps :: "world \<Rightarrow> nat \<Rightarrow> worker \<times> ctl \<Rightarrow> worker \<times> ctl" where
  "steps W n = (\<lambda>(t, s). advance W t s) ^^ n"

lemma steps_Suc: "steps W (Suc n) (t, s) = steps W n (advance W t s)"
  unfolding steps_def funpow_Suc_right by simp

lemma steps_0: "steps W 0 c = c"
  by (simp add: steps_def)

lemma steps_rebuild:
  "rebuild (w_rng W) (pool_network p) (recorded p) ks s = (err, s') \<Longrightarrow> \<exists>n. steps W n (AtRebuild p ks, s) = (Loaded err, s')"
proof (induction ks arbitrary: s)
  case Nil
  then show ?case by (intro exI [of _ 1]) (simp add: steps_Suc steps_0)
next
  case (Cons ip ks)
  let ?mac = "the (recorded p ip)"
  show ?case
  proof (cases "?mac = ExcludedMark \<or> ?mac = ReservedMark")
    case True
    with Cons.prems have "rebuild (w_rng W) (pool_network p) (recorded p) ks s = (err, s')" by (auto simp: Let_def)
    then obtain n where "steps W n (AtRebuild p ks, s) = (Loaded err, s')" using Cons.IH by blast
    with True show ?thesis by (intro exI [of _ "Suc n"]) (simp add: steps_Suc)
  next
    case False
    obtain a ip' aerr where al: "AllocateIP (w_rng W) (ipAllocator s) (pool_network p) ip = (a, ip', aerr)" by (metis prod_cases3)
    obtain c cerr where ad: "AddMAC (cacheAllocator s) (pool_network p) ?mac ip = (c, cerr)" by fastforce
    consider e where "aerr = Some e" | e where "aerr = None" "cerr = Some e" | "aerr = None" "cerr = None" by (cases aerr; cases cerr) auto
    then show ?thesis
    proof cases
      case 1
      with False al Cons.prems show ?thesis by (intro exI [of _ 1]) (auto simp: steps_Suc steps_0 Let_def)
    next
      case 2
      with False al ad Cons.prems show ?thesis by (intro exI [of _ 2]) (auto simp: steps_Suc steps_0 Let_def numeral_2_eq_2)
    next
      case 3
      with False al ad Cons.prems obtain n where "steps W n (AtRebuild p ks, s\<lparr>ipAllocator := a, cacheAllocator := c\<rparr>) = (Loaded err, s')"
        using Cons.IH by (auto simp: Let_def)
      with False al ad 3 show ?thesis by (intro exI [of _ "Suc (Suc n)"]) (auto simp: steps_Suc)
    qed
  qed
qed

lemma steps_revoke:
  assumes "(case revoke_all (pool_network p) rs s of (Some e, s1) \<Rightarrow> (Some e, s1) | (None, s1) \<Rightarrow>
      rebuild (w_rng W) (pool_network p) (recorded p) (if st_IPv4 (ip_Status p) = None then [] else w_rng W (dom (recorded p))) s1) = (err, s')"
  shows "\<exists>n. steps W n (AtRevokeIP p rs, s) = (Loaded err, s')"
  using assms
proof (induction rs arbitrary: s)
  case Nil
  let ?ks = "if st_IPv4 (ip_Status p) = None then [] else w_rng W (dom (recorded p))"
  from Nil have "rebuild (w_rng W) (pool_network p) (recorded p) ?ks s = (err, s')" by (simp split: if_splits)
  then obtain n where "steps W n (AtRebuild p ?ks, s) = (Loaded err, s')" using steps_rebuild by blast
  then show ?case by (intro exI [of _ "Suc n"]) (simp add: steps_Suc)
next
  case (Cons ip rs)
  obtain a rerr where r: "RevokeIP (ipAllocator s) (pool_network p) ip = (a, rerr)" by fastforce
  show ?case
  proof (cases rerr)
    case None
    with Cons r obtain n where "steps W n (AtRevokeIP p rs, s\<lparr>ipAllocator := a\<rparr>) = (Loaded err, s')" by fastforce
    with r None show ?thesis by (intro exI [of _ "Suc n"]) (simp add: steps_Suc)
  next
    case (Some e)
    with r Cons.prems show ?thesis by (intro exI [of _ 1]) (auto simp: steps_Suc steps_0)
  qed
qed

lemma alone_load:
  assumes "\<not> pool_paused p" "\<not> x_IsTrue (w_ext W) CacheReady (st_Conditions (ip_Status p))" "BuildCache W p status s = Ret ((status', err), s')"
  shows "\<exists>n. steps W n (AtNewIPSubnet p, s) = (Loaded err, s')"
proof -
  let ?n = "pool_network p" and ?cfg = "pool_config p"
  let ?rs = "[c4_ServerIP ?cfg, c4_Router ?cfg] @ pl_Exclude (c4_Pool ?cfg)"
  obtain a e where a: "NewIPSubnet (ipAllocator s) ?n (c4_CIDR ?cfg) (pl_Start (c4_Pool ?cfg)) (pl_End (c4_Pool ?cfg)) = Ret (a, e)"
    using assms by (auto simp: BuildCache_def Let_def go_bind_Ret_iff)
  show ?thesis
  proof (cases e)
    case (Some e')
    with a assms have "err = Some e'" "s' = s\<lparr>ipAllocator := a\<rparr>" by (auto simp: BuildCache_def Let_def)
    with a Some show ?thesis by (intro exI [of _ 1]) (simp add: steps_Suc steps_0)
  next
    case None
    obtain c where c: "NewMACSet (cacheAllocator s) ?n = (c, None)" by (simp add: NewMACSet_def)
    let ?s = "s\<lparr>ipAllocator := a, cacheAllocator := c\<rparr>"
    have "(case revoke_all ?n ?rs ?s of (Some e, s1) \<Rightarrow> (Some e, s1) | (None, s1) \<Rightarrow>
      rebuild (w_rng W) ?n (recorded p) (if st_IPv4 (ip_Status p) = None then [] else w_rng W (dom (recorded p))) s1) = (err, s')"
      using assms a None c
      by (auto simp: BuildCache_def Let_def recorded_def simp del: revoke_all.simps split: prod.splits option.splits)
    from steps_revoke [OF this] obtain k where "steps W k (AtRevokeIP p ?rs, ?s) = (Loaded err, s')" by blast
    with a None c show ?thesis by (intro exI [of _ "Suc (Suc k)"]) (simp add: steps_Suc)
  qed
qed

section \<open>Workers\<close>

text \<open>The interface a worker is busy with, as network and hardware address.\<close>

fun busy_with :: "worker \<Rightarrow> (string \<times> string) option" where
  "busy_with (AtHasMAC v nc) = Some (nc_NetworkName nc, nc_MACAddress nc)"
| "busy_with (AtGetIPByMAC nc) = Some (nc_NetworkName nc, nc_MACAddress nc)"
| "busy_with (AtAllocateIP v nc) = Some (nc_NetworkName nc, nc_MACAddress nc)"
| "busy_with (AtAddMAC nc ip) = Some (nc_NetworkName nc, nc_MACAddress nc)"
| "busy_with (AtIsAllocated st) = Some (ns_NetworkName st, ns_MACAddress st)"
| "busy_with (AtDeallocateIP st) = Some (ns_NetworkName st, ns_MACAddress st)"
| "busy_with (AtHasEntry st) = Some (ns_NetworkName st, ns_MACAddress st)"
| "busy_with (AtDeleteMAC st) = Some (ns_NetworkName st, ns_MACAddress st)"
| "busy_with _ = None"

text \<open>The network a worker deals with, and the pool it is loading.\<close>

fun loads :: "worker \<Rightarrow> IPPool option" where
  "loads (AtNewIPSubnet p) = Some p"
| "loads (AtNewMACSet p) = Some p"
| "loads (AtRevokeIP p _) = Some p"
| "loads (AtRebuild p _) = Some p"
| "loads (AtRebuildAdd p _ _ _) = Some p"
| "loads _ = None"

fun place :: "worker \<Rightarrow> string option" where
  "place (AtDeleteIPSubnet n) = Some n"
| "place (AtDeleteMACSet n) = Some n"
| "place w = (case loads w of Some p \<Rightarrow> Some (pool_network p) | None \<Rightarrow> map_option fst (busy_with w))"

definition loading :: "(nat \<Rightarrow> worker) \<Rightarrow> string \<Rightarrow> bool" where
  "loading ws n \<longleftrightarrow> (\<exists>j p. loads (ws j) = Some p \<and> pool_network p = n)"

text \<open>
  A worker may begin a task when no other is busy with the interface, and none is loading the network.
  A record is released by the interface that holds its address.  A pool may be loaded when no
  worker deals with its network, and its object is one that \<open>BuildCache\<close> can load.
\<close>

fun may_begin :: "(nat \<Rightarrow> worker) \<Rightarrow> ctl \<Rightarrow> worker \<Rightarrow> bool" where
  "may_begin ws s (AtHasMAC v nc) = (\<not> loading ws (nc_NetworkName nc) \<and> (\<forall>j. busy_with (ws j) \<noteq> Some (nc_NetworkName nc, nc_MACAddress nc)))"
| "may_begin ws s (AtIsAllocated st) = (\<not> loading ws (ns_NetworkName st) \<and> (\<forall>j. busy_with (ws j) \<noteq> Some (ns_NetworkName st, ns_MACAddress st)) \<and>
     bound s (ns_NetworkName st) (ns_MACAddress st) (ns_AllocatedIPAddress st))"
| "may_begin ws s (AtDeleteIPSubnet n) = (\<not> loading ws n)"
| "may_begin ws s (AtNewIPSubnet p) = ((\<forall>j. place (ws j) \<noteq> Some (pool_network p)) \<and> loadable p)"
| "may_begin ws s _ = False"

inductive work :: "world \<Rightarrow> (nat \<Rightarrow> worker) \<times> ctl \<Rightarrow> (nat \<Rightarrow> worker) \<times> ctl \<Rightarrow> bool" for W where
  Begin: "idle (ws i) \<Longrightarrow> may_begin ws s t \<Longrightarrow> work W (ws, s) (ws(i := t), s)"
| Operation: "advance W (ws i) s = (t, s') \<Longrightarrow> work W (ws, s) (ws(i := t), s')"

inductive works :: "world \<Rightarrow> (nat \<Rightarrow> worker) \<times> ctl \<Rightarrow> (nat \<Rightarrow> worker) \<times> ctl \<Rightarrow> bool" for W where
  Now: "works W c c"
| Later: "works W c c1 \<Longrightarrow> work W c1 c2 \<Longrightarrow> works W c c2"

inductive_cases workE: "work W (ws, s) c"

end
