(* ===== verification/Workers_Facts.thy ===== *)
theory Workers_Facts
  imports Workers
begin

text \<open>
  Whatever the order in which workers do their operations on the stores: an invariant of
  what they have in hand, kept by every operation, from which it follows that no two interfaces hold
  the same address and that the two stores agree whenever no worker is in the middle of a task.
\<close>

section \<open>The invariant\<close>

text \<open>
  What a worker has in hand on a network: it is exchanging it, so that the pool and the table do not belong
  together; it is about to delete the entry of a hardware address whose address was returned; it has an
  address that is not entered yet; or it is about to return the address of a hardware address.
\<close>

fun closes :: "string \<Rightarrow> worker \<Rightarrow> bool" where
  "closes n (AtDeleteMACSet n') = (n' = n)"
| "closes n (AtNewMACSet p) = (pool_network p = n)"
| "closes n _ = False"

fun leaves :: "string \<Rightarrow> string \<Rightarrow> worker \<Rightarrow> bool" where
  "leaves n mac (AtHasEntry st) = (ns_NetworkName st = n \<and> ns_MACAddress st = mac)"
| "leaves n mac (AtDeleteMAC st) = (ns_NetworkName st = n \<and> ns_MACAddress st = mac)"
| "leaves n mac _ = False"

fun hands :: "string \<Rightarrow> string \<Rightarrow> worker \<Rightarrow> bool" where
  "hands n ip (AtAddMAC nc ip') = (nc_NetworkName nc = n \<and> ip' = ip)"
| "hands n ip (AtRebuildAdd p ip' r ks) = (pool_network p = n \<and> ip' = ip)"
| "hands n ip _ = False"

fun gives_back :: "string \<Rightarrow> string \<Rightarrow> string \<Rightarrow> worker \<Rightarrow> bool" where
  "gives_back n mac ip (AtIsAllocated st) = (ns_NetworkName st = n \<and> ns_MACAddress st = mac \<and> ns_AllocatedIPAddress st = ip)"
| "gives_back n mac ip (AtDeallocateIP st) = (ns_NetworkName st = n \<and> ns_MACAddress st = mac \<and> ns_AllocatedIPAddress st = ip)"
| "gives_back n mac ip _ = False"

definition holder :: "(nat \<Rightarrow> worker) \<Rightarrow> ctl \<Rightarrow> string \<Rightarrow> string \<Rightarrow> string \<Rightarrow> bool" where
  "holder ws s n mac ip \<longleftrightarrow> bound s n mac ip \<and> (\<forall>i. \<not> leaves n mac (ws i))"

text \<open>
  A network that is not being closed: the hardware addresses that are not leaving hold different
  addresses, all in use; what workers have in hand is in use, held by nobody and in one
  hand only; what is about to be returned is held by the one who returns it.
\<close>

definition sound :: "(nat \<Rightarrow> worker) \<Rightarrow> ctl \<Rightarrow> string \<Rightarrow> bool" where
  "sound ws s n \<longleftrightarrow>
     (\<forall>mac mac' ip. holder ws s n mac ip \<longrightarrow> holder ws s n mac' ip \<longrightarrow> mac = mac') \<and>
     (\<forall>mac ip. holder ws s n mac ip \<longrightarrow> ip \<in> ipam_pool.in_use (ipAllocator s) n) \<and>
     (\<forall>i ip. hands n ip (ws i) \<longrightarrow> ip \<in> ipam_pool.in_use (ipAllocator s) n \<and> (\<forall>mac. \<not> holder ws s n mac ip)) \<and>
     (\<forall>i j ip. hands n ip (ws i) \<longrightarrow> hands n ip (ws j) \<longrightarrow> i = j) \<and>
     (\<forall>i mac ip. gives_back n mac ip (ws i) \<longrightarrow> holder ws s n mac ip)"

definition net_ok :: "(nat \<Rightarrow> worker) \<Rightarrow> ctl \<Rightarrow> string \<Rightarrow> bool" where
  "net_ok ws s n \<longleftrightarrow> (\<exists>i. closes n (ws i)) \<or> table_of (cacheAllocator s) n = None \<or> sound ws s n"

definition separate :: "(nat \<Rightarrow> worker) \<Rightarrow> bool" where
  "separate ws \<longleftrightarrow> (\<forall>i j k. busy_with (ws i) = Some k \<longrightarrow> busy_with (ws j) = Some k \<longrightarrow> i = j)"

text \<open>
  What a worker that loads a pool relies on: the table is empty until the reserved addresses are
  revoked, and the address from the IPAM is the canonical form of the one of the record.
\<close>

fun load_ok :: "ctl \<Rightarrow> worker \<Rightarrow> bool" where
  "load_ok s (AtRevokeIP p rs) = (loadable p \<and> (\<forall>mac ip. \<not> bound s (pool_network p) mac ip))"
| "load_ok s (AtRebuild p ks) = (loadable p \<and> set ks \<subseteq> dom (recorded p))"
| "load_ok s (AtRebuildAdd p ip' ip ks) = (loadable p \<and> set ks \<subseteq> dom (recorded p) \<and> canonical_ip ip' \<and> ParseIP ip = ParseIP ip')"
| "load_ok s (AtAddMAC nc ip) = canonical_ip ip"
| "load_ok s w = (case loads w of Some p \<Rightarrow> loadable p | None \<Rightarrow> True)"

definition undisturbed :: "(nat \<Rightarrow> worker) \<Rightarrow> bool" where
  "undisturbed ws \<longleftrightarrow> (\<forall>i j p. loads (ws i) = Some p \<longrightarrow> place (ws j) = Some (pool_network p) \<longrightarrow> i = j)"

definition work_inv :: "(nat \<Rightarrow> worker) \<times> ctl \<Rightarrow> bool" where
  "work_inv c \<longleftrightarrow> (case c of (ws, s) \<Rightarrow> ipam_wf (ipAllocator s) \<and> separate ws \<and> undisturbed ws \<and> (\<forall>n. net_ok ws s n) \<and> (\<forall>i. load_ok s (ws i)))"

text \<open>No worker has something in hand, after one of them has changed.\<close>

lemma none_upd: "(\<forall>j. \<not> P ((ws(i := t)) j)) \<longleftrightarrow> \<not> P t \<and> (\<forall>j. j \<noteq> i \<longrightarrow> \<not> P (ws j))"
  by (metis fun_upd_apply)

lemma none_split: "(\<forall>j. \<not> P (ws j)) \<longleftrightarrow> \<not> P (ws i) \<and> (\<forall>j. j \<noteq> i \<longrightarrow> \<not> P (ws j))"
  by metis

lemma none_swap: "\<not> P t \<Longrightarrow> \<not> P (ws i) \<Longrightarrow> (\<forall>j. \<not> P ((ws(i := t)) j)) = (\<forall>j. \<not> P (ws j))"
  using none_upd [of P ws i t] none_split [of P ws i] by simp

text \<open>A worker has something in hand on the network it deals with only.\<close>

lemma place_views:
  "closes n w \<Longrightarrow> place w = Some n" "leaves n mac w \<Longrightarrow> place w = Some n" "hands n ip w \<Longrightarrow> place w = Some n"
  "gives_back n mac ip w \<Longrightarrow> place w = Some n"
  by (cases w; simp)+

lemma busy_views:
  "leaves n mac w \<Longrightarrow> busy_with w = Some (n, mac)" "gives_back n mac ip w \<Longrightarrow> busy_with w = Some (n, mac)"
  by (cases w; simp)+

text \<open>
  A step that leaves the stores of a network alone, and takes nothing new in hand there.
\<close>

lemma net_ok_quiet:
  assumes "net_ok ws s n" "closes n (ws i) \<longrightarrow> closes n t" "\<And>mac. leaves n mac t = leaves n mac (ws i)"
    "\<And>ip. hands n ip t \<Longrightarrow> hands n ip (ws i)" "\<And>mac ip. gives_back n mac ip t \<Longrightarrow> gives_back n mac ip (ws i)"
    "table_of (cacheAllocator s') n = table_of (cacheAllocator s) n" "pool_of (ipAllocator s') n = pool_of (ipAllocator s) n"
  shows "net_ok (ws(i := t)) s' n"
proof -
  have l: "(\<forall>j. \<not> leaves n mac ((ws(i := t)) j)) = (\<forall>j. \<not> leaves n mac (ws j))" for mac using assms(3) by auto
  have h: "holder (ws(i := t)) s' n = holder ws s n" by (simp only: fun_eq_iff holder_def bound_def l assms(6)) simp
  have u: "ipam_pool.in_use (ipAllocator s') n = ipam_pool.in_use (ipAllocator s) n" by (simp add: ipam_pool.in_use_def assms(7))
  have v: "hands n ip ((ws(i := t)) j) \<Longrightarrow> hands n ip (ws j)" "gives_back n mac ip ((ws(i := t)) j) \<Longrightarrow> gives_back n mac ip (ws j)" for ip mac j
    using assms(4,5) by (auto split: if_splits)
  have c: "closes n (ws j) \<Longrightarrow> closes n ((ws(i := t)) j)" for j using assms(2) by auto
  have "sound ws s n \<Longrightarrow> sound (ws(i := t)) s' n" unfolding sound_def h u using v by meson
  with assms(1) c show ?thesis unfolding net_ok_def assms(6) by blast
qed

lemma net_ok_elsewhere:
  assumes "net_ok ws s n" "place (ws i) \<noteq> Some n" "place t \<noteq> Some n" "table_of (cacheAllocator s') n = table_of (cacheAllocator s) n"
    "pool_of (ipAllocator s') n = pool_of (ipAllocator s) n"
  shows "net_ok (ws(i := t)) s' n"
  using assms by (intro net_ok_quiet [OF assms(1)]) (auto dest: place_views)

text \<open>The operations that change the stores, on their own network.\<close>

lemma soundD:
  assumes "sound ws s n"
  shows "holder ws s n mac ip \<Longrightarrow> holder ws s n mac' ip \<Longrightarrow> mac = mac'"
    "holder ws s n mac ip \<Longrightarrow> ip \<in> ipam_pool.in_use (ipAllocator s) n"
    "hands n ip (ws i) \<Longrightarrow> ip \<in> ipam_pool.in_use (ipAllocator s) n"
    "hands n ip (ws i) \<Longrightarrow> \<not> holder ws s n mac ip"
    "hands n ip (ws i) \<Longrightarrow> hands n ip (ws j) \<Longrightarrow> i = j"
    "gives_back n mac ip (ws i) \<Longrightarrow> holder ws s n mac ip"
  using assms unfolding sound_def by blast+

text \<open>To show that a network is kept, it may be taken to be open and sound before the step.\<close>

lemma net_ok_step:
  assumes "net_ok ws s n" "\<not> closes n (ws i)" "table_of (cacheAllocator s) n = None \<Longrightarrow> table_of (cacheAllocator s') n = None"
    "sound ws s n \<Longrightarrow> table_of (cacheAllocator s) n \<noteq> None \<Longrightarrow> sound (ws(i := t)) s' n"
  shows "net_ok (ws(i := t)) s' n"
proof -
  consider j where "closes n (ws j)" | "table_of (cacheAllocator s) n = None" | "sound ws s n" "table_of (cacheAllocator s) n \<noteq> None"
    using assms(1) unfolding net_ok_def by (cases "table_of (cacheAllocator s) n") auto
  then show ?thesis
  proof cases
    case (1 j)
    with assms(2) have "closes n ((ws(i := t)) j)" by auto
    then show ?thesis unfolding net_ok_def by blast
  qed (use assms(3,4) in \<open>simp_all add: net_ok_def\<close>)
qed

lemma allocate_sound:
  assumes "go_range (w_rng W)" "ipam_wf (ipAllocator s)" "\<And>mac. \<not> leaves n mac (ws i)" "\<And>mac. \<not> leaves n mac t" "\<And>ip'. hands n ip' t \<Longrightarrow> ip' = ip"
    "\<And>mac ip. \<not> gives_back n mac ip t" "AllocateIP (w_rng W) (ipAllocator s) n r = (a, ip, None)" "sound ws s n"
  shows "sound (ws(i := t)) (s\<lparr>ipAllocator := a\<rparr>) n"
proof -
  note m = ipam_pool.alloc_moves [OF assms(1,2,7)]
  have h: "holder (ws(i := t)) (s\<lparr>ipAllocator := a\<rparr>) n = holder ws s n"
    using none_swap [of "leaves n mac" t ws i for mac] assms(3,4) by (simp add: holder_def bound_def fun_eq_iff)
  have fresh: "\<not> holder ws s n mac ip" "\<not> hands n ip (ws j)" for mac j using soundD(2,3) [OF assms(8)] m(4) by blast+
  show ?thesis
    unfolding sound_def h using soundD [OF assms(8)] fresh assms(5,6) m(2) by (auto split: if_splits)
qed

lemma other_mac:
  assumes "separate ws" "busy_with (ws i) = Some (n, mac)"
  shows "j \<noteq> i \<Longrightarrow> \<not> leaves n mac (ws j)" "j \<noteq> i \<Longrightarrow> gives_back n mac' ip (ws j) \<Longrightarrow> mac' \<noteq> mac"
  using assms busy_views unfolding separate_def by blast+

lemma add_sound:
  assumes "hands n ip (ws i)" "\<And>mac ip. \<not> leaves n mac t \<and> \<not> hands n ip t \<and> \<not> gives_back n mac ip t" "\<And>j. j \<noteq> i \<Longrightarrow> \<not> leaves n mac (ws j)"
    "\<And>j mac' ip. j \<noteq> i \<Longrightarrow> gives_back n mac' ip (ws j) \<Longrightarrow> mac' \<noteq> mac"
    "canonical_ip ip" "AddMAC (cacheAllocator s) n mac ip = (c, None)" "sound ws s n"
  shows "sound (ws(i := t)) (s\<lparr>cacheAllocator := c\<rparr>) n"
proof -
  let ?ws = "ws(i := t)"
  obtain m where m: "table_of (cacheAllocator s) n = Some m" "table_of c = (table_of (cacheAllocator s))(n \<mapsto> m(mac \<mapsto> ip))"
    using mac_cache.add_ok [OF assms(6,5)] by blast
  have w: "\<not> leaves n mac' (ws i)" "\<not> gives_back n mac' ip' (ws i)" for mac' ip' using assms(1) by (cases "ws i"; simp)+
  have "\<not> leaves n mac (?ws j)" for j using assms(2) assms(3) [of j] by auto
  moreover have "(\<forall>j. \<not> leaves n mac' (?ws j)) = (\<forall>j. \<not> leaves n mac' (ws j))" for mac' using assms(2) w(1) by (intro none_swap) simp_all
  ultimately have h: "holder ?ws (s\<lparr>cacheAllocator := c\<rparr>) n mac' ip' \<longleftrightarrow> (if mac' = mac then ip' = ip else holder ws s n mac' ip')" for mac' ip'
    unfolding holder_def bound_def using m by auto
  have ip: "ip \<in> ipam_pool.in_use (ipAllocator s) n" "\<not> holder ws s n mac' ip" "hands n ip (ws j) \<Longrightarrow> j = i" for mac' j
    using soundD(3-5) [OF assms(7)] assms(1) by blast+
  show ?thesis
    unfolding sound_def h using soundD [OF assms(7)] ip assms(2,4) by (auto split: if_splits)
qed

lemma return_sound:
  assumes "separate ws" "ws i = AtDeallocateIP st" "ns_NetworkName st = n"
    "DeallocateIP (ipAllocator s) n (ns_AllocatedIPAddress st) = (a, None)" "sound ws s n"
  shows "sound (ws(i := AtHasEntry st)) (s\<lparr>ipAllocator := a\<rparr>) n"
proof -
  let ?mac = "ns_MACAddress st" and ?ip = "ns_AllocatedIPAddress st" and ?ws = "ws(i := AtHasEntry st)"
  note m = ipam_pool.dealloc_moves [OF assms(4)]
  have own: "holder ws s n ?mac ?ip" using soundD(6) [OF assms(5), of ?mac ?ip i] assms(2,3) by simp
  have "busy_with (ws i) = Some (n, ?mac)" using assms(2,3) by simp
  note other = other_mac [OF assms(1) this]
  have "(\<forall>j. \<not> leaves n mac' (?ws j)) \<longleftrightarrow> mac' \<noteq> ?mac \<and> (\<forall>j. \<not> leaves n mac' (ws j))" for mac'
    using none_upd [of "leaves n mac'" ws i "AtHasEntry st"] none_split [of "leaves n mac'" ws i] assms(2,3) by auto
  then have h: "holder ?ws (s\<lparr>ipAllocator := a\<rparr>) n mac' ip' \<longleftrightarrow> mac' \<noteq> ?mac \<and> holder ws s n mac' ip'" for mac' ip'
    unfolding holder_def bound_def by auto
  show ?thesis
    unfolding sound_def h using soundD [OF assms(5)] own other(2) m(2) by (auto split: if_splits)
qed

lemma forget_sound:
  assumes "separate ws" "leaves n mac (ws i)" "sound ws s n" "idle t" "ipAllocator s' = ipAllocator s"
    "\<And>mac' ip. bound s' n mac' ip \<longleftrightarrow> mac' \<noteq> mac \<and> bound s n mac' ip"
  shows "sound (ws(i := t)) s' n"
proof -
  have t: "\<not> leaves n mac' t" "\<not> hands n ip t" "\<not> gives_back n mac' ip t" for mac' ip using assms(4) by (cases t; simp)+
  have w: "\<not> hands n ip (ws i)" "\<not> gives_back n mac' ip (ws i)" "leaves n mac' (ws i) \<longleftrightarrow> mac' = mac" for mac' ip using assms(2) by (cases "ws i"; auto)+
  have h: "holder (ws(i := t)) s' n mac' ip' \<longleftrightarrow> holder ws s n mac' ip'" for mac' ip'
  proof (cases "mac' = mac")
    case True
    with assms(2,6) show ?thesis unfolding holder_def by blast
  next
    case False
    with t(1) w(3) have "(\<forall>j. \<not> leaves n mac' ((ws(i := t)) j)) = (\<forall>j. \<not> leaves n mac' (ws j))" by (intro none_swap) simp_all
    with False assms(6) show ?thesis unfolding holder_def by simp
  qed
  show ?thesis
    unfolding sound_def h assms(5) using soundD [OF assms(3)] t by (auto split: if_splits)
qed

section \<open>Every step keeps the invariant\<close>

lemma advance_busy: "advance W w s = (t, s') \<Longrightarrow> busy_with t = None \<or> busy_with t = busy_with w"
  by (cases w) (auto split: prod.splits option.splits if_splits outcome.splits list.splits)

lemma advance_place: "advance W w s = (t, s') \<Longrightarrow> place t = None \<or> place t = place w"
  by (cases w) (auto split: prod.splits option.splits if_splits outcome.splits list.splits)

lemma advance_loads: "advance W w s = (t, s') \<Longrightarrow> loads t = None \<or> loads t = loads w"
  by (cases w) (auto split: prod.splits option.splits if_splits outcome.splits list.splits)

lemma AddMAC_elsewhere: "AddMAC c n mac ip = (c', err) \<Longrightarrow> n' \<noteq> n \<Longrightarrow> table_of c' n' = table_of c n'"
  by (auto simp: AddMAC_def table_of_def split: option.splits)

lemma DeleteMAC_elsewhere: "DeleteMAC c n mac = (c', err) \<Longrightarrow> n' \<noteq> n \<Longrightarrow> table_of c' n' = table_of c n'"
  by (auto simp: DeleteMAC_def table_of_def split: option.splits)

lemma AllocateIP_elsewhere:
  assumes "go_range rng" "ipam_wf a" "AllocateIP rng a n r = (a', ip, err)" "n' \<noteq> n"
  shows "pool_of a' n' = pool_of a n'"
  using assms ipam_pool.alloc_ok [OF assms(1,2), of n r a' ip] ipam_pool.alloc_err [of rng a n r a' ip] by (cases err) auto

lemma DeallocateIP_elsewhere: "DeallocateIP a n ip = (a', err) \<Longrightarrow> n' \<noteq> n \<Longrightarrow> pool_of a' n' = pool_of a n'"
  using ipam_pool.dealloc_ok [of a n ip a'] ipam_pool.dealloc_err [of a n ip a'] by (cases err) auto

lemma NewIPSubnet_shape:
  "NewIPSubnet a n cidr b e = Ret (a', err) \<Longrightarrow> (err \<noteq> None \<and> a' = a) \<or> (err = None \<and> (\<exists>sn. a' = a\<lparr>ipam := (ipam a)(n \<mapsto> sn)\<rparr>))"
  by (auto simp: NewIPSubnet_def Let_def go_bind_Ret_iff split: if_splits sum.splits option.splits prod.splits outcome.splits bool.splits)

lemma NewIPSubnet_elsewhere: "NewIPSubnet a n cidr b e = Ret (a', err) \<Longrightarrow> n' \<noteq> n \<Longrightarrow> pool_of a' n' = pool_of a n'"
  by (auto simp: pool_of_def dest!: NewIPSubnet_shape)

lemma RevokeIP_elsewhere: "RevokeIP a n ip = (a', err) \<Longrightarrow> n' \<noteq> n \<Longrightarrow> pool_of a' n' = pool_of a n'"
  using pool_of_revoke [of a n ip] by simp

lemma NewMACSet_elsewhere: "NewMACSet c n = (c', err) \<Longrightarrow> n' \<noteq> n \<Longrightarrow> table_of c' n' = table_of c n'"
  using table_of_new [of c n] by simp

lemmas elsewhere = AddMAC_elsewhere DeleteMAC_elsewhere AllocateIP_elsewhere DeallocateIP_elsewhere NewIPSubnet_elsewhere RevokeIP_elsewhere NewMACSet_elsewhere

lemma advance_elsewhere:
  assumes "go_range (w_rng W)" "ipam_wf (ipAllocator s)" "advance W w s = (t, s')" "place w \<noteq> Some n"
  shows "table_of (cacheAllocator s') n = table_of (cacheAllocator s) n \<and> pool_of (ipAllocator s') n = pool_of (ipAllocator s) n"
  using assms(3,4)
  by (cases w) (auto simp: table_of_delete pool_of_delete AllocateIP_elsewhere [OF assms(1,2)] elsewhere(1,2,4-)
      split: prod.splits option.splits if_splits outcome.splits list.splits)

lemma advance_wf:
  assumes "go_range (w_rng W)" "ipam_wf (ipAllocator s)" "load_ok s w" "advance W w s = (t, s')"
  shows "ipam_wf (ipAllocator s')"
proof -
  have "ipam_wf (fst (AllocateIP (w_rng W) (ipAllocator s) n r))" "ipam_wf (fst (DeallocateIP (ipAllocator s) n ip))"
    "ipam_wf (DeleteIPSubnet (ipAllocator s) n)" "ipam_wf (fst (RevokeIP (ipAllocator s) n ip))" for n r ip
    using assms(1,2) by (simp_all add: AllocateIP_wf DeallocateIP_wf DeleteIPSubnet_wf RevokeIP_wf)
  moreover have "ipam_wf a" if "w = AtNewIPSubnet p" "NewIPSubnet (ipAllocator s) n (c4_CIDR (pool_config p)) b e = Ret (a, err)" for p n b e a err
    using that assms(2,3) NewIPSubnet_wf by (fastforce simp: loadable_def)
  ultimately show ?thesis
    using assms(2,4) by (cases w) (auto split: prod.splits option.splits if_splits outcome.splits list.splits simp: prod_eq_iff)
qed

text \<open>An operation that reports that the network is unknown finds no table.\<close>

lemma HasMAC_unknown: "HasMAC c n mac = (b, Some e) \<Longrightarrow> table_of c n = None"
  by (auto simp: HasMAC_def table_of_def split: option.splits)

lemma DeleteMAC_unknown: "DeleteMAC c n mac = (c', Some e) \<Longrightarrow> c' = c \<and> table_of c n = None"
  by (auto simp: DeleteMAC_def table_of_def split: option.splits)

lemma IsAllocated_pool: "IsAllocated a n ip = (False, None) \<Longrightarrow> ip \<notin> ipam_pool.in_use a n"
  by (auto simp: IsAllocated_def ipam_pool.in_use_def pool_of_def split: option.splits)

lemma net_ok_gone: "table_of (cacheAllocator s) n = None \<Longrightarrow> net_ok ws s n"
  by (simp add: net_ok_def)

lemma work_invD:
  assumes "work_inv (ws, s)"
  shows "ipam_wf (ipAllocator s)" "separate ws" "net_ok ws s n" "load_ok s (ws i)" "undisturbed ws"
  using assms by (auto simp: work_inv_def)

lemma work_invI:
  assumes "ipam_wf (ipAllocator s)" "separate ws" "undisturbed ws" "\<And>n. net_ok ws s n" "\<And>i. load_ok s (ws i)"
  shows "work_inv (ws, s)"
  using assms by (auto simp: work_inv_def)

lemma keep_allocate:
  assumes "go_range (w_rng W)" "work_inv (ws, s)" "ws i = AtAllocateIP v nc" "advance W (ws i) s = (t, s')" "nc_NetworkName nc = n"
  shows "net_ok (ws(i := t)) s' n"
proof -
  note inv = work_invD [OF assms(2)]
  obtain a ip err where al: "AllocateIP (w_rng W) (ipAllocator s) n (desired_ip v nc) = (a, ip, err)" by (metis prod_cases3)
  show ?thesis
  proof (cases err)
    case None
    with al have "sound ws s n \<Longrightarrow> sound (ws(i := t)) s' n"
      using allocate_sound [of W s n ws i "AtAddMAC nc ip" ip "desired_ip v nc" a, OF assms(1) inv(1)] assms(3-5) by auto
    with None al assms(3-5) show ?thesis by (intro net_ok_step [OF inv(3)]) auto
  next
    case (Some e)
    with al AllocateIP_err [of "w_rng W" "ipAllocator s" n "desired_ip v nc" a ip e] assms(3-5) show ?thesis
      by (intro net_ok_quiet [OF inv(3)]) auto
  qed
qed

lemma keep_add:
  assumes "work_inv (ws, s)" "ws i = AtAddMAC nc ip" "advance W (ws i) s = (t, s')" "nc_NetworkName nc = n"
  shows "net_ok (ws(i := t)) s' n"
proof -
  note inv = work_invD [OF assms(1)]
  have can: "canonical_ip ip" using inv(4) [of i] assms(2) by simp
  have "busy_with (ws i) = Some (n, nc_MACAddress nc)" using assms(2,4) by simp
  note other = other_mac [OF inv(2) this]
  obtain c err where ad: "AddMAC (cacheAllocator s) n (nc_MACAddress nc) ip = (c, err)" by fastforce
  show ?thesis
  proof (cases err)
    case None
    obtain m where m: "table_of (cacheAllocator s) n = Some m" using mac_cache.add_ok ad None can by blast
    have "sound ws s n \<Longrightarrow> sound (ws(i := t)) s' n"
      using add_sound [of n ip ws i t "nc_MACAddress nc" s c] can other None ad assms(2-4) by auto
    with m assms(2) show ?thesis by (intro net_ok_step [OF inv(3)]) auto
  next
    case (Some e)
    with ad AddMAC_err [of "cacheAllocator s" n "nc_MACAddress nc" ip c e] assms(2-4) show ?thesis
      by (intro net_ok_quiet [OF inv(3)]) auto
  qed
qed

lemma keep_asked:
  assumes "work_inv (ws, s)" "ws i = AtIsAllocated st" "advance W (ws i) s = (t, s')" "ns_NetworkName st = n"
  shows "net_ok (ws(i := t)) s' n"
proof -
  note inv = work_invD [OF assms(1)]
  let ?ip = "ns_AllocatedIPAddress st"
  obtain b err where al: "IsAllocated (ipAllocator s) n ?ip = (b, err)" by fastforce
  show ?thesis
  proof (cases "err = None \<and> \<not> b")
    case True
    have "\<not> sound ws s n"
    proof
      assume so: "sound ws s n"
      have "gives_back n (ns_MACAddress st) ?ip (ws i)" using assms(2,4) by simp
      from soundD(2) [OF so soundD(6) [OF so this]] True al show False using IsAllocated_pool [of "ipAllocator s" n ?ip] by simp
    qed
    with al assms(2-4) True show ?thesis by (intro net_ok_step [OF inv(3)]) auto
  next
    case False
    with al assms(2-4) show ?thesis by (intro net_ok_quiet [OF inv(3)]) (auto split: option.splits if_splits)
  qed
qed

lemma keep_return:
  assumes "work_inv (ws, s)" "ws i = AtDeallocateIP st" "advance W (ws i) s = (t, s')" "ns_NetworkName st = n"
  shows "net_ok (ws(i := t)) s' n"
proof -
  note inv = work_invD [OF assms(1)]
  obtain a err where al: "DeallocateIP (ipAllocator s) n (ns_AllocatedIPAddress st) = (a, err)" by fastforce
  show ?thesis
  proof (cases err)
    case None
    with return_sound [where ws = ws and i = i, OF inv(2) assms(2,4)] al have "sound ws s n \<Longrightarrow> sound (ws(i := t)) s' n"
      using assms(2-4) by auto
    with None al assms(2-4) show ?thesis by (intro net_ok_step [OF inv(3)]) auto
  next
    case (Some e)
    with al DeallocateIP_err [of "ipAllocator s" n "ns_AllocatedIPAddress st" a e] assms(2-4) show ?thesis
      by (intro net_ok_quiet [OF inv(3)]) auto
  qed
qed

lemma keep_entry:
  assumes "work_inv (ws, s)" "ws i = AtHasEntry st" "advance W (ws i) s = (t, s')" "ns_NetworkName st = n"
  shows "net_ok (ws(i := t)) s' n"
proof -
  note inv = work_invD [OF assms(1)]
  let ?mac = "ns_MACAddress st"
  obtain b err where h: "HasMAC (cacheAllocator s) n ?mac = (b, err)" by fastforce
  consider "err = None" b | (absent) "err = None" "\<not> b" | e where "err = Some e" by (cases err) auto
  then show ?thesis
  proof cases
    case absent
    with h have none: "\<not> bound s n ?mac ip" for ip using mac_cache.has_ok [of "cacheAllocator s" n ?mac b] by (auto simp: bound_def)
    have "leaves n ?mac (ws i)" "idle t" "s' = s" using absent assms(2-4) h by auto
    with none have "sound ws s n \<Longrightarrow> sound (ws(i := t)) s' n" by (intro forget_sound [OF inv(2)]) auto
    with absent h assms(2-4) show ?thesis by (intro net_ok_step [OF inv(3)]) auto
  next
    case (3 e)
    with h assms(2-4) HasMAC_unknown [of "cacheAllocator s" n ?mac b e] show ?thesis by (intro net_ok_gone) auto
  qed (use h assms(2-4) in \<open>intro net_ok_quiet [OF inv(3)]; auto\<close>)
qed

lemma keep_delete:
  assumes "work_inv (ws, s)" "ws i = AtDeleteMAC st" "advance W (ws i) s = (t, s')" "ns_NetworkName st = n"
  shows "net_ok (ws(i := t)) s' n"
proof -
  note inv = work_invD [OF assms(1)]
  let ?mac = "ns_MACAddress st"
  obtain c err where d: "DeleteMAC (cacheAllocator s) n ?mac = (c, err)" by fastforce
  show ?thesis
  proof (cases err)
    case None
    then obtain m where m: "table_of (cacheAllocator s) n = Some m" "table_of c = (table_of (cacheAllocator s))(n \<mapsto> m(?mac := None))"
      using mac_cache.del_ok [of "cacheAllocator s" n ?mac c] d by blast
    have s': "s' = s\<lparr>cacheAllocator := c\<rparr>" "t = Released None" "leaves n ?mac (ws i)" using None d assms(2-4) by auto
    have "bound s' n mac ip \<longleftrightarrow> mac \<noteq> ?mac \<and> bound s n mac ip" for mac ip using m by (auto simp: bound_def s')
    with s' have "sound ws s n \<Longrightarrow> sound (ws(i := t)) s' n" by (intro forget_sound [OF inv(2)]) auto
    with m(1) assms(2) show ?thesis by (intro net_ok_step [OF inv(3)]) auto
  next
    case (Some e)
    with d assms(2-4) DeleteMAC_unknown [of "cacheAllocator s" n ?mac c e] show ?thesis by (intro net_ok_gone) auto
  qed
qed

text \<open>A worker that loads a pool is the only one that deals with its network.\<close>

lemma loader_alone:
  assumes "undisturbed ws" "loads (ws i) = Some p" "pool_network p = n" "j \<noteq> i"
  shows "\<not> closes n (ws j)" "\<not> leaves n mac (ws j)" "\<not> hands n ip (ws j)" "\<not> gives_back n mac ip (ws j)"
  using assms place_views unfolding undisturbed_def by metis+

lemma empty_sound:
  assumes "undisturbed ws" "loads (ws i) = Some p" "pool_network p = n" "\<And>mac ip. \<not> hands n ip t \<and> \<not> gives_back n mac ip t" "\<And>mac ip. \<not> bound s n mac ip"
  shows "sound (ws(i := t)) s n"
  unfolding sound_def holder_def using assms(4,5) loader_alone [OF assms(1-3)] by auto

lemma keep_subnet:
  assumes "work_inv (ws, s)" "ws i = AtNewIPSubnet p" "advance W (ws i) s = (t, s')" "pool_network p = n"
  shows "net_ok (ws(i := t)) s' n"
proof (cases "t = AtNewMACSet p")
  case True
  with assms(4) have "closes n ((ws(i := t)) i)" by simp
  then show ?thesis unfolding net_ok_def by blast
next
  case False
  with assms(2,3) have "s' = s \<and> (t = Dead \<or> (\<exists>e. t = Loaded e))"
    by (auto split: outcome.splits prod.splits option.splits dest: NewIPSubnet_shape)
  with assms(2) show ?thesis by (intro net_ok_quiet [OF work_invD(3) [OF assms(1)]]) auto
qed

lemma keep_macset:
  assumes "work_inv (ws, s)" "ws i = AtNewMACSet p" "advance W (ws i) s = (t, s')" "pool_network p = n"
  shows "net_ok (ws(i := t)) s' n"
proof -
  note inv = work_invD [OF assms(1)]
  obtain c where c: "NewMACSet (cacheAllocator s) n = (c, None)" by (simp add: NewMACSet_def)
  with table_of_new [of "cacheAllocator s" n] have "\<not> bound s' n mac ip" for mac ip using assms(2-4) by (auto simp: bound_def)
  moreover have "\<not> hands n ip t" "\<not> gives_back n mac ip t" for mac ip using c assms(2-4) by auto
  ultimately have "sound (ws(i := t)) s' n" using assms(2,4) by (intro empty_sound [OF inv(5)]) simp_all
  then show ?thesis by (simp add: net_ok_def)
qed

lemma keep_revoke:
  assumes "work_inv (ws, s)" "ws i = AtRevokeIP p rs" "advance W (ws i) s = (t, s')" "pool_network p = n"
  shows "net_ok (ws(i := t)) s' n"
proof -
  note inv = work_invD [OF assms(1)]
  have "cacheAllocator s' = cacheAllocator s" "\<not> hands n ip t" "\<not> gives_back n mac ip t" for mac ip
    using assms(2,3) by (auto split: list.splits prod.splits option.splits)
  with inv(4) [of i] have "sound (ws(i := t)) s' n" using assms(2,4) by (intro empty_sound [OF inv(5)]) (auto simp: bound_def)
  then show ?thesis by (simp add: net_ok_def)
qed

text \<open>An address of the record that is not reserved is allocated in its canonical form.\<close>

lemma recorded_form:
  assumes "go_range rng" "ipam_wf a" "loadable p" "recorded p ip = Some mac" "mac \<noteq> ExcludedMark" "mac \<noteq> ReservedMark"
    "AllocateIP rng a n ip = (a', ip', None)"
  shows "canonical_ip ip' \<and> ParseIP ip = ParseIP ip'"
proof -
  have "ip \<in> held (recorded p)" using assms(4-6) by (auto simp: held_def marks_def)
  then have "specified ip" using assms(3) by (simp add: loadable_def)
  from AllocateIP_specified [OF assms(1,2,7) this] AllocateIP_canonical [OF assms(1,2,7)] show ?thesis by auto
qed

lemma keep_rebuild:
  assumes "go_range (w_rng W)" "work_inv (ws, s)" "ws i = AtRebuild p ks" "advance W (ws i) s = (t, s')" "pool_network p = n"
  shows "net_ok (ws(i := t)) s' n"
proof (cases "\<exists>ip' ip rest. t = AtRebuildAdd p ip' ip rest")
  case True
  note inv = work_invD [OF assms(2)]
  from True obtain ip' ip rest a where a: "t = AtRebuildAdd p ip' ip rest" "AllocateIP (w_rng W) (ipAllocator s) n ip = (a, ip', None)" "s' = s\<lparr>ipAllocator := a\<rparr>"
    using assms(3-5) by (auto split: list.splits prod.splits option.splits if_splits)
  have "sound ws s n \<Longrightarrow> sound (ws(i := t)) s' n"
    unfolding a(3) using a(1) assms(3) by (intro allocate_sound [OF assms(1) inv(1) _ _ _ _ a(2)]) auto
  with a assms(3) show ?thesis by (intro net_ok_step [OF inv(3)]) auto
next
  case False
  with assms(3,4) have "s' = s \<and> ((\<exists>e. t = Loaded e) \<or> (\<exists>ks'. t = AtRebuild p ks'))"
    by (auto split: list.splits prod.splits option.splits if_splits dest: AllocateIP_err)
  with assms(3) show ?thesis by (intro net_ok_quiet [OF work_invD(3) [OF assms(2)]]) auto
qed

lemma keep_rebuild_add:
  assumes "work_inv (ws, s)" "ws i = AtRebuildAdd p ip' ip rest" "advance W (ws i) s = (t, s')" "pool_network p = n"
  shows "net_ok (ws(i := t)) s' n"
proof -
  note inv = work_invD [OF assms(1)]
  let ?mac = "the (recorded p ip)"
  have can: "canonical_ip ip'" "ParseIP ip = ParseIP ip'" using inv(4) [of i] assms(2) by simp_all
  note other = loader_alone [OF inv(5), of i p n]
  obtain c err where ad: "AddMAC (cacheAllocator s) n ?mac ip = (c, err)" by fastforce
  show ?thesis
  proof (cases err)
    case None
    have ad': "AddMAC (cacheAllocator s) n ?mac ip' = (c, None)" using ad None AddMAC_same [OF can(2)] by simp
    obtain m where m: "table_of (cacheAllocator s) n = Some m" using mac_cache.add_ok ad' can(1) by blast
    have "sound ws s n \<Longrightarrow> sound (ws(i := t)) s' n"
      using add_sound [of n ip' ws i t ?mac s c] can(1) ad' other ad None assms(2-4) by auto
    with m assms(2) show ?thesis by (intro net_ok_step [OF inv(3)]) auto
  next
    case (Some e)
    with ad AddMAC_err [of "cacheAllocator s" n ?mac ip c e] assms(2-4) show ?thesis
      by (intro net_ok_quiet [OF inv(3)]) auto
  qed
qed

lemma advance_net_ok:
  assumes "go_range (w_rng W)" "work_inv (ws, s)" "advance W (ws i) s = (t, s')"
  shows "net_ok (ws(i := t)) s' n"
proof (cases "place (ws i) = Some n")
  case False
  then have "place t \<noteq> Some n" using advance_place [OF assms(3)] by auto
  with False advance_elsewhere [OF assms(1) work_invD(1) [OF assms(2)] assms(3) False] show ?thesis
    by (intro net_ok_elsewhere [OF work_invD(3) [OF assms(2)]]) simp_all
next
  case True
  note quiet = net_ok_quiet [OF work_invD(3) [OF assms(2), of n], of i t s']
  show ?thesis
  proof (cases "ws i")
    case (AtHasMAC v nc)
    with assms(3) show ?thesis by (intro quiet) (auto split: prod.splits option.splits if_splits)
  next
    case (AtGetIPByMAC nc)
    with assms(3) show ?thesis by (intro quiet) (auto split: prod.splits option.splits)
  next
    case (AtAllocateIP v nc)
    with True show ?thesis by (intro keep_allocate [OF assms(1,2) _ assms(3)]) simp_all
  next
    case (AtAddMAC nc ip)
    with True show ?thesis by (intro keep_add [OF assms(2) _ assms(3)]) simp_all
  next
    case (AtIsAllocated st)
    with True show ?thesis by (intro keep_asked [OF assms(2) _ assms(3)]) simp_all
  next
    case (AtDeallocateIP st)
    with True show ?thesis by (intro keep_return [OF assms(2) _ assms(3)]) simp_all
  next
    case (AtHasEntry st)
    with True show ?thesis by (intro keep_entry [OF assms(2) _ assms(3)]) simp_all
  next
    case (AtDeleteMAC st)
    with True show ?thesis by (intro keep_delete [OF assms(2) _ assms(3)]) simp_all
  next
    case (AtDeleteIPSubnet m)
    with assms(3) True have "closes n ((ws(i := t)) i)" by auto
    then show ?thesis unfolding net_ok_def by blast
  next
    case (AtDeleteMACSet m)
    with assms(3) True show ?thesis by (intro net_ok_gone) (auto simp: table_of_delete)
  next
    case (AtNewIPSubnet p)
    with True show ?thesis by (intro keep_subnet [OF assms(2) _ assms(3)]) simp_all
  next
    case (AtNewMACSet p)
    with True show ?thesis by (intro keep_macset [OF assms(2) _ assms(3)]) simp_all
  next
    case (AtRevokeIP p rs)
    with True show ?thesis by (intro keep_revoke [OF assms(2) _ assms(3)]) simp_all
  next
    case (AtRebuild p ks)
    with True show ?thesis by (intro keep_rebuild [OF assms(1,2) _ assms(3)]) simp_all
  next
    case (AtRebuildAdd p ip' ip rest)
    with True show ?thesis by (intro keep_rebuild_add [OF assms(2) _ assms(3)]) simp_all
  qed (use True in simp_all)
qed

lemma advance_load_ok:
  assumes "go_range (w_rng W)" "ipam_wf (ipAllocator s)" "load_ok s w" "advance W w s = (t, s')"
  shows "load_ok s' t"
proof (cases w)
  case (AtAllocateIP v nc)
  with assms(4) AllocateIP_canonical [OF assms(1,2)] show ?thesis by (auto split: prod.splits option.splits)
next
  case (AtNewMACSet p)
  with assms(3,4) table_of_new [of "cacheAllocator s" "pool_network p"] show ?thesis
    by (auto simp: bound_def NewMACSet_def)
next
  case (AtRevokeIP p rs)
  with assms(1) have "set (w_rng W (dom (recorded p))) \<subseteq> dom (recorded p)" if "loadable p"
    using that ranges_set by (auto simp: go_range_def loadable_def)
  with AtRevokeIP assms(3,4) show ?thesis by (auto simp: bound_def split: list.splits prod.splits option.splits if_splits)
next
  case (AtRebuild p ks)
  with assms(3,4) recorded_form [OF assms(1,2)] show ?thesis by (auto split: list.splits prod.splits option.splits if_splits)
qed (use assms(3,4) in \<open>auto split: prod.splits option.splits if_splits outcome.splits\<close>)

lemma load_ok_elsewhere:
  assumes "load_ok s w" "\<And>p. loads w = Some p \<Longrightarrow> table_of (cacheAllocator s') (pool_network p) = table_of (cacheAllocator s) (pool_network p)"
  shows "load_ok s' w"
  using assms by (cases w) (auto simp: bound_def)

lemma undisturbed_upd:
  assumes "undisturbed ws" "\<And>j p. j \<noteq> i \<Longrightarrow> loads t = Some p \<Longrightarrow> place (ws j) \<noteq> Some (pool_network p)"
    "\<And>j p. j \<noteq> i \<Longrightarrow> loads (ws j) = Some p \<Longrightarrow> place t \<noteq> Some (pool_network p)"
  shows "undisturbed (ws(i := t))"
  using assms unfolding undisturbed_def by auto

lemma separate_upd: "separate ws \<Longrightarrow> \<forall>j k. busy_with t = Some k \<longrightarrow> busy_with (ws j) = Some k \<longrightarrow> j = i \<Longrightarrow> separate (ws(i := t))"
  unfolding separate_def by (metis fun_upd_apply)

lemma advance_undisturbed:
  assumes "undisturbed ws" "advance W (ws i) s = (t, s')"
  shows "undisturbed (ws(i := t))"
proof (rule undisturbed_upd [OF assms(1)])
  fix j p assume "j \<noteq> i"
  then show "loads t = Some p \<Longrightarrow> place (ws j) \<noteq> Some (pool_network p)" "loads (ws j) = Some p \<Longrightarrow> place t \<noteq> Some (pool_network p)"
    using advance_loads [OF assms(2)] advance_place [OF assms(2)] assms(1) unfolding undisturbed_def by (metis option.distinct(1))+
qed

lemma advance_inv:
  assumes "go_range (w_rng W)" "work_inv (ws, s)" "advance W (ws i) s = (t, s')"
  shows "work_inv (ws(i := t), s')"
proof -
  note inv = work_invD [OF assms(2)]
  have "\<forall>j k. busy_with t = Some k \<longrightarrow> busy_with (ws j) = Some k \<longrightarrow> j = i"
    using advance_busy [OF assms(3)] inv(2) unfolding separate_def by (metis option.distinct(1))
  from advance_wf [OF assms(1) inv(1,4) assms(3)] separate_upd [OF inv(2) this] advance_undisturbed [OF inv(5) assms(3)] advance_net_ok [OF assms]
  show ?thesis
  proof (rule work_invI)
    fix j
    show "load_ok s' ((ws(i := t)) j)"
    proof (cases "j = i")
      case True
      with advance_load_ok [OF assms(1) inv(1,4) assms(3)] show ?thesis by simp
    next
      case False
      have "place (ws i) \<noteq> Some (pool_network p)" if "loads (ws j) = Some p" for p using inv(5) that False unfolding undisturbed_def by metis
      with False advance_elsewhere [OF assms(1) inv(1) assms(3)] load_ok_elsewhere [OF inv(4) [of j]] show ?thesis by simp
    qed
  qed
qed

lemma begin_net_ok:
  assumes "work_inv (ws, s)" "idle (ws i)" "may_begin ws s t"
  shows "net_ok (ws(i := t)) s n"
proof (cases "\<exists>st. t = AtIsAllocated st \<and> ns_NetworkName st = n")
  case False
  from assms(2) have w: "\<not> closes n (ws i)" "\<not> leaves n mac (ws i)" for mac by (cases "ws i"; simp)+
  from False assms(3) have "\<not> leaves n mac t" "\<not> hands n ip t" "\<not> gives_back n mac ip t" for mac ip by (cases t; auto)+
  with w show ?thesis by (intro net_ok_quiet [OF work_invD(3) [OF assms(1)]]) auto
next
  case True
  then obtain st where st: "t = AtIsAllocated st" "ns_NetworkName st = n" by blast
  let ?mac = "ns_MACAddress st" and ?ip = "ns_AllocatedIPAddress st"
  have w: "\<not> closes n (ws i)" "\<not> leaves n mac (ws i)" for mac using assms(2) by (cases "ws i"; simp)+
  have own: "holder ws s n ?mac ?ip" using assms(3) st busy_views(1) by (auto simp: holder_def)
  have "(\<forall>j. \<not> leaves n mac ((ws(i := t)) j)) = (\<forall>j. \<not> leaves n mac (ws j))" for mac using w(2) by (intro none_swap) (simp_all add: st)
  then have h: "holder (ws(i := t)) s n = holder ws s n" by (simp only: fun_eq_iff holder_def) simp
  have "sound ws s n \<Longrightarrow> sound (ws(i := t)) s n" unfolding h sound_def using own st by auto
  then show ?thesis using w(1) by (intro net_ok_step [OF work_invD(3) [OF assms(1)]]) auto
qed

lemma begin_undisturbed:
  assumes "undisturbed ws" "may_begin ws s t"
  shows "undisturbed (ws(i := t))"
proof (rule undisturbed_upd [OF assms(1)])
  fix j p
  show "loads t = Some p \<Longrightarrow> place (ws j) \<noteq> Some (pool_network p)" using assms(2) by (cases t) auto
  have "place (ws j) = Some (pool_network p)" "loading ws (pool_network p)" if "loads (ws j) = Some p"
    using that by (cases "ws j"; simp) (metis that loading_def)
  then show "loads (ws j) = Some p \<Longrightarrow> place t \<noteq> Some (pool_network p)" using assms(2) by (cases t) auto
qed

lemma begin_inv:
  assumes "work_inv (ws, s)" "idle (ws i)" "may_begin ws s t"
  shows "work_inv (ws(i := t), s)"
proof -
  note inv = work_invD [OF assms(1)]
  have "\<forall>j k. busy_with t = Some k \<longrightarrow> busy_with (ws j) = Some k \<longrightarrow> j = i" using assms(3) by (cases t) auto
  from inv(1) separate_upd [OF inv(2) this] begin_undisturbed [OF inv(5) assms(3)] begin_net_ok [OF assms] show ?thesis
  proof (rule work_invI)
    have "load_ok s t" using assms(3) by (cases t) simp_all
    then show "load_ok s ((ws(i := t)) j)" for j using inv(4) by simp
  qed
qed

lemma works_inv:
  assumes "go_range (w_rng W)"
  shows "works W c c' \<Longrightarrow> work_inv c \<Longrightarrow> work_inv c'"
proof (induction rule: works.induct)
  case (Later c c1 c2)
  from Later.hyps(2) Later.IH [OF Later.prems] show ?case
    by (cases rule: work.cases) (auto simp del: fun_upd_apply intro: begin_inv advance_inv [OF assms])
qed

lemma idle_views: "idle w \<Longrightarrow> \<not> closes n w \<and> \<not> leaves n mac w \<and> \<not> hands n ip w \<and> \<not> gives_back n mac ip w \<and> busy_with w = None \<and> loads w = None \<and> load_ok s w"
  by (cases w) simp_all

text \<open>When no worker is in the middle of a task, the invariant is the consistency of the stores.\<close>

lemma quiet_registry:
  assumes "\<forall>i. idle (ws i)"
  shows "work_inv (ws, s) \<longleftrightarrow> registry_ok s"
proof -
  have none: "\<not> closes n (ws i)" "\<not> leaves n mac (ws i)" "\<not> hands n ip (ws i)" "\<not> gives_back n mac ip (ws i)" "busy_with (ws i) = None" "loads (ws i) = None" "load_ok s (ws i)"
    for i n mac ip using assms idle_views by blast+
  have "net_ok ws s n \<longleftrightarrow> (\<forall>m. table_of (cacheAllocator s) n = Some m \<longrightarrow> map_inj m \<and> ran m \<subseteq> ipam_pool.in_use (ipAllocator s) n)" for n
    by (cases "table_of (cacheAllocator s) n") (auto simp: net_ok_def sound_def holder_def bound_def none map_inj_def ran_def)
  then show ?thesis by (auto simp: work_inv_def registry_ok_def registry.consistent_def separate_def undisturbed_def none)
qed


text \<open>A run with two workers: the network is torn down while the first has an address in hand.\<close>

lemma works_begin: "works W c (ws, s) \<Longrightarrow> idle (ws i) \<Longrightarrow> may_begin ws s t \<Longrightarrow> works W c (ws(i := t), s)"
  by (blast intro: works.Later work.Begin)

lemma works_step: "works W c (ws, s) \<Longrightarrow> advance W (ws i) s = (t, s') \<Longrightarrow> works W c (ws(i := t), s')"
  by (blast intro: works.Later work.Operation)

lemma two_workers:
  assumes "obtain_begin W v nc s = (Bind ip, s1)" "table_of (cacheAllocator s) (nc_NetworkName nc) \<noteq> None"
  shows "\<exists>s'. works W (\<lambda>_. TornDown, s) ((\<lambda>_. TornDown)(0 := Obtained (Inr ip), 1 := TornDown), s')"
proof -
  let ?n = "nc_NetworkName nc" and ?w = "\<lambda>_::nat. TornDown"
  obtain a where al: "AllocateIP (w_rng W) (ipAllocator s) ?n (desired_ip v nc) = (a, ip, None)" "s1 = s\<lparr>ipAllocator := a\<rparr>"
    and has: "HasMAC (cacheAllocator s) ?n (nc_MACAddress nc) = (False, None)"
    using assms(1) by (auto simp: obtain_begin_def split: prod.splits option.splits bool.splits)
  obtain c where ad: "AddMAC (cacheAllocator s) ?n (nc_MACAddress nc) ip = (c, None)"
    using assms(2) mac_cache.add_known by blast
  have "works W (?w, s) (?w(0 := AtHasMAC v nc), s)" by (rule works_begin [OF works.Now]) (simp_all add: loading_def)
  from works_step [OF this, of 0 "AtAllocateIP v nc" s] has have "works W (?w, s) (?w(0 := AtAllocateIP v nc), s)" by simp
  from works_step [OF this, of 0 "AtAddMAC nc ip" s1] al have "works W (?w, s) (?w(0 := AtAddMAC nc ip), s1)" by simp
  from works_begin [OF this, of 1 "AtDeleteIPSubnet ?n"] have "works W (?w, s) (?w(0 := AtAddMAC nc ip, 1 := AtDeleteIPSubnet ?n), s1)" by (simp add: loading_def)
  from works_step [OF this, of 1 "AtDeleteMACSet ?n" "s1\<lparr>ipAllocator := DeleteIPSubnet a ?n\<rparr>"] al
  have "works W (?w, s) (?w(0 := AtAddMAC nc ip, 1 := AtDeleteMACSet ?n), s1\<lparr>ipAllocator := DeleteIPSubnet a ?n\<rparr>)" by simp
  from works_step [OF this, of 0 "Obtained (Inr ip)" "s1\<lparr>ipAllocator := DeleteIPSubnet a ?n, cacheAllocator := c\<rparr>"] al ad
  have "works W (?w, s) (?w(1 := AtDeleteMACSet ?n, 0 := Obtained (Inr ip)), s1\<lparr>ipAllocator := DeleteIPSubnet a ?n, cacheAllocator := c\<rparr>)"
    by (simp add: fun_upd_twist)
  from works_step [OF this, of 1 TornDown] show ?thesis by (auto simp: fun_upd_twist)
qed

lemma works_steps: "works W c (ws, s) \<Longrightarrow> steps W k (ws i, s) = (t, s') \<Longrightarrow> works W c (ws(i := t), s')"
proof (induction k arbitrary: ws s)
  case (Suc k)
  obtain t1 s1 where a: "advance W (ws i) s = (t1, s1)" by fastforce
  with Suc.prems have "steps W k ((ws(i := t1)) i, s1) = (t, s')" by (simp add: steps_Suc)
  from Suc.IH [OF works_step [OF Suc.prems(1) a] this] show ?case by (simp only: fun_upd_upd)
qed (auto simp: steps_0)

text \<open>Afterwards the second worker loads the network again.\<close>

lemma works_load:
  assumes "works W c (ws, s)" "\<forall>j. idle (ws j)" "loadable p" "\<not> pool_paused p" "\<not> x_IsTrue (w_ext W) CacheReady (st_Conditions (ip_Status p))"
    "BuildCache W p status s = Ret ((status', err), s')"
  shows "works W c (ws(i := Loaded err), s')"
proof -
  have "place (ws j) = None" for j using assms(2) [rule_format, of j] by (cases "ws j") simp_all
  with assms(2,3) have "works W c (ws(i := AtNewIPSubnet p), s)" by (intro works_begin [OF assms(1)]) simp_all
  with alone_load [OF assms(4-6)] works_steps [of W c "ws(i := AtNewIPSubnet p)" s _ i "Loaded err" s'] show ?thesis by auto
qed


end
