(* ===== verification/Schema.thy ===== *)
theory Schema
  imports System_Facts
begin

text \<open>
  The schema of the custom resources: the validation markers on the types of
  \<open>pkg/apis\<close>, from which the resource definitions are generated, as predicates on objects and on
  updates.  The API server applies them after the mutator and before the validator.  The checker
  of the format \<open>ipv4\<close> is a parameter; it is only used that it accepts dotted IPv4 addresses.
\<close>

section \<open>The rules\<close>

definition schema_Pool :: "(string \<Rightarrow> bool) \<Rightarrow> Pool \<Rightarrow> bool" where
  "schema_Pool ipv4 p \<longleftrightarrow> ipv4 (pl_Start p) \<and> ipv4 (pl_End p)"

text \<open>The format \<open>ipv4\<close> on an array (\<open>dns\<close>, \<open>exclude\<close>) says nothing about its items.\<close>

definition schema_IPv4Config :: "(string \<Rightarrow> bool) \<Rightarrow> IPv4Config \<Rightarrow> bool" where
  "schema_IPv4Config ipv4 c \<longleftrightarrow> ipv4 (c4_ServerIP c) \<and> schema_Pool ipv4 (c4_Pool c) \<and>
     (c4_Router c \<noteq> [] \<longrightarrow> ipv4 (c4_Router c)) \<and> length (c4_DNS c) \<le> 3 \<and> length (c4_NTP c) \<le> 4"

definition schema_IPPoolSpec :: "(string \<Rightarrow> bool) \<Rightarrow> IPPoolSpec \<Rightarrow> bool" where
  "schema_IPPoolSpec ipv4 s \<longleftrightarrow> schema_IPv4Config ipv4 (ps_IPv4Config s) \<and> length (ps_NetworkName s) \<le> 64"

text \<open>The rules for updates: \<open>self == oldSelf\<close> on an optional field compares only values that are present on both sides.\<close>

definition update_Pool :: "Pool \<Rightarrow> Pool \<Rightarrow> bool" where
  "update_Pool old new \<longleftrightarrow> pl_Start new = pl_Start old \<and> pl_End new = pl_End old \<and>
     (pl_Exclude old \<noteq> [] \<longrightarrow> pl_Exclude new \<noteq> [] \<and> pl_Exclude new = pl_Exclude old)"

definition update_IPv4Config :: "IPv4Config \<Rightarrow> IPv4Config \<Rightarrow> bool" where
  "update_IPv4Config old new \<longleftrightarrow> c4_CIDR new = c4_CIDR old \<and> c4_ServerIP new = c4_ServerIP old \<and> update_Pool (c4_Pool old) (c4_Pool new) \<and>
     (c4_Router old \<noteq> [] \<longrightarrow> c4_Router new \<noteq> [] \<and> c4_Router new = c4_Router old)"

definition update_IPPoolSpec :: "IPPoolSpec \<Rightarrow> IPPoolSpec \<Rightarrow> bool" where
  "update_IPPoolSpec old new \<longleftrightarrow> update_IPv4Config (ps_IPv4Config old) (ps_IPv4Config new) \<and> ps_NetworkName new = ps_NetworkName old"

definition schema_NetworkConfig :: "(string \<Rightarrow> bool) \<Rightarrow> NetworkConfig \<Rightarrow> bool" where
  "schema_NetworkConfig ipv4 nc \<longleftrightarrow> length (nc_NetworkName nc) \<le> 64 \<and> length (nc_MACAddress nc) \<le> 17 \<and>
     (case nc_IPAddress nc of None \<Rightarrow> True | Some ip \<Rightarrow> ipv4 ip)"

definition schema_VmNetCfgSpec :: "(string \<Rightarrow> bool) \<Rightarrow> VmNetCfgSpec \<Rightarrow> bool" where
  "schema_VmNetCfgSpec ipv4 s \<longleftrightarrow> length (vs_VMName s) \<le> 64 \<and> length (vs_NetworkConfigs s) \<le> 4 \<and>
     list_all (schema_NetworkConfig ipv4) (vs_NetworkConfigs s)"

definition update_VmNetCfgSpec :: "VmNetCfgSpec \<Rightarrow> VmNetCfgSpec \<Rightarrow> bool" where
  "update_VmNetCfgSpec old new \<longleftrightarrow> vs_VMName new = vs_VMName old"

definition ipv4_format :: "(string \<Rightarrow> bool) \<Rightarrow> bool" where
  "ipv4_format ipv4 \<longleftrightarrow> (\<forall>t x. ParseAddr t = (V4 x, None) \<longrightarrow> ipv4 t)"

definition dotted :: "string \<Rightarrow> bool" where
  "dotted t = (case ParseAddr t of (V4 _, None) \<Rightarrow> True | _ \<Rightarrow> False)"

lemma dotted_format: "ipv4_format dotted"
  by (simp add: ipv4_format_def dotted_def)

section \<open>What the mutator makes conforms\<close>

text \<open>A field that is an IPv4 address if it is an address at all.\<close>

definition ipv4_or_junk :: "string \<Rightarrow> bool" where
  "ipv4_or_junk t = (case ParseAddr t of (_, Some _) \<Rightarrow> True | (V4 _, None) \<Rightarrow> True | _ \<Rightarrow> False)"

lemma ipv4_string4: "ipv4_format ipv4 \<Longrightarrow> ipv4 (string4 x)"
  unfolding ipv4_format_def using ParseAddr_string4 by blast

lemma ipv4_given: "ipv4_format ipv4 \<Longrightarrow> ipv4_or_junk t \<Longrightarrow> snd (ParseAddr t) = None \<Longrightarrow> ipv4 t"
  by (cases "ParseAddr t"; cases "fst (ParseAddr t)") (auto simp: ipv4_or_junk_def ipv4_format_def)

lemma parsed_field:
  assumes "ipv4_or_junk t"
  shows "(\<exists>x. ParseAddr t = (V4 x, None)) \<or> (\<exists>a e. ParseAddr t = (a, Some e))"
  using assms by (auto simp: ipv4_or_junk_def split: prod.splits option.splits addr.splits)

lemma ensurePoolRange_conforms:
  assumes "ipv4_format ipv4" "cidr4 cidr w k" "k \<le> 30" "ipv4_or_junk (pl_Start pool)" "ipv4_or_junk (pl_End pool)"
    "ensurePoolRange pool cidr = (r, None)"
  shows "schema_Pool ipv4 (case r of None \<Rightarrow> pool | Some q \<Rightarrow> q)"
proof -
  define sa where "sa = (case ParseAddr (pl_Start pool) of (a, None) \<Rightarrow> a | (_, Some _) \<Rightarrow> Invalid)"
  define ea where "ea = (case ParseAddr (pl_End pool) of (a, None) \<Rightarrow> a | (_, Some _) \<Rightarrow> Invalid)"
  define p1 where "p1 = (if IsValid sa then pool else pool\<lparr>pl_Start := string4 (network_of w k + 1)\<rparr>)"
  define p2 where "p2 = (if IsValid ea then p1 else p1\<lparr>pl_End := string4 (last_of w k - 1)\<rparr>)"
  have n: "Next (V4 (network_of w k)) = V4 (network_of w k + 1)" "Prev (V4 (last_of w k)) = V4 (last_of w k - 1)"
    using end_hosts [OF assms(3), of w] by simp_all
  have "(case r of None \<Rightarrow> pool | Some q \<Rightarrow> q) = p2"
    using assms(6)
    by (auto simp: ensurePoolRange_def LoadCIDR_cidr4 [OF assms(2)] Let_def n p1_def p2_def
        simp del: Next.simps Prev.simps simp flip: sa_def ea_def split: if_splits)
  moreover have "ipv4 (pl_Start p2)"
    using parsed_field [OF assms(4)] ipv4_given [OF assms(1,4)] ipv4_string4 [OF assms(1)] by (auto simp: p1_def p2_def sa_def)
  moreover have "ipv4 (pl_End p2)"
    using parsed_field [OF assms(5)] ipv4_given [OF assms(1,5)] ipv4_string4 [OF assms(1)] by (auto simp: p1_def p2_def ea_def)
  ultimately show ?thesis by (simp add: schema_Pool_def)
qed

lemma ensureServerIP_conforms:
  assumes "ipv4_format ipv4" "cidr4 cidr w k" "ipv4_or_junk server" "ensureServerIP server cidr router excludes = Ret (r, None)"
  shows "ipv4 (case r of None \<Rightarrow> server | Some t \<Rightarrow> t)"
proof (cases "snd (ParseAddr server) = None")
  case True
  then have v: "ipv4 server" using ipv4_given [OF assms(1,3)] by blast
  obtain x where "ParseAddr server = (V4 x, None)" using parsed_field [OF assms(3)] True by auto
  then have "r = None"
    using assms(4) by (auto simp: ensureServerIP_def LoadCIDR_cidr4 [OF assms(2)] Let_def split: prod.splits option.splits)
  with v show ?thesis by simp
next
  case False
  obtain masked e where m: "load_excludes excludes (router_mask router) = (masked, e)" by fastforce
  have "e = None"
    using assms(4) m by (auto simp: ensureServerIP_def LoadCIDR_cidr4 [OF assms(2)] Let_def router_mask_def split: prod.splits option.splits)
  with ensureServerIP_search [OF assms(2) False, of excludes router masked] m assms(4)
  obtain x where "r = Some (string4 x)" by (cases r) auto
  then show ?thesis using ipv4_string4 [OF assms(1)] by simp
qed

text \<open>
  [C23] The mutator makes pools well typed.  Whatever text is given as start, end and server of a
  pool over an IPv4 block with prefix length at most 30 - nothing, an IPv4 address or no address at
  all - a pool that the mutator lets through satisfies the schema of the resource after the patch,
  if its router, the lists and the network name do.
\<close>

theorem mutated_pool_conforms:
  assumes "ipv4_format ipv4" "c = ps_IPv4Config (ip_Spec p)" "cidr4 (c4_CIDR c) w k" "k \<le> 30"
    "ipv4_or_junk (pl_Start (c4_Pool c))" "ipv4_or_junk (pl_End (c4_Pool c))" "ipv4_or_junk (c4_ServerIP c)"
    "c4_Router c = [] \<or> ipv4 (c4_Router c)" "length (c4_DNS c) \<le> 3" "length (c4_NTP c) \<le> 4" "length (ps_NetworkName (ip_Spec p)) \<le> 64"
    "ippool_Mutator_Create p = Ret (ops, None)"
  shows "schema_IPPoolSpec ipv4 (ip_Spec (patched ops p))"
proof -
  obtain sv where sv: "ensureServerIP (c4_ServerIP c) (c4_CIDR c) (c4_Router c) (pl_Exclude (c4_Pool c)) = Ret (sv, None)"
    using assms(12) unfolding ippool_Mutator_Create_def Let_def assms(2) [symmetric]
    by (cases "ensureServerIP (c4_ServerIP c) (c4_CIDR c) (c4_Router c) (pl_Exclude (c4_Pool c))") (auto split: prod.splits option.splits)
  obtain r where r: "ensurePoolRange (c4_Pool c) (c4_CIDR c) = (r, None)"
    using assms(12) sv unfolding ippool_Mutator_Create_def Let_def assms(2) [symmetric] by (auto split: prod.splits option.splits)
  have ops: "ops = (case r of None \<Rightarrow> [] | Some q \<Rightarrow> [\<lparr>po_Op = ''replace'', po_Path = ''/spec/ipv4Config/pool'', po_Value = PoolValue q\<rparr>]) @
      (case sv of None \<Rightarrow> [] | Some t \<Rightarrow> [\<lparr>po_Op = ''replace'', po_Path = ''/spec/ipv4Config/serverIP'', po_Value = StringValue t\<rparr>])"
    using assms(12) sv r unfolding ippool_Mutator_Create_def Let_def assms(2) [symmetric] by simp
  have "ps_IPv4Config (ip_Spec (patched ops p)) = c\<lparr>c4_Pool := (case r of None \<Rightarrow> c4_Pool c | Some q \<Rightarrow> q),
      c4_ServerIP := (case sv of None \<Rightarrow> c4_ServerIP c | Some t \<Rightarrow> t)\<rparr>"
    by (cases r; cases sv) (simp_all add: patched_def apply_op_def ops assms(2))
  with ensurePoolRange_conforms [OF assms(1,3-6) r] ensureServerIP_conforms [OF assms(1,3,7) sv] assms(8-11) show ?thesis
    by (auto simp: schema_IPPoolSpec_def schema_IPv4Config_def patched_def)
qed

theorem mutated_pool_conforms_witness:
  "\<exists>ops. ippool_Mutator_Create bare_IPPool = Ret (ops, None) \<and> schema_IPPoolSpec dotted (ip_Spec (patched ops bare_IPPool))"
proof -
  let ?c = "ps_IPv4Config (ip_Spec bare_IPPool)"
  have c: "c4_CIDR ?c = ''192.168.0.0/24''" "c4_Router ?c = ''192.168.0.1''" "c4_Pool ?c = \<lparr>pl_Start = [], pl_End = [], pl_Exclude = []\<rparr>"
    "c4_ServerIP ?c = []" "c4_DNS ?c = []" "c4_NTP ?c = []" "ps_NetworkName (ip_Spec bare_IPPool) = ''default/net''"
    by (simp_all add: bare_IPPool_def example_config_def example_IPPool_def)
  have le: "load_excludes (pl_Exclude (c4_Pool ?c)) (router_mask (c4_Router ?c)) = ([V4 0xc0a80001], None)"
    unfolding c by (simp add: router_mask_def net_eval)
  have h: "host 0xc0a80000 24 0xc0a80002" by (simp add: host_iff network_of_def last_of_def mask_eq_exp_minus_1)
  have cidr: "cidr4 (c4_CIDR ?c) 0xc0a80000 24" unfolding c by (rule cidr4_example)
  obtain x where sv: "ensureServerIP [] (c4_CIDR ?c) (c4_Router ?c) (pl_Exclude (c4_Pool ?c)) = Ret (Some (string4 x), None)"
    using ensureServerIP_search [OF cidr _ le, of "[]"] h by (auto split: outcome.splits prod.splits option.splits)
  have e: "pl_Start (c4_Pool ?c) = []" "pl_End (c4_Pool ?c) = []" by (simp_all add: c(3))
  obtain ops where ops: "ippool_Mutator_Create bare_IPPool = Ret (ops, None)"
    using sv ensurePoolRange_defaults [OF cidr _ e] by (simp add: ippool_Mutator_Create_def Let_def c(4))
  have j: "ipv4_or_junk []" "dotted ''192.168.0.1''" by (simp_all add: ipv4_or_junk_def dotted_def net_eval)
  from mutated_pool_conforms [OF dotted_format refl cidr _ _ _ _ _ _ _ _ ops] ops j show ?thesis by (simp add: c)
qed

section \<open>The configurations of machines\<close>

definition no_ips :: "ncm \<Rightarrow> bool" where
  "no_ips m \<longleftrightarrow> (\<forall>nic nc. m nic = Some nc \<longrightarrow> nc_IPAddress nc = None)"

lemma from_networks_no_ips: "no_ips m \<Longrightarrow> no_ips (from_networks nets m)"
proof (induction nets arbitrary: m)
  case (Cons n nets)
  have "no_ips (case vn_Multus n of None \<Rightarrow> m | Some nn \<Rightarrow> (case m (vn_Name n) of None \<Rightarrow> m | Some nc \<Rightarrow> m(vn_Name n \<mapsto> nc\<lparr>nc_NetworkName := nn\<rparr>)))"
    using Cons.prems by (auto simp: no_ips_def split: option.splits)
  with Cons.IH show ?case by simp
qed simp

lemma from_interfaces_no_ips: "no_ips m \<Longrightarrow> no_ips (from_interfaces nics m)"
proof (induction nics arbitrary: m)
  case (Cons n nics)
  have "no_ips (if vi_MacAddress n = [] then m else m(vi_Name n \<mapsto> mac_config (vi_MacAddress n)))"
    using Cons.prems by (simp add: no_ips_def mac_config_def)
  with Cons.IH show ?case by simp
qed simp

lemma effective_no_ip:
  assumes "effective_configs nm t nic = Some nc"
  shows "nc_IPAddress nc = None"
proof -
  have "no_ips (from_annotation nm)" by (auto simp: no_ips_def from_annotation_def mac_config_def split: option.splits if_splits)
  then have "no_ips (from_networks (vt_Networks t) (from_interfaces (vt_Interfaces t) (from_annotation nm)))"
    by (intro from_networks_no_ips from_interfaces_no_ips)
  with assms show ?thesis by (auto simp: no_ips_def effective_configs_def complete_only_def split: option.splits if_splits)
qed

text \<open>The API server accepts only conforming objects.\<close>

definition enforces_schema :: "(string \<Rightarrow> bool) \<Rightarrow> world \<Rightarrow> bool" where
  "enforces_schema ipv4 W \<longleftrightarrow> (\<forall>h v v'. e_vmnetcfg (w_env W) (h @ [VmNetCfgCreate v]) = Inr v' \<longrightarrow> schema_VmNetCfgSpec ipv4 (vm_Spec v))"


text \<open>A machine with five interfaces.\<close>

definition crowded_vm :: VirtualMachine where
  "crowded_vm = example_vm\<lparr>kv_Template := Some \<lparr>vt_Interfaces = map (\<lambda>i. \<lparr>vi_Name = i, vi_MacAddress = i\<rparr>) [''a'', ''b'', ''c'', ''d'', ''e''],
     vt_Networks = map (\<lambda>i. \<lparr>vn_Name = i, vn_Multus = Some ''default/net''\<rparr>) [''a'', ''b'', ''c'', ''d'', ''e'']\<rparr>\<rparr>"


section \<open>Updates of pools\<close>

text \<open>
  [C39] An update may take an address away from a running machine.  The schema fixes the range but
  lets the list of excluded addresses be set once it is empty, and the validator does not compare
  it with the assignments: excluding an assigned address is admitted, and the next run of
  \<open>OnChange\<close> overwrites the assignment with the mark.
\<close>

theorem exclusion_overwrites_assignment:
  assumes "pool4 p w k a" "cidr4 svc v j" "pl_Exclude (c4_Pool (pool_config p)) = []" "recorded p ip = Some mac"
    "ippool_Validator_Update W svc p s = Ret (None, s1)" "om_DeletionTimestamp (ip_Meta p) = None" "\<not> pool_paused p"
    "go_range (w_rng W)" "ipam_wf (ipAllocator s)" "pool_of (ipAllocator s) (pool_network p) = Some q"
    "p' = p\<lparr>ip_Spec := (ip_Spec p)\<lparr>ps_IPv4Config := (pool_config p)\<lparr>c4_Pool := (c4_Pool (pool_config p))\<lparr>pl_Exclude := [ip]\<rparr>\<rparr>\<rparr>\<rparr>"
    "ensureNADLabels W p' s = (None, s2)"
  shows "update_IPPoolSpec (ip_Spec p) (ip_Spec p') \<and> (\<exists>s'. ippool_Validator_Update W svc p' s = Ret (None, s')) \<and>
    (\<exists>r s' p''. ippool_OnChange W key (Some p') s = (r, s') \<and> (last (calls s') = IPPoolUpdateStatus p'' \<or> p'' = p' \<and> r = (Some p', None)) \<and>
       recorded p'' ip = Some ExcludedMark)"
proof -
  have u: "update_IPPoolSpec (ip_Spec p) (ip_Spec p')"
    using assms(3) by (simp add: assms(11) update_IPPoolSpec_def update_IPv4Config_def update_Pool_def)
  have same: "pool4 p' w k a" "om_DeletionTimestamp (ip_Meta p') = None" "in_use_of W p' = in_use_of W p" "nad_found W p' s = nad_found W p s"
    using assms(1,6) by (simp_all add: assms(11) pool4_def Let_def in_use_of_def nad_found_def)
  have adm: "\<exists>s'. ippool_Validator_Update W svc p' s = Ret (None, s')"
    using Update_verdict_aux [OF same(1) assms(2) same(2), of W s] Update_verdict_aux [OF assms(1,2,6), of W s] assms(5)
    unfolding same(3,4) by auto
  have np: "\<not> pool_paused p'" "pool_of (ipAllocator s) (pool_network p') = Some q" using assms(7,10) by (simp_all add: assms(11))
  obtain r s' p'' st where oc: "ippool_OnChange W key (Some p') s = (r, s')"
    "last (calls s') = IPPoolUpdateStatus p'' \<or> p'' = p' \<and> r = (Some p', None)" "st_IPv4 (ip_Status p'') = Some st"
    "status_reflects p' (card {ip. q ip = Some True}) (card {ip. q ip = Some False}) st"
    using OnChange_reports [OF assms(8,9) same(2) np(1) assms(12) np(2), of key] by blast
  have "nil_lookup (s4_Allocated st) ip = mark_reserved (pool_config p') (recorded p') ip" using oc(4) by (simp add: status_reflects_def)
  also have "\<dots> = Some ExcludedMark" by (simp add: mark_reserved_eq assms(11))
  finally have "recorded p'' ip = Some ExcludedMark"
    using oc(3) by (auto simp: recorded_def nil_lookup_def nil_make_def split: option.splits)
  with oc(1,2) u adm show ?thesis by blast
qed

text \<open>The example pool without excluded addresses.\<close>

definition open_IPPool :: IPPool where
  "open_IPPool = example_IPPool\<lparr>ip_Spec := (ip_Spec example_IPPool)\<lparr>ps_IPv4Config := example_config
     \<lparr>c4_Pool := (c4_Pool example_config)\<lparr>pl_Exclude := []\<rparr>\<rparr>\<rparr>,
     ip_Status := (ip_Status example_IPPool)\<lparr>st_IPv4 := Some \<lparr>s4_Allocated = Some [''192.168.0.12'' \<mapsto> ''aa''], s4_Used = 1, s4_Available = 2\<rparr>\<rparr>\<rparr>"

lemma labels_stored: "e_nad (w_env W) = (\<lambda>_. Inr n) \<Longrightarrow> \<exists>s1. ensureNADLabels W p s = (None, s1)"
  by (simp add: ensureNADLabels_def ask_def Let_def split: prod.splits)

theorem exclusion_overwrites_assignment_witness:
  "\<exists>r s' p' p''. ippool_OnChange ready_world ''default/pool'' (Some p') (start_state\<lparr>ipAllocator := example_ipam\<rparr>) = (r, s') \<and>
    update_IPPoolSpec (ip_Spec open_IPPool) (ip_Spec p') \<and> recorded open_IPPool ''192.168.0.12'' = Some ''aa'' \<and>
    recorded p'' ''192.168.0.12'' = Some ExcludedMark"
proof -
  let ?s = "start_state\<lparr>ipAllocator := example_ipam\<rparr>"
  let ?p' = "open_IPPool\<lparr>ip_Spec := (ip_Spec open_IPPool)\<lparr>ps_IPv4Config := (pool_config open_IPPool)\<lparr>c4_Pool := (c4_Pool (pool_config open_IPPool))\<lparr>pl_Exclude := [''192.168.0.12'']\<rparr>\<rparr>\<rparr>\<rparr>"
  let ?q = "[''192.168.0.10'' \<mapsto> False, ''192.168.0.11'' \<mapsto> False]"
  have p4: "pool4 open_IPPool 0xc0a80000 24 example_spec4"
    using pool4_example by (simp add: pool4_def Let_def open_IPPool_def example_IPPool_def)
  have d: "om_DeletionTimestamp (ip_Meta open_IPPool) = None" "pl_Exclude (c4_Pool (pool_config open_IPPool)) = []" "\<not> pool_paused open_IPPool"
    by (simp_all add: open_IPPool_def example_IPPool_def empty_meta_def is_paused_def)
  have rec: "recorded open_IPPool ''192.168.0.12'' = Some ''aa''" by (simp add: open_IPPool_def recorded_def nil_make_def)
  have "in_use_of ready_world open_IPPool = [V4 0xc0a8000c]"
    by (simp add: in_use_of_def open_IPPool_def LoadAllocated_def nil_make_def ExcludedMark_def ReservedMark_def net_eval)
  then obtain s1 where adm: "ippool_Validator_Update ready_world ''10.53.0.0/16'' open_IPPool ?s = Ret (None, s1)"
    using Update_verdict_aux [OF p4 cidr4_service d(1), of ready_world ?s] example_nad_found example_no_overlap example_spec_ok
    by (auto simp: example_spec4_def)
  have q: "ipam_wf (ipAllocator ?s)" "pool_of (ipAllocator ?s) (pool_network open_IPPool) = Some ?q" "go_range (w_rng ready_world)"
    using ipam_reach_wf [OF example_reach] example_ipam_net
    by (simp_all add: go_range_sorted open_IPPool_def example_IPPool_def pool_of_def subnet4_def)
  obtain s2 where lab: "ensureNADLabels ready_world ?p' ?s = (None, s2)"
    using labels_stored [of ready_world _ ?p' ?s] by (auto simp: ready_world_def ready_env_def)
  from exclusion_overwrites_assignment [OF p4 cidr4_service d(2) rec adm d(1,3) q(3,1,2) refl lab, of "''default/pool''"] rec
  show ?thesis by blast
qed

end
