(* ===== verification/Builders.thy ===== *)
theory Builders
  imports System_Facts
begin

text \<open>
  The builders of \<open>pkg/ipam/common.go\<close>, \<open>pkg/cache/common.go\<close> and the \<open>common.go\<close> of the
  controllers, with which objects and stores are put together step by step.  A builder is a
  pointer to the object under construction that each method updates and returns, so a chain of
  calls is a composition of functions on the object.
\<close>

section \<open>Conditions\<close>

definition set_condition :: "ext \<Rightarrow> string \<Rightarrow> string \<Rightarrow> string \<Rightarrow> string \<Rightarrow> GenericCondition list \<Rightarrow> GenericCondition list" where
  "set_condition x cond status reason message cs = x_Message x cond message (x_Reason x cond reason (x_SetStatus x cond status cs))"

definition setRegisteredCondition :: "ext \<Rightarrow> string \<Rightarrow> string \<Rightarrow> string \<Rightarrow> IPPool \<Rightarrow> IPPool" where
  "setRegisteredCondition x status reason message = set_conditions (set_condition x Registered status reason message)"

definition setCacheReadyCondition :: "ext \<Rightarrow> string \<Rightarrow> string \<Rightarrow> string \<Rightarrow> IPPool \<Rightarrow> IPPool" where
  "setCacheReadyCondition x status reason message = set_conditions (set_condition x CacheReady status reason message)"

definition setAgentReadyCondition :: "ext \<Rightarrow> string \<Rightarrow> string \<Rightarrow> string \<Rightarrow> IPPool \<Rightarrow> IPPool" where
  "setAgentReadyCondition x status reason message = set_conditions (set_condition x AgentReady status reason message)"

definition setStoppedCondition :: "ext \<Rightarrow> string \<Rightarrow> string \<Rightarrow> string \<Rightarrow> IPPool \<Rightarrow> IPPool" where
  "setStoppedCondition x status reason message = set_conditions (set_condition x Stopped status reason message)"

definition setAllocatedCondition :: "ext \<Rightarrow> string \<Rightarrow> string \<Rightarrow> string \<Rightarrow> VirtualMachineNetworkConfig \<Rightarrow> VirtualMachineNetworkConfig" where
  "setAllocatedCondition x status reason message = vm_conditions (set_condition x Allocated status reason message)"

definition setDisabledCondition :: "ext \<Rightarrow> string \<Rightarrow> string \<Rightarrow> string \<Rightarrow> VirtualMachineNetworkConfig \<Rightarrow> VirtualMachineNetworkConfig" where
  "setDisabledCondition x status reason message = vm_conditions (set_condition x Disabled status reason message)"

definition setInSyncedCondition :: "ext \<Rightarrow> string \<Rightarrow> string \<Rightarrow> string \<Rightarrow> VirtualMachineNetworkConfig \<Rightarrow> VirtualMachineNetworkConfig" where
  "setInSyncedCondition x status reason message = vm_conditions (set_condition x InSynced status reason message)"

section \<open>IPPools\<close>

definition zero_IPPoolStatus :: IPPoolStatus where
  "zero_IPPoolStatus = \<lparr>st_LastUpdate = 0, st_IPv4 = None, st_AgentPodRef = None, st_Conditions = []\<rparr>"

definition NewIPPoolBuilder :: "string \<Rightarrow> string \<Rightarrow> IPPool" where
  "NewIPPoolBuilder namespace name = \<lparr>ip_Meta = empty_meta namespace name,
     ip_Spec = \<lparr>ps_IPv4Config = \<lparr>c4_CIDR = [], c4_ServerIP = [], c4_Pool = \<lparr>pl_Start = [], pl_End = [], pl_Exclude = []\<rparr>,
       c4_Router = [], c4_DNS = [], c4_DomainName = None, c4_DomainSearch = [], c4_NTP = [], c4_LeaseTime = None\<rparr>,
       ps_NetworkName = [], ps_Paused = None\<rparr>,
     ip_Status = zero_IPPoolStatus\<rparr>"

definition on_spec :: "(IPPoolSpec \<Rightarrow> IPPoolSpec) \<Rightarrow> IPPool \<Rightarrow> IPPool" where
  "on_spec f b = b\<lparr>ip_Spec := f (ip_Spec b)\<rparr>"

definition on_config :: "(IPv4Config \<Rightarrow> IPv4Config) \<Rightarrow> IPPool \<Rightarrow> IPPool" where
  "on_config f = on_spec (\<lambda>sp. sp\<lparr>ps_IPv4Config := f (ps_IPv4Config sp)\<rparr>)"

definition IPPoolBuilder_Annotation :: "string \<Rightarrow> string \<Rightarrow> IPPool \<Rightarrow> IPPool" where
  "IPPoolBuilder_Annotation key val b =
     b\<lparr>ip_Meta := (ip_Meta b)\<lparr>om_Annotations := Some ((nil_make (om_Annotations (ip_Meta b)))(key \<mapsto> val))\<rparr>\<rparr>"

definition IPPoolBuilder_NetworkName :: "string \<Rightarrow> IPPool \<Rightarrow> IPPool" where
  "IPPoolBuilder_NetworkName networkName = on_spec (\<lambda>sp. sp\<lparr>ps_NetworkName := networkName\<rparr>)"

definition IPPoolBuilder_Paused :: "IPPool \<Rightarrow> IPPool" where
  "IPPoolBuilder_Paused = on_spec (\<lambda>sp. sp\<lparr>ps_Paused := Some True\<rparr>)"

definition IPPoolBuilder_UnPaused :: "IPPool \<Rightarrow> IPPool" where
  "IPPoolBuilder_UnPaused = on_spec (\<lambda>sp. sp\<lparr>ps_Paused := Some False\<rparr>)"

definition IPPoolBuilder_ServerIP :: "string \<Rightarrow> IPPool \<Rightarrow> IPPool" where
  "IPPoolBuilder_ServerIP serverIP = on_config (\<lambda>c. c\<lparr>c4_ServerIP := serverIP\<rparr>)"

definition IPPoolBuilder_CIDR :: "string \<Rightarrow> IPPool \<Rightarrow> IPPool" where
  "IPPoolBuilder_CIDR cidr = on_config (\<lambda>c. c\<lparr>c4_CIDR := cidr\<rparr>)"

definition IPPoolBuilder_Router :: "string \<Rightarrow> IPPool \<Rightarrow> IPPool" where
  "IPPoolBuilder_Router router = on_config (\<lambda>c. c\<lparr>c4_Router := router\<rparr>)"

definition IPPoolBuilder_PoolRange :: "string \<Rightarrow> string \<Rightarrow> IPPool \<Rightarrow> IPPool" where
  "IPPoolBuilder_PoolRange startIP endIP = on_config (\<lambda>c. c\<lparr>c4_Pool := (c4_Pool c)\<lparr>pl_Start := startIP, pl_End := endIP\<rparr>\<rparr>)"

definition IPPoolBuilder_Exclude :: "string list \<Rightarrow> IPPool \<Rightarrow> IPPool" where
  "IPPoolBuilder_Exclude ipAddressList = on_config (\<lambda>c. c\<lparr>c4_Pool := (c4_Pool c)\<lparr>pl_Exclude := pl_Exclude (c4_Pool c) @ ipAddressList\<rparr>\<rparr>)"

definition status_AgentPodRef :: "string \<Rightarrow> string \<Rightarrow> string \<Rightarrow> string \<Rightarrow> IPPoolStatus \<Rightarrow> IPPoolStatus" where
  "status_AgentPodRef namespace name img uid st =
     st\<lparr>st_AgentPodRef := Some ((case st_AgentPodRef st of None \<Rightarrow> new_PodReference | Some r \<Rightarrow> r)
        \<lparr>pr_Namespace := namespace, pr_Name := name, pr_Image := img, pr_UID := uid\<rparr>)\<rparr>"

definition IPPoolBuilder_AgentPodRef :: "string \<Rightarrow> string \<Rightarrow> string \<Rightarrow> string \<Rightarrow> IPPool \<Rightarrow> IPPool" where
  "IPPoolBuilder_AgentPodRef namespace name img uid b = b\<lparr>ip_Status := status_AgentPodRef namespace name img uid (ip_Status b)\<rparr>"

text \<open>The methods that write to the IPv4 status make it first when it is nil.\<close>

definition on_IPv4 :: "(IPv4Status \<Rightarrow> IPv4Status) \<Rightarrow> IPPool \<Rightarrow> IPPool" where
  "on_IPv4 f b = b\<lparr>ip_Status := (ip_Status b)\<lparr>st_IPv4 :=
     Some (f (case st_IPv4 (ip_Status b) of None \<Rightarrow> new_IPv4Status | Some st \<Rightarrow> st))\<rparr>\<rparr>"

definition IPPoolBuilder_Allocated :: "string \<Rightarrow> string \<Rightarrow> IPPool \<Rightarrow> IPPool" where
  "IPPoolBuilder_Allocated ipAddress macAddress =
     on_IPv4 (\<lambda>st. st\<lparr>s4_Allocated := Some ((nil_make (s4_Allocated st))(ipAddress \<mapsto> macAddress))\<rparr>)"

definition IPPoolBuilder_Available :: "nat \<Rightarrow> IPPool \<Rightarrow> IPPool" where
  "IPPoolBuilder_Available count = on_IPv4 (\<lambda>st. st\<lparr>s4_Available := count\<rparr>)"

definition IPPoolBuilder_Used :: "nat \<Rightarrow> IPPool \<Rightarrow> IPPool" where
  "IPPoolBuilder_Used count = on_IPv4 (\<lambda>st. st\<lparr>s4_Used := count\<rparr>)"

definition IPPoolBuilder_RegisteredCondition :: "ext \<Rightarrow> string \<Rightarrow> string \<Rightarrow> string \<Rightarrow> IPPool \<Rightarrow> IPPool" where
  "IPPoolBuilder_RegisteredCondition = setRegisteredCondition"

definition IPPoolBuilder_CacheReadyCondition :: "ext \<Rightarrow> string \<Rightarrow> string \<Rightarrow> string \<Rightarrow> IPPool \<Rightarrow> IPPool" where
  "IPPoolBuilder_CacheReadyCondition = setCacheReadyCondition"

definition IPPoolBuilder_AgentReadyCondition :: "ext \<Rightarrow> string \<Rightarrow> string \<Rightarrow> string \<Rightarrow> IPPool \<Rightarrow> IPPool" where
  "IPPoolBuilder_AgentReadyCondition = setAgentReadyCondition"

definition IPPoolBuilder_StoppedCondition :: "ext \<Rightarrow> string \<Rightarrow> string \<Rightarrow> string \<Rightarrow> IPPool \<Rightarrow> IPPool" where
  "IPPoolBuilder_StoppedCondition = setStoppedCondition"

text \<open>Builders of a status alone.\<close>

definition newIPPoolStatusBuilder :: IPPoolStatus where
  "newIPPoolStatusBuilder = zero_IPPoolStatus"

definition status_condition :: "ext \<Rightarrow> string \<Rightarrow> string \<Rightarrow> string \<Rightarrow> string \<Rightarrow> IPPoolStatus \<Rightarrow> IPPoolStatus" where
  "status_condition x cond status reason message st = st\<lparr>st_Conditions := set_condition x cond status reason message (st_Conditions st)\<rparr>"

definition ipPoolStatusBuilder_AgentPodRef :: "string \<Rightarrow> string \<Rightarrow> string \<Rightarrow> string \<Rightarrow> IPPoolStatus \<Rightarrow> IPPoolStatus" where
  "ipPoolStatusBuilder_AgentPodRef = status_AgentPodRef"

definition ipPoolStatusBuilder_RegisteredCondition :: "ext \<Rightarrow> string \<Rightarrow> string \<Rightarrow> string \<Rightarrow> IPPoolStatus \<Rightarrow> IPPoolStatus" where
  "ipPoolStatusBuilder_RegisteredCondition x = status_condition x Registered"

definition ipPoolStatusBuilder_CacheReadyCondition :: "ext \<Rightarrow> string \<Rightarrow> string \<Rightarrow> string \<Rightarrow> IPPoolStatus \<Rightarrow> IPPoolStatus" where
  "ipPoolStatusBuilder_CacheReadyCondition x = status_condition x CacheReady"

definition ipPoolStatusBuilder_AgentReadyCondition :: "ext \<Rightarrow> string \<Rightarrow> string \<Rightarrow> string \<Rightarrow> IPPoolStatus \<Rightarrow> IPPoolStatus" where
  "ipPoolStatusBuilder_AgentReadyCondition x = status_condition x AgentReady"

definition ipPoolStatusBuilder_StoppedCondition :: "ext \<Rightarrow> string \<Rightarrow> string \<Rightarrow> string \<Rightarrow> IPPoolStatus \<Rightarrow> IPPoolStatus" where
  "ipPoolStatusBuilder_StoppedCondition x = status_condition x Stopped"

definition untimed :: "GenericCondition \<Rightarrow> GenericCondition" where
  "untimed c = c\<lparr>gc_LastTransitionTime := [], gc_LastUpdateTime := []\<rparr>"

text \<open>The zero time is written as 0.\<close>

definition ippool_SanitizeStatus :: "IPPoolStatus \<Rightarrow> IPPoolStatus" where
  "ippool_SanitizeStatus st = st\<lparr>st_LastUpdate := 0, st_Conditions := map untimed (st_Conditions st)\<rparr>"

section \<open>Pods and network attachment definitions\<close>

definition newPodBuilder :: "string \<Rightarrow> string \<Rightarrow> Pod" where
  "newPodBuilder namespace name = \<lparr>pod_Meta = empty_meta namespace name, pod_NodeAffinity = [], pod_ServiceAccountName = [],
     pod_InitContainers = [], pod_Containers = [], pod_Conditions = []\<rparr>"

definition podBuilder_Container :: "string \<Rightarrow> string \<Rightarrow> string \<Rightarrow> Pod \<Rightarrow> Pod" where
  "podBuilder_Container name repository tag b = b\<lparr>pod_Containers := pod_Containers b @
     [\<lparr>ct_Name = name, ct_Image = repository @ '':'' @ tag, ct_Command = [], ct_Args = [], ct_Env = [], ct_Capabilities = [],
       ct_LivenessPath = None, ct_ReadinessPath = None\<rparr>]\<rparr>"

text \<open>The loop over the conditions: the first \<open>Ready\<close> condition is set to true.\<close>

fun mark_ready :: "(string \<times> string) list \<Rightarrow> (string \<times> string) list" where
  "mark_ready [] = []"
| "mark_ready ((t, v) # cs) = (if t = ''Ready'' then (t, ''True'') # cs else (t, v) # mark_ready cs)"

text \<open>The argument is not used, and \<open>found\<close> stays false, so a condition is appended in any case.\<close>

definition podBuilder_PodReady :: "string \<Rightarrow> Pod \<Rightarrow> Pod" where
  "podBuilder_PodReady ready b = b\<lparr>pod_Conditions := mark_ready (pod_Conditions b) @ [(''Ready'', ''True'')]\<rparr>"

definition NewNetworkAttachmentDefinitionBuilder :: "string \<Rightarrow> string \<Rightarrow> NAD" where
  "NewNetworkAttachmentDefinitionBuilder namespace name = \<lparr>nad_Meta = empty_meta namespace name\<rparr>"

definition NetworkAttachmentDefinitionBuilder_Label :: "string \<Rightarrow> string \<Rightarrow> NAD \<Rightarrow> NAD" where
  "NetworkAttachmentDefinitionBuilder_Label key val b =
     b\<lparr>nad_Meta := (nad_Meta b)\<lparr>om_Labels := Some ((nil_make (om_Labels (nad_Meta b)))(key \<mapsto> val))\<rparr>\<rparr>"

section \<open>Network configurations of virtual machines\<close>

definition zero_VmNetCfgStatus :: VmNetCfgStatus where
  "zero_VmNetCfgStatus = \<lparr>vst_NetworkConfigs = [], vst_Conditions = []\<rparr>"

definition NewVmNetCfgBuilder :: "string \<Rightarrow> string \<Rightarrow> VirtualMachineNetworkConfig" where
  "NewVmNetCfgBuilder namespace name = \<lparr>vm_Meta = empty_meta namespace name,
     vm_Spec = \<lparr>vs_VMName = [], vs_NetworkConfigs = [], vs_Paused = None\<rparr>, vm_Status = zero_VmNetCfgStatus\<rparr>"

definition VmNetCfgBuilder_Label :: "string \<Rightarrow> string \<Rightarrow> VirtualMachineNetworkConfig \<Rightarrow> VirtualMachineNetworkConfig" where
  "VmNetCfgBuilder_Label key val b =
     b\<lparr>vm_Meta := (vm_Meta b)\<lparr>om_Labels := Some ((nil_make (om_Labels (vm_Meta b)))(key \<mapsto> val))\<rparr>\<rparr>"

definition VmNetCfgBuilder_OwnerRef :: "OwnerReference \<Rightarrow> VirtualMachineNetworkConfig \<Rightarrow> VirtualMachineNetworkConfig" where
  "VmNetCfgBuilder_OwnerRef owner b = b\<lparr>vm_Meta := (vm_Meta b)\<lparr>om_OwnerReferences := om_OwnerReferences (vm_Meta b) @ [owner]\<rparr>\<rparr>"

definition VmNetCfgBuilder_WithVMName :: "string \<Rightarrow> VirtualMachineNetworkConfig \<Rightarrow> VirtualMachineNetworkConfig" where
  "VmNetCfgBuilder_WithVMName name b = b\<lparr>vm_Spec := (vm_Spec b)\<lparr>vs_VMName := name\<rparr>\<rparr>"

definition VmNetCfgBuilder_Paused :: "VirtualMachineNetworkConfig \<Rightarrow> VirtualMachineNetworkConfig" where
  "VmNetCfgBuilder_Paused b = b\<lparr>vm_Spec := (vm_Spec b)\<lparr>vs_Paused := Some True\<rparr>\<rparr>"

definition VmNetCfgBuilder_UnPaused :: "VirtualMachineNetworkConfig \<Rightarrow> VirtualMachineNetworkConfig" where
  "VmNetCfgBuilder_UnPaused b = b\<lparr>vm_Spec := (vm_Spec b)\<lparr>vs_Paused := Some False\<rparr>\<rparr>"

definition VmNetCfgBuilder_WithNetworkConfig :: "string \<Rightarrow> string \<Rightarrow> string \<Rightarrow> VirtualMachineNetworkConfig \<Rightarrow> VirtualMachineNetworkConfig" where
  "VmNetCfgBuilder_WithNetworkConfig ipAddress macAddress networkName b =
     b\<lparr>vm_Spec := (vm_Spec b)\<lparr>vs_NetworkConfigs := vs_NetworkConfigs (vm_Spec b) @
        [\<lparr>nc_NetworkName = networkName, nc_MACAddress = macAddress, nc_IPAddress = (if ipAddress \<noteq> [] then Some ipAddress else None)\<rparr>]\<rparr>\<rparr>"

definition add_record :: "string \<Rightarrow> string \<Rightarrow> string \<Rightarrow> string \<Rightarrow> VmNetCfgStatus \<Rightarrow> VmNetCfgStatus" where
  "add_record ipAddress macAddress networkName state st = st\<lparr>vst_NetworkConfigs := vst_NetworkConfigs st @
     [\<lparr>ns_AllocatedIPAddress = ipAddress, ns_MACAddress = macAddress, ns_NetworkName = networkName, ns_State = state\<rparr>]\<rparr>"

definition VmNetCfgBuilder_WithNetworkConfigStatus ::
    "string \<Rightarrow> string \<Rightarrow> string \<Rightarrow> string \<Rightarrow> VirtualMachineNetworkConfig \<Rightarrow> VirtualMachineNetworkConfig" where
  "VmNetCfgBuilder_WithNetworkConfigStatus ipAddress macAddress networkName state b =
     b\<lparr>vm_Status := add_record ipAddress macAddress networkName state (vm_Status b)\<rparr>"

definition VmNetCfgBuilder_AllocatedCondition :: "ext \<Rightarrow> string \<Rightarrow> string \<Rightarrow> string \<Rightarrow> VirtualMachineNetworkConfig \<Rightarrow> VirtualMachineNetworkConfig" where
  "VmNetCfgBuilder_AllocatedCondition = setAllocatedCondition"

definition VmNetCfgBuilder_DisabledCondition :: "ext \<Rightarrow> string \<Rightarrow> string \<Rightarrow> string \<Rightarrow> VirtualMachineNetworkConfig \<Rightarrow> VirtualMachineNetworkConfig" where
  "VmNetCfgBuilder_DisabledCondition = setDisabledCondition"

definition VmNetCfgBuilder_InSyncedCondition :: "ext \<Rightarrow> string \<Rightarrow> string \<Rightarrow> string \<Rightarrow> VirtualMachineNetworkConfig \<Rightarrow> VirtualMachineNetworkConfig" where
  "VmNetCfgBuilder_InSyncedCondition = setInSyncedCondition"

definition newVmNetCfgStatusBuilder :: VmNetCfgStatus where
  "newVmNetCfgStatusBuilder = zero_VmNetCfgStatus"

definition vmNetCfgStatusBuilder_WithNetworkConfigStatus :: "string \<Rightarrow> string \<Rightarrow> string \<Rightarrow> string \<Rightarrow> VmNetCfgStatus \<Rightarrow> VmNetCfgStatus" where
  "vmNetCfgStatusBuilder_WithNetworkConfigStatus = add_record"

definition vmNetCfgStatusBuilder_InSyncedCondition :: "ext \<Rightarrow> string \<Rightarrow> string \<Rightarrow> string \<Rightarrow> VmNetCfgStatus \<Rightarrow> VmNetCfgStatus" where
  "vmNetCfgStatusBuilder_InSyncedCondition x status reason message st =
     st\<lparr>vst_Conditions := set_condition x InSynced status reason message (vst_Conditions st)\<rparr>"

definition vmnetcfg_SanitizeStatus :: "VmNetCfgStatus \<Rightarrow> VmNetCfgStatus" where
  "vmnetcfg_SanitizeStatus st = st\<lparr>vst_Conditions := map untimed (vst_Conditions st)\<rparr>"

section \<open>Virtual machines\<close>

text \<open>\<open>json.Marshal\<close> of the map is a parameter; its error is ignored by the code.\<close>

record vmBuilder =
  vmb_vm :: VirtualMachine
  vmb_nicToMacAddress :: labels

definition newVMBuilder :: "string \<Rightarrow> string \<Rightarrow> vmBuilder" where
  "newVMBuilder namespace name = \<lparr>vmb_vm = \<lparr>kv_Meta = empty_meta namespace name, kv_APIVersion = [], kv_Kind = [], kv_Template = None\<rparr>,
     vmb_nicToMacAddress = Map.empty\<rparr>"

definition vmBuilder_WithInterfaceInAnnotation :: "ext \<Rightarrow> (labels \<Rightarrow> string) \<Rightarrow> string \<Rightarrow> string \<Rightarrow> vmBuilder \<Rightarrow> vmBuilder" where
  "vmBuilder_WithInterfaceInAnnotation x marshal macAddress nicName b =
     (let m = (vmb_nicToMacAddress b)(nicName \<mapsto> macAddress); vm = vmb_vm b
      in b\<lparr>vmb_nicToMacAddress := m,
           vmb_vm := vm\<lparr>kv_Meta := (kv_Meta vm)\<lparr>om_Annotations :=
             Some ((nil_make (om_Annotations (kv_Meta vm)))(x_AnnotationMacAddressName x \<mapsto> marshal m))\<rparr>\<rparr>\<rparr>)"

definition made_template :: "VirtualMachine \<Rightarrow> VMTemplate" where
  "made_template vm = (case kv_Template vm of None \<Rightarrow> \<lparr>vt_Interfaces = [], vt_Networks = []\<rparr> | Some t \<Rightarrow> t)"

definition vmBuilder_WithInterfaceInSpec :: "string \<Rightarrow> string \<Rightarrow> vmBuilder \<Rightarrow> vmBuilder" where
  "vmBuilder_WithInterfaceInSpec macAddress nicName b =
     (let t = made_template (vmb_vm b)
      in b\<lparr>vmb_vm := (vmb_vm b)\<lparr>kv_Template := Some (t\<lparr>vt_Interfaces := vt_Interfaces t @ [\<lparr>vi_Name = nicName, vi_MacAddress = macAddress\<rparr>]\<rparr>)\<rparr>\<rparr>)"

definition vmBuilder_WithNetwork :: "string \<Rightarrow> string \<Rightarrow> vmBuilder \<Rightarrow> vmBuilder" where
  "vmBuilder_WithNetwork nicName networkName b =
     (let t = made_template (vmb_vm b)
      in b\<lparr>vmb_vm := (vmb_vm b)\<lparr>kv_Template := Some (t\<lparr>vt_Networks := vt_Networks t @
           [\<lparr>vn_Name = nicName, vn_Multus = (if networkName = [] then None else Some networkName)\<rparr>]\<rparr>)\<rparr>\<rparr>)"

section \<open>Stores\<close>

text \<open>The builders of the stores call the operations of the stores and ignore their errors.\<close>

definition NewIPAllocatorBuilder :: IPAllocator where
  "NewIPAllocatorBuilder = NewIPAllocator"

definition IPAllocatorBuilder_IPSubnet :: "string \<Rightarrow> string \<Rightarrow> string \<Rightarrow> string \<Rightarrow> IPAllocator \<Rightarrow> IPAllocator outcome" where
  "IPAllocatorBuilder_IPSubnet name cidr startIP endIP b = go_bind (NewIPSubnet b name cidr startIP endIP) (\<lambda>(a, _). Ret a)"

definition IPAllocatorBuilder_Revoke :: "string \<Rightarrow> string list \<Rightarrow> IPAllocator \<Rightarrow> IPAllocator" where
  "IPAllocatorBuilder_Revoke name ipAddressList = fold (\<lambda>ip a. fst (RevokeIP a name ip)) ipAddressList"

definition IPAllocatorBuilder_Allocate :: "range_order \<Rightarrow> string \<Rightarrow> string list \<Rightarrow> IPAllocator \<Rightarrow> IPAllocator" where
  "IPAllocatorBuilder_Allocate rng name ipAddressList = fold (\<lambda>ip a. fst (AllocateIP rng a name ip)) ipAddressList"

definition NewCacheAllocatorBuilder :: CacheAllocator where
  "NewCacheAllocatorBuilder = NewCacheAllocator"

definition CacheAllocatorBuilder_MACSet :: "string \<Rightarrow> CacheAllocator \<Rightarrow> CacheAllocator" where
  "CacheAllocatorBuilder_MACSet name b = fst (NewMACSet b name)"

definition CacheAllocatorBuilder_Add :: "string \<Rightarrow> string \<Rightarrow> string \<Rightarrow> CacheAllocator \<Rightarrow> CacheAllocator" where
  "CacheAllocatorBuilder_Add name macAddress ipAddress b = fst (AddMAC b name macAddress ipAddress)"

section \<open>What builders and operations have in common\<close>

lemma revoke_all_builder:
  "revoke_all n rs s = (None, s') \<Longrightarrow> s' = s\<lparr>ipAllocator := IPAllocatorBuilder_Revoke n rs (ipAllocator s)\<rparr>"
proof (induction rs arbitrary: s)
  case (Cons r rs)
  from Cons.prems show ?case by (auto simp: IPAllocatorBuilder_Revoke_def split: prod.splits option.splits dest!: Cons.IH)
qed (simp add: IPAllocatorBuilder_Revoke_def)

text \<open>The addresses of a record that belong to a hardware address, in the order of the range loop.\<close>

definition load_order :: "labels \<Rightarrow> string list \<Rightarrow> string list" where
  "load_order m ks = filter (\<lambda>ip. the (m ip) \<notin> marks) ks"

lemma rebuild_builder:
  "rebuild rng n m ks s = (None, s') \<Longrightarrow>
    s' = s\<lparr>ipAllocator := IPAllocatorBuilder_Allocate rng n (load_order m ks) (ipAllocator s),
           cacheAllocator := fold (\<lambda>ip. CacheAllocatorBuilder_Add n (the (m ip)) ip) (load_order m ks) (cacheAllocator s)\<rparr>"
proof (induction ks arbitrary: s)
  case (Cons ip ks)
  from Cons.prems show ?case
    by (auto simp: IPAllocatorBuilder_Allocate_def CacheAllocatorBuilder_Add_def load_order_def marks_def Let_def
        split: prod.splits option.splits if_splits dest!: Cons.IH)
qed (simp add: IPAllocatorBuilder_Allocate_def load_order_def)

text \<open>
  The builders describe what \<open>BuildCache\<close> does.  Whenever it loads a pool without an error,
  the IPAM is the one that the IPAM builder makes from it with the subnet of the specification, by
  revoking server, router and excluded addresses and allocating the recorded ones, and the MAC
  cache is the one that the cache builder makes with a new set and the recorded pairs.
\<close>

theorem BuildCache_by_builders:
  assumes "go_range (w_rng W)" "\<not> pool_paused p" "\<not> x_IsTrue (w_ext W) CacheReady (st_Conditions (ip_Status p))"
    "BuildCache W p status s = Ret ((status', None), s')"
  shows "\<exists>a. IPAllocatorBuilder_IPSubnet (pool_network p) (c4_CIDR (pool_config p)) (pl_Start (c4_Pool (pool_config p)))
        (pl_End (c4_Pool (pool_config p))) (ipAllocator s) = Ret a \<and>
    ipAllocator s' = IPAllocatorBuilder_Allocate (w_rng W) (pool_network p) (load_order (recorded p) (w_rng W (dom (recorded p))))
      (IPAllocatorBuilder_Revoke (pool_network p) ([c4_ServerIP (pool_config p), c4_Router (pool_config p)] @ pl_Exclude (c4_Pool (pool_config p))) a) \<and>
    cacheAllocator s' = fold (\<lambda>ip. CacheAllocatorBuilder_Add (pool_network p) (the (recorded p ip)) ip)
      (load_order (recorded p) (w_rng W (dom (recorded p)))) (CacheAllocatorBuilder_MACSet (pool_network p) (cacheAllocator s)) \<and>
    status' = status \<and> calls s' = calls s"
proof -
  let ?n = "pool_network p" and ?cfg = "pool_config p" and ?m = "recorded p"
  let ?rs = "[c4_ServerIP ?cfg, c4_Router ?cfg] @ pl_Exclude (c4_Pool ?cfg)"
  obtain a where a: "NewIPSubnet (ipAllocator s) ?n (c4_CIDR ?cfg) (pl_Start (c4_Pool ?cfg)) (pl_End (c4_Pool ?cfg)) = Ret (a, None)"
    using assms(2-4) by (auto simp: BuildCache_def Let_def go_bind_Ret_iff split: option.splits)
  obtain c where c: "NewMACSet (cacheAllocator s) ?n = (c, None)" by (simp add: NewMACSet_def)
  let ?s = "s\<lparr>ipAllocator := a, cacheAllocator := c\<rparr>"
  obtain s1 where r: "revoke_all ?n ?rs ?s = (None, s1)"
    using assms(2-4) a c by (auto simp: BuildCache_def Let_def simp del: revoke_all.simps split: prod.splits option.splits)
  have b: "rebuild (w_rng W) ?n ?m (w_rng W (dom ?m)) s1 = (None, s') \<and> status' = status"
  proof (cases "st_IPv4 (ip_Status p)")
    case None
    have "w_rng W {} = []" using go_rangeD [OF assms(1), of "{}"] by (simp add: ranges_def)
    with None show ?thesis using assms(2-4) a c r by (simp add: BuildCache_def Let_def recorded_def del: revoke_all.simps)
  next
    case (Some st4)
    with assms(2-4) a c r show ?thesis
      by (auto simp: BuildCache_def Let_def recorded_def simp del: revoke_all.simps split: prod.splits)
  qed
  have "s1 = ?s\<lparr>ipAllocator := IPAllocatorBuilder_Revoke ?n ?rs a\<rparr>" using revoke_all_builder [OF r] by simp
  with rebuild_builder [OF conjunct1 [OF b]] b a c show ?thesis
    by (intro exI [of _ a]) (simp add: IPAllocatorBuilder_IPSubnet_def CacheAllocatorBuilder_MACSet_def)
qed

theorem BuildCache_by_builders_witness:
  "\<exists>a s'. BuildCache example_world example_IPPool (ip_Status example_IPPool) start_state = Ret ((ip_Status example_IPPool, None), s') \<and>
    IPAllocatorBuilder_IPSubnet ''default/net'' ''192.168.0.0/24'' ''192.168.0.10'' ''192.168.0.13'' NewIPAllocatorBuilder = Ret a \<and>
    ipAllocator s' = IPAllocatorBuilder_Allocate sorted_list_of_set ''default/net''
      (load_order (recorded example_IPPool) (sorted_list_of_set (dom (recorded example_IPPool))))
      (IPAllocatorBuilder_Revoke ''default/net'' [''192.168.0.10'', ''192.168.0.1'', ''192.168.0.11''] a)"
proof -
  obtain s' where s: "BuildCache example_world example_IPPool (ip_Status example_IPPool) start_state = Ret ((ip_Status example_IPPool, None), s')"
    using example_BuildCache by blast
  from BuildCache_by_builders [OF example_build_hyps(1) example_IPPool_simps(3) example_build_hyps(2) s] s show ?thesis
    by (auto simp: example_IPPool_simps example_config_def NewIPAllocatorBuilder_def)
qed

section \<open>Built objects\<close>

text \<open>\<open>PodReady\<close> always builds a ready pod, even for the argument \<open>False\<close>.\<close>

lemma mark_ready_ready: "isPodReady (podBuilder_PodReady ready b)"
proof -
  have "\<exists>t. find (\<lambda>c. fst c = ''Ready'') (mark_ready cs @ [(''Ready'', ''True'')]) = Some (t, ''True'')" for cs
    by (induction cs rule: mark_ready.induct) auto
  then obtain t where "find (\<lambda>c. fst c = ''Ready'') (mark_ready (pod_Conditions b) @ [(''Ready'', ''True'')]) = Some (t, ''True'')" by blast
  then show ?thesis by (simp add: isPodReady_def podBuilder_PodReady_def)
qed

text \<open>The record of a built pool is the list of the pairs that were added, the last one of an address counting.\<close>

lemma recorded_Allocated: "recorded (IPPoolBuilder_Allocated ip mac b) = (recorded b)(ip \<mapsto> mac)"
  by (auto simp: IPPoolBuilder_Allocated_def on_IPv4_def recorded_def new_IPv4Status_def nil_make_def split: option.splits)

lemma recorded_new: "recorded (NewIPPoolBuilder ns n) = Map.empty"
  by (simp add: NewIPPoolBuilder_def zero_IPPoolStatus_def recorded_def)

text \<open>Statuses that only differ in times are equal after \<open>SanitizeStatus\<close>, which is idempotent.\<close>

lemma SanitizeStatus_idem: "ippool_SanitizeStatus (ippool_SanitizeStatus st) = ippool_SanitizeStatus st"
  "vmnetcfg_SanitizeStatus (vmnetcfg_SanitizeStatus vst) = vmnetcfg_SanitizeStatus vst"
  by (simp_all add: ippool_SanitizeStatus_def vmnetcfg_SanitizeStatus_def untimed_def)

text \<open>
  When \<open>encoding/json\<close> reads back what it wrote, the controller reads the annotation of a built
  machine as the map of all interfaces added so far.
\<close>

lemma vmBuilder_annotation:
  assumes "x_UnmarshalMap x (marshal ((vmb_nicToMacAddress b)(nic \<mapsto> mac))) = Inr ((vmb_nicToMacAddress b)(nic \<mapsto> mac))"
    "marshal ((vmb_nicToMacAddress b)(nic \<mapsto> mac)) \<noteq> []"
  shows "annotated_macs x (vmb_vm (vmBuilder_WithInterfaceInAnnotation x marshal mac nic b)) = Inr ((vmb_nicToMacAddress b)(nic \<mapsto> mac))"
  using assms by (simp add: vmBuilder_WithInterfaceInAnnotation_def annotated_macs_def nil_lookup_def Let_def)

end
