(* ===== verification/Server.thy ===== *)
theory Server
  imports Builders
begin

text \<open>
  The processes around the components: the command lines of \<open>cmd\<close>, the options of
  \<open>pkg/config\<close>, the agent of \<open>pkg/agent\<close> and the HTTP server of \<open>pkg/server\<close>.  The
  goroutines are in \<open>Lifecycle\<close>, the construction of clients and controllers in \<open>Setup\<close>.
\<close>

section \<open>Options\<close>

record ControllerOptions =
  co_NoAgent :: bool
  co_AgentNamespace :: string
  co_AgentImage :: Image
  co_AgentServiceAccountName :: string
  co_NoDHCP :: bool

record AgentOptions =
  ao_DryRun :: bool
  ao_Nic :: string
  ao_KubeConfigPath :: string
  ao_KubeContext :: string
  ao_IPPoolRef :: "string \<times> string"

text \<open>The position of the last occurrence of a character, \<open>None\<close> for the result -1 of \<open>strings.LastIndex\<close>.\<close>

definition LastIndex :: "char \<Rightarrow> string \<Rightarrow> nat option" where
  "LastIndex c t = (if c \<in> set t then Some (length t - 1 - length (takeWhile (\<lambda>d. d \<noteq> c) (rev t))) else None)"

definition parseImageNameAndTag :: "string \<Rightarrow> go_error + Image" where
  "parseImageNameAndTag img =
     (case LastIndex (CHR '':'') img of
        None \<Rightarrow> Inr (NewImage img ''latest'')
      | Some idx \<Rightarrow>
          if idx = length img - 1 then Inl (Errorf ''invalid image name: colon without tag'')
          else if count_list img (CHR '':'') > 2 then Inl (Errorf ''invalid image name: multiple colons found'')
          else if (case LastIndex (CHR ''/'') img of None \<Rightarrow> False | Some j \<Rightarrow> idx \<le> j) then Inr (NewImage img ''latest'')
          else Inr (NewImage (take idx img) (drop (idx + 1) img)))"

text \<open>\<open>strconv.ParseBool\<close>, and the environment variables that it reads.\<close>

definition ParseBool :: "string \<Rightarrow> bool option" where
  "ParseBool t =
     (if t \<in> {''1'', ''t'', ''T'', ''true'', ''TRUE'', ''True''} then Some True
      else if t \<in> {''0'', ''f'', ''F'', ''false'', ''FALSE'', ''False''} then Some False else None)"

definition EnvGetBool :: "(string \<Rightarrow> string) \<Rightarrow> string \<Rightarrow> bool \<Rightarrow> bool" where
  "EnvGetBool getenv key defaultValue = (case ParseBool (getenv key) of Some parsed \<Rightarrow> parsed | None \<Rightarrow> defaultValue)"

text \<open>The body of the command of the agent, from the values of its flags.\<close>

definition agent_command :: "ext \<Rightarrow> bool \<Rightarrow> string \<Rightarrow> string \<Rightarrow> string \<Rightarrow> string \<Rightarrow> AgentOptions" where
  "agent_command x dryRun nic kubeConfigPath kubeContext ippoolRef =
     \<lparr>ao_DryRun = dryRun, ao_Nic = nic, ao_KubeConfigPath = kubeConfigPath, ao_KubeContext = kubeContext,
      ao_IPPoolRef = x_RSplit x ippoolRef ''/''\<rparr>"

text \<open>The body of the command of the controller: a bad image ends the process.\<close>

definition controller_command :: "bool \<Rightarrow> string \<Rightarrow> string \<Rightarrow> string \<Rightarrow> bool \<Rightarrow> go_error + ControllerOptions" where
  "controller_command no_agent namespace imageName serviceAccount no_dhcp =
     (case parseImageNameAndTag imageName of
        Inl e \<Rightarrow> Inl e
      | Inr img \<Rightarrow> Inr \<lparr>co_NoAgent = no_agent, co_AgentNamespace = namespace, co_AgentImage = img,
          co_AgentServiceAccountName = serviceAccount, co_NoDHCP = no_dhcp\<rparr>)"

section \<open>Setting up the processes\<close>

text \<open>The stores with which \<open>SetupManagement\<close> starts, and the handler that \<open>Register\<close> makes from the options.\<close>

definition SetupManagement :: "ctl" where
  "SetupManagement = \<lparr>ipAllocator = NewIPAllocator, cacheAllocator = NewCacheAllocator, calls = []\<rparr>"

definition register_handler :: "ControllerOptions \<Rightarrow> Handler" where
  "register_handler opts = \<lparr>agentNamespace = co_AgentNamespace opts, agentImage = co_AgentImage opts,
     agentServiceAccountName = co_AgentServiceAccountName opts, noAgent = co_NoAgent opts, noDHCP = co_NoDHCP opts\<rparr>"

text \<open>\<open>Management.Register\<close>: the definitions of the resources first, then every controller, up to the first error.\<close>

fun register_all :: "('s \<Rightarrow> go_error option \<times> 's) list \<Rightarrow> 's \<Rightarrow> go_error option \<times> 's" where
  "register_all [] s = (None, s)"
| "register_all (f # fs) s = (case f s of (Some e, s1) \<Rightarrow> (Some e, s1) | (None, s1) \<Rightarrow> register_all fs s1)"

definition Management_Register :: "('s \<Rightarrow> go_error option \<times> 's) \<Rightarrow> ('s \<Rightarrow> go_error option \<times> 's) list \<Rightarrow> 's \<Rightarrow> go_error option \<times> 's" where
  "Management_Register crdCreate registerFuncList s =
     (case crdCreate s of (Some e, s1) \<Rightarrow> (Some e, s1) | (None, s1) \<Rightarrow> register_all registerFuncList s1)"

record AgentState =
  agt_dryRun :: bool
  agt_nic :: string
  agt_poolRef :: "string \<times> string"
  agt_controller :: Controller

definition NewAgent :: "AgentOptions \<Rightarrow> AgentState" where
  "NewAgent options = \<lparr>agt_dryRun = ao_DryRun options, agt_nic = ao_Nic options, agt_poolRef = ao_IPPoolRef options,
     agt_controller = \<lparr>dhcpAllocator = NewDHCPAllocator, poolCache = Map.empty\<rparr>\<rparr>"

text \<open>What the first goroutine of \<open>Run\<close> does to the DHCP server.\<close>

definition Agent_Run :: "(string \<Rightarrow> go_error + nat) \<Rightarrow> AgentState \<Rightarrow> DHCPAllocator \<times> go_error option" where
  "Agent_Run newServer a =
     (if agt_dryRun a then DryRun (dhcpAllocator (agt_controller a)) (agt_nic a)
      else Dhcp_Run newServer (dhcpAllocator (agt_controller a)) (agt_nic a))"

section \<open>The HTTP server\<close>

record response =
  rs_code :: nat
  rs_body :: string

text \<open>The common part of the three handlers: a list or an error, whose text is sent, and \<open>json.Marshal\<close> of the list.\<close>

definition answer :: "(go_error \<Rightarrow> string) \<Rightarrow> ('a \<Rightarrow> go_error + string) \<Rightarrow> string \<Rightarrow> 'a gores \<Rightarrow> response" where
  "answer errText marshal failure r =
     (case r of
        (_, Some e) \<Rightarrow> \<lparr>rs_code = 500, rs_body = failure @ '': '' @ errText e\<rparr>
      | (m, None) \<Rightarrow>
          (case marshal m of
             Inl e \<Rightarrow> \<lparr>rs_code = 500, rs_body = []\<rparr>
           | Inr payload \<Rightarrow> \<lparr>rs_code = 200, rs_body = payload\<rparr>))"

definition listIPByNetworkHandler :: "range_order \<Rightarrow> (go_error \<Rightarrow> string) \<Rightarrow> (labels option \<Rightarrow> go_error + string) \<Rightarrow> IPAllocator \<Rightarrow> string \<Rightarrow> response" where
  "listIPByNetworkHandler rng errText marshal a networkName =
     answer errText marshal (''failed to list ipam of '' @ networkName) (ListAll rng a networkName)"

definition listCacheByNetworkHandler :: "range_order \<Rightarrow> (go_error \<Rightarrow> string) \<Rightarrow> (labels option \<Rightarrow> go_error + string) \<Rightarrow> CacheAllocator \<Rightarrow> string \<Rightarrow> response" where
  "listCacheByNetworkHandler rng errText marshal c networkName =
     answer errText marshal (''failed to list cache of '' @ networkName) (Cache_ListAll rng c networkName)"

definition listLeaseHandler :: "range_order \<Rightarrow> (go_error \<Rightarrow> string) \<Rightarrow> (DHCPLease \<Rightarrow> go_error + string) \<Rightarrow> (labels \<Rightarrow> go_error + string) \<Rightarrow>
    DHCPAllocator \<Rightarrow> response" where
  "listLeaseHandler rng errText marshalLease marshal a = answer errText marshal ''cannot list leases'' (Dhcp_ListAll rng marshalLease a)"

text \<open>The paths that the two processes serve.\<close>

definition registerProbeHandlers :: "string list" where
  "registerProbeHandlers = [''/healthz'', ''/readyz'']"

definition RegisterControllerHandlers :: "bool \<Rightarrow> string list" where
  "RegisterControllerHandlers debugMode = registerProbeHandlers @
     (if debugMode then [''/ipams/{networkName:.*}'', ''/caches/{networkName:.*}''] else []) @ [''/metrics'']"

definition RegisterAgentHandlers :: "bool \<Rightarrow> string list" where
  "RegisterAgentHandlers debugMode = registerProbeHandlers @ (if debugMode then [''/leases''] else [])"

section \<open>Image names\<close>

lemma while_until:
  assumes "c \<notin> set v"
  shows "takeWhile (\<lambda>d. d \<noteq> c) (v @ c # u) = v" "takeWhile (\<lambda>d. d \<noteq> c) (rev v @ c # u) = rev v"
    "dropWhile (\<lambda>d. d \<noteq> c) (rev v @ c # u) = c # u"
proof -
  have "takeWhile (\<lambda>d. d \<noteq> c) (w @ c # u) = w" "dropWhile (\<lambda>d. d \<noteq> c) (w @ c # u) = c # u" if "c \<notin> set w" for w
    using that by (induction w) auto
  with assms show "takeWhile (\<lambda>d. d \<noteq> c) (v @ c # u) = v" "takeWhile (\<lambda>d. d \<noteq> c) (rev v @ c # u) = rev v"
    "dropWhile (\<lambda>d. d \<noteq> c) (rev v @ c # u) = c # u" by simp_all
qed

lemma LastIndex_split: "c \<notin> set v \<Longrightarrow> LastIndex c (u @ c # v) = Some (length u)"
  by (simp add: LastIndex_def while_until)

lemma LastIndex_None: "LastIndex c t = None \<longleftrightarrow> c \<notin> set t"
  by (simp add: LastIndex_def)

lemma LastIndex_cases:
  assumes "LastIndex c t = Some i"
  obtains u v where "t = u @ c # v" "c \<notin> set v" "i = length u"
proof -
  have "c \<in> set t" using assms by (auto simp: LastIndex_def split: if_splits)
  then obtain u v where t: "t = u @ c # v" "c \<notin> set v" using split_list_last by metis
  with LastIndex_split [OF t(2), of u] assms show ?thesis using that by simp
qed

lemma parse_image_shape:
  assumes "parseImageNameAndTag t = Inr i"
  shows "Image_String i = t \<or> Image_String i = t @ '':latest''"
proof (cases "LastIndex (CHR '':'') t")
  case None
  with assms show ?thesis by (auto simp: parseImageNameAndTag_def NewImage_def Image_String_def)
next
  case (Some idx)
  from LastIndex_cases [OF Some] obtain u v where t: "t = u @ CHR '':'' # v" "idx = length u" by blast
  with assms Some show ?thesis
    by (auto simp: parseImageNameAndTag_def NewImage_def Image_String_def split: if_splits option.splits)
qed

lemma parse_image_error:
  "(\<exists>e. parseImageNameAndTag t = Inl e) \<longleftrightarrow> (\<exists>u. t = u @ '':'') \<or> 2 < count_list t (CHR '':'')"
proof (cases "LastIndex (CHR '':'') t")
  case None
  then have n: "CHR '':'' \<notin> set t" by (simp add: LastIndex_None)
  then have "count_list t (CHR '':'') = 0" "\<nexists>u. t = u @ '':''" by (auto simp: count_list_0_iff)
  with None show ?thesis by (simp add: parseImageNameAndTag_def)
next
  case (Some idx)
  from LastIndex_cases [OF Some] obtain u v where t: "t = u @ CHR '':'' # v" "CHR '':'' \<notin> set v" "idx = length u" by blast
  have "(\<exists>u'. t = u' @ '':'') \<longleftrightarrow> v = []" using t(1,2) by (cases v rule: rev_cases) auto
  with t Some show ?thesis by (auto simp: parseImageNameAndTag_def)
qed

lemma parse_image_tagged:
  assumes "img_Tag i \<noteq> []" "CHR '':'' \<notin> set (img_Tag i)" "CHR ''/'' \<notin> set (img_Tag i)" "count_list (img_Repository i) (CHR '':'') \<le> 1"
  shows "parseImageNameAndTag (Image_String i) = Inr i"
proof -
  let ?r = "img_Repository i" and ?t = "img_Tag i"
  have idx: "LastIndex (CHR '':'') (?r @ CHR '':'' # ?t) = Some (length ?r)" by (rule LastIndex_split [OF assms(2)])
  have cnt: "count_list (?r @ CHR '':'' # ?t) (CHR '':'') \<le> 2" using assms(2,4) by (simp add: count_list_0_iff)
  have slash: "\<not> length ?r \<le> j" if "LastIndex (CHR ''/'') (?r @ CHR '':'' # ?t) = Some j" for j
  proof -
    have "CHR ''/'' \<in> set (?r @ CHR '':'' # ?t)" using that by (metis LastIndex_None option.distinct(1))
    then have "CHR ''/'' \<in> set ?r" using assms(3) by simp
    then obtain u v where r: "?r = u @ CHR ''/'' # v" "CHR ''/'' \<notin> set v" using split_list_last by metis
    then have "LastIndex (CHR ''/'') (u @ CHR ''/'' # (v @ CHR '':'' # ?t)) = Some (length u)" using assms(3) by (intro LastIndex_split) simp
    with that r(1) show ?thesis by simp
  qed
  have ne: "length ?r \<noteq> length (?r @ CHR '':'' # ?t) - 1" using assms(1) by simp
  show ?thesis using idx cnt slash ne
    by (cases i) (auto simp: parseImageNameAndTag_def Image_String_def NewImage_def split: option.splits)
qed

text \<open>
  [C37] Image names.  A name is rejected exactly when it ends with a colon or has more than two; an
  accepted one is split so that repository and tag put together again are the name, or the
  name with the tag \<open>latest\<close>.  Conversely an image with a proper tag, whose repository has at
  most one colon for a port, is read back from its text.
\<close>

theorem image_roundtrip:
  "((\<exists>e. parseImageNameAndTag t = Inl e) \<longleftrightarrow> (\<exists>u. t = u @ '':'') \<or> 2 < count_list t (CHR '':'')) \<and>
   (parseImageNameAndTag t = Inr i \<longrightarrow> Image_String i = t \<or> Image_String i = t @ '':latest'') \<and>
   (img_Tag i \<noteq> [] \<and> CHR '':'' \<notin> set (img_Tag i) \<and> CHR ''/'' \<notin> set (img_Tag i) \<and> count_list (img_Repository i) (CHR '':'') \<le> 1 \<longrightarrow>
      parseImageNameAndTag (Image_String i) = Inr i)"
  using parse_image_shape parse_image_error parse_image_tagged by blast

theorem image_roundtrip_witness:
  "parseImageNameAndTag ''registry:5000/agent:v1'' = Inr \<lparr>img_Repository = ''registry:5000/agent'', img_Tag = ''v1''\<rparr> \<and>
   (\<exists>e. parseImageNameAndTag ''agent:'' = Inl e)"
  using image_roundtrip [of "''agent:''" "\<lparr>img_Repository = ''registry:5000/agent'', img_Tag = ''v1''\<rparr>"]
  by (simp add: Image_String_def)

section \<open>The agent that the controller deploys\<close>

text \<open>Documented behaviour of \<open>kv.RSplit\<close>: it splits at the last separator.\<close>

definition rsplit_law :: "ext \<Rightarrow> bool" where
  "rsplit_law x \<longleftrightarrow> (\<forall>a b. CHR ''/'' \<notin> set b \<longrightarrow> x_RSplit x (a @ ''/'' @ b) ''/'' = (a, b))"


lemma example_rsplit: "rsplit_law example_ext"
  by (simp add: rsplit_law_def split_last_def while_until)


end
