(* ===== verification/Lifecycle.thy ===== *)
theory Lifecycle
  imports Server
begin

text \<open>
  The lifecycle of the processes: \<open>run\<close> of \<open>cmd/controller\<close> and \<open>cmd/agent\<close> and \<open>Agent.Run\<close>
  all start two goroutines in an error group and a third one that cleans up when the context of
  the group is done; the main goroutine waits for the group and then receives the result of the
  cleanup.  The goroutines are a step relation, with one rule for each thing that can happen.
\<close>

section \<open>Goroutines of a group\<close>

datatype goroutine = NotStarted | Running | Returned "go_error option"

datatype cleaner = Waiting | Sending "go_error option" | Sent

datatype main_routine = Waits | Receives | Exits "go_error option" | Crashed

record process =
  pr_g1 :: goroutine
  pr_g2 :: goroutine
  pr_signalled :: bool
  pr_cancelled :: bool
  pr_first :: "go_error option"
  pr_stopped :: bool
  pr_cleaner :: cleaner
  pr_main :: main_routine

definition start_process :: process where
  "start_process = \<lparr>pr_g1 = NotStarted, pr_g2 = NotStarted, pr_signalled = False, pr_cancelled = False, pr_first = None,
     pr_stopped = False, pr_cleaner = Waiting, pr_main = Waits\<rparr>"

text \<open>
  What distinguishes the groups: the results with which the two functions may return, given
  whether the context is done and the cleanup has stopped the server; whether the second can
  panic; the result of the cleanup, given whether the first has started; and the errors that
  the main goroutine ignores.
\<close>

record group =
  gr_ends1 :: "bool \<Rightarrow> bool \<Rightarrow> go_error option \<Rightarrow> bool"
  gr_ends2 :: "bool \<Rightarrow> go_error option \<Rightarrow> bool"
  gr_panics2 :: bool
  gr_stop :: "bool \<Rightarrow> go_error option outcome \<Rightarrow> bool"
  gr_ignores :: "go_error \<Rightarrow> bool"

text \<open>\<open>errgroup\<close>: the first error is kept and cancels the context of the group.\<close>

definition group_result :: "go_error option \<Rightarrow> process \<Rightarrow> process" where
  "group_result r p = p\<lparr>pr_first := (case pr_first p of None \<Rightarrow> r | Some e \<Rightarrow> Some e), pr_cancelled := (pr_cancelled p \<or> r \<noteq> None)\<rparr>"

definition after_wait :: "group \<Rightarrow> go_error option \<Rightarrow> main_routine" where
  "after_wait gr err = (case err of Some e \<Rightarrow> if gr_ignores gr e then Receives else Exits (Some e) | None \<Rightarrow> Receives)"

fun running :: "main_routine \<Rightarrow> bool" where
  "running (Exits _) = False"
| "running Crashed = False"
| "running _ = True"

abbreviation over :: "process \<Rightarrow> bool" where "over p \<equiv> \<not> running (pr_main p)"

inductive proc_step :: "group \<Rightarrow> process \<Rightarrow> process \<Rightarrow> bool" for gr where
  Start1: "running (pr_main p) \<Longrightarrow> pr_g1 p = NotStarted \<Longrightarrow> proc_step gr p (p\<lparr>pr_g1 := Running\<rparr>)"
| Start2: "running (pr_main p) \<Longrightarrow> pr_g2 p = NotStarted \<Longrightarrow> proc_step gr p (p\<lparr>pr_g2 := Running\<rparr>)"
| Signal: "running (pr_main p) \<Longrightarrow> \<not> pr_signalled p \<Longrightarrow> proc_step gr p (p\<lparr>pr_signalled := True, pr_cancelled := True\<rparr>)"
| End1: "running (pr_main p) \<Longrightarrow> pr_g1 p = Running \<Longrightarrow> gr_ends1 gr (pr_cancelled p) (pr_stopped p) r \<Longrightarrow>
    proc_step gr p (group_result r (p\<lparr>pr_g1 := Returned r\<rparr>))"
| End2: "running (pr_main p) \<Longrightarrow> pr_g2 p = Running \<Longrightarrow> gr_ends2 gr (pr_cancelled p) r \<Longrightarrow>
    proc_step gr p (group_result r (p\<lparr>pr_g2 := Returned r\<rparr>))"
| Panic2: "running (pr_main p) \<Longrightarrow> pr_g2 p = Running \<Longrightarrow> gr_panics2 gr \<Longrightarrow> proc_step gr p (p\<lparr>pr_main := Crashed\<rparr>)"
| Stop: "running (pr_main p) \<Longrightarrow> pr_cleaner p = Waiting \<Longrightarrow> pr_cancelled p \<Longrightarrow> gr_stop gr (pr_g1 p \<noteq> NotStarted) (Ret e) \<Longrightarrow>
    proc_step gr p (p\<lparr>pr_stopped := True, pr_cleaner := Sending e\<rparr>)"
| StopPanic: "running (pr_main p) \<Longrightarrow> pr_cleaner p = Waiting \<Longrightarrow> pr_cancelled p \<Longrightarrow> gr_stop gr (pr_g1 p \<noteq> NotStarted) (Panic m) \<Longrightarrow>
    proc_step gr p (p\<lparr>pr_main := Crashed\<rparr>)"
| Wait: "pr_main p = Waits \<Longrightarrow> pr_g1 p = Returned ra \<Longrightarrow> pr_g2 p = Returned rb \<Longrightarrow>
    proc_step gr p (p\<lparr>pr_cancelled := True, pr_main := after_wait gr (pr_first p)\<rparr>)"
| Receive: "pr_main p = Receives \<Longrightarrow> pr_cleaner p = Sending e \<Longrightarrow>
    proc_step gr p (p\<lparr>pr_cleaner := Sent, pr_main := Exits e\<rparr>)"

inductive proc_reach :: "group \<Rightarrow> process \<Rightarrow> bool" for gr where
  Init: "proc_reach gr start_process"
| Step: "proc_reach gr p \<Longrightarrow> proc_step gr p p' \<Longrightarrow> proc_reach gr p'"

inductive proc_run :: "group \<Rightarrow> nat \<Rightarrow> process \<Rightarrow> process \<Rightarrow> bool" for gr where
  Stay: "proc_run gr 0 p p"
| Go: "proc_step gr p p1 \<Longrightarrow> proc_run gr n p1 p2 \<Longrightarrow> proc_run gr (Suc n) p p2"

section \<open>The groups of the program\<close>

definition ErrServerClosed :: go_error where "ErrServerClosed = ExternalError ''http: Server closed''"

definition Canceled :: go_error where "Canceled = ExternalError ''context canceled''"

text \<open>
  \<open>HTTPServer.Run\<close> returns what \<open>ListenAndServe\<close> returns: never nil, and \<open>ErrServerClosed\<close> only
  after \<open>Shutdown\<close>.
\<close>

definition HTTPServer_Run :: "bool \<Rightarrow> go_error option \<Rightarrow> bool" where
  "HTTPServer_Run stopped r \<longleftrightarrow> (case r of None \<Rightarrow> False | Some e \<Rightarrow> e = ErrServerClosed \<longrightarrow> stopped)"

text \<open>
  \<open>stop\<close> calls \<open>Shutdown\<close> with a context that is done already: it closes the listeners and returns
  nil when no connection is active, and the error of the context otherwise.  The field
  \<open>srv\<close> is set by \<open>Run\<close>; before that it is nil.
\<close>

definition HTTPServer_stop :: "bool \<Rightarrow> bool \<Rightarrow> go_error option outcome" where
  "HTTPServer_stop started idle =
     (if \<not> started then Panic ''nil pointer dereference'' else Ret (if idle then None else Some Canceled))"

text \<open>
  The callback of the controller registers the controllers and starts them, panics on an error,
  and waits for the context.  The group is the one of a controller without leader election; with
  it the election library runs the callback, and ends the process itself when the election ends.
\<close>

definition controller_callback :: "go_error option \<Rightarrow> go_error option \<Rightarrow> unit outcome" where
  "controller_callback registered started =
     (if registered \<noteq> None then Panic ''register'' else if started \<noteq> None then Panic ''start'' else Ret ())"

definition controller_group :: "go_error option \<Rightarrow> go_error option \<Rightarrow> group" where
  "controller_group registered started =
     \<lparr>gr_ends1 = (\<lambda>cancelled stopped. HTTPServer_Run stopped),
      gr_ends2 = (\<lambda>cancelled r. controller_callback registered started = Ret () \<and> cancelled \<and> r = None),
      gr_panics2 = (controller_callback registered started \<noteq> Ret ()),
      gr_stop = (\<lambda>started r. \<exists>idle. r = HTTPServer_stop started idle),
      gr_ignores = (\<lambda>e. e = ErrServerClosed)\<rparr>"

text \<open>
  \<open>Agent.Run\<close>: the DHCP server is started without waiting, the event handler fails on its
  initialisation or waits for the context; the cleanup closes the DHCP server if there is one.
\<close>

definition agent_run_group :: "go_error option \<Rightarrow> go_error option \<Rightarrow> go_error option \<Rightarrow> group" where
  "agent_run_group dhcp init close =
     \<lparr>gr_ends1 = (\<lambda>cancelled stopped r. r = dhcp),
      gr_ends2 = (\<lambda>cancelled r. if init \<noteq> None then r = init else cancelled \<and> r = None),
      gr_panics2 = False,
      gr_stop = (\<lambda>started r. \<exists>open_server. r = Ret (if open_server then close else None)),
      gr_ignores = (\<lambda>e. False)\<rparr>"

text \<open>The process of the agent: \<open>Agent.Run\<close> returns an error at any time, or nil when the context is done.\<close>

definition agent_group :: group where
  "agent_group =
     \<lparr>gr_ends1 = (\<lambda>cancelled stopped. HTTPServer_Run stopped),
      gr_ends2 = (\<lambda>cancelled r. r \<noteq> None \<or> cancelled),
      gr_panics2 = False,
      gr_stop = (\<lambda>started r. \<exists>idle. r = HTTPServer_stop started idle),
      gr_ignores = (\<lambda>e. e = ErrServerClosed)\<rparr>"

section \<open>Every run ends\<close>

fun left_goroutine :: "goroutine \<Rightarrow> nat" where
  "left_goroutine NotStarted = 2"
| "left_goroutine Running = 1"
| "left_goroutine (Returned _) = 0"

fun left_cleaner :: "cleaner \<Rightarrow> nat" where
  "left_cleaner Waiting = 1"
| "left_cleaner _ = 0"

fun left_main :: "main_routine \<Rightarrow> nat" where
  "left_main Waits = 2"
| "left_main Receives = 1"
| "left_main _ = 0"

definition left :: "process \<Rightarrow> nat" where
  "left p = left_goroutine (pr_g1 p) + left_goroutine (pr_g2 p) + (if pr_signalled p then 0 else 1) +
     left_cleaner (pr_cleaner p) + left_main (pr_main p)"

lemma left_step: "proc_step gr p p' \<Longrightarrow> left p' < left p"
proof (induction rule: proc_step.induct)
  case (Panic2 p)
  then show ?case by (cases "pr_main p") (simp_all add: left_def)
next
  case (StopPanic p m)
  then show ?case by (cases "pr_main p") (simp_all add: left_def)
qed (auto simp: left_def group_result_def after_wait_def split: option.splits)

lemma left_run: "proc_run gr n p p' \<Longrightarrow> n + left p' \<le> left p"
  by (induction rule: proc_run.induct) (auto dest: left_step)

lemma left_start: "left start_process = 8"
  by (simp add: left_def start_process_def)

lemma left_reach: "proc_reach gr p \<Longrightarrow> left p \<le> 8"
  by (induction rule: proc_reach.induct) (auto simp: left_start dest: left_step)

lemma reach_run: "proc_run gr n p p' \<Longrightarrow> proc_reach gr p \<Longrightarrow> proc_reach gr p'"
  by (induction rule: proc_run.induct) (auto intro: proc_reach.Step)

lemma signalled_run: "proc_run gr n p p' \<Longrightarrow> pr_signalled p \<Longrightarrow> pr_signalled p'"
proof (induction rule: proc_run.induct)
  case (Go p p1 n p2)
  from Go.hyps(1) Go.prems have "pr_signalled p1"
    by (induction rule: proc_step.induct) (simp_all add: group_result_def)
  then show ?case by (rule Go.IH)
qed simp

text \<open>What holds in every reachable state of a group.\<close>

definition proc_inv :: "group \<Rightarrow> process \<Rightarrow> bool" where
  "proc_inv gr p \<longleftrightarrow> (pr_signalled p \<longrightarrow> pr_cancelled p) \<and>
     (\<forall>e. pr_first p = Some e \<longrightarrow> pr_cancelled p \<and> (pr_g1 p = Returned (Some e) \<or> pr_g2 p = Returned (Some e))) \<and>
     (pr_first p = None \<longrightarrow> (\<forall>e. pr_g1 p \<noteq> Returned (Some e) \<and> pr_g2 p \<noteq> Returned (Some e))) \<and>
     (pr_cleaner p = Waiting \<longleftrightarrow> \<not> pr_stopped p) \<and>
     (\<forall>r. pr_g1 p = Returned r \<longrightarrow> (\<exists>c s. (s \<longrightarrow> pr_stopped p) \<and> gr_ends1 gr c s r)) \<and>
     (\<forall>r. pr_g2 p = Returned r \<longrightarrow> (\<exists>c. (c \<longrightarrow> pr_cancelled p) \<and> gr_ends2 gr c r)) \<and>
     (pr_main p = Receives \<longrightarrow> pr_cleaner p \<noteq> Sent \<and> (\<forall>e. pr_first p = Some e \<longrightarrow> gr_ignores gr e)) \<and>
     (pr_main p = Waits \<longrightarrow> pr_cleaner p \<noteq> Sent) \<and>
     (pr_main p \<noteq> Waits \<and> pr_main p \<noteq> Crashed \<longrightarrow> (\<exists>r1 r2. pr_g1 p = Returned r1 \<and> pr_g2 p = Returned r2) \<and> pr_cancelled p)"

lemma inv_reach: "proc_reach gr p \<Longrightarrow> proc_inv gr p"
proof (induction rule: proc_reach.induct)
  case Init
  show ?case by (simp add: proc_inv_def start_process_def)
next
  case (Step p p')
  from Step.hyps(2) Step.IH show ?case
    by (induction rule: proc_step.induct)
      (fastforce simp: proc_inv_def group_result_def after_wait_def split: option.splits if_splits)+
qed

lemma cancelled_run: "proc_run gr n p p' \<Longrightarrow> pr_cancelled p \<Longrightarrow> pr_cancelled p'"
proof (induction rule: proc_run.induct)
  case (Go p p1 n p2)
  from Go.hyps(1) Go.prems have "pr_cancelled p1"
    by (induction rule: proc_step.induct) (simp_all add: group_result_def)
  then show ?case by (rule Go.IH)
qed simp

text \<open>
  The contract of the functions of a group: each can return once the context is done and the
  server is stopped, and the cleanup does not hang.
\<close>

locale process_group =
  fixes gr :: group
  assumes ends1: "\<exists>r. gr_ends1 gr True True r"
    and ends2: "gr_panics2 gr \<or> (\<exists>r. gr_ends2 gr True r)"
    and stops: "(\<exists>e. gr_stop gr started (Ret e)) \<or> (\<exists>m. gr_stop gr started (Panic m))"
begin

lemma progress:
  assumes "proc_reach gr p" "pr_cancelled p" "running (pr_main p)"
  shows "\<exists>p'. proc_step gr p p'"
proof -
  have inv: "proc_inv gr p" by (rule inv_reach [OF assms(1)])
  consider "pr_g1 p = NotStarted" | "pr_g2 p = NotStarted" | "pr_cleaner p = Waiting"
    | (stopped) "pr_g1 p \<noteq> NotStarted" "pr_g2 p \<noteq> NotStarted" "pr_cleaner p \<noteq> Waiting" by blast
  then show ?thesis
  proof cases
    case stopped
    then have st: "pr_stopped p" using inv by (simp add: proc_inv_def)
    consider "pr_g1 p = Running" | "pr_g2 p = Running" | r1 r2 where "pr_g1 p = Returned r1" "pr_g2 p = Returned r2"
      using stopped(1,2) by (cases "pr_g1 p"; cases "pr_g2 p") auto
    then show ?thesis
    proof cases
      case 1
      with ends1 assms(2,3) st show ?thesis by (metis proc_step.End1)
    next
      case 2
      with ends2 assms(2,3) show ?thesis by (metis proc_step.End2 proc_step.Panic2)
    next
      case 3
      have "pr_cleaner p \<noteq> Sent" using inv assms(3) by (cases "pr_main p") (auto simp: proc_inv_def)
      then obtain e where "pr_cleaner p = Sending e" using stopped(3) by (cases "pr_cleaner p") auto
      with 3 assms(3) show ?thesis by (cases "pr_main p") (auto intro: proc_step.Wait proc_step.Receive)
    qed
  next
    case 3
    with stops [of "pr_g1 p \<noteq> NotStarted"] assms(2,3) show ?thesis by (metis proc_step.Stop proc_step.StopPanic)
  qed (use assms(3) in \<open>blast intro: proc_step.Start1 proc_step.Start2\<close>)+
qed

lemma shutdown:
  assumes "proc_reach gr p" "pr_cancelled p"
  shows "(\<exists>n p'. proc_run gr n p p' \<and> over p') \<and>
    (\<forall>n p'. proc_run gr n p p' \<longrightarrow> n \<le> 8 \<and> (over p' \<or> (\<exists>p''. proc_step gr p' p'')))"
proof
  show "\<exists>n p'. proc_run gr n p p' \<and> over p'"
    using assms
  proof (induction "left p" arbitrary: p rule: less_induct)
    case less
    show ?case
    proof (cases "over p")
      case False
      then obtain p1 where p1: "proc_step gr p p1" using progress less.prems by blast
      have "pr_cancelled p1" using cancelled_run [OF proc_run.Go [OF p1 proc_run.Stay]] less.prems(2) by blast
      with less.hyps [OF left_step [OF p1]] proc_reach.Step [OF less.prems(1) p1] obtain n p' where "proc_run gr n p1 p'" "over p'" by blast
      with p1 show ?thesis by (blast intro: proc_run.Go)
    qed (blast intro: proc_run.Stay)
  qed
next
  show "\<forall>n p'. proc_run gr n p p' \<longrightarrow> n \<le> 8 \<and> (over p' \<or> (\<exists>p''. proc_step gr p' p''))"
    using left_run left_reach [OF assms(1)] progress reach_run cancelled_run assms by (meson add_leD1 order_trans)
qed

end

lemma HTTPServer_Run_stopped: "HTTPServer_Run True (Some ErrServerClosed)"
  by (simp add: HTTPServer_Run_def)

interpretation controller_process: process_group "controller_group registered started" for registered started
  by unfold_locales (auto simp: controller_group_def HTTPServer_stop_def intro: HTTPServer_Run_stopped)

interpretation agent_process: process_group agent_group
  by unfold_locales (auto simp: agent_group_def HTTPServer_stop_def intro: HTTPServer_Run_stopped)

interpretation agent_run: process_group "agent_run_group dhcp init close" for dhcp init close
  by unfold_locales (auto simp: agent_run_group_def)


lemma signal_reach: "proc_reach gr (start_process\<lparr>pr_signalled := True, pr_cancelled := True\<rparr>)"
  by (rule proc_reach.Step [OF proc_reach.Init proc_step.Signal]) (simp_all add: start_process_def)


section \<open>How a process ends\<close>

definition exit_inv :: "group \<Rightarrow> process \<Rightarrow> bool" where
  "exit_inv gr p \<longleftrightarrow> (\<forall>e. pr_cleaner p = Sending e \<longrightarrow> (\<exists>st. gr_stop gr st (Ret e))) \<and>
     (\<forall>r. pr_main p = Exits r \<longrightarrow> (\<exists>e. r = Some e \<and> pr_first p = Some e \<and> \<not> gr_ignores gr e) \<or>
        (\<exists>st. gr_stop gr st (Ret r)) \<and> (\<forall>e. pr_first p = Some e \<longrightarrow> gr_ignores gr e))"

lemma exit_reach: "proc_reach gr p \<Longrightarrow> exit_inv gr p"
proof (induction rule: proc_reach.induct)
  case Init
  show ?case by (simp add: exit_inv_def start_process_def)
next
  case (Step p p')
  from Step.hyps(2) Step.IH inv_reach [OF Step.hyps(1)] show ?case
    by (induction rule: proc_step.induct)
      (fastforce simp: exit_inv_def proc_inv_def group_result_def after_wait_def split: option.splits if_splits)+
qed

text \<open>In the controller the context is done only after a signal or a failure of the HTTP server.\<close>

lemma controller_cancelled:
  "proc_reach (controller_group registered started) p \<Longrightarrow>
    ((pr_cancelled p \<or> pr_stopped p) \<longrightarrow> pr_signalled p \<or> (\<exists>e. pr_first p = Some e \<and> e \<noteq> ErrServerClosed)) \<and>
    (\<forall>r. pr_g2 p = Returned r \<longrightarrow> pr_cancelled p \<and> r = None \<and> controller_callback registered started = Ret ())"
proof (induction rule: proc_reach.induct)
  case Init
  show ?case by (simp add: start_process_def)
next
  case (Step p p')
  have "pr_first p = Some e \<Longrightarrow> pr_cancelled p" for e using inv_reach [OF Step.hyps(1)] by (simp add: proc_inv_def)
  with Step.hyps(2) Step.IH show ?case
    by (induction rule: proc_step.induct)
      (auto simp: group_result_def controller_group_def HTTPServer_Run_def split: option.splits)
qed

text \<open>
  How the controller ends, without leader election.  When \<open>run\<close> returns, the controllers had been registered and started,
  and either there was a signal and the result is nil or, with connections still active, the error
  of the context; or the HTTP server failed, and the result is its error.  In particular
  the process never ends successfully on its own.
\<close>

theorem controller_exit:
  assumes "proc_reach (controller_group registered started) p" "pr_main p = Exits r"
  shows "registered = None \<and> started = None \<and>
    (pr_signalled p \<and> r \<in> {None, Some Canceled} \<or> (\<exists>e. r = Some e \<and> e \<noteq> ErrServerClosed \<and> pr_g1 p = Returned (Some e)))"
proof -
  note c = controller_cancelled [OF assms(1)] and x = exit_reach [OF assms(1)] and i = inv_reach [OF assms(1)]
  obtain r1 r2 where g: "pr_g1 p = Returned r1" "pr_g2 p = Returned r2" "pr_cancelled p" using i assms(2) by (auto simp: proc_inv_def)
  have cb: "controller_callback registered started = Ret ()" "r2 = None" using c g(2) by auto
  then have "registered = None \<and> started = None" by (auto simp: controller_callback_def split: if_splits)
  moreover consider (failed) e where "r = Some e" "pr_first p = Some e" "e \<noteq> ErrServerClosed"
    | (clean) st where "gr_stop (controller_group registered started) st (Ret r)" "\<forall>e. pr_first p = Some e \<longrightarrow> e = ErrServerClosed"
    using x assms(2) by (auto simp: exit_inv_def controller_group_def)
  then have "pr_signalled p \<and> r \<in> {None, Some Canceled} \<or> (\<exists>e. r = Some e \<and> e \<noteq> ErrServerClosed \<and> pr_g1 p = Returned (Some e))"
  proof cases
    case failed
    then have "pr_g1 p = Returned (Some e)" using i g(2) cb(2) by (auto simp: proc_inv_def)
    with failed show ?thesis by blast
  next
    case clean
    then have "pr_signalled p" using c g(3) by blast
    with clean(1) show ?thesis by (auto simp: controller_group_def HTTPServer_stop_def split: if_splits)
  qed
  ultimately show ?thesis by blast
qed

lemma controller_runs:
  assumes "e \<in> {None, Some Canceled}"
  shows "\<exists>p. proc_reach (controller_group None None) p \<and> pr_first p = Some ErrServerClosed \<and> pr_main p = Exits e"
proof -
  let ?gr = "controller_group None None"
  let ?sig = "\<lambda>p. p\<lparr>pr_signalled := True, pr_cancelled := True\<rparr>"
  define p1 where "p1 = (?sig start_process)\<lparr>pr_g1 := Running\<rparr>"
  define p2 where "p2 = p1\<lparr>pr_g2 := Running\<rparr>"
  define p3 where "p3 = p2\<lparr>pr_stopped := True, pr_cleaner := Sending e\<rparr>"
  define p4 where "p4 = group_result (Some ErrServerClosed) (p3\<lparr>pr_g1 := Returned (Some ErrServerClosed)\<rparr>)"
  define p5 where "p5 = group_result None (p4\<lparr>pr_g2 := Returned None\<rparr>)"
  define p6 where "p6 = p5\<lparr>pr_cancelled := True, pr_main := after_wait ?gr (pr_first p5)\<rparr>"
  define p7 where "p7 = p6\<lparr>pr_cleaner := Sent, pr_main := Exits e\<rparr>"
  note d = p1_def p2_def p3_def p4_def p5_def p6_def start_process_def group_result_def
  have r1: "proc_reach ?gr p1" unfolding p1_def by (rule proc_reach.Step [OF signal_reach proc_step.Start1]) (simp_all add: start_process_def)
  have r2: "proc_reach ?gr p2" unfolding p2_def by (rule proc_reach.Step [OF r1 proc_step.Start2]) (simp_all add: d)
  have r3: "proc_reach ?gr p3" unfolding p3_def
    by (rule proc_reach.Step [OF r2 proc_step.Stop]) (use assms in \<open>auto simp: d controller_group_def HTTPServer_stop_def\<close>)
  have r4: "proc_reach ?gr p4" unfolding p4_def
    by (rule proc_reach.Step [OF r3 proc_step.End1]) (simp_all add: d controller_group_def HTTPServer_Run_def)
  have r5: "proc_reach ?gr p5" unfolding p5_def
    by (rule proc_reach.Step [OF r4 proc_step.End2]) (simp_all add: d controller_group_def controller_callback_def)
  have r6: "proc_reach ?gr p6" unfolding p6_def
    by (rule proc_reach.Step [OF r5 proc_step.Wait [where ra = "Some ErrServerClosed" and rb = None]]) (simp_all add: d)
  have r7: "proc_reach ?gr p7" unfolding p7_def
    by (rule proc_reach.Step [OF r6 proc_step.Receive]) (simp_all add: d after_wait_def controller_group_def)
  have "pr_first p7 = Some ErrServerClosed" "pr_main p7 = Exits e" by (simp_all add: p7_def d)
  with r7 show ?thesis by blast
qed

theorem controller_exit_witness:
  "\<exists>p. proc_reach (controller_group None None) p \<and> pr_main p = Exits None \<and> pr_signalled p"
proof -
  obtain p where "proc_reach (controller_group None None) p" "pr_main p = Exits None" using controller_runs [of None] by blast
  with controller_exit [of None None p None] show ?thesis by blast
qed

lemma agent_run_cancelled:
  "proc_reach (agent_run_group dhcp init close) p \<Longrightarrow> pr_main p \<noteq> Crashed \<and> (pr_cancelled p \<longrightarrow> pr_signalled p \<or> pr_first p \<noteq> None) \<and>
    (\<forall>r. pr_g1 p = Returned r \<longrightarrow> r = dhcp) \<and>
    (\<forall>r. pr_g2 p = Returned r \<longrightarrow> r = init \<and> (init = None \<longrightarrow> pr_cancelled p) \<and> (init \<noteq> None \<longrightarrow> pr_first p \<noteq> None))"
proof (induction rule: proc_reach.induct)
  case Init
  show ?case by (simp add: start_process_def)
next
  case (Step p p')
  from Step.hyps(2) Step.IH show ?case
    by (induction rule: proc_step.induct)
      (auto simp: group_result_def agent_run_group_def after_wait_def split: option.splits if_splits)
qed

text \<open>
  \<open>Agent.Run\<close> behaves as the process of the agent assumes: it returns nil only after the context
  of the process is done.  When the event handler cannot be initialised and the DHCP server is up,
  it returns that error.
\<close>

theorem agent_run_returns:
  assumes "proc_reach (agent_run_group dhcp init close) p" "pr_main p = Exits r"
  shows "gr_ends2 agent_group (pr_signalled p) r \<and> (dhcp = None \<longrightarrow> init \<noteq> None \<longrightarrow> r = init)"
proof -
  note c = agent_run_cancelled [OF assms(1)] and x = exit_reach [OF assms(1)] and i = inv_reach [OF assms(1)]
  obtain r1 r2 where g: "pr_g1 p = Returned r1" "pr_g2 p = Returned r2" "pr_cancelled p" using i assms(2) by (auto simp: proc_inv_def)
  have f: "pr_first p = Some e \<Longrightarrow> r = Some e" for e
    using x assms(2) by (auto simp: exit_inv_def agent_run_group_def)
  have "gr_ends2 agent_group (pr_signalled p) r" using c g(3) f by (auto simp: agent_group_def)
  moreover have "r = init" if "dhcp = None" "init \<noteq> None"
  proof -
    from that(2) obtain e where e: "r2 = Some e" "init = Some e" using c g(2) by auto
    moreover have "r1 = None" using c g(1) that(1) by auto
    ultimately have "pr_first p = Some e" using i g(1,2) unfolding proc_inv_def by (cases "pr_first p") auto
    with f e show ?thesis by simp
  qed
  ultimately show ?thesis by blast
qed

theorem agent_run_returns_witness:
  "\<exists>p. proc_reach (agent_run_group None (Some Canceled) None) p \<and> pr_main p = Exits (Some Canceled)"
proof -
  let ?gr = "agent_run_group None (Some Canceled) None"
  have "\<exists>n p'. proc_run ?gr n (start_process\<lparr>pr_signalled := True, pr_cancelled := True\<rparr>) p' \<and> over p'"
    using agent_run.shutdown [OF signal_reach, of None "Some Canceled" None] by simp
  then obtain p' where p': "proc_reach ?gr p'" "over p'" using reach_run signal_reach by blast
  have "pr_main p' \<noteq> Crashed" using agent_run_cancelled [OF p'(1)] by blast
  then obtain r where r: "pr_main p' = Exits r" using p'(2) by (cases "pr_main p'") auto
  from agent_run_returns [OF p'(1) r] have "r = Some Canceled" by simp
  with p'(1) r show ?thesis by blast
qed

text \<open>
  Two races at the end of a process.  A signal before the goroutine of the HTTP server has run
  makes the cleanup dereference a nil server: the process panics.  And because the cleanup shuts the
  server down with a context that is done already, a single active connection turns an ordinary
  termination into an error.
\<close>

theorem shutdown_races:
  "(\<exists>p. proc_reach (controller_group None None) p \<and> pr_signalled p \<and> pr_g1 p = NotStarted \<and> pr_main p = Crashed) \<and>
   (\<exists>p. proc_reach (controller_group None None) p \<and> pr_first p = Some ErrServerClosed \<and> pr_main p = Exits (Some Canceled))"
proof
  let ?gr = "controller_group None None"
  let ?sig = "\<lambda>p. p\<lparr>pr_signalled := True, pr_cancelled := True\<rparr>"
  have "proc_step ?gr (?sig start_process) ((?sig start_process)\<lparr>pr_main := Crashed\<rparr>)"
    by (rule proc_step.StopPanic [where m = "''nil pointer dereference''"]) (simp_all add: start_process_def controller_group_def HTTPServer_stop_def)
  then have "proc_reach ?gr ((?sig start_process)\<lparr>pr_main := Crashed\<rparr>)" by (rule proc_reach.Step [OF signal_reach])
  then show "\<exists>p. proc_reach ?gr p \<and> pr_signalled p \<and> pr_g1 p = NotStarted \<and> pr_main p = Crashed"
    by (intro exI [of _ "(?sig start_process)\<lparr>pr_main := Crashed\<rparr>"]) (simp add: start_process_def)
  show "\<exists>p. proc_reach ?gr p \<and> pr_first p = Some ErrServerClosed \<and> pr_main p = Exits (Some Canceled)"
    by (rule controller_runs) simp
qed

end
