(* ===== verification/Delivery.thy ===== *)
theory Delivery
  imports System_Facts
begin

text \<open>
  From the allocation to the wire.  The controller records an allocated address in the status of
  the pool, the agent of the pool follows that object, and the DHCP server answers from the
  leases of the agent; the theory puts the three together.
\<close>

section \<open>What an allocation publishes\<close>

lemma recorded_record_pair: "recorded (record_pair p ip mac) = (recorded p)(ip \<mapsto> mac)"
  by (auto simp: recorded_def record_pair_def Let_def nil_make_def new_IPv4Status_def split: option.splits)

lemma record_pair_frame:
  "ip_Meta (record_pair p ip mac) = ip_Meta p" "ip_Spec (record_pair p ip mac) = ip_Spec p"
  "st_Conditions (ip_Status (record_pair p ip mac)) = st_Conditions (ip_Status p)" "st_IPv4 (ip_Status (record_pair p ip mac)) \<noteq> None"
  by (simp_all add: record_pair_def Let_def)

lemma stamp_frame [simp]:
  "ip_Meta (stamp t p) = ip_Meta p" "ip_Spec (stamp t p) = ip_Spec p" "recorded (stamp t p) = recorded p"
  "st_Conditions (ip_Status (stamp t p)) = st_Conditions (ip_Status p)" "st_IPv4 (ip_Status (stamp t p)) = st_IPv4 (ip_Status p)"
  by (simp_all add: stamp_def recorded_def)

text \<open>
  \<open>pool_shows\<close>: the object is a ready pool that was read from the cache, with the address assigned
  to the hardware address; it was read in this form or written by the handler.
\<close>

definition pool_shows :: "world \<Rightarrow> ctl \<Rightarrow> string \<Rightarrow> string \<Rightarrow> IPPool \<Rightarrow> bool" where
  "pool_shows W s ip mac p \<longleftrightarrow> x_IsTrue (w_ext W) CacheReady (st_Conditions (ip_Status p)) \<and>
     (\<exists>h p0. e_ippool (w_env W) h = Inr p0 \<and> ip_Meta p = ip_Meta p0 \<and> ip_Spec p = ip_Spec p0 \<and>
        recorded p = (recorded p0)(ip \<mapsto> mac) \<and> (p = p0 \<or> IPPoolUpdateStatus p \<in> set (calls s)))"

lemma store_pool_records:
  assumes "store_pool W p (record_pair p ip mac) s = (None, s')" "x_IsTrue (w_ext W) CacheReady (st_Conditions (ip_Status p))"
    "e_ippool (w_env W) h = Inr p"
  shows "\<exists>p'. pool_shows W s' ip mac p'"
proof (cases "record_pair p ip mac = p")
  case True
  then have "recorded p = (recorded p)(ip \<mapsto> mac)" using recorded_record_pair [of p ip mac] by simp
  with assms(2,3) show ?thesis by (auto simp: pool_shows_def)
next
  case False
  let ?p = "stamp (e_now (w_env W) (calls s @ [Now])) (record_pair p ip mac)"
  have "IPPoolUpdateStatus ?p \<in> set (calls s')"
    using assms(1) False by (auto simp: store_pool_def ippool_UpdateStatus_def ask_def Let_def split: prod.splits sum.splits)
  then have "pool_shows W s' ip mac ?p"
    using assms(2,3) by (auto simp: pool_shows_def recorded_record_pair record_pair_frame)
  then show ?thesis by blast
qed

lemma pool_shows_recorded: "pool_shows W s ip mac p \<Longrightarrow> recorded p ip = Some mac"
  unfolding pool_shows_def by (metis fun_upd_same)

lemma store_pool_calls: "store_pool W p q s = (e, s') \<Longrightarrow> set (calls s) \<subseteq> set (calls s')"
  by (auto simp: store_pool_def ippool_UpdateStatus_def ask_def Let_def split: prod.splits sum.splits if_splits)

lemma obtain_ip_calls: "obtain_ip W v nc s = (r, s') \<Longrightarrow> calls s' = calls s"
  by (auto simp: obtain_ip_def split: prod.splits option.splits bool.splits)

lemma getIPPool_read:
  assumes "getIPPoolFromNetworkConfig W nc s = (r, s')"
  shows "set (calls s) \<subseteq> set (calls s') \<and> (\<forall>p. r = Inr p \<longrightarrow> (\<exists>h. e_ippool (w_env W) h = Inr p))"
  using assms by (auto simp: getIPPoolFromNetworkConfig_def getIPPoolFromNetworkName_def ask_def
      split: prod.splits sum.splits option.splits)

lemma allocate_one_records:
  assumes "allocate_one W v nc s = (r, s')"
  shows "set (calls s) \<subseteq> set (calls s') \<and> (\<forall>st. r = Inr st \<longrightarrow> (\<exists>p. pool_shows W s' (ns_AllocatedIPAddress st) (ns_MACAddress st) p))"
proof -
  obtain g s1 where g: "getIPPoolFromNetworkConfig W nc s = (g, s1)" by fastforce
  note rd = getIPPool_read [OF g]
  show ?thesis
  proof (cases "\<exists>p. g = Inr p \<and> x_IsTrue (w_ext W) CacheReady (st_Conditions (ip_Status p))")
    case False
    with assms g have "s' = s1" "\<nexists>st. r = Inr st" by (auto simp: allocate_one_def split: sum.splits if_splits)
    with rd show ?thesis by auto
  next
    case True
    then obtain p where p: "g = Inr p" "x_IsTrue (w_ext W) CacheReady (st_Conditions (ip_Status p))" by blast
    obtain q s2 where q: "obtain_ip W v nc s1 = (q, s2)" by fastforce
    have c2: "calls s2 = calls s1" using obtain_ip_calls [OF q] .
    show ?thesis
    proof (cases q)
      case (Inl e)
      with assms g p q rd c2 show ?thesis by (auto simp: allocate_one_def)
    next
      case (Inr ip)
      let ?s3 = "UpdateVmNetCfgStatus (vmnetcfg_key v) (nc_NetworkName nc) (nc_MACAddress nc) ip AllocatedState s2"
      obtain e s4 where e: "store_pool W p (record_pair p ip (nc_MACAddress nc)) ?s3 = (e, s4)" by fastforce
      have c3: "set (calls s2) \<subseteq> set (calls ?s3)" by (auto simp: UpdateVmNetCfgStatus_def)
      from assms g p q Inr e have r: "s' = s4" "\<And>st. r = Inr st \<Longrightarrow> e = None \<and> ns_AllocatedIPAddress st = ip \<and> ns_MACAddress st = nc_MACAddress nc"
        by (auto simp: allocate_one_def split: option.splits)
      have "set (calls s) \<subseteq> set (calls s')" using rd c2 c3 store_pool_calls [OF e] r(1) by auto
      moreover have "\<exists>p. pool_shows W s' (ns_AllocatedIPAddress st) (ns_MACAddress st) p" if "r = Inr st" for st
        using store_pool_records [of W p ip "nc_MACAddress nc" ?s3 s4] e r [OF] that rd p by auto
      ultimately show ?thesis by blast
    qed
  qed
qed

lemma pool_shows_mono: "pool_shows W s ip mac p \<Longrightarrow> set (calls s) \<subseteq> set (calls s') \<Longrightarrow> pool_shows W s' ip mac p"
  by (auto simp: pool_shows_def)

lemma allocate_loop_records:
  "allocate_loop W v ncs acc s = (r, s') \<Longrightarrow> set (calls s) \<subseteq> set (calls s') \<and>
    (\<forall>sts. r = Inr sts \<longrightarrow> (\<exists>new. sts = acc @ new \<and> (\<forall>st \<in> set new. \<exists>p. pool_shows W s' (ns_AllocatedIPAddress st) (ns_MACAddress st) p)))"
proof (induction ncs arbitrary: acc s)
  case (Cons nc ncs)
  obtain q s1 where q: "allocate_one W v nc s = (q, s1)" by fastforce
  note one = allocate_one_records [OF q]
  show ?case
  proof (cases q)
    case (Inl e)
    with Cons.prems q one show ?thesis by auto
  next
    case (Inr st)
    with Cons.prems q have l: "allocate_loop W v ncs (acc @ [st]) s1 = (r, s')" by simp
    note IH = Cons.IH [OF l]
    obtain p where "pool_shows W s1 (ns_AllocatedIPAddress st) (ns_MACAddress st) p" using one Inr by blast
    then have p: "pool_shows W s' (ns_AllocatedIPAddress st) (ns_MACAddress st) p" using IH by (blast intro: pool_shows_mono)
    have "\<exists>new. sts = acc @ new \<and> (\<forall>st \<in> set new. \<exists>p. pool_shows W s' (ns_AllocatedIPAddress st) (ns_MACAddress st) p)" if r: "r = Inr sts" for sts
    proof -
      obtain new where "sts = (acc @ [st]) @ new" "\<forall>st \<in> set new. \<exists>p. pool_shows W s' (ns_AllocatedIPAddress st) (ns_MACAddress st) p"
        using IH r by blast
      with p show ?thesis by (intro exI [of _ "st # new"]) auto
    qed
    with IH one show ?thesis by blast
  qed
qed auto

lemma Allocate_publishes:
  assumes "Allocate W v status s = ((status', None), s')" "st \<in> set (vst_NetworkConfigs status')"
  shows "\<exists>p. pool_shows W s' (ns_AllocatedIPAddress st) (ns_MACAddress st) p"
proof -
  obtain q s1 where q: "allocate_loop W v (vs_NetworkConfigs (vm_Spec v)) [] s = (q, s1)" by fastforce
  with assms(1) have "q = Inr (vst_NetworkConfigs status')" "s1 = s'"
    by (auto simp: Allocate_def split: if_splits sum.splits)
  with allocate_loop_records [OF q] assms(2) show ?thesis by fastforce
qed

section \<open>Delivery\<close>

text \<open>
  \<open>agent_follows\<close>: an agent of the pool whose informer has the object, whose leases mirror what it
  has applied, and to which the object is an update that it can apply.
\<close>

definition agent_follows :: "agent \<Rightarrow> IPPool \<Rightarrow> bool" where
  "agent_follows a p \<longleftrightarrow> ag_poolName a = om_Name (ip_Meta p) \<and> ag_store a (pool_key_name p) = Some p \<and>
     mirrors (ag_controller a) \<and> finite (dom (poolCache (ag_controller a))) \<and> finite (dom (recorded p)) \<and>
     map_inj (recorded p |` held (recorded p)) \<and> valid_macs (recorded p |` held (recorded p)) \<and>
     keeps_macs (poolCache (ag_controller a)) (recorded p |` held (recorded p)) \<and>
     (\<exists>w k. cidr4 (c4_CIDR (ps_IPv4Config (ip_Spec p))) w k)"

lemma hardware_not_mark:
  assumes "length hw \<in> {6, 8, 20}" "\<forall>b \<in> set hw. b < 256"
  shows "HardwareAddr_String hw \<notin> marks"
proof -
  have "length (HardwareAddr_String hw) \<noteq> 8" using assms(1) by (auto simp: length_HardwareAddr_String)
  then show ?thesis by (auto simp: marks_def ExcludedMark_def ReservedMark_def)
qed

lemma bound_parses:
  assumes "registry_ok s" "bound s n mac ip"
  shows "ParseIP ip \<noteq> NilIP"
proof -
  obtain sn where sn: "ipam (ipAllocator s) n = Some sn" "ips sn ip = Some True"
    using bound_in_use [OF assms] by (auto simp: ipam_pool.in_use_def pool_of_def)
  then have "ip \<in> dom (ips sn)" by blast
  from subnet_wf_key [OF ipam_wfD [OF registry_okD(1) [OF assms(1)] sn(1)] this] show ?thesis by auto
qed

lemma agent_answers:
  assumes "go_range rng" "agent_follows a p" "x_IsTrue x CacheReady (st_Conditions (ip_Status p))"
    "recorded p ip = Some (HardwareAddr_String (p_ClientHWAddr m))" "HardwareAddr_String (p_ClientHWAddr m) \<notin> marks" "ParseIP ip \<noteq> NilIP"
    "p_BootRequest m" "newReply m = Inr base" "(p_MessageType m, t) \<in> {(MsgDiscover, MsgOffer), (MsgRequest, MsgAck)}"
  shows "\<exists>a' r. processNextItem x rng lookupIP (\<lambda>_. None) a (Some (update_event p)) n = Some (a', Forget) \<and>
    dhcpHandler newReply (dhcpAllocator (ag_controller a')) (Some m) = Some r \<and> r_YourIPAddr r = ParseIP ip \<and>
    r_ClientHWAddr r = p_ClientHWAddr m \<and> r_TransactionID r = p_TransactionID m \<and> last (r_Options r) = OptMessageType t"
proof -
  have f: "ag_store a (ev_key (update_event p)) = Some p" "ev_poolName (update_event p) = ag_poolName a" "ev_action (update_event p) = UPDATE"
    "mirrors (ag_controller a)" "finite (dom (poolCache (ag_controller a)))" "finite (dom (recorded p))"
    "map_inj (recorded p |` held (recorded p))" "valid_macs (recorded p |` held (recorded p))"
    "keeps_macs (poolCache (ag_controller a)) (recorded p |` held (recorded p))"
    using assms(2) by (simp_all add: agent_follows_def update_event_def)
  obtain w k where c: "cidr4 (c4_CIDR (ps_IPv4Config (ip_Spec p))) w k" using assms(2) by (auto simp: agent_follows_def)
  have i: "st_IPv4 (ip_Status p) \<noteq> None" using assms(4) by (auto simp: recorded_def split: option.splits)
  obtain a' where a': "processNextItem x rng lookupIP (\<lambda>_. None) a (Some (update_event p)) n = Some (a', Forget)"
    "poolCache (ag_controller a') = recorded p |` held (recorded p)" "mirrors (ag_controller a')"
    using agent_update_ok [OF assms(1) f(1-3) refl assms(3) i f(4-9) c] by blast
  have "ip \<in> held (recorded p)" using assms(4,5) by (auto simp: held_def)
  then have "poolCache (ag_controller a') ip = Some (HardwareAddr_String (p_ClientHWAddr m))" using a'(2) assms(4) by simp
  from mirrors_answers [where newReply = newReply and m = m, OF a'(3) this assms(6-9)] a'(1) show ?thesis by blast
qed


text \<open>An interface of the example pool, recovered from the record, and a new agent of the pool.\<close>

abbreviation delivered_hw :: "nat list" where "delivered_hw \<equiv> [0xaa, 0xbb, 0xcc, 0xdd, 0xee, 0xff]"

lemma delivered_mac: "HardwareAddr_String delivered_hw = ''aa:bb:cc:dd:ee:ff''"
  by (simp add: HardwareAddr_String_def hex_digit_def char_of_def bit_simps)

lemma loaded_state:
  "\<exists>s. registry_ok s \<and> bound s ''default/net'' ''aa:bb:cc:dd:ee:ff'' ''192.168.0.12''"
proof -
  obtain s t where s: "BuildCache example_world example_IPPool (ip_Status example_IPPool) start_state = Ret ((ip_Status example_IPPool, None), s)"
    "table_of (cacheAllocator s) ''default/net'' = Some t" "t ''aa:bb:cc:dd:ee:ff'' = Some ''192.168.0.12''" using example_BuildCache by blast
  have "specified ''192.168.0.12''" using string4_12 [symmetric] by (simp add: specified_def)
  then have "\<forall>ip \<in> held (recorded example_IPPool). specified ip" by (simp add: example_held)
  from BuildCache_registry [OF example_build_facts(1,2,5,7) this, of "ip_Status example_IPPool"] s(1) have "registry_ok s" by simp
  with s(2,3) show ?thesis by (auto simp: bound_def)
qed

lemma delivered_Allocate:
  assumes "bound s ''default/net'' ''aa:bb:cc:dd:ee:ff'' ''192.168.0.12''"
  shows "\<exists>st s'. Allocate ready_world (example_vmnetcfg [example_nic ''aa:bb:cc:dd:ee:ff''] [] None) \<lparr>vst_NetworkConfigs = [], vst_Conditions = []\<rparr> s =
      ((\<lparr>vst_NetworkConfigs = [st], vst_Conditions = []\<rparr>, None), s') \<and> st = example_record ''aa:bb:cc:dd:ee:ff'' ''192.168.0.12''"
proof -
  have "status_of CacheReady (st_Conditions (ip_Status ready_IPPool)) = Some ''True''"
    by (simp add: ready_IPPool_def set_conditions_def)
  then show ?thesis
    using bound_GetIPByMAC [OF assms] bound_HasMAC [OF assms]
    by (auto simp: Allocate_def example_vmnetcfg_def example_nic_def is_paused_def example_ext_def allocate_one_def ready_pool example_record_def
        getIPPoolFromNetworkConfig_def obtain_ip_def store_pool_def ippool_UpdateStatus_def ask_def Let_def)
qed

lemma delivered_follows:
  assumes "pool_shows ready_world s ''192.168.0.12'' ''aa:bb:cc:dd:ee:ff'' p"
  shows "agent_follows \<lparr>ag_poolName = ''pool'', ag_controller = NewController NewDHCPAllocator Map.empty, ag_store = [''default/pool'' \<mapsto> p]\<rparr> p"
proof -
  have r: "ip_Meta p = ip_Meta ready_IPPool" "ip_Spec p = ip_Spec ready_IPPool" "recorded p = (recorded ready_IPPool)(''192.168.0.12'' \<mapsto> ''aa:bb:cc:dd:ee:ff'')"
    using assms by (auto simp: pool_shows_def)
  have rr: "recorded ready_IPPool = recorded example_IPPool" by (simp add: ready_IPPool_def set_conditions_def recorded_def)
  have rec: "recorded p = recorded example_IPPool" by (auto simp: r(3) rr example_recorded fun_eq_iff)
  have lat: "recorded p |` held (recorded p) = [''192.168.0.12'' \<mapsto> HardwareAddr_String delivered_hw]"
    unfolding rec example_held delivered_mac by (auto simp: fun_eq_iff restrict_map_def example_recorded)
  have mac: "ParseMAC (HardwareAddr_String delivered_hw) = (delivered_hw, None)" by (rule ParseMAC_bytes) simp_all
  have "HardwareAddr_String delivered_hw \<noteq> []" by (simp add: delivered_mac)
  with mac have "valid_macs (recorded p |` held (recorded p))" unfolding lat by (auto simp: valid_macs_def split: if_splits)
  moreover have "map_inj (recorded p |` held (recorded p))" unfolding lat by (simp add: map_inj_def)
  moreover have "keeps_macs Map.empty (recorded p |` held (recorded p))" by (simp add: keeps_macs_def)
  moreover have "finite (dom (recorded p))" by (simp add: rec example_recorded)
  moreover have "pool_key_name p = ''default/pool''" "om_Name (ip_Meta p) = ''pool''"
    by (simp_all add: pool_key_name_def r(1) ready_IPPool_def set_conditions_def example_IPPool_def empty_meta_def)
  moreover have "cidr4 (c4_CIDR (ps_IPv4Config (ip_Spec p))) 0xc0a80000 24"
    using example_bounds(1) by (simp add: r(2) ready_IPPool_def set_conditions_def example_IPPool_def)
  ultimately show ?thesis using mirrors_new unfolding agent_follows_def by (auto simp: NewController_def)
qed


end
