(* ===== verification/Agent_Process.thy ===== *)
theory Agent_Process
  imports Delivery
begin

text \<open>
  The event loop of the agent (\<open>pkg/agent/ippool\<close>): the handler of the informer, the work queue, the
  worker, and the start of the event handler.  The queue is part of client-go: its operations are
  a parameter, of which only the documented counting of retries and the order of delivery is used.
\<close>

section \<open>The informer and its handler\<close>

datatype informer_event = Added IPPool | Updated IPPool IPPool | Deleted IPPool

text \<open>Only the update function is given; the key function fails on nothing that has metadata.\<close>

definition enqueue :: "informer_event \<Rightarrow> Event option" where
  "enqueue ie = (case ie of Updated old new \<Rightarrow> Some (update_event new) | _ \<Rightarrow> None)"

section \<open>The event handler\<close>

record EventHandler =
  eh_kubeConfig :: string
  eh_kubeContext :: string
  eh_kubeRestConfig :: "string option"
  eh_k8sClientset :: "string option"
  eh_poolRef :: "string \<times> string"
  eh_controller :: Controller

definition NewEventHandler :: "string \<Rightarrow> string \<Rightarrow> string option \<Rightarrow> string \<times> string \<Rightarrow> DHCPAllocator \<Rightarrow> (string \<rightharpoonup> string) \<Rightarrow> EventHandler" where
  "NewEventHandler kubeConfig kubeContext kubeRestConfig poolRef d c =
     \<lparr>eh_kubeConfig = kubeConfig, eh_kubeContext = kubeContext, eh_kubeRestConfig = kubeRestConfig, eh_k8sClientset = None,
      eh_poolRef = poolRef, eh_controller = NewController d c\<rparr>"

text \<open>
  \<open>FileExists\<close>: an error of \<open>os.Stat\<close> other than that the file does not exist leaves no file
  information, and asking it dereferences nil.
\<close>

datatype stat_result = StatFile | StatDir | StatNotExist | StatError

definition FileExists :: "stat_result \<Rightarrow> bool outcome" where
  "FileExists r = (case r of StatNotExist \<Rightarrow> Ret False | StatError \<Rightarrow> Panic ''nil pointer dereference'' | StatDir \<Rightarrow> Ret False | StatFile \<Rightarrow> Ret True)"

text \<open>The configuration of the cluster when there is no file, the file with the given context otherwise.\<close>

definition getKubeConfig :: "(string \<Rightarrow> stat_result) \<Rightarrow> go_error + string \<Rightarrow> (string \<Rightarrow> string \<Rightarrow> go_error + string) \<Rightarrow>
    EventHandler \<Rightarrow> (go_error + string) outcome" where
  "getKubeConfig stat inClusterConfig clientConfig e =
     go_bind (FileExists (stat (eh_kubeConfig e))) (\<lambda>exists.
       Ret (if \<not> exists then inClusterConfig else clientConfig (eh_kubeConfig e) (eh_kubeContext e)))"

definition EventHandler_Init :: "(string \<Rightarrow> stat_result) \<Rightarrow> go_error + string \<Rightarrow> (string \<Rightarrow> string \<Rightarrow> go_error + string) \<Rightarrow> (string \<Rightarrow> go_error + string) \<Rightarrow>
    EventHandler \<Rightarrow> (EventHandler \<times> go_error option) outcome" where
  "EventHandler_Init stat inClusterConfig clientConfig newForConfig e =
     go_bind (getKubeConfig stat inClusterConfig clientConfig e) (\<lambda>r.
       case r of
         Inl err \<Rightarrow> Ret (e\<lparr>eh_kubeRestConfig := None\<rparr>, Some err)
       | Inr cfg \<Rightarrow>
           (case newForConfig cfg of
              Inl err \<Rightarrow> Ret (e\<lparr>eh_kubeRestConfig := Some cfg, eh_k8sClientset := None\<rparr>, Some err)
            | Inr cs \<Rightarrow> Ret (e\<lparr>eh_kubeRestConfig := Some cfg, eh_k8sClientset := Some cs\<rparr>, None)))"

text \<open>The agent with which the event listener runs the controller: an empty store until the informer fills it.\<close>

definition EventListener :: "EventHandler \<Rightarrow> agent" where
  "EventListener e = \<lparr>ag_poolName = snd (eh_poolRef e), ag_controller = eh_controller e, ag_store = Map.empty\<rparr>"

section \<open>The work queue and the worker\<close>

record 'q workqueue =
  wq_Add :: "Event \<Rightarrow> 'q \<Rightarrow> 'q"
  wq_Get :: "'q \<Rightarrow> Event option \<times> 'q"
  wq_Done :: "Event \<Rightarrow> 'q \<Rightarrow> 'q"
  wq_Forget :: "Event \<Rightarrow> 'q \<Rightarrow> 'q"
  wq_NumRequeues :: "Event \<Rightarrow> 'q \<Rightarrow> nat"
  wq_AddRateLimited :: "Event \<Rightarrow> 'q \<Rightarrow> 'q"

definition queue_handleErr :: "'q workqueue \<Rightarrow> go_error option \<Rightarrow> Event \<Rightarrow> 'q \<Rightarrow> 'q" where
  "queue_handleErr K err key q =
     (if err = None then wq_Forget K key q
      else if wq_NumRequeues K key q < 5 then wq_AddRateLimited K key q
      else wq_Forget K key q)"

definition queue_processNextItem :: "'q workqueue \<Rightarrow> ext \<Rightarrow> range_order \<Rightarrow> (string \<Rightarrow> net_ip list gores) \<Rightarrow> (string \<Rightarrow> go_error option) \<Rightarrow>
    agent \<times> 'q \<Rightarrow> bool \<times> agent \<times> 'q" where
  "queue_processNextItem K x rng lookupIP getErr st =
     (case st of (a, q) \<Rightarrow>
      case wq_Get K q of
        (None, q1) \<Rightarrow> (False, a, q1)
      | (Some event, q1) \<Rightarrow>
          (case agent_sync x rng lookupIP getErr a event of
             (a', err) \<Rightarrow> (True, a', wq_Done K event (queue_handleErr K err event q1))))"

text \<open>The worker runs until the queue is shut down; \<open>None\<close> is a worker that does not return.\<close>

partial_function (option) runWorker :: "'q workqueue \<Rightarrow> ext \<Rightarrow> range_order \<Rightarrow> (string \<Rightarrow> net_ip list gores) \<Rightarrow> (string \<Rightarrow> go_error option) \<Rightarrow>
    agent \<times> 'q \<Rightarrow> (agent \<times> 'q) option" where
  "runWorker K x rng lookupIP getErr st =
     (case queue_processNextItem K x rng lookupIP getErr st of
        (again, st') \<Rightarrow> if again then runWorker K x rng lookupIP getErr st' else Some st')"

text \<open>The decision of \<open>handleErr\<close> is the one that is carried out on the queue.\<close>

lemma queue_handleErr_decision:
  "queue_handleErr K err key q =
     (case handleErr err (wq_NumRequeues K key q) of Forget \<Rightarrow> wq_Forget K key q | AddRateLimited \<Rightarrow> wq_AddRateLimited K key q)"
  by (simp add: queue_handleErr_def handleErr_def)

section \<open>Retries are bounded\<close>

definition counting :: "'q workqueue \<Rightarrow> bool" where
  "counting K \<longleftrightarrow> (\<forall>e q. wq_NumRequeues K e (wq_AddRateLimited K e q) = Suc (wq_NumRequeues K e q) \<and> wq_NumRequeues K e (wq_Forget K e q) = 0)"

lemma requeues_step:
  assumes "counting K"
  shows "wq_NumRequeues K e (queue_handleErr K (Some err) e q) = (if wq_NumRequeues K e q < 5 then Suc (wq_NumRequeues K e q) else 0)"
  using assms by (simp add: queue_handleErr_def counting_def)

lemma requeues_after:
  assumes "counting K" "wq_NumRequeues K e q = 0"
  shows "wq_NumRequeues K e ((queue_handleErr K (Some err) e ^^ n) q) = n mod 6"
proof (induction n)
  case (Suc n)
  have "n mod 6 < 6" by simp
  with Suc show ?case by (auto simp: requeues_step [OF assms(1)] mod_Suc)
qed (simp add: assms(2))

text \<open>
  An event that keeps failing is retried five times: starting from a queue that has no record
  of it, the first five failures put it back into the queue, and the sixth drops it and forgets its
  count, so that a later event of the pool gets five retries again.
\<close>

theorem retries_bounded:
  assumes "counting K" "wq_NumRequeues K e q = 0"
  shows "(n mod 6 < 5 \<longrightarrow> (queue_handleErr K (Some err) e ^^ Suc n) q = wq_AddRateLimited K e ((queue_handleErr K (Some err) e ^^ n) q)) \<and>
    (n mod 6 = 5 \<longrightarrow> (queue_handleErr K (Some err) e ^^ Suc n) q = wq_Forget K e ((queue_handleErr K (Some err) e ^^ n) q) \<and>
       wq_NumRequeues K e ((queue_handleErr K (Some err) e ^^ Suc n) q) = 0)"
proof -
  have "wq_NumRequeues K e ((queue_handleErr K (Some err) e ^^ n) q) = n mod 6" by (rule requeues_after [OF assms])
  moreover have "wq_NumRequeues K e ((queue_handleErr K (Some err) e ^^ Suc n) q) = Suc n mod 6" by (rule requeues_after [OF assms])
  ultimately show ?thesis by (auto simp: queue_handleErr_def mod_Suc)
qed

text \<open>A queue that delivers in order and counts, for concrete runs.\<close>

definition fifo :: "(Event list \<times> (Event \<Rightarrow> nat)) workqueue" where
  "fifo = \<lparr>wq_Add = (\<lambda>e (es, c). (if e \<in> set es then es else es @ [e], c)),
     wq_Get = (\<lambda>(es, c). case es of [] \<Rightarrow> (None, ([], c)) | e # es' \<Rightarrow> (Some e, (es', c))),
     wq_Done = (\<lambda>e q. q),
     wq_Forget = (\<lambda>e (es, c). (es, c(e := 0))),
     wq_NumRequeues = (\<lambda>e (es, c). c e),
     wq_AddRateLimited = (\<lambda>e (es, c). (es @ [e], c(e := Suc (c e))))\<rparr>"

lemma fifo_counting: "counting fifo"
  by (simp add: counting_def fifo_def split: prod.splits)

theorem retries_bounded_witness:
  "(queue_handleErr fifo (Some missing) (update_event example_IPPool) ^^ 6) ([], \<lambda>_. 0) =
     wq_Forget fifo (update_event example_IPPool) ((queue_handleErr fifo (Some missing) (update_event example_IPPool) ^^ 5) ([], \<lambda>_. 0))"
proof -
  have "wq_NumRequeues fifo (update_event example_IPPool) ([], \<lambda>_. 0) = 0" by (simp add: fifo_def)
  from retries_bounded [OF fifo_counting this, of 5 missing]
  have "(queue_handleErr fifo (Some missing) (update_event example_IPPool) ^^ Suc 5) ([], \<lambda>_. 0) =
     wq_Forget fifo (update_event example_IPPool) ((queue_handleErr fifo (Some missing) (update_event example_IPPool) ^^ 5) ([], \<lambda>_. 0))"
    by (simp del: funpow.simps)
  moreover have "Suc 5 = 6" by simp
  ultimately show ?thesis by (simp only:)
qed

section \<open>The worker brings the agent in line\<close>

text \<open>The queue delivers these events, each forgotten after it was processed, and is shut down then.\<close>

fun delivers :: "'q workqueue \<Rightarrow> 'q \<Rightarrow> Event list \<Rightarrow> bool" where
  "delivers K q [] \<longleftrightarrow> fst (wq_Get K q) = None"
| "delivers K q (e # es) \<longleftrightarrow> fst (wq_Get K q) = Some e \<and> delivers K (wq_Done K e (wq_Forget K e (snd (wq_Get K q)))) es"

text \<open>An update event that is either for another pool or for this object.\<close>

definition pool_event :: "string \<Rightarrow> IPPool \<Rightarrow> Event \<Rightarrow> bool" where
  "pool_event n p e \<longleftrightarrow> ev_action e = UPDATE \<and> (ev_poolName e = n \<longrightarrow> ev_key e = pool_key_name p)"

text \<open>The agent follows an object with this name, this record and this configuration.\<close>

definition follows_record :: "ext \<Rightarrow> agent \<Rightarrow> string \<Rightarrow> IPPool \<Rightarrow> bool" where
  "follows_record x a key p \<longleftrightarrow> agent_follows a p \<and> pool_key_name p = key \<and> x_IsTrue x CacheReady (st_Conditions (ip_Status p)) \<and>
     st_IPv4 (ip_Status p) \<noteq> None"

text \<open>One event: the lookup succeeds, and the object that is left in the store shows the same assignments.\<close>

lemma sync_one:
  assumes "go_range rng" "follows_record x a (pool_key_name p) p" "pool_event (ag_poolName a) p e"
  shows "\<exists>a' p'. agent_sync x rng lookupIP (\<lambda>_. None) a e = (a', None) \<and> ag_poolName a' = ag_poolName a \<and>
    follows_record x a' (pool_key_name p) p' \<and> recorded p' |` held (recorded p') = recorded p |` held (recorded p) \<and>
    (if ev_poolName e = ag_poolName a then poolCache (ag_controller a') = recorded p |` held (recorded p)
     else poolCache (ag_controller a') = poolCache (ag_controller a))"
proof (cases "ev_poolName e = ag_poolName a")
  case False
  with assms(2,3) show ?thesis
    by (intro exI [of _ a] exI [of _ p]) (auto simp: agent_sync_def pool_event_def)
next
  case True
  let ?m = "recorded p |` held (recorded p)"
  have f: "mirrors (ag_controller a)" "finite (dom (poolCache (ag_controller a)))" "finite (dom (recorded p))" "map_inj ?m" "valid_macs ?m"
    "keeps_macs (poolCache (ag_controller a)) ?m" "ag_store a (pool_key_name p) = Some p" "ag_poolName a = om_Name (ip_Meta p)"
    "x_IsTrue x CacheReady (st_Conditions (ip_Status p))"
    using assms(2) by (simp_all add: follows_record_def agent_follows_def)
  obtain w k where cidr: "cidr4 (c4_CIDR (ps_IPv4Config (ip_Spec p))) w k" using assms(2) by (auto simp: follows_record_def agent_follows_def)
  obtain st4 where st4: "st_IPv4 (ip_Status p) = Some st4" using assms(2) by (auto simp: follows_record_def)
  note flt = filtered_status [OF assms(1) f(3) st4]
  have fin: "finite (dom ?m)" using f(3) by simp
  obtain c' where c': "updatePoolCacheAndLeaseStore rng lookupIP (ag_controller a) ?m (ps_IPv4Config (ip_Spec p)) = (c', None)"
    "mirrors c'" "poolCache c' = ?m" using update_ok [OF assms(1) f(1,2) fin f(4) cidr f(5,6)] by blast
  define p' where "p' = p\<lparr>ip_Status := (ip_Status p)\<lparr>st_IPv4 := Some (st4\<lparr>s4_Allocated := filterExcludedAndReserved rng (s4_Allocated st4)\<rparr>)\<rparr>\<rparr>"
  define a' where "a' = a\<lparr>ag_controller := c', ag_store := (ag_store a)(pool_key_name p \<mapsto> p')\<rparr>"
  have key: "ev_key e = pool_key_name p" "ev_action e = UPDATE" using assms(3) True by (simp_all add: pool_event_def)
  have run: "agent_sync x rng lookupIP (\<lambda>_. None) a e = (a', None)"
    using key True f(7,9) st4 c'(1) flt by (simp add: agent_sync_def Update_def Let_def a'_def p'_def)
  have rec: "recorded p' = ?m" using flt by (simp add: p'_def recorded_def)
  then have same: "recorded p' |` held (recorded p') = ?m" by (simp only: held_idem) simp
  have k': "pool_key_name p' = pool_key_name p" "om_Name (ip_Meta p') = om_Name (ip_Meta p)" "ip_Spec p' = ip_Spec p"
    "st_Conditions (ip_Status p') = st_Conditions (ip_Status p)" "st_IPv4 (ip_Status p') \<noteq> None"
    by (simp_all add: p'_def pool_key_name_def)
  have "keeps_macs (poolCache c') ?m" by (auto simp: c'(3) keeps_macs_def)
  with c'(2,3) fin f(4,5,8,9) cidr k' have "follows_record x a' (pool_key_name p) p'"
    unfolding follows_record_def agent_follows_def same by (auto simp: a'_def rec)
  with run same True c'(3) show ?thesis by (intro exI [of _ a'] exI [of _ p']) (simp add: a'_def)
qed

lemma worker_ok:
  assumes "go_range rng"
  shows "delivers K q es \<Longrightarrow> follows_record x a (pool_key_name p) p \<Longrightarrow> \<forall>e \<in> set es. pool_event (ag_poolName a) p e \<Longrightarrow>
    \<exists>a' q'. runWorker K x rng lookupIP (\<lambda>_. None) (a, q) = Some (a', q') \<and> mirrors (ag_controller a') \<and>
      poolCache (ag_controller a') = (if \<exists>e \<in> set es. ev_poolName e = ag_poolName a then recorded p |` held (recorded p) else poolCache (ag_controller a))"
proof (induction es arbitrary: a p q)
  case Nil
  then obtain q0 where "wq_Get K q = (None, q0)" by (cases "wq_Get K q") auto
  then have "queue_processNextItem K x rng lookupIP (\<lambda>_. None) (a, q) = (False, a, q0)" by (simp add: queue_processNextItem_def)
  then have "runWorker K x rng lookupIP (\<lambda>_. None) (a, q) = Some (a, q0)" by (subst runWorker.simps) simp
  with Nil(2) show ?case by (auto simp: follows_record_def agent_follows_def)
next
  case (Cons e es)
  let ?q1 = "wq_Done K e (wq_Forget K e (snd (wq_Get K q)))"
  obtain a1 p1 where s: "agent_sync x rng lookupIP (\<lambda>_. None) a e = (a1, None)" "ag_poolName a1 = ag_poolName a"
    "follows_record x a1 (pool_key_name p) p1" "recorded p1 |` held (recorded p1) = recorded p |` held (recorded p)"
    "if ev_poolName e = ag_poolName a then poolCache (ag_controller a1) = recorded p |` held (recorded p)
     else poolCache (ag_controller a1) = poolCache (ag_controller a)"
    using sync_one [OF assms Cons.prems(2), of e lookupIP] Cons.prems(3) by auto
  obtain q0 where q0: "wq_Get K q = (Some e, q0)" using Cons.prems(1) by (cases "wq_Get K q") auto
  have "queue_processNextItem K x rng lookupIP (\<lambda>_. None) (a, q) = (True, a1, ?q1)"
    by (simp add: queue_processNextItem_def q0 s(1) queue_handleErr_def)
  then have step: "runWorker K x rng lookupIP (\<lambda>_. None) (a, q) = runWorker K x rng lookupIP (\<lambda>_. None) (a1, ?q1)"
    by (subst runWorker.simps) simp
  have k: "pool_key_name p1 = pool_key_name p" using s(3) by (simp add: follows_record_def)
  have "follows_record x a1 (pool_key_name p1) p1" "\<forall>e \<in> set es. pool_event (ag_poolName a1) p1 e"
    using s(2,3) k Cons.prems(3) by (simp_all add: pool_event_def)
  from Cons.IH [OF _ this, of ?q1] Cons.prems(1) obtain a' q' where
    "runWorker K x rng lookupIP (\<lambda>_. None) (a1, ?q1) = Some (a', q')" "mirrors (ag_controller a')"
    "poolCache (ag_controller a') = (if \<exists>e \<in> set es. ev_poolName e = ag_poolName a1 then recorded p1 |` held (recorded p1) else poolCache (ag_controller a1))"
    by auto
  with step s(2,4,5) show ?case by (auto split: if_splits)
qed


lemma served_agent:
  "follows_record example_ext \<lparr>ag_poolName = ''pool'', ag_controller = NewController NewDHCPAllocator Map.empty,
     ag_store = [''default/pool'' \<mapsto> ready_IPPool]\<rparr> (pool_key_name ready_IPPool) ready_IPPool"
  "pool_key_name ready_IPPool = ''default/pool''" "om_Name (ip_Meta ready_IPPool) = ''pool''"
proof -
  have c: "status_of CacheReady (st_Conditions (ip_Status ready_IPPool)) = Some ''True''"
    by (simp add: ready_IPPool_def set_conditions_def)
  have "recorded ready_IPPool = (recorded ready_IPPool)(''192.168.0.12'' \<mapsto> ''aa:bb:cc:dd:ee:ff'')"
    by (auto simp: ready_IPPool_def set_conditions_def recorded_def example_IPPool_def nil_make_def fun_eq_iff)
  with ready_pool c have "pool_shows ready_world start_state ''192.168.0.12'' ''aa:bb:cc:dd:ee:ff'' ready_IPPool"
    unfolding pool_shows_def by (auto simp: example_ext_def)
  from delivered_follows [OF this] c show "follows_record example_ext \<lparr>ag_poolName = ''pool'', ag_controller = NewController NewDHCPAllocator Map.empty,
     ag_store = [''default/pool'' \<mapsto> ready_IPPool]\<rparr> (pool_key_name ready_IPPool) ready_IPPool"
    by (auto simp: follows_record_def example_ext_def ready_IPPool_def set_conditions_def example_IPPool_def)
  show "pool_key_name ready_IPPool = ''default/pool''" "om_Name (ip_Meta ready_IPPool) = ''pool''"
    by (simp_all add: pool_key_name_def ready_IPPool_def set_conditions_def example_IPPool_def empty_meta_def)
qed




end
