(* ===== verification/Agent_Run.thy ===== *)
theory Agent_Run
  imports Agent_Process
begin

text \<open>
  \<open>Controller.Run\<close> and \<open>Stop\<close> of \<open>pkg/agent/ippool/controller.go\<close>: the goroutines of the agent's
  controller as a step relation.  \<open>Run\<close> starts the informer, waits for its store, starts the workers
  with \<open>wait.Until\<close>, waits for the stop channel and shuts the queue down when it returns.  The steps
  of the informer and the queue are those of client-go; the queue is a parameter, of which the
  documented behaviour after \<open>ShutDown\<close> is used.
\<close>

section \<open>The goroutines\<close>

datatype run_main = Syncing | Serving | Ended

text \<open>A worker is between two calls of \<open>runWorker\<close>, inside one, or its goroutine has returned.\<close>

datatype run_loop = Until | InWorker | Exited

record 'q controller_run =
  cr_stopCh :: bool
  cr_informer :: bool
  cr_synced :: bool
  cr_main :: run_main
  cr_workers :: "run_loop list"
  cr_agent :: agent
  cr_queue :: 'q

record 'q shutdown_queue =
  sq_queue :: "'q workqueue"
  sq_ShutDown :: "'q \<Rightarrow> 'q"
  sq_ready :: "'q \<Rightarrow> bool"

text \<open>\<open>go controller.Run(1)\<close>: the controller before its first step; \<open>true\<close> stands for a closed channel.\<close>

definition start_run :: "agent \<Rightarrow> 'q \<Rightarrow> 'q controller_run" where
  "start_run a q = \<lparr>cr_stopCh = False, cr_informer = True, cr_synced = False, cr_main = Syncing, cr_workers = [], cr_agent = a, cr_queue = q\<rparr>"

text \<open>Closing a channel twice panics.\<close>

definition Controller_Stop :: "'q controller_run \<Rightarrow> 'q controller_run outcome" where
  "Controller_Stop r = (if cr_stopCh r then Panic ''close of closed channel'' else Ret (r\<lparr>cr_stopCh := True\<rparr>))"

text \<open>The informer brings its store up to date and calls the handler.\<close>

definition inform :: "informer_event \<Rightarrow> agent \<Rightarrow> agent" where
  "inform ie a = a\<lparr>ag_store := (case ie of Added p \<Rightarrow> (ag_store a)(pool_key_name p \<mapsto> p) | Updated old new \<Rightarrow> (ag_store a)(pool_key_name new \<mapsto> new)
     | Deleted p \<Rightarrow> (ag_store a)(pool_key_name p := None))\<rparr>"

definition deliver :: "'q shutdown_queue \<Rightarrow> informer_event \<Rightarrow> 'q controller_run \<Rightarrow> 'q controller_run" where
  "deliver Q ie r = r\<lparr>cr_agent := inform ie (cr_agent r),
     cr_queue := (case enqueue ie of None \<Rightarrow> cr_queue r | Some e \<Rightarrow> wq_Add (sq_queue Q) e (cr_queue r))\<rparr>"

text \<open>After \<open>WaitForCacheSync\<close>: the workers are started, or \<open>Run\<close> returns; the deferred call shuts the queue down.\<close>

definition start_workers :: "nat \<Rightarrow> 'q controller_run \<Rightarrow> 'q controller_run" where
  "start_workers workers r = r\<lparr>cr_main := Serving, cr_workers := replicate workers Until\<rparr>"

definition end_run :: "'q shutdown_queue \<Rightarrow> 'q controller_run \<Rightarrow> 'q controller_run" where
  "end_run Q r = r\<lparr>cr_main := Ended, cr_queue := sq_ShutDown Q (cr_queue r)\<rparr>"

type_synonym sync_params = "ext \<times> range_order \<times> (string \<Rightarrow> net_ip list gores) \<times> (string \<Rightarrow> go_error option)"

text \<open>One item: \<open>Get\<close> blocks until there is one or the queue is shut down.\<close>

definition next_item :: "'q shutdown_queue \<Rightarrow> sync_params \<Rightarrow> agent \<times> 'q \<Rightarrow> bool \<times> agent \<times> 'q" where
  "next_item Q ps st = (case ps of (x, rng, lookupIP, getErr) \<Rightarrow> queue_processNextItem (sq_queue Q) x rng lookupIP getErr st)"

definition worker_item :: "'q shutdown_queue \<Rightarrow> sync_params \<Rightarrow> nat \<Rightarrow> 'q controller_run \<Rightarrow> 'q controller_run" where
  "worker_item Q ps i r =
     (case next_item Q ps (cr_agent r, cr_queue r) of (again, a, q) \<Rightarrow>
        r\<lparr>cr_agent := a, cr_queue := q, cr_workers := (cr_workers r)[i := if again then InWorker else Until]\<rparr>)"

text \<open>
  \<open>Controller_Run\<close>: one step of the goroutines of \<open>Run(workers)\<close>.  \<open>wait.Until\<close> looks at the stop channel
  before every call and returns when it is closed.
\<close>

inductive Controller_Run :: "'q shutdown_queue \<Rightarrow> sync_params \<Rightarrow> nat \<Rightarrow> 'q controller_run \<Rightarrow> 'q controller_run \<Rightarrow> bool" for Q ps workers where
  Deliver: "cr_informer r \<Longrightarrow> Controller_Run Q ps workers r (deliver Q ie r)"
| StoreSynced: "cr_informer r \<Longrightarrow> Controller_Run Q ps workers r (r\<lparr>cr_synced := True\<rparr>)"
| InformerEnds: "cr_informer r \<Longrightarrow> cr_stopCh r \<Longrightarrow> Controller_Run Q ps workers r (r\<lparr>cr_informer := False\<rparr>)"
| Stop: "Controller_Stop r = Ret r' \<Longrightarrow> Controller_Run Q ps workers r r'"
| CacheSynced: "cr_main r = Syncing \<Longrightarrow> cr_synced r \<Longrightarrow> Controller_Run Q ps workers r (start_workers workers r)"
| SyncStopped: "cr_main r = Syncing \<Longrightarrow> cr_stopCh r \<Longrightarrow> Controller_Run Q ps workers r (end_run Q r)"
| StopSeen: "cr_main r = Serving \<Longrightarrow> cr_stopCh r \<Longrightarrow> Controller_Run Q ps workers r (end_run Q r)"
| Enter: "i < length (cr_workers r) \<Longrightarrow> cr_workers r ! i = Until \<Longrightarrow> \<not> cr_stopCh r \<Longrightarrow>
    Controller_Run Q ps workers r (r\<lparr>cr_workers := (cr_workers r)[i := InWorker]\<rparr>)"
| Leave: "i < length (cr_workers r) \<Longrightarrow> cr_workers r ! i = Until \<Longrightarrow> cr_stopCh r \<Longrightarrow>
    Controller_Run Q ps workers r (r\<lparr>cr_workers := (cr_workers r)[i := Exited]\<rparr>)"
| Item: "i < length (cr_workers r) \<Longrightarrow> cr_workers r ! i = InWorker \<Longrightarrow> sq_ready Q (cr_queue r) \<Longrightarrow>
    Controller_Run Q ps workers r (worker_item Q ps i r)"

inductive run_reach :: "'q shutdown_queue \<Rightarrow> sync_params \<Rightarrow> nat \<Rightarrow> 'q controller_run \<Rightarrow> nat \<Rightarrow> 'q controller_run \<Rightarrow> bool" for Q ps workers where
  Here: "run_reach Q ps workers r 0 r"
| Next: "Controller_Run Q ps workers r r1 \<Longrightarrow> run_reach Q ps workers r1 n r2 \<Longrightarrow> run_reach Q ps workers r (Suc n) r2"

lemma run_reach_snoc: "run_reach Q ps workers r n r1 \<Longrightarrow> Controller_Run Q ps workers r1 r2 \<Longrightarrow> run_reach Q ps workers r (Suc n) r2"
  by (induction rule: run_reach.induct) (auto intro: run_reach.intros)

lemma run_reach_trans: "run_reach Q ps workers r n r1 \<Longrightarrow> run_reach Q ps workers r1 k r2 \<Longrightarrow> run_reach Q ps workers r (n + k) r2"
  by (induction rule: run_reach.induct) (auto intro: run_reach.intros)

definition finished :: "'q controller_run \<Rightarrow> bool" where
  "finished r \<longleftrightarrow> cr_main r = Ended \<and> \<not> cr_informer r \<and> (\<forall>w \<in> set (cr_workers r). w = Exited)"

section \<open>Nothing before the store is complete\<close>

definition run_inv :: "agent \<Rightarrow> 'q controller_run \<Rightarrow> bool" where
  "run_inv a r \<longleftrightarrow> (cr_workers r \<noteq> [] \<longrightarrow> cr_synced r) \<and> (cr_main r = Ended \<longrightarrow> cr_stopCh r) \<and> (\<not> cr_informer r \<longrightarrow> cr_stopCh r) \<and>
     (cr_main r = Syncing \<longrightarrow> cr_workers r = []) \<and>
     (cr_workers r = [] \<longrightarrow> ag_controller (cr_agent r) = ag_controller a) \<and> ag_poolName (cr_agent r) = ag_poolName a"

lemma agent_sync_pool: "agent_sync x rng lookupIP getErr a e = (a', err) \<Longrightarrow> ag_poolName a' = ag_poolName a"
  by (auto simp: agent_sync_def split: option.splits if_splits prod.splits)

lemma next_item_pool: "next_item Q ps (a, q) = (again, a', q') \<Longrightarrow> ag_poolName a' = ag_poolName a"
  by (cases ps) (auto simp: next_item_def queue_processNextItem_def split: prod.splits option.splits dest: agent_sync_pool)

lemma Stop_iff: "Controller_Stop r = Ret r' \<longleftrightarrow> \<not> cr_stopCh r \<and> r' = r\<lparr>cr_stopCh := True\<rparr>"
  by (auto simp: Controller_Stop_def)

lemma run_inv_step: "Controller_Run Q ps workers r r' \<Longrightarrow> run_inv a r \<Longrightarrow> run_inv a r'"
proof (induction rule: Controller_Run.induct)
  case (Item i r)
  obtain again a' q' where n: "next_item Q ps (cr_agent r, cr_queue r) = (again, a', q')" by (metis prod_cases3)
  with Item next_item_pool [OF n] show ?case by (auto simp: run_inv_def worker_item_def)
qed (auto simp: run_inv_def deliver_def inform_def Stop_iff start_workers_def end_run_def)

lemma run_inv_reach: "run_reach Q ps workers r n r' \<Longrightarrow> run_inv a r \<Longrightarrow> run_inv a r'"
  by (induction rule: run_reach.induct) (auto dest: run_inv_step)

lemma run_inv_start: "run_inv a (start_run a q)"
  by (simp add: run_inv_def start_run_def)

text \<open>
  No event is handled before the store of the informer is complete.  In every state that
  \<open>Run\<close> reaches, workers exist only after the store was synchronised, and until they do, the leases
  and the record of applied assignments are the ones the agent started with; \<open>Run\<close> has ended only
  when \<open>Stop\<close> was called, and a second \<open>Stop\<close> would panic.
\<close>

theorem handled_after_sync:
  assumes "run_reach Q ps workers (start_run a q) n r"
  shows "(cr_workers r \<noteq> [] \<longrightarrow> cr_synced r) \<and> (\<not> cr_synced r \<longrightarrow> ag_controller (cr_agent r) = ag_controller a) \<and>
    (cr_main r = Ended \<longrightarrow> (\<exists>m. Controller_Stop r = Panic m))"
  using run_inv_reach [OF assms run_inv_start] by (auto simp: run_inv_def Controller_Stop_def)

section \<open>Stopping\<close>

text \<open>
  The work queue of client-go after \<open>ShutDown\<close>: new items are ignored, \<open>Get\<close> hands out what is
  left and does not block, and the other operations add nothing; \<open>pending\<close> counts what is left.
\<close>

definition shutdown_law :: "'q shutdown_queue \<Rightarrow> ('q \<Rightarrow> bool) \<Rightarrow> ('q \<Rightarrow> nat) \<Rightarrow> bool" where
  "shutdown_law Q down pending \<longleftrightarrow>
     (\<forall>q. down (sq_ShutDown Q q)) \<and> (\<forall>q. down q \<longrightarrow> sq_ready Q q) \<and>
     (\<forall>q. down q \<longrightarrow> (case wq_Get (sq_queue Q) q of (None, q') \<Rightarrow> down q' \<and> pending q' \<le> pending q | (Some e, q') \<Rightarrow> down q' \<and> pending q' < pending q)) \<and>
     (\<forall>f \<in> {wq_Add, wq_Done, wq_Forget, wq_AddRateLimited}. \<forall>e q. down q \<longrightarrow> down (f (sq_queue Q) e q) \<and> pending (f (sq_queue Q) e q) \<le> pending q)"

lemma shutdown_lawD:
  assumes "shutdown_law Q down pending"
  shows "down (sq_ShutDown Q q)" "down q \<Longrightarrow> sq_ready Q q"
    "down q \<Longrightarrow> wq_Get (sq_queue Q) q = (None, q') \<Longrightarrow> down q' \<and> pending q' \<le> pending q"
    "down q \<Longrightarrow> wq_Get (sq_queue Q) q = (Some e, q') \<Longrightarrow> down q' \<and> pending q' < pending q"
    "f \<in> {wq_Add, wq_Done, wq_Forget, wq_AddRateLimited} \<Longrightarrow> down q \<Longrightarrow> down (f (sq_queue Q) e q) \<and> pending (f (sq_queue Q) e q) \<le> pending q"
  using assms unfolding shutdown_law_def by (force split: prod.splits)+

lemma handleErr_down:
  assumes "shutdown_law Q down pending" "down q"
  shows "down (queue_handleErr (sq_queue Q) err e q) \<and> pending (queue_handleErr (sq_queue Q) err e q) \<le> pending q"
  using shutdown_lawD(5) [OF assms(1) _ assms(2)] by (simp add: queue_handleErr_def)

lemma item_down:
  assumes "shutdown_law Q down pending" "down q" "next_item Q ps (a, q) = (again, a', q')"
  shows "down q' \<and> (if again then pending q' < pending q else pending q' \<le> pending q)"
proof -
  obtain x rng l g where ps: "ps = (x, rng, l, g)" by (metis prod_cases4)
  obtain ev q1 where get: "wq_Get (sq_queue Q) q = (ev, q1)" by fastforce
  show ?thesis
  proof (cases ev)
    case None
    with shutdown_lawD(3) [OF assms(1,2)] get assms(3) show ?thesis by (auto simp: next_item_def queue_processNextItem_def ps)
  next
    case (Some e)
    obtain a1 err where sy: "agent_sync x rng l g a e = (a1, err)" by fastforce
    have q1: "down q1" "pending q1 < pending q" using shutdown_lawD(4) [OF assms(1,2)] get Some by auto
    let ?q2 = "queue_handleErr (sq_queue Q) err e q1"
    have q2: "down ?q2" "pending ?q2 \<le> pending q1" using handleErr_down [OF assms(1) q1(1)] by auto
    have "again" "q' = wq_Done (sq_queue Q) e ?q2" using assms(3) by (auto simp: next_item_def queue_processNextItem_def ps get Some sy)
    with shutdown_lawD(5) [OF assms(1) _ q2(1), of wq_Done e] q1 q2 show ?thesis by auto
  qed
qed

fun left_loop :: "run_loop \<Rightarrow> nat" where
  "left_loop InWorker = 2"
| "left_loop Until = 1"
| "left_loop Exited = 0"

definition stop_load :: "('q \<Rightarrow> nat) \<Rightarrow> 'q controller_run \<Rightarrow> nat" where
  "stop_load pending r = pending (cr_queue r) + sum_list (map left_loop (cr_workers r))"

text \<open>What is left of the controller when \<open>Run\<close> and the informer have ended.\<close>

definition draining :: "('q \<Rightarrow> bool) \<Rightarrow> 'q controller_run \<Rightarrow> bool" where
  "draining down r \<longleftrightarrow> cr_main r = Ended \<and> \<not> cr_informer r \<and> cr_stopCh r \<and> down (cr_queue r)"

lemma sum_left_upd:
  "i < length ws \<Longrightarrow> sum_list (map left_loop (ws[i := w])) + left_loop (ws ! i) = sum_list (map left_loop ws) + left_loop w"
proof (induction ws arbitrary: i)
  case (Cons v ws)
  then show ?case by (cases i) auto
qed simp

lemma draining_step:
  assumes "shutdown_law Q down pending" "Controller_Run Q ps workers r r'" "draining down r"
  shows "draining down r' \<and> stop_load pending r' < stop_load pending r"
  using assms(2,3)
proof (induction rule: Controller_Run.induct)
  case (Leave i r)
  with sum_left_upd [of i "cr_workers r" Exited] show ?case by (simp add: draining_def stop_load_def)
next
  case (Item i r)
  obtain again a' q' where n: "next_item Q ps (cr_agent r, cr_queue r) = (again, a', q')" by (metis prod_cases3)
  have "down (cr_queue r)" using Item.prems by (simp add: draining_def)
  from item_down [OF assms(1) this n] Item n sum_left_upd [of i "cr_workers r" "if again then InWorker else Until"] show ?case
    by (auto simp: draining_def stop_load_def worker_item_def split: if_splits)
qed (auto simp: draining_def Stop_iff)

lemma draining_progress:
  assumes "shutdown_law Q down pending" "draining down r" "\<not> finished r"
  shows "\<exists>r'. Controller_Run Q ps workers r r'"
proof -
  obtain i where i: "i < length (cr_workers r)" "cr_workers r ! i \<noteq> Exited"
    using assms(2,3) by (auto simp: finished_def draining_def in_set_conv_nth)
  then consider "cr_workers r ! i = Until" | "cr_workers r ! i = InWorker" by (cases "cr_workers r ! i") auto
  then show ?thesis
  proof cases
    case 1
    with i assms(2) show ?thesis by (auto simp: draining_def intro: Controller_Run.Leave)
  next
    case 2
    with i assms(2) shutdown_lawD(2) [OF assms(1)] show ?thesis by (auto simp: draining_def intro: Controller_Run.Item)
  qed
qed

lemma draining_bound:
  assumes "shutdown_law Q down pending"
  shows "run_reach Q ps workers r n r' \<Longrightarrow> draining down r \<Longrightarrow> draining down r' \<and> n + stop_load pending r' \<le> stop_load pending r"
  by (induction rule: run_reach.induct) (auto dest: draining_step [OF assms])

lemma draining_ends:
  assumes "shutdown_law Q down pending"
  shows "draining down r \<Longrightarrow> \<exists>n r'. run_reach Q ps workers r n r' \<and> finished r'"
proof (induction "stop_load pending r" arbitrary: r rule: less_induct)
  case less
  show ?case
  proof (cases "finished r")
    case False
    then obtain r1 where "Controller_Run Q ps workers r r1" using draining_progress [OF assms less.prems] by blast
    with less.hyps draining_step [OF assms this less.prems] show ?thesis by (blast intro: run_reach.Next)
  qed (blast intro: run_reach.Here)
qed

text \<open>After \<open>Run\<close> has ended the queue is shut down, and there are never more workers than were asked for.\<close>

definition queue_inv :: "('q \<Rightarrow> bool) \<Rightarrow> nat \<Rightarrow> 'q controller_run \<Rightarrow> bool" where
  "queue_inv down workers r \<longleftrightarrow> (cr_main r = Ended \<longrightarrow> cr_stopCh r \<and> down (cr_queue r)) \<and> length (cr_workers r) \<le> workers"

lemma queue_inv_step:
  assumes "shutdown_law Q down pending" "Controller_Run Q ps workers r r'" "queue_inv down workers r"
  shows "queue_inv down workers r'"
  using assms(2,3)
proof (induction rule: Controller_Run.induct)
  case (Deliver r ie)
  with shutdown_lawD(5) [OF assms(1), of wq_Add] show ?case by (auto simp: queue_inv_def deliver_def split: option.splits)
next
  case (Item i r)
  obtain again a' q' where n: "next_item Q ps (cr_agent r, cr_queue r) = (again, a', q')" by (metis prod_cases3)
  with Item item_down [OF assms(1) _ n] show ?case by (auto simp: queue_inv_def worker_item_def)
qed (auto simp: queue_inv_def Stop_iff start_workers_def end_run_def shutdown_lawD(1) [OF assms(1)])

lemma queue_inv_reach:
  assumes "shutdown_law Q down pending"
  shows "run_reach Q ps workers r n r' \<Longrightarrow> queue_inv down workers r \<Longrightarrow> queue_inv down workers r'"
  by (induction rule: run_reach.induct) (auto dest: queue_inv_step [OF assms])

lemma load_bound: "sum_list (map left_loop ws) \<le> 2 * length ws"
proof (induction ws)
  case (Cons w ws)
  then show ?case by (cases w) simp_all
qed simp

lemma stop_drains:
  assumes "shutdown_law Q down pending" "queue_inv down workers r" "cr_stopCh r"
  shows "\<exists>n r'. run_reach Q ps workers r n r' \<and> draining down r'"
proof -
  have "\<exists>n r1. run_reach Q ps workers r n r1 \<and> cr_main r1 = Ended \<and> cr_stopCh r1 \<and> down (cr_queue r1)"
  proof (cases "cr_main r = Ended")
    case True
    with assms(2) show ?thesis by (intro exI [of _ 0] exI [of _ r]) (auto simp: queue_inv_def intro: run_reach.Here)
  next
    case False
    then have "Controller_Run Q ps workers r (end_run Q r)" using assms(3) by (cases "cr_main r") (auto intro: Controller_Run.intros)
    then have "run_reach Q ps workers r (Suc 0) (end_run Q r)" by (blast intro: run_reach.intros)
    with assms(3) shutdown_lawD(1) [OF assms(1)] show ?thesis
      by (intro exI [of _ "Suc 0"] exI [of _ "end_run Q r"]) (auto simp: end_run_def)
  qed
  then obtain n r1 where r1: "run_reach Q ps workers r n r1" "cr_main r1 = Ended" "cr_stopCh r1" "down (cr_queue r1)" by blast
  show ?thesis
  proof (cases "cr_informer r1")
    case False
    with r1 show ?thesis by (auto simp: draining_def)
  next
    case True
    then have "Controller_Run Q ps workers r1 (r1\<lparr>cr_informer := False\<rparr>)" using r1(3) by (rule Controller_Run.InformerEnds)
    with run_reach_snoc [OF r1(1)] r1 show ?thesis
      by (intro exI [of _ "Suc n"] exI [of _ "r1\<lparr>cr_informer := False\<rparr>"]) (auto simp: draining_def)
  qed
qed

text \<open>
  [C21] Stopping the agent.  After \<open>Stop\<close> the controller can always come to its end: \<open>Run\<close> returns and shuts the
  queue down, the informer stops and every worker leaves.  Once \<open>Run\<close> and the informer have ended, this
  happens in every run, within one step for each event that is left in the queue and two for each worker.
\<close>

theorem agent_stops:
  assumes "shutdown_law Q down pending" "run_reach Q ps workers (start_run a q) k r" "cr_stopCh r"
  shows "(\<exists>n r'. run_reach Q ps workers r n r' \<and> finished r') \<and>
    (cr_main r = Ended \<longrightarrow> \<not> cr_informer r \<longrightarrow> (\<forall>n r'. run_reach Q ps workers r n r' \<longrightarrow>
       n \<le> pending (cr_queue r) + 2 * workers \<and> (finished r' \<or> (\<exists>r''. Controller_Run Q ps workers r' r''))))"
proof
  have inv: "queue_inv down workers r"
    by (rule queue_inv_reach [OF assms(1,2)]) (simp add: queue_inv_def start_run_def)
  obtain n r1 where "run_reach Q ps workers r n r1" "draining down r1" using stop_drains [OF assms(1) inv assms(3)] by blast
  with draining_ends [OF assms(1)] show "\<exists>n r'. run_reach Q ps workers r n r' \<and> finished r'" by (meson run_reach_trans)
  show "cr_main r = Ended \<longrightarrow> \<not> cr_informer r \<longrightarrow> (\<forall>n r'. run_reach Q ps workers r n r' \<longrightarrow>
       n \<le> pending (cr_queue r) + 2 * workers \<and> (finished r' \<or> (\<exists>r''. Controller_Run Q ps workers r' r'')))"
  proof (intro impI allI)
    fix n r' assume "cr_main r = Ended" "\<not> cr_informer r" and run: "run_reach Q ps workers r n r'"
    then have d: "draining down r" using inv by (simp add: draining_def queue_inv_def)
    have "stop_load pending r \<le> pending (cr_queue r) + 2 * workers"
      using load_bound [of "cr_workers r"] inv by (simp add: stop_load_def queue_inv_def)
    with draining_bound [OF assms(1) run d] draining_progress [OF assms(1)]
    show "n \<le> pending (cr_queue r) + 2 * workers \<and> (finished r' \<or> (\<exists>r''. Controller_Run Q ps workers r' r''))" by fastforce
  qed
qed

text \<open>A queue that is shut down, for concrete runs.\<close>

definition closing_fifo :: "((Event list \<times> (Event \<Rightarrow> nat)) \<times> bool) shutdown_queue" where
  "closing_fifo = \<lparr>sq_queue = \<lparr>wq_Add = (\<lambda>e (q, d). (if d then q else wq_Add fifo e q, d)),
       wq_Get = (\<lambda>(q, d). case wq_Get fifo q of (r, q') \<Rightarrow> (r, q', d)), wq_Done = (\<lambda>e (q, d). (wq_Done fifo e q, d)),
       wq_Forget = (\<lambda>e (q, d). (wq_Forget fifo e q, d)), wq_NumRequeues = (\<lambda>e (q, d). wq_NumRequeues fifo e q),
       wq_AddRateLimited = (\<lambda>e (q, d). (if d then q else wq_AddRateLimited fifo e q, d))\<rparr>,
     sq_ShutDown = (\<lambda>(q, d). (q, True)), sq_ready = (\<lambda>(q, d). fst q \<noteq> [] \<or> d)\<rparr>"

lemma closing_fifo_law: "shutdown_law closing_fifo snd (length \<circ> fst \<circ> fst)"
  by (auto simp: shutdown_law_def closing_fifo_def fifo_def split: list.splits prod.splits)

text \<open>An agent that has just been started, with the outcomes of the calls it makes.\<close>

definition example_agent :: agent where
  "example_agent = \<lparr>ag_poolName = ''pool'', ag_controller = NewController NewDHCPAllocator Map.empty, ag_store = [''default/pool'' \<mapsto> ready_IPPool]\<rparr>"

definition example_params :: sync_params where
  "example_params = (example_ext, sorted_list_of_set, (\<lambda>_. ([], None)), (\<lambda>_. None))"

theorem agent_stops_witness:
  "\<exists>n r'. run_reach closing_fifo example_params 1 ((start_run example_agent (([], \<lambda>_. 0), False))\<lparr>cr_stopCh := True\<rparr>) n r' \<and> finished r'"
proof -
  let ?r0 = "start_run example_agent (([], \<lambda>_. 0), False)"
  have "Controller_Run closing_fifo example_params 1 ?r0 (?r0\<lparr>cr_stopCh := True\<rparr>)"
    by (rule Controller_Run.Stop) (simp add: Stop_iff start_run_def)
  then have "run_reach closing_fifo example_params 1 ?r0 (Suc 0) (?r0\<lparr>cr_stopCh := True\<rparr>)" by (rule run_reach.Next [OF _ run_reach.Here])
  from conjunct1 [OF agent_stops [OF closing_fifo_law this]] show ?thesis by simp
qed

theorem handled_after_sync_witness:
  "cr_synced (start_workers 1 ((start_run example_agent (([], \<lambda>_. 0), False))\<lparr>cr_synced := True\<rparr>))"
proof -
  let ?r0 = "start_run example_agent (([], \<lambda>_. 0), False)"
  have "Controller_Run closing_fifo example_params 1 ?r0 (?r0\<lparr>cr_synced := True\<rparr>)"
    by (rule Controller_Run.StoreSynced) (simp add: start_run_def)
  moreover have "Controller_Run closing_fifo example_params 1 (?r0\<lparr>cr_synced := True\<rparr>) (start_workers 1 (?r0\<lparr>cr_synced := True\<rparr>))"
    by (rule Controller_Run.CacheSynced) (simp_all add: start_run_def)
  ultimately have "run_reach closing_fifo example_params 1 ?r0 (Suc (Suc 0)) (start_workers 1 (?r0\<lparr>cr_synced := True\<rparr>))"
    by (intro run_reach.Next [OF _ run_reach.Next [OF _ run_reach.Here]])
  from handled_after_sync [OF this] show ?thesis by (simp add: start_workers_def)
qed

section \<open>Events that are pending at the stop\<close>

text \<open>
  After the queue was shut down, \<open>runWorker\<close> returns, and it is the sequence of the steps of its worker.
\<close>

lemma worker_runs:
  assumes "shutdown_law Q down pending"
  shows "down (cr_queue r) \<Longrightarrow> i < length (cr_workers r) \<Longrightarrow> cr_workers r ! i = InWorker \<Longrightarrow>
    \<exists>n a' q'. runWorker (sq_queue Q) x rng l g (cr_agent r, cr_queue r) = Some (a', q') \<and>
      run_reach Q (x, rng, l, g) workers r n (r\<lparr>cr_agent := a', cr_queue := q', cr_workers := (cr_workers r)[i := Until]\<rparr>)"
proof (induction "pending (cr_queue r)" arbitrary: r rule: less_induct)
  case less
  let ?ps = "(x, rng, l, g)"
  obtain again a1 q1 where n: "next_item Q ?ps (cr_agent r, cr_queue r) = (again, a1, q1)" by (metis prod_cases3)
  then have q: "queue_processNextItem (sq_queue Q) x rng l g (cr_agent r, cr_queue r) = (again, a1, q1)" by (simp add: next_item_def)
  have step: "Controller_Run Q ?ps workers r (worker_item Q ?ps i r)"
    using less.prems shutdown_lawD(2) [OF assms] by (intro Controller_Run.Item) simp_all
  note d = item_down [OF assms less.prems(1) n]
  show ?case
  proof (cases again)
    case False
    then have "runWorker (sq_queue Q) x rng l g (cr_agent r, cr_queue r) = Some (a1, q1)" by (subst runWorker.simps) (simp add: q)
    moreover have "worker_item Q ?ps i r = r\<lparr>cr_agent := a1, cr_queue := q1, cr_workers := (cr_workers r)[i := Until]\<rparr>"
      using False n by (simp add: worker_item_def)
    ultimately show ?thesis using run_reach.Next [OF step run_reach.Here] by (intro exI [of _ "Suc 0"]) simp
  next
    case True
    let ?r1 = "r\<lparr>cr_agent := a1, cr_queue := q1\<rparr>"
    have w: "worker_item Q ?ps i r = ?r1" using True n less.prems(3) list_update_id [of "cr_workers r" i] by (simp add: worker_item_def)
    obtain k a' q' where k: "runWorker (sq_queue Q) x rng l g (a1, q1) = Some (a', q')"
      "run_reach Q ?ps workers ?r1 k (?r1\<lparr>cr_agent := a', cr_queue := q', cr_workers := (cr_workers r)[i := Until]\<rparr>)"
      using less.hyps [of ?r1] d True less.prems(2,3) by auto
    have "runWorker (sq_queue Q) x rng l g (cr_agent r, cr_queue r) = Some (a', q')" by (subst runWorker.simps) (simp add: q True k(1))
    with run_reach.Next [OF step [unfolded w] k(2)] show ?thesis by (intro exI [of _ "Suc k"]) simp
  qed
qed

text \<open>With one worker, what happens after the end of \<open>Run\<close> is determined.\<close>

lemma draining_det:
  assumes "draining down r" "length (cr_workers r) = 1" "Controller_Run Q ps workers r r1" "Controller_Run Q ps workers r r2"
  shows "r1 = r2"
proof -
  have "(cr_workers r ! 0 = Until \<and> r' = r\<lparr>cr_workers := (cr_workers r)[0 := Exited]\<rparr>) \<or> (cr_workers r ! 0 = InWorker \<and> r' = worker_item Q ps 0 r)"
    if "Controller_Run Q ps workers r r'" for r'
    using that assms(1,2) by (cases rule: Controller_Run.cases) (auto simp: draining_def Stop_iff less_Suc_eq)
  from this [OF assms(3)] this [OF assms(4)] show ?thesis by auto
qed

lemma length_workers: "Controller_Run Q ps workers r r' \<Longrightarrow> draining down r \<Longrightarrow> length (cr_workers r') = length (cr_workers r)"
  by (induction rule: Controller_Run.induct) (auto simp: draining_def Stop_iff worker_item_def split: prod.splits)

lemma finished_stuck: "finished r \<Longrightarrow> cr_stopCh r \<Longrightarrow> \<not> Controller_Run Q ps workers r r'"
proof
  assume f: "finished r" "cr_stopCh r" and step: "Controller_Run Q ps workers r r'"
  from step f show False
    by (cases rule: Controller_Run.cases) (auto simp: finished_def Stop_iff all_set_conv_all_nth)
qed

lemma finished_unique:
  assumes "shutdown_law Q down pending"
  shows "run_reach Q ps workers r n r1 \<Longrightarrow> draining down r \<Longrightarrow> length (cr_workers r) = 1 \<Longrightarrow> finished r1 \<Longrightarrow>
    run_reach Q ps workers r m r2 \<Longrightarrow> finished r2 \<Longrightarrow> r1 = r2"
proof (induction arbitrary: m rule: run_reach.induct)
  case (Here r)
  then have "cr_stopCh r" by (simp add: draining_def)
  from Here.prems(4) finished_stuck [OF Here.prems(3) this] show ?case by (cases rule: run_reach.cases) auto
next
  case (Next r ra n rb)
  from Next.prems(4) show ?case
  proof (cases rule: run_reach.cases)
    case Here
    with Next.prems finished_stuck [of r Q ps workers ra] Next.hyps(1) show ?thesis by (auto simp: draining_def)
  next
    case (Next rc k)
    with draining_det [OF Next.prems(1,2) Next.hyps(1)] have "rc = ra" by blast
    with Next.IH [of k] draining_step [OF assms Next.hyps(1) Next.prems(1)] length_workers [OF Next.hyps(1) Next.prems(1)] Next.prems Next show ?thesis by simp
  qed
qed



section \<open>The listener\<close>

text \<open>
  The end of \<open>EventListener\<close>: it starts \<open>Run(1)\<close> as a goroutine, waits until the context is done, and
  calls \<open>Stop\<close>, which nobody else does.
\<close>

record 'q listener =
  ls_done :: bool
  ls_stopped :: bool
  ls_run :: "'q controller_run"

definition start_listener :: "EventHandler \<Rightarrow> 'q \<Rightarrow> 'q listener" where
  "start_listener e q = \<lparr>ls_done = False, ls_stopped = False, ls_run = start_run (EventListener e) q\<rparr>"

inductive listener_step :: "'q shutdown_queue \<Rightarrow> sync_params \<Rightarrow> 'q listener \<Rightarrow> 'q listener \<Rightarrow> bool" for Q ps where
  ContextDone: "listener_step Q ps l (l\<lparr>ls_done := True\<rparr>)"
| CallsStop: "ls_done l \<Longrightarrow> \<not> ls_stopped l \<Longrightarrow> Controller_Stop (ls_run l) = Ret r \<Longrightarrow> listener_step Q ps l (l\<lparr>ls_stopped := True, ls_run := r\<rparr>)"
| Runs: "Controller_Run Q ps 1 (ls_run l) r \<Longrightarrow> cr_stopCh r = cr_stopCh (ls_run l) \<Longrightarrow> listener_step Q ps l (l\<lparr>ls_run := r\<rparr>)"

definition listener_inv :: "agent \<Rightarrow> ('q \<Rightarrow> bool) \<Rightarrow> 'q listener \<Rightarrow> bool" where
  "listener_inv a down l \<longleftrightarrow> cr_stopCh (ls_run l) = ls_stopped l \<and> (ls_stopped l \<longrightarrow> ls_done l) \<and> run_inv a (ls_run l) \<and> queue_inv down 1 (ls_run l)"

lemma listener_inv_step:
  assumes "shutdown_law Q down pending"
  shows "listener_step Q ps l l' \<Longrightarrow> listener_inv a down l \<Longrightarrow> listener_inv a down l'"
proof (induction rule: listener_step.induct)
  case (CallsStop l r)
  then have "Controller_Run Q ps 1 (ls_run l) r" by (blast intro: Controller_Run.Stop)
  with CallsStop run_inv_step [OF this] queue_inv_step [OF assms this] show ?case by (auto simp: listener_inv_def Stop_iff)
next
  case (Runs l r)
  with run_inv_step [OF Runs(1)] queue_inv_step [OF assms Runs(1)] show ?case by (auto simp: listener_inv_def)
qed (auto simp: listener_inv_def)

lemma listener_inv_reach:
  assumes "shutdown_law Q down pending"
  shows "(listener_step Q ps)\<^sup>*\<^sup>* l l' \<Longrightarrow> listener_inv a down l \<Longrightarrow> listener_inv a down l'"
  by (induction rule: rtranclp_induct) (auto dest: listener_inv_step [OF assms])

text \<open>After the stop channel is closed, the steps of the controller are steps of the listener.\<close>

lemma listener_runs:
  "run_reach Q ps 1 r n r' \<Longrightarrow> ls_run l = r \<Longrightarrow> cr_stopCh r \<Longrightarrow> (listener_step Q ps)\<^sup>*\<^sup>* l (l\<lparr>ls_run := r'\<rparr>)"
proof (induction arbitrary: l rule: run_reach.induct)
  case (Here r)
  then have "l\<lparr>ls_run := r\<rparr> = l" by simp
  then show ?case by simp
next
  case (Next r r1 n r2)
  have s: "cr_stopCh r1" using Next.hyps(1) Next.prems(2)
    by (induction rule: Controller_Run.induct) (auto simp: deliver_def Stop_iff start_workers_def end_run_def worker_item_def split: prod.splits)
  then have "listener_step Q ps l (l\<lparr>ls_run := r1\<rparr>)" using Next by (intro listener_step.Runs) simp_all
  with Next.IH [of "l\<lparr>ls_run := r1\<rparr>"] s show ?case by (auto intro: converse_rtranclp_into_rtranclp)
qed

text \<open>
  The event listener of the agent ends when it should.  Whatever has happened since it was started, \<open>Run\<close> and
  the informer have not ended unless the context was done; the call of \<open>Stop\<close> never
  panics; and from every state the listener can come to an end, with \<open>Stop\<close> called, and \<open>Run\<close>, the informer and
  the worker all returned.
\<close>

theorem listener_ends:
  assumes "shutdown_law Q down pending" "(listener_step Q ps)\<^sup>*\<^sup>* (start_listener e q) l"
  shows "(\<not> ls_done l \<longrightarrow> cr_main (ls_run l) \<noteq> Ended \<and> cr_informer (ls_run l)) \<and>
    (\<not> ls_stopped l \<longrightarrow> (\<exists>r. Controller_Stop (ls_run l) = Ret r)) \<and>
    (\<exists>l'. (listener_step Q ps)\<^sup>*\<^sup>* l l' \<and> ls_stopped l' \<and> finished (ls_run l'))"
proof (intro conjI)
  have "listener_inv (EventListener e) down (start_listener e q)"
    using run_inv_start by (simp add: listener_inv_def start_listener_def) (simp add: start_run_def queue_inv_def)
  then have inv: "listener_inv (EventListener e) down l" by (rule listener_inv_reach [OF assms])
  then show "\<not> ls_done l \<longrightarrow> cr_main (ls_run l) \<noteq> Ended \<and> cr_informer (ls_run l)" by (auto simp: listener_inv_def run_inv_def)
  from inv show stop: "\<not> ls_stopped l \<longrightarrow> (\<exists>r. Controller_Stop (ls_run l) = Ret r)" by (auto simp: listener_inv_def Controller_Stop_def)
  obtain l1 where l1: "(listener_step Q ps)\<^sup>*\<^sup>* l l1" "ls_stopped l1"
  proof (cases "ls_stopped l")
    case False
    have d: "listener_step Q ps l (l\<lparr>ls_done := True\<rparr>)" by (rule listener_step.ContextDone)
    from stop False obtain r where "Controller_Stop (ls_run l) = Ret r" by blast
    with False have "listener_step Q ps (l\<lparr>ls_done := True\<rparr>) (l\<lparr>ls_done := True, ls_stopped := True, ls_run := r\<rparr>)"
      using listener_step.CallsStop [of "l\<lparr>ls_done := True\<rparr>"] by simp
    with d have "(listener_step Q ps)\<^sup>*\<^sup>* l (l\<lparr>ls_done := True, ls_stopped := True, ls_run := r\<rparr>)" by (intro rtranclp.rtrancl_into_rtrancl [OF r_into_rtranclp])
    then show thesis by (rule that) simp
  qed blast
  from listener_inv_reach [OF assms(1) l1(1) inv] l1(2) have i1: "cr_stopCh (ls_run l1)" "queue_inv down 1 (ls_run l1)" by (auto simp: listener_inv_def)
  obtain n r1 where "run_reach Q ps 1 (ls_run l1) n r1" "draining down r1" using stop_drains [OF assms(1) i1(2,1)] by blast
  with draining_ends [OF assms(1)] obtain n r where r: "run_reach Q ps 1 (ls_run l1) n r" "finished r" by (meson run_reach_trans)
  with listener_runs [OF r(1) refl i1(1)] l1 show "\<exists>l'. (listener_step Q ps)\<^sup>*\<^sup>* l l' \<and> ls_stopped l' \<and> finished (ls_run l')"
    by (intro exI [of _ "l1\<lparr>ls_run := r\<rparr>"]) auto
qed

theorem listener_ends_witness:
  "\<exists>l'. (listener_step closing_fifo example_params)\<^sup>*\<^sup>* (start_listener (NewEventHandler [] [] None (''default'', ''pool'') NewDHCPAllocator Map.empty) (([], \<lambda>_. 0), False)) l' \<and>
     finished (ls_run l')"
  using conjunct2 [OF conjunct2 [OF listener_ends [OF closing_fifo_law rtranclp.rtrancl_refl]]] by blast

end
