(* ===== verification/Recovery.thy ===== *)
theory Recovery
  imports Delivery
begin

text \<open>
  A restart of the controller.  The stores live in memory only; after a restart they are
  empty, while the objects still say that the cache of their pool is ready.  The theory follows
  the handlers from there: the pool controller notices the missing network and withdraws the
  condition, \<open>BuildCache\<close> loads the record, and interfaces get the addresses they had.
\<close>

abbreviation restarted :: "ctl \<Rightarrow> ctl" where
  "restarted s \<equiv> s\<lparr>ipAllocator := NewIPAllocator, cacheAllocator := NewCacheAllocator\<rparr>"

lemma restarted_registry: "registry_ok (restarted s)"
  using start_registry_ok by (auto simp: registry_ok_def start_state_def)

lemma restarted_unknown: "obtain_ip W v nc (restarted s) = (r, s') \<Longrightarrow> (\<exists>e. r = Inl e) \<and> s' = restarted s"
  by (auto simp: obtain_ip_def NewCacheAllocator_def HasMAC_def split: prod.splits option.splits)

text \<open>
  The object as it is stored after \<open>OnChange\<close> has found that the network is not initialised.
\<close>

definition not_ready :: "world \<Rightarrow> IPPool \<Rightarrow> IPPool" where
  "not_ready W p = set_conditions (\<lambda>cs. x_Message (w_ext W) CacheReady [] (x_Reason (w_ext W) CacheReady ''NotInitialized''
     (cond_False (w_ext W) CacheReady cs))) (set_conditions (cond_False (w_ext W) Stopped) p)"

lemma not_ready_frame:
  "ip_Meta (not_ready W p) = ip_Meta p" "ip_Spec (not_ready W p) = ip_Spec p" "recorded (not_ready W p) = recorded p"
  by (simp_all add: not_ready_def set_conditions_def recorded_def)

lemma not_ready_condition: "cond_laws (w_ext W) \<Longrightarrow> \<not> x_IsTrue (w_ext W) CacheReady (st_Conditions (ip_Status (not_ready W p)))"
  by (simp add: cond_laws_def not_ready_def set_conditions_def cond_False_def)

lemma change_withdraws:
  assumes "cond_laws (w_ext W)" "om_DeletionTimestamp (ip_Meta p) = None" "\<not> pool_paused p" "ensureNADLabels W p (restarted s) = (None, s1)"
    "x_IsTrue (w_ext W) CacheReady (st_Conditions (ip_Status p))"
  shows "handle W h (PoolChange key p) (restarted s) = Ret (emit (IPPoolUpdateStatus (not_ready W p)) s1) \<and> stores s1 = stores (restarted s)"
proof -
  have "not_ready W p \<noteq> p" using not_ready_condition [OF assms(1), of p] assms(5) by auto
  moreover have f: "ipAllocator s1 = NewIPAllocator" "cacheAllocator s1 = NewCacheAllocator" using ensureNADLabels_frame [OF assms(4)] by simp_all
  moreover have "\<not> IsNetworkInitialized NewIPAllocator n" for n by (simp add: IsNetworkInitialized_def NewIPAllocator_def)
  ultimately have "ippool_OnChange W key (Some p) (restarted s) = ippool_UpdateStatus W (not_ready W p) s1"
    using assms(2-4) by (simp add: ippool_OnChange_def not_ready_def [symmetric] Let_def)
  with f show ?thesis using ippool_UpdateStatus_eq [of W "not_ready W p" s1] by (auto simp: finish_def stores_def split: prod.splits)
qed

text \<open>\<open>BuildCache\<close> under the framework: it returns, and the stores are those it leaves.\<close>

lemma build_handled:
  assumes "BuildCache W p (ip_Status p) s = Ret ((st, err), s1)"
  shows "\<exists>s'. handle W h (PoolBuild p) s = Ret s' \<and> stores s' = stores s1"
proof -
  let ?h = "plain (BuildCache W)"
  have "?h p (sc_status (ippool_client W) p) s = Ret (((st, err), p), s1)" by (simp add: plain_def assms)
  then obtain res s' where run: "iPPoolStatusHandler_sync W CacheReady ?h (Some p) s = Ret (res, s')"
    using pool_status.status_sync_total [of ?h p W s _ p s1 CacheReady] by (fastforce simp: iPPoolStatusHandler_sync_def CacheReady_def)
  from pool_sync_stores [OF run] assms have "stores s' = stores s1" by auto
  with run show ?thesis by (auto simp: ippool_cache_builder_def finish_def)
qed

lemma bound_obtains: "bound s (nc_NetworkName nc) (nc_MACAddress nc) ip \<Longrightarrow> obtain_ip W v nc s = (Inr ip, s)"
  by (simp add: obtain_ip_def bound_HasMAC bound_GetIPByMAC)

text \<open>
  [C5] Leases survive a restart.  The process loses both stores, wherever it was, while the
  object of a pool still says that the cache is ready.  Until the pool is loaded again no interface
  gets an address on its network.  The next change event of the pool writes the object back with the condition
  withdrawn and its record unchanged; the cache builder, called with that object, loads the network, and
  then exactly the recorded pairs are bound, exactly their addresses are in use, the stores are
  consistent, and every recorded interface that asks gets its own address again.
\<close>

theorem restart_recovers:
  assumes "go_range (w_rng W)" "cond_laws (w_ext W)" "om_DeletionTimestamp (ip_Meta p) = None" "\<not> pool_paused p"
    "x_IsTrue (w_ext W) CacheReady (st_Conditions (ip_Status p))" "handle W h Restart s = Ret s0" "ensureNADLabels W p s0 = (None, s1)"
    "cidr4 (c4_CIDR (pool_config p)) w k" "pool_bounds w k (pl_Start (c4_Pool (pool_config p))) (pl_End (c4_Pool (pool_config p))) lo hi"
    "finite (dom (recorded p))" "held (recorded p) \<subseteq> spec_pool (pool_config p) lo hi" "inj_on (recorded p) (held (recorded p))" "0 < lo"
  shows "(\<forall>v nc r s'. obtain_ip W v nc s0 = (r, s') \<longrightarrow> (\<exists>e. r = Inl e) \<and> s' = s0) \<and>
    (\<exists>p2 s2 s3. handle W h (PoolChange key p) s0 = Ret s2 \<and> last (calls s2) = IPPoolUpdateStatus p2 \<and>
      ip_Spec p2 = ip_Spec p \<and> recorded p2 = recorded p \<and> handle W h (PoolBuild p2) s2 = Ret s3 \<and> registry_ok s3 \<and>
      (\<forall>mac ip. bound s3 (pool_network p) mac ip \<longleftrightarrow> recorded p ip = Some mac \<and> mac \<notin> marks) \<and>
      ipam_pool.in_use (ipAllocator s3) (pool_network p) = held (recorded p) \<and>
      (\<forall>v nc ip. nc_NetworkName nc = pool_network p \<longrightarrow> recorded p ip = Some (nc_MACAddress nc) \<longrightarrow> nc_MACAddress nc \<notin> marks \<longrightarrow>
        obtain_ip W v nc s3 = (Inr ip, s3)))"
proof -
  let ?p = "not_ready W p" and ?n = "pool_network p"
  have s0: "s0 = restarted s" using assms(6) by simp
  let ?s2 = "emit (IPPoolUpdateStatus ?p) s1"
  have ch: "handle W h (PoolChange key p) s0 = Ret ?s2" "stores s1 = stores (restarted s)"
    using change_withdraws [OF assms(2-4) _ assms(5)] assms(7) unfolding s0 by blast+
  have "registry_ok ?s2" using registry_ok_frame [OF restarted_registry [of s]] stores_eqD [OF ch(2)] by simp
  from BuildCache_exact [OF assms(1) this, of ?p w k lo hi "ip_Status ?p"] not_ready_condition [OF assms(2)] assms(4,8-13)
  obtain sb t where b: "BuildCache W ?p (ip_Status ?p) ?s2 = Ret ((ip_Status ?p, None), sb)"
    "pool_of (ipAllocator sb) = (pool_of (ipAllocator ?s2))(?n \<mapsto> (\<lambda>ip. if ip \<in> spec_pool (pool_config p) lo hi then Some (ip \<in> held (recorded p)) else None))"
    "table_of (cacheAllocator sb) = (table_of (cacheAllocator ?s2))(?n \<mapsto> t)" "\<forall>mac ip. t mac = Some ip \<longleftrightarrow> recorded p ip = Some mac \<and> mac \<notin> marks"
    unfolding not_ready_frame by blast
  have "specified ip" if "ip \<in> held (recorded p)" for ip
    using subsetD [OF assms(11) that] assms(13) by (auto simp: spec_pool_def specified_def word_less_nat_alt)
  then have free: "\<forall>ip \<in> held (recorded ?p). specified ip" by (simp add: not_ready_frame)
  have sb: "registry_ok sb"
    using BuildCache_registry [OF assms(1) \<open>registry_ok ?s2\<close>, of ?p w k "ip_Status ?p"] assms(8,10) free b(1) by (simp add: not_ready_frame)
  obtain s3 where s3: "handle W h (PoolBuild ?p) ?s2 = Ret s3" "stores s3 = stores sb" using build_handled [OF b(1)] by blast
  note eq = stores_eqD [OF s3(2)]
  have "registry_ok s3" using registry_ok_frame [OF sb] eq by blast
  moreover have bd: "bound s3 ?n mac ip \<longleftrightarrow> recorded p ip = Some mac \<and> mac \<notin> marks" for mac ip using b(3,4) eq by (simp add: bound_def)
  moreover have "ipam_pool.in_use (ipAllocator s3) ?n = held (recorded p)" using b(2) eq assms(11) by (auto simp: ipam_pool.in_use_def split: if_splits)
  moreover have "obtain_ip W v nc s3 = (Inr ip, s3)" if "nc_NetworkName nc = ?n" "recorded p ip = Some (nc_MACAddress nc)" "nc_MACAddress nc \<notin> marks" for v nc ip
    using bd [of "nc_MACAddress nc" ip] that by (intro bound_obtains) simp
  moreover have "(\<exists>e. r = Inl e) \<and> s' = s0" if "obtain_ip W v nc s0 = (r, s')" for v nc r s' using restarted_unknown that unfolding s0 by blast
  ultimately show ?thesis
    using ch(1) s3(1) by (intro conjI exI [of _ ?p] exI [of _ ?s2] exI [of _ s3]) (simp_all add: not_ready_frame)
qed

text \<open>The example pool, after its cache was reported ready.\<close>

lemma ready_recorded: "recorded ready_IPPool = recorded example_IPPool"
  by (simp add: ready_IPPool_def set_conditions_def recorded_def)

theorem restart_recovers_witness:
  "\<forall>h v. \<exists>s1 s2. handle (example_world\<lparr>w_env := nad_env\<rparr>) h (PoolChange ''default/pool'' ready_IPPool) (restarted start_state) = Ret s1 \<and>
    registry_ok s2 \<and> bound s2 ''default/net'' ''aa:bb:cc:dd:ee:ff'' ''192.168.0.12'' \<and>
    obtain_ip (example_world\<lparr>w_env := nad_env\<rparr>) v (example_nic ''aa:bb:cc:dd:ee:ff'') s2 = (Inr ''192.168.0.12'', s2)"
proof (intro allI)
  let ?W = "example_world\<lparr>w_env := nad_env\<rparr>" and ?p = ready_IPPool and ?nic = "example_nic ''aa:bb:cc:dd:ee:ff''"
  fix h v
  obtain sn where sn: "ensureNADLabels ?W ?p (restarted start_state) = (None, sn)" using nad_env_labels by blast
  have spec: "ip_Spec ?p = ip_Spec example_IPPool" "ip_Meta ?p = ip_Meta example_IPPool" by (simp_all add: ready_IPPool_def set_conditions_def)
  have h: "go_range (w_rng ?W)" "cond_laws (w_ext ?W)" "om_DeletionTimestamp (ip_Meta ?p) = None" "\<not> pool_paused ?p"
    "x_IsTrue (w_ext ?W) CacheReady (st_Conditions (ip_Status ?p))" "handle ?W h Restart start_state = Ret (restarted start_state)"
    using example_ext_laws(1) example_build_facts(1,3)
    by (simp_all add: spec example_world_def example_IPPool_def empty_meta_def example_ext_def ready_IPPool_def set_conditions_def)
  have f: "nc_NetworkName (example_nic ''aa:bb:cc:dd:ee:ff'') = pool_network ?p" "recorded ?p ''192.168.0.12'' = Some (nc_MACAddress (example_nic ''aa:bb:cc:dd:ee:ff''))"
    "nc_MACAddress (example_nic ''aa:bb:cc:dd:ee:ff'') = ''aa:bb:cc:dd:ee:ff''"
    by (simp_all add: ready_recorded example_recorded spec example_nic_def example_IPPool_simps)
  have g: "cidr4 (c4_CIDR (pool_config ?p)) 0xc0a80000 24" "pool_bounds 0xc0a80000 24 (pl_Start (c4_Pool (pool_config ?p))) (pl_End (c4_Pool (pool_config ?p))) 0xc0a8000a 0xc0a8000d"
    "finite (dom (recorded ?p))" "held (recorded ?p) \<subseteq> spec_pool (pool_config ?p) 0xc0a8000a 0xc0a8000d" "inj_on (recorded ?p) (held (recorded ?p))" "(0 :: u32) < 0xc0a8000a"
    using example_build_facts(5-10) unfolding spec ready_recorded by blast+
  obtain s2 s3 where r: "handle ?W h (PoolChange ''default/pool'' ?p) (restarted start_state) = Ret s2" "registry_ok s3"
    "\<forall>mac ip. bound s3 (pool_network ?p) mac ip \<longleftrightarrow> recorded ?p ip = Some mac \<and> mac \<notin> marks"
    "\<forall>v nc ip. nc_NetworkName nc = pool_network ?p \<longrightarrow> recorded ?p ip = Some (nc_MACAddress nc) \<longrightarrow> nc_MACAddress nc \<notin> marks \<longrightarrow> obtain_ip ?W v nc s3 = (Inr ip, s3)"
    using restart_recovers [OF h sn g, of "''default/pool''"] by (elim conjE exE) blast
  have n: "pool_network ?p = ''default/net''" by (simp add: spec example_IPPool_simps)
  have "bound s3 ''default/net'' ''aa:bb:cc:dd:ee:ff'' ''192.168.0.12''" using r(3) f(2,3) example_build_hyps(7) unfolding n by simp
  moreover have "obtain_ip ?W v ?nic s3 = (Inr ''192.168.0.12'', s3)"
    using r(4) [rule_format, OF f(1,2)] f(3) example_build_hyps(7) by simp
  ultimately show "\<exists>s1 s2. handle ?W h (PoolChange ''default/pool'' ?p) (restarted start_state) = Ret s1 \<and> registry_ok s2 \<and>
    bound s2 ''default/net'' ''aa:bb:cc:dd:ee:ff'' ''192.168.0.12'' \<and> obtain_ip ?W v ?nic s2 = (Inr ''192.168.0.12'', s2)" using r(1,2) by blast
qed

end
