(* ===== verification/Assets.thy ===== *)
theory Assets
  imports Server
begin

text \<open>
  The embedded resource definitions: the asset functions of \<open>pkg/data/data.go\<close>, and \<open>pkg/crd\<close>, which
  decodes the assets and applies the objects.  The compressed contents, \<open>compress/gzip\<close>, the YAML
  decoder and the apply client are parameters; the functions of \<open>strings\<close> and \<open>path/filepath\<close> that
  are used are written out for Unix.
\<close>

section \<open>Strings and paths\<close>

definition slashed :: "string \<Rightarrow> string" where
  "slashed name = map (\<lambda>c. if c = char_of (92 :: nat) then CHR ''/'' else c) name"

fun Split :: "char \<Rightarrow> string \<Rightarrow> string list" where
  "Split c [] = [[]]"
| "Split c (x # xs) = (if x = c then [] # Split c xs else (x # hd (Split c xs)) # tl (Split c xs))"

definition clean_step :: "bool \<Rightarrow> string list \<Rightarrow> string \<Rightarrow> string list" where
  "clean_step rooted out c =
     (if c = [] \<or> c = ''.'' then out
      else if c = ''..'' then
        (if out \<noteq> [] \<and> last out \<noteq> ''..'' then butlast out else if rooted then out else out @ [''..''])
      else out @ [c])"

definition Clean :: "string \<Rightarrow> string" where
  "Clean path =
     (let rooted = (path \<noteq> [] \<and> hd path = CHR ''/''); out = foldl (clean_step rooted) [] (Split (CHR ''/'') path) in
      if rooted then CHR ''/'' # join ''/'' out else if out = [] then ''.'' else join ''/'' out)"

definition path_Join :: "string list \<Rightarrow> string" where
  "path_Join elems = (case dropWhile (\<lambda>e. e = []) elems of [] \<Rightarrow> [] | es \<Rightarrow> Clean (join ''/'' es))"

definition path_Dir :: "string \<Rightarrow> string" where
  "path_Dir path = Clean (case LastIndex (CHR ''/'') path of None \<Rightarrow> [] | Some i \<Rightarrow> take (i + 1) path)"

section \<open>Assets\<close>

text \<open>The contents and \<open>compress/gzip\<close>: \<open>gz_Copy\<close> is what \<open>io.Copy\<close> reads from the reader until its end or an error.\<close>

record 'r embedded =
  em_ippoolsYaml :: string
  em_vmnetcfgsYaml :: string
  gz_NewReader :: "string \<Rightarrow> go_error + 'r"
  gz_Copy :: "'r \<Rightarrow> string \<times> go_error option"
  gz_Close :: "'r \<Rightarrow> go_error option"
  em_text :: "go_error \<Rightarrow> string"

text \<open>The verb \<open>%q\<close> on a name without special characters.\<close>

definition quoted :: "string \<Rightarrow> string" where
  "quoted name = char_of (34 :: nat) # name @ [char_of (34 :: nat)]"

definition bindataRead :: "'r embedded \<Rightarrow> string \<Rightarrow> string \<Rightarrow> string gores" where
  "bindataRead E data name =
     (case gz_NewReader E data of
        Inl e \<Rightarrow> ([], Some (Errorf (''read '' @ quoted name @ '': '' @ em_text E e)))
      | Inr gz \<Rightarrow>
          (case (gz_Copy E gz, gz_Close E gz) of ((buf, err), clErr) \<Rightarrow>
             (case err of
                Some e \<Rightarrow> ([], Some (Errorf (''read '' @ quoted name @ '': '' @ em_text E e)))
              | None \<Rightarrow> if clErr \<noteq> None then ([], err) else (buf, None))))"

record bindataFileInfo =
  fi_name :: string
  fi_size :: int
  fi_mode :: "32 word"
  fi_modTime :: int

definition FileInfo_IsDir :: "bindataFileInfo \<Rightarrow> bool" where
  "FileInfo_IsDir fi \<longleftrightarrow> and (fi_mode fi) (push_bit 31 1) \<noteq> 0"

record asset =
  as_bytes :: string
  as_info :: bindataFileInfo

definition ippools_name :: string where
  "ippools_name = ''chart/crds/network.harvesterhci.io_ippools.yaml''"

definition vmnetcfgs_name :: string where
  "vmnetcfgs_name = ''chart/crds/network.harvesterhci.io_virtualmachinenetworkconfigs.yaml''"

definition ippoolsYaml :: "'r embedded \<Rightarrow> go_error + asset" where
  "ippoolsYaml E =
     (case bindataRead E (em_ippoolsYaml E) ippools_name of
        (_, Some e) \<Rightarrow> Inl e
      | (bytes, None) \<Rightarrow> Inr \<lparr>as_bytes = bytes,
          as_info = \<lparr>fi_name = ippools_name, fi_size = 7603, fi_mode = 420, fi_modTime = 1769152639\<rparr>\<rparr>)"

definition vmnetcfgsYaml :: "'r embedded \<Rightarrow> go_error + asset" where
  "vmnetcfgsYaml E =
     (case bindataRead E (em_vmnetcfgsYaml E) vmnetcfgs_name of
        (_, Some e) \<Rightarrow> Inl e
      | (bytes, None) \<Rightarrow> Inr \<lparr>as_bytes = bytes,
          as_info = \<lparr>fi_name = vmnetcfgs_name, fi_size = 4603, fi_mode = 420, fi_modTime = 1769152639\<rparr>\<rparr>)"

text \<open>The function values of the table and of the tree.\<close>

datatype asset_func = IppoolsYaml | VmnetcfgsYaml

fun call_asset :: "'r embedded \<Rightarrow> asset_func \<Rightarrow> go_error + asset" where
  "call_asset E IppoolsYaml = ippoolsYaml E"
| "call_asset E VmnetcfgsYaml = vmnetcfgsYaml E"

definition bindata :: "string \<rightharpoonup> asset_func" where
  "bindata = [ippools_name \<mapsto> IppoolsYaml, vmnetcfgs_name \<mapsto> VmnetcfgsYaml]"

definition Asset :: "'r embedded \<Rightarrow> string \<Rightarrow> string gores" where
  "Asset E name =
     (case bindata (slashed name) of
        Some f \<Rightarrow>
          (case call_asset E f of
             Inl e \<Rightarrow> ([], Some (Errorf (''Asset '' @ name @ '' can't read by error: '' @ em_text E e)))
           | Inr a \<Rightarrow> (as_bytes a, None))
      | None \<Rightarrow> ([], Some (Errorf (''Asset '' @ name @ '' not found''))))"

definition MustAsset :: "'r embedded \<Rightarrow> string \<Rightarrow> string outcome" where
  "MustAsset E name =
     (case Asset E name of
        (a, None) \<Rightarrow> Ret a
      | (_, Some e) \<Rightarrow> Panic (''asset: Asset('' @ name @ ''): '' @ em_text E e))"

definition AssetInfo :: "'r embedded \<Rightarrow> string \<Rightarrow> go_error + bindataFileInfo" where
  "AssetInfo E name =
     (case bindata (slashed name) of
        Some f \<Rightarrow>
          (case call_asset E f of
             Inl e \<Rightarrow> Inl (Errorf (''AssetInfo '' @ name @ '' can't read by error: '' @ em_text E e))
           | Inr a \<Rightarrow> Inr (as_info a))
      | None \<Rightarrow> Inl (Errorf (''AssetInfo '' @ name @ '' not found'')))"

definition AssetNames :: "range_order \<Rightarrow> string list" where
  "AssetNames rng = rng (dom bindata)"

section \<open>The tree of directories\<close>

datatype bintree = Bintree (bt_Func: "asset_func option") (bt_Children: "(string \<times> bintree) list")

definition root_bintree :: bintree where
  "root_bintree = Bintree None [(''chart'', Bintree None [(''crds'', Bintree None
     [(''network.harvesterhci.io_ippools.yaml'', Bintree (Some IppoolsYaml) []),
      (''network.harvesterhci.io_virtualmachinenetworkconfigs.yaml'', Bintree (Some VmnetcfgsYaml) [])])])]"

fun walk :: "bintree \<Rightarrow> string list \<Rightarrow> bintree option" where
  "walk node [] = Some node"
| "walk node (p # ps) = (case map_of (bt_Children node) p of None \<Rightarrow> None | Some child \<Rightarrow> walk child ps)"

definition AssetDir :: "range_order \<Rightarrow> string \<Rightarrow> go_error + string list" where
  "AssetDir rng name =
     (case (if name \<noteq> [] then walk root_bintree (Split (CHR ''/'') (slashed name)) else Some root_bintree) of
        None \<Rightarrow> Inl (Errorf (''Asset '' @ name @ '' not found''))
      | Some node \<Rightarrow>
          if bt_Func node \<noteq> None then Inl (Errorf (''Asset '' @ name @ '' not found''))
          else Inr (rng (fst ` set (bt_Children node))))"

section \<open>Restoring assets\<close>

text \<open>The calls to the file system, and their results after a history of calls.\<close>

datatype fs_call = MkdirAll string "32 word" | WriteFile string string "32 word" | Chtimes string int int

definition fs_do :: "(fs_call list \<Rightarrow> go_error option) \<Rightarrow> fs_call \<Rightarrow> fs_call list \<Rightarrow> go_error option \<times> fs_call list" where
  "fs_do fs c h = (fs (h @ [c]), h @ [c])"

definition filePath :: "string \<Rightarrow> string \<Rightarrow> string" where
  "filePath dir name = path_Join (dir # Split (CHR ''/'') (slashed name))"

definition RestoreAsset :: "'r embedded \<Rightarrow> (fs_call list \<Rightarrow> go_error option) \<Rightarrow> string \<Rightarrow> string \<Rightarrow> fs_call list \<Rightarrow> go_error option \<times> fs_call list" where
  "RestoreAsset E fs dir name h =
     (case Asset E name of
        (_, Some e) \<Rightarrow> (Some e, h)
      | (data, None) \<Rightarrow>
          (case AssetInfo E name of
             Inl e \<Rightarrow> (Some e, h)
           | Inr info \<Rightarrow>
               (case fs_do fs (MkdirAll (filePath dir (path_Dir name)) 493) h of
                  (Some e, h1) \<Rightarrow> (Some e, h1)
                | (None, h1) \<Rightarrow>
                    (case fs_do fs (WriteFile (filePath dir name) data (fi_mode info)) h1 of
                       (Some e, h2) \<Rightarrow> (Some e, h2)
                     | (None, h2) \<Rightarrow> fs_do fs (Chtimes (filePath dir name) (fi_modTime info) (fi_modTime info)) h2))))"

text \<open>A loop over names that stops at the first error.\<close>

fun each :: "(string \<Rightarrow> 's \<Rightarrow> (go_error option \<times> 's) outcome) \<Rightarrow> string list \<Rightarrow> 's \<Rightarrow> (go_error option \<times> 's) outcome" where
  "each f [] s = Ret (None, s)"
| "each f (k # ks) s = go_bind (f k s) (\<lambda>(e, s1). if e \<noteq> None then Ret (e, s1) else each f ks s1)"

text \<open>The first argument bounds the depth of the recursion; running out of it is \<open>Diverge\<close>.\<close>

primrec RestoreAssets :: "nat \<Rightarrow> range_order \<Rightarrow> 'r embedded \<Rightarrow> (fs_call list \<Rightarrow> go_error option) \<Rightarrow> string \<Rightarrow> string \<Rightarrow> fs_call list \<Rightarrow>
    (go_error option \<times> fs_call list) outcome" where
  "RestoreAssets 0 rng E fs dir name h = Diverge"
| "RestoreAssets (Suc n) rng E fs dir name h =
     (case AssetDir rng name of
        Inl _ \<Rightarrow> Ret (RestoreAsset E fs dir name h)
      | Inr children \<Rightarrow> each (\<lambda>child. RestoreAssets n rng E fs dir (path_Join [name, child])) children h)"

section \<open>The resource definitions\<close>

fun generate_loop :: "'r embedded \<Rightarrow> (string \<Rightarrow> go_error + 'o list) \<Rightarrow> string list \<Rightarrow> 'o list \<Rightarrow> go_error + 'o list" where
  "generate_loop E toObjects [] objs = Inr objs"
| "generate_loop E toObjects (v # vs) objs =
     (case Asset E v of
        (_, Some e) \<Rightarrow> Inl e
      | (content, None) \<Rightarrow>
          (case toObjects content of Inl e \<Rightarrow> Inl e | Inr obj \<Rightarrow> generate_loop E toObjects vs (objs @ obj)))"

definition generateObjects :: "range_order \<Rightarrow> 'r embedded \<Rightarrow> (string \<Rightarrow> go_error + 'o list) \<Rightarrow> go_error + 'o list" where
  "generateObjects rng E toObjects = generate_loop E toObjects (AssetNames rng) []"

definition crd_Create :: "range_order \<Rightarrow> 'r embedded \<Rightarrow> (string \<Rightarrow> go_error + 'o list) \<Rightarrow> go_error + 'c \<Rightarrow>
    ('c \<Rightarrow> string \<Rightarrow> 'o list \<Rightarrow> 's \<Rightarrow> go_error option \<times> 's) \<Rightarrow> 's \<Rightarrow> go_error option \<times> 's" where
  "crd_Create rng E toObjects newApply applyObjects s =
     (case newApply of
        Inl e \<Rightarrow> (Some e, s)
      | Inr applyClient \<Rightarrow>
          (case generateObjects rng E toObjects of
             Inl e \<Rightarrow> (Some (Errorf (''error generating objects: '' @ em_text E e)), s)
           | Inr objs \<Rightarrow> applyObjects applyClient ''vm-dhcp-controller-crd'' objs s))"


section \<open>The table and the tree agree\<close>

lemma Split_not_Nil [simp]: "Split c s \<noteq> []"
  by (cases s) simp_all

lemma join_Split: "join [c] (Split c s) = s"
proof (induction s)
  case (Cons x xs)
  obtain y ys where y: "Split c xs = y # ys" by (cases "Split c xs") simp_all
  with Cons show ?case by (cases ys) simp_all
qed simp

lemma Split_plain: "c \<notin> set s \<Longrightarrow> Split c s = [s]"
  by (induction s) auto

lemma Split_append: "c \<notin> set a \<Longrightarrow> Split c (a @ c # b) = a # Split c b"
  by (induction a) auto

lemma Split_join: "ps \<noteq> [] \<Longrightarrow> \<forall>p \<in> set ps. c \<notin> set p \<Longrightarrow> Split c (join [c] ps) = ps"
  by (induction "[c]" ps rule: join.induct) (simp_all add: Split_plain Split_append)

lemma Split_iff: "ps \<noteq> [] \<Longrightarrow> \<forall>p \<in> set ps. c \<notin> set p \<Longrightarrow> Split c s = ps \<longleftrightarrow> s = join [c] ps"
  using Split_join join_Split by metis

definition ippools_file :: string where
  "ippools_file = ''network.harvesterhci.io_ippools.yaml''"

definition vmnetcfgs_file :: string where
  "vmnetcfgs_file = ''network.harvesterhci.io_virtualmachinenetworkconfigs.yaml''"

lemma asset_path:
  "Split (CHR ''/'') s = [''chart'', ''crds'', ippools_file] \<longleftrightarrow> s = ippools_name"
  "Split (CHR ''/'') s = [''chart'', ''crds'', vmnetcfgs_file] \<longleftrightarrow> s = vmnetcfgs_name"
  "Split (CHR ''/'') s = [''chart'', ''crds''] \<longleftrightarrow> s = ''chart/crds''"
  "Split (CHR ''/'') s = [''chart''] \<longleftrightarrow> s = ''chart''"
  by (simp_all add: Split_iff ippools_name_def vmnetcfgs_name_def ippools_file_def vmnetcfgs_file_def)

lemma walk_root:
  "walk root_bintree ps = Some node \<longleftrightarrow>
    (ps = [] \<and> node = root_bintree) \<or> (ps = [''chart''] \<and> node = snd (hd (bt_Children root_bintree))) \<or>
    (ps = [''chart'', ''crds''] \<and> node = snd (hd (bt_Children (snd (hd (bt_Children root_bintree)))))) \<or>
    (ps = [''chart'', ''crds'', ippools_file] \<and> node = Bintree (Some IppoolsYaml) []) \<or>
    (ps = [''chart'', ''crds'', vmnetcfgs_file] \<and> node = Bintree (Some VmnetcfgsYaml) [])"
  unfolding root_bintree_def ippools_file_def vmnetcfgs_file_def
  by (cases ps; cases "tl ps"; cases "tl (tl ps)"; cases "tl (tl (tl ps))") (auto split: if_splits)

lemma slashed_empty [simp]: "slashed name = [] \<longleftrightarrow> name = []"
  by (simp add: slashed_def)

lemma asset_names:
  "ippools_name \<notin> {[], ''chart'', ''chart/crds'', vmnetcfgs_name}" "vmnetcfgs_name \<notin> {[], ''chart'', ''chart/crds'', ippools_name}"
  "slashed ippools_name = ippools_name" "slashed vmnetcfgs_name = vmnetcfgs_name"
  by (simp_all add: ippools_name_def vmnetcfgs_name_def slashed_def char_of_def)

lemma bindata_entry: "bindata ippools_name = Some IppoolsYaml" "bindata vmnetcfgs_name = Some VmnetcfgsYaml"
  using asset_names by (simp_all add: bindata_def)

lemma bindata_dirs: "bindata [] = None" "bindata ''chart'' = None" "bindata ''chart/crds'' = None"
  by (simp_all add: bindata_def ippools_name_def vmnetcfgs_name_def)

lemma walk_asset:
  "walk root_bintree (Split (CHR ''/'') s) = Some node \<longleftrightarrow>
    (s = ''chart'' \<and> node = snd (hd (bt_Children root_bintree))) \<or>
    (s = ''chart/crds'' \<and> node = snd (hd (bt_Children (snd (hd (bt_Children root_bintree)))))) \<or>
    (s = ippools_name \<and> node = Bintree (Some IppoolsYaml) []) \<or> (s = vmnetcfgs_name \<and> node = Bintree (Some VmnetcfgsYaml) [])"
  unfolding walk_root asset_path by simp

lemma AssetDir_eq:
  "AssetDir rng name =
    (if name = [] then Inr (rng {''chart''}) else if slashed name = ''chart'' then Inr (rng {''crds''})
     else if slashed name = ''chart/crds'' then Inr (rng {ippools_file, vmnetcfgs_file}) else Inl (Errorf (''Asset '' @ name @ '' not found'')))"
proof (cases "name = []")
  case True
  then show ?thesis by (simp add: AssetDir_def root_bintree_def)
next
  case False
  show ?thesis
  proof (cases "walk root_bintree (Split (CHR ''/'') (slashed name))")
    case None
    then have "\<nexists>node. walk root_bintree (Split (CHR ''/'') (slashed name)) = Some node" by simp
    then have "slashed name \<noteq> ''chart''" "slashed name \<noteq> ''chart/crds''" unfolding walk_asset by blast+
    with False None show ?thesis by (simp add: AssetDir_def)
  next
    case (Some node)
    note w = Some [unfolded walk_asset]
    have "AssetDir rng name = (if bt_Func node \<noteq> None then Inl (Errorf (''Asset '' @ name @ '' not found'')) else Inr (rng (fst ` set (bt_Children node))))"
      using Some False by (simp add: AssetDir_def)
    then show ?thesis using w False asset_names(1,2) by (elim disjE conjE) (simp_all add: root_bintree_def ippools_file_def vmnetcfgs_file_def)
  qed
qed

text \<open>
  The table of assets and the tree of directories agree: walking the tree along the parts of a
  name ends in a generator exactly when the table has that name, and it is the same generator; and
  \<open>AssetDir\<close> lists the entries of three directories, none of which is a name of the table.
\<close>

theorem tree_is_table:
  "Option.bind (walk root_bintree (Split (CHR ''/'') (slashed name))) bt_Func = bindata (slashed name) \<and>
   ((\<exists>cs. AssetDir rng name = Inr cs) = (slashed name \<in> {[], ''chart'', ''chart/crds''})) \<and>
   {[], ''chart'', ''chart/crds''} \<inter> dom bindata = {}"
proof (intro conjI)
  let ?s = "slashed name"
  show "Option.bind (walk root_bintree (Split (CHR ''/'') ?s)) bt_Func = bindata ?s"
  proof (cases "walk root_bintree (Split (CHR ''/'') ?s)")
    case None
    then have "\<nexists>node. walk root_bintree (Split (CHR ''/'') ?s) = Some node" by simp
    then have "?s \<noteq> ippools_name" "?s \<noteq> vmnetcfgs_name" unfolding walk_asset by blast+
    with None show ?thesis by (simp add: bindata_def)
  next
    case (Some node)
    from Some [unfolded walk_asset] have "bt_Func node = bindata ?s" by (elim disjE conjE) (simp_all add: bindata_entry bindata_dirs root_bintree_def)
    with Some show ?thesis by simp
  qed
  show "(\<exists>cs. AssetDir rng name = Inr cs) = (?s \<in> {[], ''chart'', ''chart/crds''})" by (simp add: AssetDir_eq)
  show "{[], ''chart'', ''chart/crds''} \<inter> dom bindata = {}" by (auto simp: bindata_dirs)
qed

section \<open>The definitions are applied\<close>

definition loads :: "'r embedded \<Rightarrow> (string \<Rightarrow> go_error + 'o list) \<Rightarrow> string \<Rightarrow> 'o list \<Rightarrow> bool" where
  "loads E toObjects name objs \<longleftrightarrow> (\<exists>content. Asset E name = (content, None) \<and> toObjects content = Inr objs)"

lemma generate_loop_ok:
  "list_all2 (loads E toObjects) vs os \<Longrightarrow> generate_loop E toObjects vs objs = Inr (objs @ concat os)"
  by (induction vs os arbitrary: objs rule: list_all2_induct) (auto simp: loads_def)

lemma generate_loop_loads:
  "generate_loop E toObjects vs objs = Inr r \<Longrightarrow> v \<in> set vs \<Longrightarrow> \<exists>o1. loads E toObjects v o1"
  by (induction vs arbitrary: objs) (auto simp: loads_def split: prod.splits option.splits sum.splits)

lemma dom_bindata: "dom bindata = {ippools_name, vmnetcfgs_name}"
  unfolding bindata_def by (simp only: dom_fun_upd dom_empty) (simp add: insert_commute)

lemma ranges_two:
  assumes "ranges ks {a, b}" "a \<noteq> b"
  shows "ks = [a, b] \<or> ks = [b, a]"
proof -
  have "length ks = 2" using assms distinct_card [of ks] by (simp add: ranges_def)
  then obtain x y where "ks = [x, y]" by (metis length_0_conv length_Suc_conv numeral_2_eq_2)
  with assms show ?thesis by (auto simp: ranges_def)
qed

lemma two_names: "ippools_name \<noteq> vmnetcfgs_name"
  by (simp add: ippools_name_def vmnetcfgs_name_def)

lemma AssetNames_two:
  assumes "go_range rng"
  shows "AssetNames rng = [ippools_name, vmnetcfgs_name] \<or> AssetNames rng = [vmnetcfgs_name, ippools_name]"
proof -
  have "ranges (rng (dom bindata)) (dom bindata)" by (rule go_rangeD [OF assms]) (simp add: dom_bindata)
  from ranges_two [OF this [unfolded dom_bindata] two_names] show ?thesis unfolding AssetNames_def dom_bindata .
qed

lemma set_two: "ks = [a, b] \<or> ks = [b, a] \<Longrightarrow> set ks = {a, b}"
  by auto

lemma generate_two:
  assumes "vs = [a, b] \<or> vs = [b, a]" "loads E toObjects a o1" "loads E toObjects b o2"
  shows "generate_loop E toObjects vs [] = Inr (o1 @ o2) \<or> generate_loop E toObjects vs [] = Inr (o2 @ o1)"
  using assms(1) generate_loop_ok [of E toObjects "[a, b]" "[o1, o2]" "[]"] generate_loop_ok [of E toObjects "[b, a]" "[o2, o1]" "[]"] assms(2,3)
  by auto

lemma generateObjects_two:
  assumes "go_range rng" "loads E toObjects ippools_name o1" "loads E toObjects vmnetcfgs_name o2"
  shows "generateObjects rng E toObjects = Inr (o1 @ o2) \<or> generateObjects rng E toObjects = Inr (o2 @ o1)"
  unfolding generateObjects_def by (rule generate_two [OF AssetNames_two [OF assms(1)] assms(2,3)])


text \<open>Contents that are stored as they are, for concrete runs.\<close>

definition plain :: "string embedded" where
  "plain = \<lparr>em_ippoolsYaml = ''i'', em_vmnetcfgsYaml = ''v'', gz_NewReader = Inr, gz_Copy = (\<lambda>d. (d, None)), gz_Close = (\<lambda>_. None), em_text = (\<lambda>_. [])\<rparr>"

lemma plain_Asset: "Asset plain ippools_name = (''i'', None)" "Asset plain vmnetcfgs_name = (''v'', None)"
  by (simp_all add: Asset_def asset_names(3,4) bindata_entry ippoolsYaml_def vmnetcfgsYaml_def bindataRead_def plain_def)


text \<open>
  A failing close of the decompressor is reported as success with no content: \<open>bindataRead\<close>
  returns the read error, which is nil there, instead of the close error.  If an empty manifest has
  no objects, \<open>Create\<close> then applies the definitions without this one, and reports no error of its own.
\<close>

theorem close_error_hidden:
  assumes "go_range rng" "gz_NewReader E (em_ippoolsYaml E) = Inr gz" "gz_Copy E gz = (buf, None)" "gz_Close E gz = Some e"
    "toObjects [] = Inr []" "loads E toObjects vmnetcfgs_name o2"
  shows "Asset E ippools_name = ([], None) \<and>
    crd_Create rng E toObjects (Inr c) applyObjects s = applyObjects c ''vm-dhcp-controller-crd'' o2 s"
proof
  have "bindataRead E (em_ippoolsYaml E) ippools_name = ([], None)" using assms(2-4) by (simp add: bindataRead_def)
  then show a: "Asset E ippools_name = ([], None)" by (simp add: Asset_def asset_names(3) bindata_entry ippoolsYaml_def)
  with assms(5) have "loads E toObjects ippools_name []" unfolding loads_def by (intro exI [of _ "[]"] conjI)
  from generateObjects_two [OF assms(1) this assms(6)] have "generateObjects rng E toObjects = Inr o2" by simp
  then show "crd_Create rng E toObjects (Inr c) applyObjects s = applyObjects c ''vm-dhcp-controller-crd'' o2 s" by (simp add: crd_Create_def)
qed

theorem close_error_hidden_witness:
  "crd_Create sorted_list_of_set (plain\<lparr>gz_Close := (\<lambda>d. if d = ''i'' then Some (ExternalError []) else None)\<rparr>)
     (\<lambda>d. Inr (if d = [] then [] else [d])) (Inr ()) (\<lambda>_ _ os s. (None, s @ os)) [] = (None, [''v''])"
proof -
  let ?E = "plain\<lparr>gz_Close := (\<lambda>d. if d = ''i'' then Some (ExternalError []) else None)\<rparr>"
  have "loads ?E (\<lambda>d. Inr (if d = [] then [] else [d])) vmnetcfgs_name [''v'']"
    unfolding loads_def by (simp add: Asset_def asset_names(4) bindata_entry vmnetcfgsYaml_def bindataRead_def plain_def)
  with close_error_hidden [OF go_range_sorted, of ?E "''i''" "''i''" "ExternalError []" "\<lambda>d. Inr (if d = [] then [] else [d])" "[''v'']" "()"
      "\<lambda>_ _ os s. (None, s @ os)" "[]"]
  show ?thesis by (simp add: plain_def)
qed

section \<open>Restoring a directory\<close>

lemma each_single: "each f [k] s = f k s"
  by (cases "f k s") auto

lemma each_map: "each f (map g ks) s = each (\<lambda>k. f (g k)) ks s"
proof (induction ks arbitrary: s)
  case (Cons k ks)
  then show ?case by (cases "f (g k) s") (auto split: prod.splits)
qed simp

lemma each_cong: "(\<And>k s. k \<in> set ks \<Longrightarrow> f k s = g k s) \<Longrightarrow> each f ks s = each g ks s"
proof (induction ks arbitrary: s)
  case (Cons k ks)
  then show ?case by (cases "g k s") (auto split: prod.splits)
qed simp

lemma each_ok: "(\<And>k s. k \<in> set ks \<Longrightarrow> f k s = Ret (None, s @ block k)) \<Longrightarrow> each f ks s = Ret (None, s @ concat (map block ks))"
  by (induction ks arbitrary: s) simp_all

definition plain_part :: "string \<Rightarrow> bool" where
  "plain_part p \<longleftrightarrow> p \<notin> {[], ''.'', ''..''} \<and> CHR ''/'' \<notin> set p"

lemma clean_plain: "\<forall>p \<in> set ps. plain_part p \<Longrightarrow> foldl (clean_step r) out ps = out @ ps"
  by (induction ps arbitrary: out) (simp_all add: clean_step_def plain_part_def)

lemma Clean_plain:
  assumes "ps \<noteq> []" "\<forall>p \<in> set ps. plain_part p"
  shows "Clean (join ''/'' ps) = join ''/'' ps"
proof -
  obtain p qs where ps: "ps = p # qs" using assms(1) by (cases ps) auto
  with assms(2) obtain x xs where x: "p = x # xs" "x \<noteq> CHR ''/''" by (cases p) (auto simp: plain_part_def)
  have h: "hd (join ''/'' ps) = x" unfolding ps x(1) by (cases qs) simp_all
  have "Split (CHR ''/'') (join ''/'' ps) = ps" using assms by (intro Split_join) (auto simp: plain_part_def)
  with h x(2) assms show ?thesis by (simp add: Clean_def clean_plain)
qed

lemma plain_parts: "plain_part ''chart''" "plain_part ''crds''" "plain_part ippools_file" "plain_part vmnetcfgs_file"
  by (simp_all add: plain_part_def ippools_file_def vmnetcfgs_file_def)

lemma file_names: "ippools_name = ''chart/crds'' @ CHR ''/'' # ippools_file" "vmnetcfgs_name = ''chart/crds'' @ CHR ''/'' # vmnetcfgs_file"
  by (simp_all add: ippools_file_def vmnetcfgs_file_def ippools_name_def vmnetcfgs_name_def)

lemma dir_of_file:
  assumes "plain_part f"
  shows "path_Join [''chart/crds'', f] = ''chart/crds'' @ CHR ''/'' # f" "path_Dir (''chart/crds'' @ CHR ''/'' # f) = ''chart/crds''"
proof -
  have "Clean (join ''/'' [''chart'', ''crds'', f]) = join ''/'' [''chart'', ''crds'', f]"
    by (rule Clean_plain) (simp_all add: plain_parts assms)
  then show "path_Join [''chart/crds'', f] = ''chart/crds'' @ CHR ''/'' # f" by (simp add: path_Join_def)
  have "CHR ''/'' \<notin> set f" using assms by (simp add: plain_part_def)
  from LastIndex_split [OF this, of "''chart/crds''"]
  have "LastIndex (CHR ''/'') (''chart/crds'' @ CHR ''/'' # f) = Some 10" by simp
  moreover have "Clean ''chart/crds/'' = ''chart/crds''" by (simp add: Clean_def clean_step_def)
  ultimately show "path_Dir (''chart/crds'' @ CHR ''/'' # f) = ''chart/crds''" by (simp add: path_Dir_def)
qed

lemma asset_joins:
  "path_Join [[], ''chart''] = ''chart''" "path_Join [''chart'', ''crds''] = ''chart/crds''"
  "path_Join [''chart/crds'', ippools_file] = ippools_name" "path_Join [''chart/crds'', vmnetcfgs_file] = vmnetcfgs_name"
  "path_Dir ippools_name = ''chart/crds''" "path_Dir vmnetcfgs_name = ''chart/crds''"
  unfolding file_names using dir_of_file [OF plain_parts(3)] dir_of_file [OF plain_parts(4)]
  by (simp_all add: path_Join_def Clean_def clean_step_def)

lemma restore_file:
  assumes "name \<in> dom bindata"
  shows "RestoreAssets (Suc n) rng E fs dir name h = Ret (RestoreAsset E fs dir name h)"
  using assms asset_names by (auto simp: dom_bindata AssetDir_eq)

lemma restore_crds:
  assumes "go_range rng"
  shows "\<exists>ks. ranges ks (dom bindata) \<and> RestoreAssets (Suc (Suc n)) rng E fs dir ''chart/crds'' h = each (\<lambda>k h. Ret (RestoreAsset E fs dir k h)) ks h"
proof -
  let ?fs = "{ippools_file, vmnetcfgs_file}" and ?g = "\<lambda>c. path_Join [''chart/crds'', c]"
  have r: "ranges (rng ?fs) ?fs" by (rule go_rangeD [OF assms]) simp
  have d: "?g ` ?fs = dom bindata" by (simp add: asset_joins dom_bindata)
  have "inj_on ?g ?fs" using two_names by (simp add: asset_joins inj_on_def)
  with r d have ks: "ranges (map ?g (rng ?fs)) (dom bindata)" by (simp add: ranges_def distinct_map)
  have "slashed ''chart/crds'' = ''chart/crds''" by (simp add: slashed_def char_of_def)
  then have "RestoreAssets (Suc (Suc n)) rng E fs dir ''chart/crds'' h = each (\<lambda>c. RestoreAssets (Suc n) rng E fs dir (?g c)) (rng ?fs) h"
    by (simp add: AssetDir_eq del: RestoreAssets.simps(2) add: RestoreAssets.simps(2) [of "Suc n"])
  also have "\<dots> = each (\<lambda>c h. Ret (RestoreAsset E fs dir (?g c) h)) (rng ?fs) h"
  proof (rule each_cong)
    fix c h assume "c \<in> set (rng ?fs)"
    then have "?g c \<in> dom bindata" using r d by (auto simp: ranges_def)
    then show "RestoreAssets (Suc n) rng E fs dir (?g c) h = Ret (RestoreAsset E fs dir (?g c) h)" by (rule restore_file)
  qed
  also have "\<dots> = each (\<lambda>k h. Ret (RestoreAsset E fs dir k h)) (map ?g (rng ?fs)) h" by (simp add: each_map)
  finally show ?thesis using ks by blast
qed

lemma restore_dir:
  assumes "go_range rng" "name \<in> {[], ''chart'', ''chart/crds''}"
  shows "\<exists>ks. ranges ks (dom bindata) \<and> RestoreAssets (n + 4) rng E fs dir name h = each (\<lambda>k h. Ret (RestoreAsset E fs dir k h)) ks h"
proof -
  have r: "rng {k} = [k]" for k using ranges_single [OF go_rangeD [OF assms(1)], of k] by simp
  have s: "slashed ''chart'' = ''chart''" by (simp add: slashed_def char_of_def)
  have n4: "n + 4 = Suc (Suc (Suc (Suc n)))" by simp
  have c: "RestoreAssets (Suc m) rng E fs dir ''chart'' h = RestoreAssets m rng E fs dir ''chart/crds'' h" for m
    by (simp add: AssetDir_eq s r each_single asset_joins del: each.simps)
  have t: "RestoreAssets (Suc m) rng E fs dir [] h = RestoreAssets m rng E fs dir ''chart'' h" for m
    by (simp add: AssetDir_eq r each_single asset_joins del: each.simps)
  show ?thesis using assms(2) unfolding n4
    by (elim insertE emptyE) (simp_all only: c t restore_crds [OF assms(1)])
qed

lemma asset_info:
  assumes "k \<in> dom bindata" "Asset E k = (b, None)"
  shows "\<exists>i. AssetInfo E k = Inr i \<and> fi_mode i = 420 \<and> fi_modTime i = 1769152639"
proof -
  obtain f where f: "bindata k = Some f" "slashed k = k" using assms(1) asset_names(3,4) unfolding dom_bindata by (auto simp: bindata_entry)
  with assms(2) obtain a where a: "call_asset E f = Inr a" by (auto simp: Asset_def split: sum.splits)
  then have "fi_mode (as_info a) = 420 \<and> fi_modTime (as_info a) = 1769152639"
    by (cases f) (auto simp: ippoolsYaml_def vmnetcfgsYaml_def split: prod.splits option.splits)
  with f a show ?thesis by (simp add: AssetInfo_def)
qed

lemma asset_dir:
  assumes "k \<in> dom bindata"
  shows "path_Dir k = ''chart/crds''"
proof -
  from assms have "k = ippools_name \<or> k = vmnetcfgs_name" unfolding dom_bindata by simp
  then show ?thesis using asset_joins(5,6) by (elim disjE) (simp_all only:)
qed

lemma restore_one:
  assumes "k \<in> dom bindata" "snd (Asset E k) = None" "\<forall>h. fs h = None"
  shows "RestoreAsset E fs dir k h = (None, h @ [MkdirAll (filePath dir ''chart/crds'') 0x1ed,
    WriteFile (filePath dir k) (fst (Asset E k)) 0x1a4, Chtimes (filePath dir k) 1769152639 1769152639])"
proof -
  obtain b where b: "Asset E k = (b, None)" using assms(2) by (metis prod.collapse)
  obtain i where i: "AssetInfo E k = Inr i" "fi_mode i = 420" "fi_modTime i = 1769152639" using asset_info [OF assms(1) b] by blast
  show ?thesis unfolding RestoreAsset_def b asset_dir [OF assms(1)] by (simp add: i fs_do_def assms(3))
qed

text \<open>
  Restoring a directory terminates, within a recursion depth of four, and restores every asset below
  it: for each name of the table, in some order, the directory is created, the content is written
  with its mode and its time is set, and nothing else is done, if no step fails.
\<close>

theorem restores_all:
  assumes "go_range rng" "name \<in> {[], ''chart'', ''chart/crds''}" "\<forall>k \<in> dom bindata. snd (Asset E k) = None" "\<forall>h. fs h = None"
  shows "\<exists>ks. ranges ks (dom bindata) \<and> RestoreAssets (n + 4) rng E fs dir name h = Ret (None, h @ concat (map (\<lambda>k.
    [MkdirAll (filePath dir ''chart/crds'') 0x1ed, WriteFile (filePath dir k) (fst (Asset E k)) 0x1a4, Chtimes (filePath dir k) 1769152639 1769152639]) ks))"
proof -
  obtain ks where ks: "ranges ks (dom bindata)" "RestoreAssets (n + 4) rng E fs dir name h = each (\<lambda>k h. Ret (RestoreAsset E fs dir k h)) ks h"
    using restore_dir [OF assms(1,2)] by blast
  have "each (\<lambda>k h. Ret (RestoreAsset E fs dir k h)) ks h = Ret (None, h @ concat (map (\<lambda>k.
    [MkdirAll (filePath dir ''chart/crds'') 0x1ed, WriteFile (filePath dir k) (fst (Asset E k)) 0x1a4, Chtimes (filePath dir k) 1769152639 1769152639]) ks))"
    using ks(1) assms(3,4) by (intro each_ok arg_cong [of _ _ Ret] restore_one) (auto simp: ranges_def)
  then show ?thesis by (intro exI [of _ ks] conjI ks(1)) (simp only: ks(2))
qed

theorem restores_all_witness:
  "\<exists>ks. ranges ks (dom bindata) \<and> RestoreAssets 4 sorted_list_of_set plain (\<lambda>_. None) ''out'' ''chart'' [] = Ret (None, concat (map (\<lambda>k.
    [MkdirAll (filePath ''out'' ''chart/crds'') 0x1ed, WriteFile (filePath ''out'' k) (fst (Asset plain k)) 0x1a4,
     Chtimes (filePath ''out'' k) 1769152639 1769152639]) ks))"
proof -
  have "\<forall>k \<in> dom bindata. snd (Asset plain k) = None" unfolding dom_bindata by (simp add: plain_Asset)
  from restores_all [OF go_range_sorted _ this, of "''chart''" "\<lambda>_. None" 0 "''out''" "[]"] show ?thesis by simp
qed

end
