(* ===== verification/Clients.thy ===== *)
theory Clients
  imports Server
begin

text \<open>
  The generated clients of \<open>pkg/generated\<close>: the clientset and its typed clients, the fakes that stand
  for them in tests, and the controllers of the wrangler factories.  The constructors of client-go
  are parameters.  A resource is addressed by group, version, name and namespace; the theorems
  show that the three kinds of clients address the same resources.
\<close>

section \<open>Configurations\<close>

type_synonym group_version = "string \<times> string"

text \<open>The fields of a \<open>rest.Config\<close> that the generated code reads or sets; of \<open>QPS\<close> only the sign is read.\<close>

record rest_config =
  rc_Host :: string
  rc_UserAgent :: string
  rc_GroupVersion :: "group_version option"
  rc_APIPath :: string
  rc_Serializer :: string
  rc_QPS :: int
  rc_Burst :: int
  rc_RateLimiter :: "(int \<times> int) option"

text \<open>client-go: \<open>'h\<close> are HTTP clients, \<open>'r\<close> REST clients, \<open>'d\<close> discovery clients.\<close>

record ('h, 'r, 'd) rest_lib =
  rl_UserAgent :: string
  rl_Codec :: string
  rl_HTTPClientFor :: "rest_config \<Rightarrow> go_error + 'h"
  rl_RESTClientFor :: "rest_config \<Rightarrow> 'h \<Rightarrow> go_error + 'r"
  rl_DiscoveryFor :: "rest_config \<Rightarrow> 'h \<Rightarrow> go_error + 'd"
  rl_Discovery :: "'r \<Rightarrow> 'd"

section \<open>Typed clients\<close>

record 'r typed_client =
  tc_restClient :: 'r

definition setConfigDefaults :: "('h, 'r, 'd) rest_lib \<Rightarrow> group_version \<Rightarrow> rest_config \<Rightarrow> rest_config" where
  "setConfigDefaults L gv config =
     (let c1 = config\<lparr>rc_GroupVersion := Some gv, rc_APIPath := ''/apis'', rc_Serializer := rl_Codec L\<rparr> in
      if rc_UserAgent c1 = [] then c1\<lparr>rc_UserAgent := rl_UserAgent L\<rparr> else c1)"

definition typed_NewForConfigAndClient :: "('h, 'r, 'd) rest_lib \<Rightarrow> group_version \<Rightarrow> rest_config \<Rightarrow> 'h \<Rightarrow> go_error + 'r typed_client" where
  "typed_NewForConfigAndClient L gv c h =
     (case rl_RESTClientFor L (setConfigDefaults L gv c) h of
        Inl e \<Rightarrow> Inl e
      | Inr client \<Rightarrow> Inr \<lparr>tc_restClient = client\<rparr>)"

definition typed_NewForConfig :: "('h, 'r, 'd) rest_lib \<Rightarrow> group_version \<Rightarrow> rest_config \<Rightarrow> go_error + 'r typed_client" where
  "typed_NewForConfig L gv c =
     (let config = setConfigDefaults L gv c in
      case rl_HTTPClientFor L config of
        Inl e \<Rightarrow> Inl e
      | Inr h \<Rightarrow> typed_NewForConfigAndClient L gv config h)"

definition or_die :: "go_error + 'a \<Rightarrow> 'a outcome" where
  "or_die r = (case r of Inl e \<Rightarrow> Panic ''error'' | Inr x \<Rightarrow> Ret x)"

definition typed_NewForConfigOrDie :: "('h, 'r, 'd) rest_lib \<Rightarrow> group_version \<Rightarrow> rest_config \<Rightarrow> 'r typed_client outcome" where
  "typed_NewForConfigOrDie L gv c = or_die (typed_NewForConfig L gv c)"

definition typed_New :: "'r \<Rightarrow> 'r typed_client" where
  "typed_New c = \<lparr>tc_restClient = c\<rparr>"

text \<open>A nil client has no REST client.\<close>

definition RESTClient :: "'r typed_client option \<Rightarrow> 'r option" where
  "RESTClient c = (case c of None \<Rightarrow> None | Some t \<Rightarrow> Some (tc_restClient t))"

text \<open>The group and version of this repository; those of kubevirt and of the CNI are constants of their packages.\<close>

definition GroupName :: string where
  "GroupName = ''network.harvesterhci.io''"

definition SchemeGroupVersion :: group_version where
  "SchemeGroupVersion = (GroupName, ''v1alpha1'')"

definition Kind :: "string \<Rightarrow> string \<times> string" where
  "Kind kind = (fst SchemeGroupVersion, kind)"

definition Resource :: "string \<Rightarrow> string \<times> string" where
  "Resource resource = (fst SchemeGroupVersion, resource)"

definition IPPoolResourceName :: string where
  "IPPoolResourceName = ''ippools''"

definition VirtualMachineNetworkConfigResourceName :: string where
  "VirtualMachineNetworkConfigResourceName = ''virtualmachinenetworkconfigs''"

text \<open>The types that are added to a scheme, by kind.\<close>

definition addKnownTypes :: "string list" where
  "addKnownTypes = [''IPPool'', ''IPPoolList'', ''VirtualMachineNetworkConfig'', ''VirtualMachineNetworkConfigList'']"

text \<open>The constructors of objects; API version and kind, which the records leave out, come first.\<close>

definition NewIPPool :: "string \<Rightarrow> string \<Rightarrow> IPPool \<Rightarrow> (string \<times> string) \<times> IPPool" where
  "NewIPPool namespace name obj = ((fst SchemeGroupVersion @ ''/'' @ snd SchemeGroupVersion, ''IPPool''),
     obj\<lparr>ip_Meta := (ip_Meta obj)\<lparr>om_Name := name, om_Namespace := namespace\<rparr>\<rparr>)"

definition NewVirtualMachineNetworkConfig :: "string \<Rightarrow> string \<Rightarrow> VirtualMachineNetworkConfig \<Rightarrow> (string \<times> string) \<times> VirtualMachineNetworkConfig" where
  "NewVirtualMachineNetworkConfig namespace name obj = ((fst SchemeGroupVersion @ ''/'' @ snd SchemeGroupVersion, ''VirtualMachineNetworkConfig''),
     obj\<lparr>vm_Meta := (vm_Meta obj)\<lparr>om_Name := name, om_Namespace := namespace\<rparr>\<rparr>)"

record group_versions =
  gvs_cni :: group_version
  gvs_kubevirt :: group_version

definition network_NewForConfigAndClient :: "('h, 'r, 'd) rest_lib \<Rightarrow> rest_config \<Rightarrow> 'h \<Rightarrow> go_error + 'r typed_client" where
  "network_NewForConfigAndClient L = typed_NewForConfigAndClient L SchemeGroupVersion"

text \<open>The packages of the CNI and of kubevirt have the same functions.\<close>

definition cni_setConfigDefaults :: "('h, 'r, 'd) rest_lib \<Rightarrow> group_versions \<Rightarrow> rest_config \<Rightarrow> rest_config" where
  "cni_setConfigDefaults L gvs config = setConfigDefaults L (gvs_cni gvs) config"

definition cni_NewForConfigAndClient :: "('h, 'r, 'd) rest_lib \<Rightarrow> group_versions \<Rightarrow> rest_config \<Rightarrow> 'h \<Rightarrow> go_error + 'r typed_client" where
  "cni_NewForConfigAndClient L gvs c h =
     (case rl_RESTClientFor L (cni_setConfigDefaults L gvs c) h of
        Inl e \<Rightarrow> Inl e
      | Inr client \<Rightarrow> Inr \<lparr>tc_restClient = client\<rparr>)"

definition cni_NewForConfig :: "('h, 'r, 'd) rest_lib \<Rightarrow> group_versions \<Rightarrow> rest_config \<Rightarrow> go_error + 'r typed_client" where
  "cni_NewForConfig L gvs c =
     (let config = cni_setConfigDefaults L gvs c in
      case rl_HTTPClientFor L config of
        Inl e \<Rightarrow> Inl e
      | Inr h \<Rightarrow> cni_NewForConfigAndClient L gvs config h)"

definition cni_NewForConfigOrDie :: "('h, 'r, 'd) rest_lib \<Rightarrow> group_versions \<Rightarrow> rest_config \<Rightarrow> 'r typed_client outcome" where
  "cni_NewForConfigOrDie L gvs c = or_die (cni_NewForConfig L gvs c)"

definition cni_New :: "'r \<Rightarrow> 'r typed_client" where
  "cni_New c = \<lparr>tc_restClient = c\<rparr>"

definition cni_RESTClient :: "'r typed_client option \<Rightarrow> 'r option" where
  "cni_RESTClient c = (case c of None \<Rightarrow> None | Some t \<Rightarrow> Some (tc_restClient t))"

definition kubevirt_setConfigDefaults :: "('h, 'r, 'd) rest_lib \<Rightarrow> group_versions \<Rightarrow> rest_config \<Rightarrow> rest_config" where
  "kubevirt_setConfigDefaults L gvs config = setConfigDefaults L (gvs_kubevirt gvs) config"

definition kubevirt_NewForConfigAndClient :: "('h, 'r, 'd) rest_lib \<Rightarrow> group_versions \<Rightarrow> rest_config \<Rightarrow> 'h \<Rightarrow> go_error + 'r typed_client" where
  "kubevirt_NewForConfigAndClient L gvs c h =
     (case rl_RESTClientFor L (kubevirt_setConfigDefaults L gvs c) h of
        Inl e \<Rightarrow> Inl e
      | Inr client \<Rightarrow> Inr \<lparr>tc_restClient = client\<rparr>)"

definition kubevirt_NewForConfig :: "('h, 'r, 'd) rest_lib \<Rightarrow> group_versions \<Rightarrow> rest_config \<Rightarrow> go_error + 'r typed_client" where
  "kubevirt_NewForConfig L gvs c =
     (let config = kubevirt_setConfigDefaults L gvs c in
      case rl_HTTPClientFor L config of
        Inl e \<Rightarrow> Inl e
      | Inr h \<Rightarrow> kubevirt_NewForConfigAndClient L gvs config h)"

definition kubevirt_NewForConfigOrDie :: "('h, 'r, 'd) rest_lib \<Rightarrow> group_versions \<Rightarrow> rest_config \<Rightarrow> 'r typed_client outcome" where
  "kubevirt_NewForConfigOrDie L gvs c = or_die (kubevirt_NewForConfig L gvs c)"

definition kubevirt_New :: "'r \<Rightarrow> 'r typed_client" where
  "kubevirt_New c = \<lparr>tc_restClient = c\<rparr>"

definition kubevirt_RESTClient :: "'r typed_client option \<Rightarrow> 'r option" where
  "kubevirt_RESTClient c = (case c of None \<Rightarrow> None | Some t \<Rightarrow> Some (tc_restClient t))"

lemma package_clients:
  "cni_NewForConfigAndClient L gvs = typed_NewForConfigAndClient L (gvs_cni gvs)"
  "kubevirt_NewForConfigAndClient L gvs = typed_NewForConfigAndClient L (gvs_kubevirt gvs)"
  by (simp_all add: fun_eq_iff cni_NewForConfigAndClient_def kubevirt_NewForConfigAndClient_def typed_NewForConfigAndClient_def
      cni_setConfigDefaults_def kubevirt_setConfigDefaults_def)

lemma package_configs:
  "cni_NewForConfig L gvs = typed_NewForConfig L (gvs_cni gvs)" "kubevirt_NewForConfig L gvs = typed_NewForConfig L (gvs_kubevirt gvs)"
  by (simp_all add: fun_eq_iff cni_NewForConfig_def kubevirt_NewForConfig_def typed_NewForConfig_def package_clients
      cni_setConfigDefaults_def kubevirt_setConfigDefaults_def Let_def split: sum.split)

section \<open>The clientset\<close>

record ('r, 'd) Clientset =
  cs_DiscoveryClient :: 'd
  cs_k8sCniCncfIoV1 :: "'r typed_client"
  cs_kubevirtV1 :: "'r typed_client"
  cs_networkV1alpha1 :: "'r typed_client"

definition burst_error :: go_error where
  "burst_error = Errorf ''burst is required to be greater than 0 when RateLimiter is not set and QPS is set to greater than 0''"

definition NewForConfigAndClient :: "('h, 'r, 'd) rest_lib \<Rightarrow> group_versions \<Rightarrow> rest_config \<Rightarrow> 'h \<Rightarrow> go_error + ('r, 'd) Clientset" where
  "NewForConfigAndClient L gvs c h =
     (if rc_RateLimiter c = None \<and> rc_QPS c > 0 \<and> rc_Burst c \<le> 0 then Inl burst_error
      else
        (let c1 = (if rc_RateLimiter c = None \<and> rc_QPS c > 0 then c\<lparr>rc_RateLimiter := Some (rc_QPS c, rc_Burst c)\<rparr> else c) in
         case cni_NewForConfigAndClient L gvs c1 h of Inl e \<Rightarrow> Inl e | Inr cni \<Rightarrow>
         case kubevirt_NewForConfigAndClient L gvs c1 h of Inl e \<Rightarrow> Inl e | Inr kubevirt \<Rightarrow>
         case network_NewForConfigAndClient L c1 h of Inl e \<Rightarrow> Inl e | Inr network \<Rightarrow>
         case rl_DiscoveryFor L c1 h of Inl e \<Rightarrow> Inl e | Inr d \<Rightarrow>
           Inr \<lparr>cs_DiscoveryClient = d, cs_k8sCniCncfIoV1 = cni, cs_kubevirtV1 = kubevirt, cs_networkV1alpha1 = network\<rparr>))"

definition NewForConfig :: "('h, 'r, 'd) rest_lib \<Rightarrow> group_versions \<Rightarrow> rest_config \<Rightarrow> go_error + ('r, 'd) Clientset" where
  "NewForConfig L gvs c =
     (let c1 = (if rc_UserAgent c = [] then c\<lparr>rc_UserAgent := rl_UserAgent L\<rparr> else c) in
      case rl_HTTPClientFor L c1 of
        Inl e \<Rightarrow> Inl e
      | Inr h \<Rightarrow> NewForConfigAndClient L gvs c1 h)"

definition NewForConfigOrDie :: "('h, 'r, 'd) rest_lib \<Rightarrow> group_versions \<Rightarrow> rest_config \<Rightarrow> ('r, 'd) Clientset outcome" where
  "NewForConfigOrDie L gvs c = or_die (NewForConfig L gvs c)"

definition Clientset_New :: "('h, 'r, 'd) rest_lib \<Rightarrow> 'r \<Rightarrow> ('r, 'd) Clientset" where
  "Clientset_New L c = \<lparr>cs_DiscoveryClient = rl_Discovery L c, cs_k8sCniCncfIoV1 = cni_New c, cs_kubevirtV1 = kubevirt_New c,
     cs_networkV1alpha1 = typed_New c\<rparr>"

text \<open>The accessors; a nil clientset has no discovery client.\<close>

definition K8sCniCncfIoV1 :: "('r, 'd) Clientset \<Rightarrow> 'r typed_client" where
  "K8sCniCncfIoV1 c = cs_k8sCniCncfIoV1 c"

definition KubevirtV1 :: "('r, 'd) Clientset \<Rightarrow> 'r typed_client" where
  "KubevirtV1 c = cs_kubevirtV1 c"

definition NetworkV1alpha1 :: "('r, 'd) Clientset \<Rightarrow> 'r typed_client" where
  "NetworkV1alpha1 c = cs_networkV1alpha1 c"

definition Discovery :: "('r, 'd) Clientset option \<Rightarrow> 'd option" where
  "Discovery c = (case c of None \<Rightarrow> None | Some cs \<Rightarrow> Some (cs_DiscoveryClient cs))"

text \<open>The groups whose types are added to the scheme of the clientset, and to that of its fake.\<close>

definition localSchemeBuilder :: "group_versions \<Rightarrow> group_version list" where
  "localSchemeBuilder gvs = [gvs_cni gvs, gvs_kubevirt gvs, SchemeGroupVersion]"

definition fake_localSchemeBuilder :: "group_versions \<Rightarrow> group_version list" where
  "fake_localSchemeBuilder gvs = [gvs_cni gvs, gvs_kubevirt gvs, SchemeGroupVersion]"

section \<open>Clients of one resource\<close>

record 'r resource_client =
  cl_resource :: string
  cl_rest :: "'r option"
  cl_namespace :: string

definition newIPPools :: "'r typed_client \<Rightarrow> string \<Rightarrow> 'r resource_client" where
  "newIPPools c namespace = \<lparr>cl_resource = ''ippools'', cl_rest = RESTClient (Some c), cl_namespace = namespace\<rparr>"

definition newVirtualMachineNetworkConfigs :: "'r typed_client \<Rightarrow> string \<Rightarrow> 'r resource_client" where
  "newVirtualMachineNetworkConfigs c namespace = \<lparr>cl_resource = ''virtualmachinenetworkconfigs'', cl_rest = RESTClient (Some c), cl_namespace = namespace\<rparr>"

definition newNetworkAttachmentDefinitions :: "'r typed_client \<Rightarrow> string \<Rightarrow> 'r resource_client" where
  "newNetworkAttachmentDefinitions c namespace = \<lparr>cl_resource = ''network-attachment-definitions'', cl_rest = cni_RESTClient (Some c), cl_namespace = namespace\<rparr>"

definition newKubeVirts :: "'r typed_client \<Rightarrow> string \<Rightarrow> 'r resource_client" where
  "newKubeVirts c namespace = \<lparr>cl_resource = ''kubevirts'', cl_rest = kubevirt_RESTClient (Some c), cl_namespace = namespace\<rparr>"

definition newVirtualMachines :: "'r typed_client \<Rightarrow> string \<Rightarrow> 'r resource_client" where
  "newVirtualMachines c namespace = \<lparr>cl_resource = ''virtualmachines'', cl_rest = kubevirt_RESTClient (Some c), cl_namespace = namespace\<rparr>"

definition newVirtualMachineInstances :: "'r typed_client \<Rightarrow> string \<Rightarrow> 'r resource_client" where
  "newVirtualMachineInstances c namespace = \<lparr>cl_resource = ''virtualmachineinstances'', cl_rest = kubevirt_RESTClient (Some c), cl_namespace = namespace\<rparr>"

definition newVirtualMachineInstanceMigrations :: "'r typed_client \<Rightarrow> string \<Rightarrow> 'r resource_client" where
  "newVirtualMachineInstanceMigrations c namespace = \<lparr>cl_resource = ''virtualmachineinstancemigrations'', cl_rest = kubevirt_RESTClient (Some c), cl_namespace = namespace\<rparr>"

definition newVirtualMachineInstancePresets :: "'r typed_client \<Rightarrow> string \<Rightarrow> 'r resource_client" where
  "newVirtualMachineInstancePresets c namespace = \<lparr>cl_resource = ''virtualmachineinstancepresets'', cl_rest = kubevirt_RESTClient (Some c), cl_namespace = namespace\<rparr>"

definition newVirtualMachineInstanceReplicaSets :: "'r typed_client \<Rightarrow> string \<Rightarrow> 'r resource_client" where
  "newVirtualMachineInstanceReplicaSets c namespace = \<lparr>cl_resource = ''virtualmachineinstancereplicasets'', cl_rest = kubevirt_RESTClient (Some c), cl_namespace = namespace\<rparr>"

text \<open>The getters of the typed clients.\<close>

definition NetworkV1alpha1Client_IPPools :: "'r typed_client \<Rightarrow> string \<Rightarrow> 'r resource_client" where
  "NetworkV1alpha1Client_IPPools c namespace = newIPPools c namespace"

definition NetworkV1alpha1Client_VirtualMachineNetworkConfigs :: "'r typed_client \<Rightarrow> string \<Rightarrow> 'r resource_client" where
  "NetworkV1alpha1Client_VirtualMachineNetworkConfigs c namespace = newVirtualMachineNetworkConfigs c namespace"

definition K8sCniCncfIoV1Client_NetworkAttachmentDefinitions :: "'r typed_client \<Rightarrow> string \<Rightarrow> 'r resource_client" where
  "K8sCniCncfIoV1Client_NetworkAttachmentDefinitions c namespace = newNetworkAttachmentDefinitions c namespace"

definition KubevirtV1Client_KubeVirts :: "'r typed_client \<Rightarrow> string \<Rightarrow> 'r resource_client" where
  "KubevirtV1Client_KubeVirts c namespace = newKubeVirts c namespace"

definition KubevirtV1Client_VirtualMachines :: "'r typed_client \<Rightarrow> string \<Rightarrow> 'r resource_client" where
  "KubevirtV1Client_VirtualMachines c namespace = newVirtualMachines c namespace"

definition KubevirtV1Client_VirtualMachineInstances :: "'r typed_client \<Rightarrow> string \<Rightarrow> 'r resource_client" where
  "KubevirtV1Client_VirtualMachineInstances c namespace = newVirtualMachineInstances c namespace"

definition KubevirtV1Client_VirtualMachineInstanceMigrations :: "'r typed_client \<Rightarrow> string \<Rightarrow> 'r resource_client" where
  "KubevirtV1Client_VirtualMachineInstanceMigrations c namespace = newVirtualMachineInstanceMigrations c namespace"

definition KubevirtV1Client_VirtualMachineInstancePresets :: "'r typed_client \<Rightarrow> string \<Rightarrow> 'r resource_client" where
  "KubevirtV1Client_VirtualMachineInstancePresets c namespace = newVirtualMachineInstancePresets c namespace"

definition KubevirtV1Client_VirtualMachineInstanceReplicaSets :: "'r typed_client \<Rightarrow> string \<Rightarrow> 'r resource_client" where
  "KubevirtV1Client_VirtualMachineInstanceReplicaSets c namespace = newVirtualMachineInstanceReplicaSets c namespace"

text \<open>What the informer of the agent lists and watches.\<close>

definition listener_watcher :: "('r, 'd) Clientset \<Rightarrow> string \<times> string \<Rightarrow> 'r resource_client" where
  "listener_watcher cs poolRef = \<lparr>cl_resource = ''ippools'', cl_rest = RESTClient (Some (NetworkV1alpha1 cs)), cl_namespace = fst poolRef\<rparr>"

section \<open>Fakes and controllers\<close>

record fake_client =
  fc_namespace :: string
  fc_resource :: "group_version \<times> string"
  fc_kind :: "group_version \<times> string"

definition newFakeIPPools :: "string \<Rightarrow> fake_client" where
  "newFakeIPPools namespace = \<lparr>fc_namespace = namespace, fc_resource = (SchemeGroupVersion, ''ippools''), fc_kind = (SchemeGroupVersion, ''IPPool'')\<rparr>"

definition newFakeVirtualMachineNetworkConfigs :: "string \<Rightarrow> fake_client" where
  "newFakeVirtualMachineNetworkConfigs namespace = \<lparr>fc_namespace = namespace, fc_resource = (SchemeGroupVersion, ''virtualmachinenetworkconfigs''),
     fc_kind = (SchemeGroupVersion, ''VirtualMachineNetworkConfig'')\<rparr>"

definition newFakeNetworkAttachmentDefinitions :: "group_versions \<Rightarrow> string \<Rightarrow> fake_client" where
  "newFakeNetworkAttachmentDefinitions gvs namespace = \<lparr>fc_namespace = namespace, fc_resource = (gvs_cni gvs, ''network-attachment-definitions''),
     fc_kind = (gvs_cni gvs, ''NetworkAttachmentDefinition'')\<rparr>"

definition newFakeKubeVirts :: "group_versions \<Rightarrow> string \<Rightarrow> fake_client" where
  "newFakeKubeVirts gvs namespace = \<lparr>fc_namespace = namespace, fc_resource = (gvs_kubevirt gvs, ''kubevirts''), fc_kind = (gvs_kubevirt gvs, ''KubeVirt'')\<rparr>"

definition newFakeVirtualMachines :: "group_versions \<Rightarrow> string \<Rightarrow> fake_client" where
  "newFakeVirtualMachines gvs namespace = \<lparr>fc_namespace = namespace, fc_resource = (gvs_kubevirt gvs, ''virtualmachines''), fc_kind = (gvs_kubevirt gvs, ''VirtualMachine'')\<rparr>"

definition newFakeVirtualMachineInstances :: "group_versions \<Rightarrow> string \<Rightarrow> fake_client" where
  "newFakeVirtualMachineInstances gvs namespace = \<lparr>fc_namespace = namespace, fc_resource = (gvs_kubevirt gvs, ''virtualmachineinstances''),
     fc_kind = (gvs_kubevirt gvs, ''VirtualMachineInstance'')\<rparr>"

definition newFakeVirtualMachineInstanceMigrations :: "group_versions \<Rightarrow> string \<Rightarrow> fake_client" where
  "newFakeVirtualMachineInstanceMigrations gvs namespace = \<lparr>fc_namespace = namespace, fc_resource = (gvs_kubevirt gvs, ''virtualmachineinstancemigrations''),
     fc_kind = (gvs_kubevirt gvs, ''VirtualMachineInstanceMigration'')\<rparr>"

definition newFakeVirtualMachineInstancePresets :: "group_versions \<Rightarrow> string \<Rightarrow> fake_client" where
  "newFakeVirtualMachineInstancePresets gvs namespace = \<lparr>fc_namespace = namespace, fc_resource = (gvs_kubevirt gvs, ''virtualmachineinstancepresets''),
     fc_kind = (gvs_kubevirt gvs, ''VirtualMachineInstancePreset'')\<rparr>"

definition newFakeVirtualMachineInstanceReplicaSets :: "group_versions \<Rightarrow> string \<Rightarrow> fake_client" where
  "newFakeVirtualMachineInstanceReplicaSets gvs namespace = \<lparr>fc_namespace = namespace, fc_resource = (gvs_kubevirt gvs, ''virtualmachineinstancereplicasets''),
     fc_kind = (gvs_kubevirt gvs, ''VirtualMachineInstanceReplicaSet'')\<rparr>"

text \<open>The getters of the fake clients, and what the fakes of the typed clients return for their REST client: a nil pointer.\<close>

definition FakeNetworkV1alpha1_IPPools :: "string \<Rightarrow> fake_client" where
  "FakeNetworkV1alpha1_IPPools namespace = newFakeIPPools namespace"

definition FakeNetworkV1alpha1_VirtualMachineNetworkConfigs :: "string \<Rightarrow> fake_client" where
  "FakeNetworkV1alpha1_VirtualMachineNetworkConfigs namespace = newFakeVirtualMachineNetworkConfigs namespace"

definition FakeNetworkV1alpha1_RESTClient :: "'r option" where
  "FakeNetworkV1alpha1_RESTClient = None"

definition FakeK8sCniCncfIoV1_NetworkAttachmentDefinitions :: "group_versions \<Rightarrow> string \<Rightarrow> fake_client" where
  "FakeK8sCniCncfIoV1_NetworkAttachmentDefinitions gvs namespace = newFakeNetworkAttachmentDefinitions gvs namespace"

definition FakeK8sCniCncfIoV1_RESTClient :: "'r option" where
  "FakeK8sCniCncfIoV1_RESTClient = None"

definition FakeKubevirtV1_KubeVirts :: "group_versions \<Rightarrow> string \<Rightarrow> fake_client" where
  "FakeKubevirtV1_KubeVirts gvs namespace = newFakeKubeVirts gvs namespace"

definition FakeKubevirtV1_VirtualMachines :: "group_versions \<Rightarrow> string \<Rightarrow> fake_client" where
  "FakeKubevirtV1_VirtualMachines gvs namespace = newFakeVirtualMachines gvs namespace"

definition FakeKubevirtV1_VirtualMachineInstances :: "group_versions \<Rightarrow> string \<Rightarrow> fake_client" where
  "FakeKubevirtV1_VirtualMachineInstances gvs namespace = newFakeVirtualMachineInstances gvs namespace"

definition FakeKubevirtV1_VirtualMachineInstanceMigrations :: "group_versions \<Rightarrow> string \<Rightarrow> fake_client" where
  "FakeKubevirtV1_VirtualMachineInstanceMigrations gvs namespace = newFakeVirtualMachineInstanceMigrations gvs namespace"

definition FakeKubevirtV1_VirtualMachineInstancePresets :: "group_versions \<Rightarrow> string \<Rightarrow> fake_client" where
  "FakeKubevirtV1_VirtualMachineInstancePresets gvs namespace = newFakeVirtualMachineInstancePresets gvs namespace"

definition FakeKubevirtV1_VirtualMachineInstanceReplicaSets :: "group_versions \<Rightarrow> string \<Rightarrow> fake_client" where
  "FakeKubevirtV1_VirtualMachineInstanceReplicaSets gvs namespace = newFakeVirtualMachineInstanceReplicaSets gvs namespace"

definition FakeKubevirtV1_RESTClient :: "'r option" where
  "FakeKubevirtV1_RESTClient = None"

text \<open>The groups and versions of the wrangler factories pass the controller factory on.\<close>

record 's api_group =
  gp_controllerFactory :: 's

record 's api_version =
  av_controllerFactory :: 's

definition network_version :: "'s \<Rightarrow> 's api_version" where [simp]:
  "network_version f = \<lparr>av_controllerFactory = f\<rparr>"

definition network_group :: "'s \<Rightarrow> 's api_group" where [simp]:
  "network_group f = \<lparr>gp_controllerFactory = f\<rparr>"

definition network_V1alpha1 :: "'s api_group \<Rightarrow> 's api_version" where [simp]:
  "network_V1alpha1 g = network_version (gp_controllerFactory g)"

definition core_version :: "'s \<Rightarrow> 's api_version" where [simp]:
  "core_version f = \<lparr>av_controllerFactory = f\<rparr>"

definition core_group :: "'s \<Rightarrow> 's api_group" where [simp]:
  "core_group f = \<lparr>gp_controllerFactory = f\<rparr>"

definition core_V1 :: "'s api_group \<Rightarrow> 's api_version" where [simp]:
  "core_V1 g = core_version (gp_controllerFactory g)"

definition cni_version :: "'s \<Rightarrow> 's api_version" where [simp]:
  "cni_version f = \<lparr>av_controllerFactory = f\<rparr>"

definition cni_group :: "'s \<Rightarrow> 's api_group" where [simp]:
  "cni_group f = \<lparr>gp_controllerFactory = f\<rparr>"

definition cni_V1 :: "'s api_group \<Rightarrow> 's api_version" where [simp]:
  "cni_V1 g = cni_version (gp_controllerFactory g)"

definition kubevirt_version :: "'s \<Rightarrow> 's api_version" where [simp]:
  "kubevirt_version f = \<lparr>av_controllerFactory = f\<rparr>"

definition kubevirt_group :: "'s \<Rightarrow> 's api_group" where [simp]:
  "kubevirt_group f = \<lparr>gp_controllerFactory = f\<rparr>"

definition kubevirt_V1 :: "'s api_group \<Rightarrow> 's api_version" where [simp]:
  "kubevirt_V1 g = kubevirt_version (gp_controllerFactory g)"

text \<open>The controllers of the wrangler factories: \<open>generic.NewController\<close> is given kind, resource, scope and controller factory.\<close>

record 'f controller_ref =
  cr_kind :: "group_version \<times> string"
  cr_resource :: string
  cr_namespaced :: bool
  cr_factory :: 'f

definition version_IPPool :: "'f api_version \<Rightarrow> 'f controller_ref" where
  "version_IPPool v = \<lparr>cr_kind = ((''network.harvesterhci.io'', ''v1alpha1''), ''IPPool''), cr_resource = ''ippools'', cr_namespaced = True, cr_factory = av_controllerFactory v\<rparr>"

definition version_VirtualMachineNetworkConfig :: "'f api_version \<Rightarrow> 'f controller_ref" where
  "version_VirtualMachineNetworkConfig v = \<lparr>cr_kind = ((''network.harvesterhci.io'', ''v1alpha1''), ''VirtualMachineNetworkConfig''),
     cr_resource = ''virtualmachinenetworkconfigs'', cr_namespaced = True, cr_factory = av_controllerFactory v\<rparr>"

definition version_NetworkAttachmentDefinition :: "'f api_version \<Rightarrow> 'f controller_ref" where
  "version_NetworkAttachmentDefinition v = \<lparr>cr_kind = ((''k8s.cni.cncf.io'', ''v1''), ''NetworkAttachmentDefinition''),
     cr_resource = ''network-attachment-definitions'', cr_namespaced = True, cr_factory = av_controllerFactory v\<rparr>"

definition version_VirtualMachine :: "'f api_version \<Rightarrow> 'f controller_ref" where
  "version_VirtualMachine v = \<lparr>cr_kind = ((''kubevirt.io'', ''v1''), ''VirtualMachine''), cr_resource = ''virtualmachines'', cr_namespaced = True, cr_factory = av_controllerFactory v\<rparr>"

definition version_Pod :: "'f api_version \<Rightarrow> 'f controller_ref" where
  "version_Pod v = \<lparr>cr_kind = (([], ''v1''), ''Pod''), cr_resource = ''pods'', cr_namespaced = True, cr_factory = av_controllerFactory v\<rparr>"

text \<open>Nodes have no namespace: their controller is made by \<open>generic.NewNonNamespacedController\<close>.\<close>

definition version_Node :: "'f api_version \<Rightarrow> 'f controller_ref" where
  "version_Node v = \<lparr>cr_kind = (([], ''v1''), ''Node''), cr_resource = ''nodes'', cr_namespaced = False, cr_factory = av_controllerFactory v\<rparr>"

section \<open>Addresses\<close>

text \<open>
  The address of a resource.  client-go's REST client takes the group and version from its
  configuration: \<open>gv_law\<close>, for a function that reads them from the client.
\<close>

definition gv_law :: "('h, 'r, 'd) rest_lib \<Rightarrow> ('r \<Rightarrow> group_version) \<Rightarrow> bool" where
  "gv_law L gv_of \<longleftrightarrow> (\<forall>c h r. rl_RESTClientFor L c h = Inr r \<longrightarrow> rc_GroupVersion c = Some (gv_of r))"

definition address :: "('r \<Rightarrow> group_version) \<Rightarrow> 'r resource_client \<Rightarrow> (group_version \<times> string) \<times> string" where
  "address gv_of c = ((gv_of (the (cl_rest c)), cl_resource c), cl_namespace c)"

definition fake_address :: "fake_client \<Rightarrow> (group_version \<times> string) \<times> string" where
  "fake_address c = (fc_resource c, fc_namespace c)"

lemma typed_client_gv:
  assumes "gv_law L gv_of" "typed_NewForConfigAndClient L gv c h = Inr t"
  shows "gv_of (tc_restClient t) = gv"
proof -
  from assms(2) have r: "rl_RESTClientFor L (setConfigDefaults L gv c) h = Inr (tc_restClient t)"
    by (auto simp: typed_NewForConfigAndClient_def split: sum.splits)
  have "rc_GroupVersion (setConfigDefaults L gv c) = Some gv" by (simp add: setConfigDefaults_def Let_def)
  with assms(1) r show ?thesis by (auto simp: gv_law_def)
qed

lemma NewForConfigAndClient_gvs:
  assumes "gv_law L gv_of" "NewForConfigAndClient L gvs c h = Inr cs"
  shows "gv_of (tc_restClient (cs_networkV1alpha1 cs)) = SchemeGroupVersion" "gv_of (tc_restClient (cs_k8sCniCncfIoV1 cs)) = gvs_cni gvs"
    "gv_of (tc_restClient (cs_kubevirtV1 cs)) = gvs_kubevirt gvs"
proof -
  from assms(2) obtain c1 where "network_NewForConfigAndClient L c1 h = Inr (cs_networkV1alpha1 cs)"
    "cni_NewForConfigAndClient L gvs c1 h = Inr (cs_k8sCniCncfIoV1 cs)" "kubevirt_NewForConfigAndClient L gvs c1 h = Inr (cs_kubevirtV1 cs)"
    by (auto simp: NewForConfigAndClient_def Let_def split: if_splits sum.splits)
  then show "gv_of (tc_restClient (cs_networkV1alpha1 cs)) = SchemeGroupVersion" "gv_of (tc_restClient (cs_k8sCniCncfIoV1 cs)) = gvs_cni gvs"
    "gv_of (tc_restClient (cs_kubevirtV1 cs)) = gvs_kubevirt gvs"
    unfolding network_NewForConfigAndClient_def package_clients
    by (blast dest: typed_client_gv [OF assms(1)])+
qed

lemmas client_defs = address_def fake_address_def RESTClient_def newIPPools_def newVirtualMachineNetworkConfigs_def newNetworkAttachmentDefinitions_def
  newKubeVirts_def newVirtualMachines_def newVirtualMachineInstances_def newVirtualMachineInstanceMigrations_def newVirtualMachineInstancePresets_def
  newVirtualMachineInstanceReplicaSets_def newFakeIPPools_def newFakeVirtualMachineNetworkConfigs_def newFakeNetworkAttachmentDefinitions_def
  newFakeKubeVirts_def newFakeVirtualMachines_def newFakeVirtualMachineInstances_def newFakeVirtualMachineInstanceMigrations_def
  newFakeVirtualMachineInstancePresets_def newFakeVirtualMachineInstanceReplicaSets_def listener_watcher_def
  K8sCniCncfIoV1_def KubevirtV1_def NetworkV1alpha1_def cni_RESTClient_def kubevirt_RESTClient_def
  NetworkV1alpha1Client_IPPools_def NetworkV1alpha1Client_VirtualMachineNetworkConfigs_def K8sCniCncfIoV1Client_NetworkAttachmentDefinitions_def
  KubevirtV1Client_KubeVirts_def KubevirtV1Client_VirtualMachines_def KubevirtV1Client_VirtualMachineInstances_def
  KubevirtV1Client_VirtualMachineInstanceMigrations_def KubevirtV1Client_VirtualMachineInstancePresets_def KubevirtV1Client_VirtualMachineInstanceReplicaSets_def
  FakeNetworkV1alpha1_IPPools_def FakeNetworkV1alpha1_VirtualMachineNetworkConfigs_def FakeK8sCniCncfIoV1_NetworkAttachmentDefinitions_def
  FakeKubevirtV1_KubeVirts_def FakeKubevirtV1_VirtualMachines_def FakeKubevirtV1_VirtualMachineInstances_def
  FakeKubevirtV1_VirtualMachineInstanceMigrations_def FakeKubevirtV1_VirtualMachineInstancePresets_def FakeKubevirtV1_VirtualMachineInstanceReplicaSets_def

text \<open>The resources of the three groups, with their clients, fakes and controllers.\<close>

datatype client_kind = IPPools | VirtualMachineNetworkConfigs | NetworkAttachmentDefinitions | KubeVirts | VirtualMachines |
  VirtualMachineInstances | VirtualMachineInstanceMigrations | VirtualMachineInstancePresets | VirtualMachineInstanceReplicaSets

fun client_of :: "('r, 'd) Clientset \<Rightarrow> client_kind \<Rightarrow> string \<Rightarrow> 'r resource_client" where
  "client_of cs IPPools = NetworkV1alpha1Client_IPPools (NetworkV1alpha1 cs)"
| "client_of cs VirtualMachineNetworkConfigs = NetworkV1alpha1Client_VirtualMachineNetworkConfigs (NetworkV1alpha1 cs)"
| "client_of cs NetworkAttachmentDefinitions = K8sCniCncfIoV1Client_NetworkAttachmentDefinitions (K8sCniCncfIoV1 cs)"
| "client_of cs KubeVirts = KubevirtV1Client_KubeVirts (KubevirtV1 cs)"
| "client_of cs VirtualMachines = KubevirtV1Client_VirtualMachines (KubevirtV1 cs)"
| "client_of cs VirtualMachineInstances = KubevirtV1Client_VirtualMachineInstances (KubevirtV1 cs)"
| "client_of cs VirtualMachineInstanceMigrations = KubevirtV1Client_VirtualMachineInstanceMigrations (KubevirtV1 cs)"
| "client_of cs VirtualMachineInstancePresets = KubevirtV1Client_VirtualMachineInstancePresets (KubevirtV1 cs)"
| "client_of cs VirtualMachineInstanceReplicaSets = KubevirtV1Client_VirtualMachineInstanceReplicaSets (KubevirtV1 cs)"

fun fake_of :: "group_versions \<Rightarrow> client_kind \<Rightarrow> string \<Rightarrow> fake_client" where
  "fake_of gvs IPPools = FakeNetworkV1alpha1_IPPools"
| "fake_of gvs VirtualMachineNetworkConfigs = FakeNetworkV1alpha1_VirtualMachineNetworkConfigs"
| "fake_of gvs NetworkAttachmentDefinitions = FakeK8sCniCncfIoV1_NetworkAttachmentDefinitions gvs"
| "fake_of gvs KubeVirts = FakeKubevirtV1_KubeVirts gvs"
| "fake_of gvs VirtualMachines = FakeKubevirtV1_VirtualMachines gvs"
| "fake_of gvs VirtualMachineInstances = FakeKubevirtV1_VirtualMachineInstances gvs"
| "fake_of gvs VirtualMachineInstanceMigrations = FakeKubevirtV1_VirtualMachineInstanceMigrations gvs"
| "fake_of gvs VirtualMachineInstancePresets = FakeKubevirtV1_VirtualMachineInstancePresets gvs"
| "fake_of gvs VirtualMachineInstanceReplicaSets = FakeKubevirtV1_VirtualMachineInstanceReplicaSets gvs"

fun controller_of :: "client_kind \<Rightarrow> 'f \<Rightarrow> 'f controller_ref option" where
  "controller_of IPPools f = Some (version_IPPool (network_V1alpha1 (network_group f)))"
| "controller_of VirtualMachineNetworkConfigs f = Some (version_VirtualMachineNetworkConfig (network_V1alpha1 (network_group f)))"
| "controller_of NetworkAttachmentDefinitions f = Some (version_NetworkAttachmentDefinition (cni_V1 (cni_group f)))"
| "controller_of VirtualMachines f = Some (version_VirtualMachine (kubevirt_V1 (kubevirt_group f)))"
| "controller_of _ f = None"

text \<open>The groups that the packages of kubevirt and of the CNI publish.\<close>

definition published :: "group_versions \<Rightarrow> bool" where
  "published gvs \<longleftrightarrow> gvs_cni gvs = (''k8s.cni.cncf.io'', ''v1'') \<and> gvs_kubevirt gvs = (''kubevirt.io'', ''v1'')"

lemma client_address:
  assumes "gv_of (tc_restClient (cs_networkV1alpha1 cs)) = SchemeGroupVersion" "gv_of (tc_restClient (cs_k8sCniCncfIoV1 cs)) = gvs_cni gvs"
    "gv_of (tc_restClient (cs_kubevirtV1 cs)) = gvs_kubevirt gvs"
  shows "address gv_of (client_of cs k ns) = fake_address (fake_of gvs k ns)"
  by (cases k) (simp_all add: assms client_defs)

lemma client_scheme: "fst (fst (fake_address (fake_of gvs k ns))) \<in> set (localSchemeBuilder gvs) \<inter> set (fake_localSchemeBuilder gvs)"
  by (cases k) (simp_all add: client_defs localSchemeBuilder_def fake_localSchemeBuilder_def)

lemma controller_known:
  assumes "controller_of k f = Some ref" "fst (cr_kind ref) = SchemeGroupVersion"
  shows "snd (cr_kind ref) \<in> set addKnownTypes \<and>
    Resource (cr_resource ref) \<in> {Resource IPPoolResourceName, Resource VirtualMachineNetworkConfigResourceName}"
  using assms by (cases k) (auto simp: addKnownTypes_def Resource_def IPPoolResourceName_def VirtualMachineNetworkConfigResourceName_def version_IPPool_def
      version_VirtualMachineNetworkConfig_def version_NetworkAttachmentDefinition_def version_VirtualMachine_def SchemeGroupVersion_def GroupName_def)

lemma controller_address:
  assumes "published gvs" "controller_of k f = Some ref"
  shows "((fst (cr_kind ref), cr_resource ref), ns) = fake_address (fake_of gvs k ns) \<and> cr_kind ref = fc_kind (fake_of gvs k ns)"
  using assms by (cases k) (auto simp: published_def client_defs version_IPPool_def version_VirtualMachineNetworkConfig_def
      version_NetworkAttachmentDefinition_def version_VirtualMachine_def SchemeGroupVersion_def GroupName_def)

text \<open>
  [C26] A clientset made from any configuration, whatever group, version or path that names, addresses
  every resource of the three groups as its fake does, and so do the controllers of the factories,
  of the same kind as the fake, if the groups of the other packages are the published ones; the groups
  are added to the schemes of the clientset and of its fake, with the kinds of this repository; the informer of the agent watches what the client of the pools in its namespace reads.
\<close>

theorem clients_agree:
  assumes "gv_law L gv_of" "NewForConfig L gvs c = Inr cs" "published gvs"
  shows "address gv_of (client_of cs k ns) = fake_address (fake_of gvs k ns) \<and>
    fst (fst (address gv_of (client_of cs k ns))) \<in> set (localSchemeBuilder gvs) \<inter> set (fake_localSchemeBuilder gvs) \<and>
    (\<forall>f ref. controller_of k f = Some ref \<longrightarrow>
       ((fst (cr_kind ref), cr_resource ref), ns) = address gv_of (client_of cs k ns) \<and> cr_kind ref = fc_kind (fake_of gvs k ns) \<and>
       (fst (cr_kind ref) = SchemeGroupVersion \<longrightarrow> snd (cr_kind ref) \<in> set addKnownTypes)) \<and>
    address gv_of (listener_watcher cs (ns, name)) = address gv_of (client_of cs IPPools ns)"
proof -
  obtain c1 h where "NewForConfigAndClient L gvs c1 h = Inr cs"
    using assms(2) by (auto simp: NewForConfig_def Let_def split: sum.splits if_splits)
  note a = client_address [OF NewForConfigAndClient_gvs [OF assms(1) this]]
  have "address gv_of (listener_watcher cs (ns, name)) = address gv_of (client_of cs IPPools ns)" by (simp add: client_defs)
  with a client_scheme controller_address [OF assms(3)] controller_known show ?thesis by metis
qed

text \<open>A library whose clients are their configurations.\<close>

definition config_lib :: "(unit, rest_config, rest_config) rest_lib" where
  "config_lib = \<lparr>rl_UserAgent = ''agent'', rl_Codec = ''json'', rl_HTTPClientFor = (\<lambda>_. Inr ()), rl_RESTClientFor = (\<lambda>c _. case rc_GroupVersion c of None \<Rightarrow> Inl (ExternalError []) | Some _ \<Rightarrow> Inr c),
     rl_DiscoveryFor = (\<lambda>c _. Inr c), rl_Discovery = id\<rparr>"

definition some_config :: rest_config where
  "some_config = \<lparr>rc_Host = ''host'', rc_UserAgent = [], rc_GroupVersion = Some (''other'', ''v0''), rc_APIPath = [], rc_Serializer = [], rc_QPS = 5, rc_Burst = 10, rc_RateLimiter = None\<rparr>"

definition published_groups :: group_versions where
  "published_groups = \<lparr>gvs_cni = (''k8s.cni.cncf.io'', ''v1''), gvs_kubevirt = (''kubevirt.io'', ''v1'')\<rparr>"

lemma some_clientset: "\<exists>cs. NewForConfig config_lib published_groups some_config = Inr cs"
  by (simp add: NewForConfig_def NewForConfigAndClient_def Let_def config_lib_def some_config_def package_clients network_NewForConfigAndClient_def typed_NewForConfigAndClient_def setConfigDefaults_def)

theorem clients_agree_witness:
  "\<exists>cs. NewForConfig config_lib published_groups some_config = Inr cs \<and>
    address (\<lambda>c. the (rc_GroupVersion c)) (client_of cs NetworkAttachmentDefinitions ''default'') =
      (((''k8s.cni.cncf.io'', ''v1''), ''network-attachment-definitions''), ''default'')"
proof -
  obtain cs where cs: "NewForConfig config_lib published_groups some_config = Inr cs" using some_clientset by blast
  have "gv_law config_lib (\<lambda>c. the (rc_GroupVersion c))" by (auto simp: gv_law_def config_lib_def split: option.splits)
  moreover have "published published_groups" by (simp add: published_def published_groups_def)
  ultimately show ?thesis
    using clients_agree [of config_lib "\<lambda>c. the (rc_GroupVersion c)" published_groups some_config cs NetworkAttachmentDefinitions "''default''"] cs
    by (auto simp: fake_address_def newFakeNetworkAttachmentDefinitions_def FakeK8sCniCncfIoV1_NetworkAttachmentDefinitions_def published_groups_def)
qed

section \<open>One HTTP client and one rate limiter\<close>

text \<open>
  The clients of a clientset share one HTTP client and one rate limiter: all are made from the same
  configuration, with the limiter of the caller or the token bucket of its rate and burst; a rate
  without a burst is refused before any client is made.
\<close>

theorem clientset_shares_limiter:
  assumes "rl_HTTPClientFor L (if rc_UserAgent c = [] then c\<lparr>rc_UserAgent := rl_UserAgent L\<rparr> else c) = Inr h"
  shows "(rc_RateLimiter c = None \<and> rc_QPS c > 0 \<and> rc_Burst c \<le> 0 \<longrightarrow> NewForConfig L gvs c = Inl burst_error) \<and>
    (\<forall>cs. NewForConfig L gvs c = Inr cs \<longrightarrow> (\<exists>c1.
       rc_RateLimiter c1 = (if rc_RateLimiter c = None \<and> rc_QPS c > 0 then Some (rc_QPS c, rc_Burst c) else rc_RateLimiter c) \<and>
       rc_Host c1 = rc_Host c \<and> (rc_RateLimiter c1 = None \<or> rc_RateLimiter c \<noteq> None \<or> rc_Burst c > 0) \<and>
       rl_RESTClientFor L (setConfigDefaults L (gvs_cni gvs) c1) h = Inr (tc_restClient (cs_k8sCniCncfIoV1 cs)) \<and>
       rl_RESTClientFor L (setConfigDefaults L (gvs_kubevirt gvs) c1) h = Inr (tc_restClient (cs_kubevirtV1 cs)) \<and>
       rl_RESTClientFor L (setConfigDefaults L SchemeGroupVersion c1) h = Inr (tc_restClient (cs_networkV1alpha1 cs)) \<and>
       rl_DiscoveryFor L c1 h = Inr (cs_DiscoveryClient cs)))"
proof -
  let ?c = "if rc_UserAgent c = [] then c\<lparr>rc_UserAgent := rl_UserAgent L\<rparr> else c"
  let ?c1 = "if rc_RateLimiter c = None \<and> rc_QPS c > 0 then ?c\<lparr>rc_RateLimiter := Some (rc_QPS c, rc_Burst c)\<rparr> else ?c"
  have n: "NewForConfig L gvs c = NewForConfigAndClient L gvs ?c h" using assms by (simp add: NewForConfig_def Let_def)
  show ?thesis
  proof (intro conjI impI allI exI [of _ ?c1])
    assume "rc_RateLimiter c = None \<and> rc_QPS c > 0 \<and> rc_Burst c \<le> 0"
    then show "NewForConfig L gvs c = Inl burst_error" unfolding n by (simp add: NewForConfigAndClient_def)
  qed (auto simp: n NewForConfigAndClient_def Let_def package_clients network_NewForConfigAndClient_def typed_NewForConfigAndClient_def split: if_splits sum.splits)
qed

theorem clientset_shares_limiter_witness:
  "NewForConfig config_lib published_groups (some_config\<lparr>rc_Burst := 0\<rparr>) = Inl burst_error"
  using clientset_shares_limiter [of config_lib "some_config\<lparr>rc_Burst := 0\<rparr>" "()" published_groups]
  by (simp add: some_config_def config_lib_def)

end
