(* ===== verification/Setup.thy ===== *)
theory Setup
  imports Assets Clients
begin

text \<open>
  How the processes are put together: the wrangler factories and \<open>SetupManagement\<close> of \<open>pkg/config\<close>, the
  registration of the controllers, the flags and the start of the three commands, the gauges of
  \<open>pkg/metrics\<close>, and the options of the HTTP servers.  The constructors of wrangler, lasso and
  client-go are parameters.
\<close>

section \<open>Factories\<close>

record 's factory_options =
  fo_Namespace :: string
  fo_SharedControllerFactory :: "'s option"

text \<open>
  \<open>generic.NewFactoryFromConfigWithOptions\<close> is a parameter; the string tells the calls of the four
  packages apart.  The factory is returned also with an error.
\<close>

type_synonym ('s, 'f) generic_factory = "string \<Rightarrow> rest_config \<Rightarrow> 's factory_options option \<Rightarrow> 'f gores"

record 'f Factory =
  fac_pkg :: string
  fac_Factory :: 'f

definition NewFactoryFromConfigWithOptions :: "('s, 'f) generic_factory \<Rightarrow> string \<Rightarrow> rest_config \<Rightarrow> 's factory_options option \<Rightarrow> 'f Factory gores" where
  "NewFactoryFromConfigWithOptions gen pkg config opts =
     (case gen pkg config opts of (f, err) \<Rightarrow> (\<lparr>fac_pkg = pkg, fac_Factory = f\<rparr>, err))"

definition NewFactoryFromConfig :: "('s, 'f) generic_factory \<Rightarrow> string \<Rightarrow> rest_config \<Rightarrow> 'f Factory gores" where
  "NewFactoryFromConfig gen pkg config = NewFactoryFromConfigWithOptions gen pkg config None"

definition NewFactoryFromConfigWithNamespace :: "('s, 'f) generic_factory \<Rightarrow> string \<Rightarrow> rest_config \<Rightarrow> string \<Rightarrow> 'f Factory gores" where
  "NewFactoryFromConfigWithNamespace gen pkg config namespace =
     NewFactoryFromConfigWithOptions gen pkg config (Some \<lparr>fo_Namespace = namespace, fo_SharedControllerFactory = None\<rparr>)"

definition unless_error :: "'a gores \<Rightarrow> 'a outcome" where
  "unless_error r = (case r of (x, None) \<Rightarrow> Ret x | (_, Some e) \<Rightarrow> Panic ''error'')"

definition NewFactoryFromConfigOrDie :: "('s, 'f) generic_factory \<Rightarrow> string \<Rightarrow> rest_config \<Rightarrow> 'f Factory outcome" where
  "NewFactoryFromConfigOrDie gen pkg config = unless_error (NewFactoryFromConfig gen pkg config)"

definition NewFactoryFromConfigWithOptionsOrDie :: "('s, 'f) generic_factory \<Rightarrow> string \<Rightarrow> rest_config \<Rightarrow> 's factory_options option \<Rightarrow> 'f Factory outcome" where
  "NewFactoryFromConfigWithOptionsOrDie gen pkg config opts = unless_error (NewFactoryFromConfigWithOptions gen pkg config opts)"

abbreviation network_pkg :: string where "network_pkg \<equiv> ''network''"
abbreviation core_pkg :: string where "core_pkg \<equiv> ''core''"
abbreviation cni_pkg :: string where "cni_pkg \<equiv> ''k8s''"
abbreviation kubevirt_pkg :: string where "kubevirt_pkg \<equiv> ''kubevirt''"

text \<open>The factories of the other packages.\<close>

definition core_NewFactoryFromConfigWithOptions :: "('s, 'f) generic_factory \<Rightarrow> rest_config \<Rightarrow> 's factory_options option \<Rightarrow> 'f Factory gores" where [simp]:
  "core_NewFactoryFromConfigWithOptions gen config opts = NewFactoryFromConfigWithOptions gen core_pkg config opts"

definition core_NewFactoryFromConfig :: "('s, 'f) generic_factory \<Rightarrow> rest_config \<Rightarrow> 'f Factory gores" where [simp]:
  "core_NewFactoryFromConfig gen config = core_NewFactoryFromConfigWithOptions gen config None"

definition core_NewFactoryFromConfigWithNamespace :: "('s, 'f) generic_factory \<Rightarrow> rest_config \<Rightarrow> string \<Rightarrow> 'f Factory gores" where [simp]:
  "core_NewFactoryFromConfigWithNamespace gen config namespace =
     core_NewFactoryFromConfigWithOptions gen config (Some \<lparr>fo_Namespace = namespace, fo_SharedControllerFactory = None\<rparr>)"

definition core_NewFactoryFromConfigOrDie :: "('s, 'f) generic_factory \<Rightarrow> rest_config \<Rightarrow> 'f Factory outcome" where [simp]:
  "core_NewFactoryFromConfigOrDie gen config = unless_error (core_NewFactoryFromConfig gen config)"

definition core_NewFactoryFromConfigWithOptionsOrDie :: "('s, 'f) generic_factory \<Rightarrow> rest_config \<Rightarrow> 's factory_options option \<Rightarrow> 'f Factory outcome" where [simp]:
  "core_NewFactoryFromConfigWithOptionsOrDie gen config opts = unless_error (core_NewFactoryFromConfigWithOptions gen config opts)"

definition cni_NewFactoryFromConfigWithOptions :: "('s, 'f) generic_factory \<Rightarrow> rest_config \<Rightarrow> 's factory_options option \<Rightarrow> 'f Factory gores" where [simp]:
  "cni_NewFactoryFromConfigWithOptions gen config opts = NewFactoryFromConfigWithOptions gen cni_pkg config opts"

definition cni_NewFactoryFromConfig :: "('s, 'f) generic_factory \<Rightarrow> rest_config \<Rightarrow> 'f Factory gores" where [simp]:
  "cni_NewFactoryFromConfig gen config = cni_NewFactoryFromConfigWithOptions gen config None"

definition cni_NewFactoryFromConfigWithNamespace :: "('s, 'f) generic_factory \<Rightarrow> rest_config \<Rightarrow> string \<Rightarrow> 'f Factory gores" where [simp]:
  "cni_NewFactoryFromConfigWithNamespace gen config namespace =
     cni_NewFactoryFromConfigWithOptions gen config (Some \<lparr>fo_Namespace = namespace, fo_SharedControllerFactory = None\<rparr>)"

definition cni_NewFactoryFromConfigOrDie :: "('s, 'f) generic_factory \<Rightarrow> rest_config \<Rightarrow> 'f Factory outcome" where [simp]:
  "cni_NewFactoryFromConfigOrDie gen config = unless_error (cni_NewFactoryFromConfig gen config)"

definition cni_NewFactoryFromConfigWithOptionsOrDie :: "('s, 'f) generic_factory \<Rightarrow> rest_config \<Rightarrow> 's factory_options option \<Rightarrow> 'f Factory outcome" where [simp]:
  "cni_NewFactoryFromConfigWithOptionsOrDie gen config opts = unless_error (cni_NewFactoryFromConfigWithOptions gen config opts)"

definition kubevirt_NewFactoryFromConfigWithOptions :: "('s, 'f) generic_factory \<Rightarrow> rest_config \<Rightarrow> 's factory_options option \<Rightarrow> 'f Factory gores" where [simp]:
  "kubevirt_NewFactoryFromConfigWithOptions gen config opts = NewFactoryFromConfigWithOptions gen kubevirt_pkg config opts"

definition kubevirt_NewFactoryFromConfig :: "('s, 'f) generic_factory \<Rightarrow> rest_config \<Rightarrow> 'f Factory gores" where [simp]:
  "kubevirt_NewFactoryFromConfig gen config = kubevirt_NewFactoryFromConfigWithOptions gen config None"

definition kubevirt_NewFactoryFromConfigWithNamespace :: "('s, 'f) generic_factory \<Rightarrow> rest_config \<Rightarrow> string \<Rightarrow> 'f Factory gores" where [simp]:
  "kubevirt_NewFactoryFromConfigWithNamespace gen config namespace =
     kubevirt_NewFactoryFromConfigWithOptions gen config (Some \<lparr>fo_Namespace = namespace, fo_SharedControllerFactory = None\<rparr>)"

definition kubevirt_NewFactoryFromConfigOrDie :: "('s, 'f) generic_factory \<Rightarrow> rest_config \<Rightarrow> 'f Factory outcome" where [simp]:
  "kubevirt_NewFactoryFromConfigOrDie gen config = unless_error (kubevirt_NewFactoryFromConfig gen config)"

definition kubevirt_NewFactoryFromConfigWithOptionsOrDie :: "('s, 'f) generic_factory \<Rightarrow> rest_config \<Rightarrow> 's factory_options option \<Rightarrow> 'f Factory outcome" where [simp]:
  "kubevirt_NewFactoryFromConfigWithOptionsOrDie gen config opts = unless_error (kubevirt_NewFactoryFromConfigWithOptions gen config opts)"

text \<open>The chain from a factory to the controllers of its group; \<open>ControllerFactory\<close> of wrangler is a parameter.\<close>

definition Factory_Network :: "('f \<Rightarrow> 's) \<Rightarrow> 'f Factory \<Rightarrow> 's api_group" where
  "Factory_Network cf c = network_group (cf (fac_Factory c))"

definition network_WithAgent :: "(string \<Rightarrow> 's \<Rightarrow> 's) \<Rightarrow> ('f \<Rightarrow> 's) \<Rightarrow> string \<Rightarrow> 'f Factory \<Rightarrow> 's api_group" where
  "network_WithAgent sharedWithAgent cf userAgent c = network_group (sharedWithAgent userAgent (cf (fac_Factory c)))"

definition Factory_Core :: "('f \<Rightarrow> 's) \<Rightarrow> 'f Factory \<Rightarrow> 's api_group" where
  "Factory_Core cf c = core_group (cf (fac_Factory c))"

definition core_WithAgent :: "(string \<Rightarrow> 's \<Rightarrow> 's) \<Rightarrow> ('f \<Rightarrow> 's) \<Rightarrow> string \<Rightarrow> 'f Factory \<Rightarrow> 's api_group" where
  "core_WithAgent sharedWithAgent cf userAgent c = core_group (sharedWithAgent userAgent (cf (fac_Factory c)))"

definition Factory_K8s :: "('f \<Rightarrow> 's) \<Rightarrow> 'f Factory \<Rightarrow> 's api_group" where
  "Factory_K8s cf c = cni_group (cf (fac_Factory c))"

definition cni_WithAgent :: "(string \<Rightarrow> 's \<Rightarrow> 's) \<Rightarrow> ('f \<Rightarrow> 's) \<Rightarrow> string \<Rightarrow> 'f Factory \<Rightarrow> 's api_group" where
  "cni_WithAgent sharedWithAgent cf userAgent c = cni_group (sharedWithAgent userAgent (cf (fac_Factory c)))"

definition Factory_Kubevirt :: "('f \<Rightarrow> 's) \<Rightarrow> 'f Factory \<Rightarrow> 's api_group" where
  "Factory_Kubevirt cf c = kubevirt_group (cf (fac_Factory c))"

definition kubevirt_WithAgent :: "(string \<Rightarrow> 's \<Rightarrow> 's) \<Rightarrow> ('f \<Rightarrow> 's) \<Rightarrow> string \<Rightarrow> 'f Factory \<Rightarrow> 's api_group" where
  "kubevirt_WithAgent sharedWithAgent cf userAgent c = kubevirt_group (sharedWithAgent userAgent (cf (fac_Factory c)))"

section \<open>Management\<close>

record ('f, 'k) Management =
  mg_HarvesterNetworkFactory :: "'f Factory"
  mg_CniFactory :: "'f Factory"
  mg_CoreFactory :: "'f Factory"
  mg_KubeVirtFactory :: "'f Factory"
  mg_ClientSet :: 'k
  mg_stores :: ctl
  mg_Options :: ControllerOptions
  mg_starters :: "'f Factory list"

definition config_SetupManagement :: "(rest_config \<Rightarrow> go_error + 's) \<Rightarrow> ('s, 'f) generic_factory \<Rightarrow> (rest_config \<Rightarrow> go_error + 'k) \<Rightarrow>
    rest_config \<Rightarrow> ControllerOptions \<Rightarrow> go_error + ('f, 'k) Management" where
  "config_SetupManagement newShared gen newKube restConfig options =
     (case newShared restConfig of Inl e \<Rightarrow> Inl e | Inr factory \<Rightarrow>
      let opts = Some \<lparr>fo_Namespace = [], fo_SharedControllerFactory = Some factory\<rparr> in
      case NewFactoryFromConfigWithOptions gen network_pkg restConfig opts of (_, Some e) \<Rightarrow> Inl e | (harvesterNetwork, None) \<Rightarrow>
      case core_NewFactoryFromConfigWithOptions gen restConfig opts of (_, Some e) \<Rightarrow> Inl e | (core, None) \<Rightarrow>
      case cni_NewFactoryFromConfigWithOptions gen restConfig opts of (_, Some e) \<Rightarrow> Inl e | (cni, None) \<Rightarrow>
      case kubevirt_NewFactoryFromConfigWithOptions gen restConfig opts of (_, Some e) \<Rightarrow> Inl e | (kubevirt, None) \<Rightarrow>
      case newKube restConfig of Inl e \<Rightarrow> Inl e | Inr clientSet \<Rightarrow>
        Inr \<lparr>mg_HarvesterNetworkFactory = harvesterNetwork, mg_CniFactory = cni, mg_CoreFactory = core, mg_KubeVirtFactory = kubevirt,
          mg_ClientSet = clientSet, mg_stores = SetupManagement, mg_Options = options, mg_starters = [harvesterNetwork, core, cni, kubevirt]\<rparr>)"

text \<open>The start of the controller up to the callback; an error there ends the process.\<close>

definition controller_run_setup :: "go_error + rest_config \<Rightarrow> (rest_config \<Rightarrow> go_error + 's) \<Rightarrow> ('s, 'f) generic_factory \<Rightarrow> (rest_config \<Rightarrow> go_error + 'k) \<Rightarrow>
    ControllerOptions \<Rightarrow> go_error + ('f, 'k) Management" where
  "controller_run_setup clientConfig newShared gen newKube options =
     (case clientConfig of Inl e \<Rightarrow> Inl e | Inr cfg \<Rightarrow>
      case newKube cfg of Inl e \<Rightarrow> Inl e | Inr client \<Rightarrow> config_SetupManagement newShared gen newKube cfg options)"

section \<open>Registration\<close>

datatype 's registration =
    StatusHandler "'s controller_ref" string string
  | ChangeHandler "'s controller_ref" string
  | RemoveHandler "'s controller_ref" string
  | RelatedWatch string "'s controller_ref" "'s controller_ref"

type_synonym 's registrations = "'s registration list"

text \<open>
  The generated registration functions, the same for every kind: a status handler, and a
  generating handler, which is a change handler that forgets removed objects and a status handler.
\<close>

definition RegisterIPPoolStatusHandler :: "'s controller_ref \<Rightarrow> string \<Rightarrow> string \<Rightarrow> 's registrations \<Rightarrow> 's registrations" where
  "RegisterIPPoolStatusHandler controller condition name rs = rs @ [StatusHandler controller condition name]"

definition RegisterIPPoolGeneratingHandler :: "'s controller_ref \<Rightarrow> string \<Rightarrow> string \<Rightarrow> 's registrations \<Rightarrow> 's registrations" where
  "RegisterIPPoolGeneratingHandler controller condition name rs =
     RegisterIPPoolStatusHandler controller condition name (rs @ [ChangeHandler controller name])"

definition RegisterVirtualMachineNetworkConfigStatusHandler :: "'s controller_ref \<Rightarrow> string \<Rightarrow> string \<Rightarrow> 's registrations \<Rightarrow> 's registrations" where
  "RegisterVirtualMachineNetworkConfigStatusHandler controller condition name rs = rs @ [StatusHandler controller condition name]"

definition RegisterVirtualMachineNetworkConfigGeneratingHandler :: "'s controller_ref \<Rightarrow> string \<Rightarrow> string \<Rightarrow> 's registrations \<Rightarrow> 's registrations" where
  "RegisterVirtualMachineNetworkConfigGeneratingHandler controller condition name rs =
     RegisterVirtualMachineNetworkConfigStatusHandler controller condition name (rs @ [ChangeHandler controller name])"

definition RegisterVirtualMachineStatusHandler :: "'s controller_ref \<Rightarrow> string \<Rightarrow> string \<Rightarrow> 's registrations \<Rightarrow> 's registrations" where
  "RegisterVirtualMachineStatusHandler controller condition name rs = rs @ [StatusHandler controller condition name]"

definition RegisterVirtualMachineGeneratingHandler :: "'s controller_ref \<Rightarrow> string \<Rightarrow> string \<Rightarrow> 's registrations \<Rightarrow> 's registrations" where
  "RegisterVirtualMachineGeneratingHandler controller condition name rs =
     RegisterVirtualMachineStatusHandler controller condition name (rs @ [ChangeHandler controller name])"

definition RegisterPodStatusHandler :: "'s controller_ref \<Rightarrow> string \<Rightarrow> string \<Rightarrow> 's registrations \<Rightarrow> 's registrations" where
  "RegisterPodStatusHandler controller condition name rs = rs @ [StatusHandler controller condition name]"

definition RegisterPodGeneratingHandler :: "'s controller_ref \<Rightarrow> string \<Rightarrow> string \<Rightarrow> 's registrations \<Rightarrow> 's registrations" where
  "RegisterPodGeneratingHandler controller condition name rs = RegisterPodStatusHandler controller condition name (rs @ [ChangeHandler controller name])"

definition RegisterNodeStatusHandler :: "'s controller_ref \<Rightarrow> string \<Rightarrow> string \<Rightarrow> 's registrations \<Rightarrow> 's registrations" where
  "RegisterNodeStatusHandler controller condition name rs = rs @ [StatusHandler controller condition name]"

definition RegisterNodeGeneratingHandler :: "'s controller_ref \<Rightarrow> string \<Rightarrow> string \<Rightarrow> 's registrations \<Rightarrow> 's registrations" where
  "RegisterNodeGeneratingHandler controller condition name rs = RegisterNodeStatusHandler controller condition name (rs @ [ChangeHandler controller name])"

definition ippool_Register :: "('f \<Rightarrow> 's) \<Rightarrow> ('f, 'k) Management \<Rightarrow> 's registrations \<Rightarrow> go_error option \<times> 's registrations" where
  "ippool_Register cf management rs =
     (let ippools = version_IPPool (network_V1alpha1 (Factory_Network cf (mg_HarvesterNetworkFactory management)));
          pods = version_Pod (core_V1 (Factory_Core cf (mg_CoreFactory management))) in
      (None, RegisterIPPoolStatusHandler ippools AgentReady ''ippool-agent-monitor''
         (RegisterIPPoolStatusHandler ippools CacheReady ''ippool-cache-builder''
           (RegisterIPPoolStatusHandler ippools Registered ''ippool-register'' rs)) @
        [RelatedWatch ''ippool-trigger'' ippools pods,
         ChangeHandler ippools ''vm-dhcp-ippool-controller'', RemoveHandler ippools ''vm-dhcp-ippool-controller'']))"

definition vm_Register :: "('f \<Rightarrow> 's) \<Rightarrow> ('f, 'k) Management \<Rightarrow> 's registrations \<Rightarrow> go_error option \<times> 's registrations" where
  "vm_Register cf management rs =
     (let vms = version_VirtualMachine (kubevirt_V1 (Factory_Kubevirt cf (mg_KubeVirtFactory management))) in
      (None, rs @ [ChangeHandler vms ''vm-dhcp-vm-controller'']))"

definition vmnetcfg_Register :: "('f \<Rightarrow> 's) \<Rightarrow> ('f, 'k) Management \<Rightarrow> 's registrations \<Rightarrow> go_error option \<times> 's registrations" where
  "vmnetcfg_Register cf management rs =
     (let vmnetcfgs = version_VirtualMachineNetworkConfig (network_V1alpha1 (Factory_Network cf (mg_HarvesterNetworkFactory management))) in
      (None, RegisterVirtualMachineNetworkConfigStatusHandler vmnetcfgs InSynced ''vmnetcfg-sync''
         (RegisterVirtualMachineNetworkConfigStatusHandler vmnetcfgs Allocated ''vmnetcfg-allocate'' rs) @
        [ChangeHandler vmnetcfgs ''vm-dhcp-vmnetcfg-controller'', RemoveHandler vmnetcfgs ''vm-dhcp-vmnetcfg-controller'']))"

definition RegisterFuncList :: "('f \<Rightarrow> 's) \<Rightarrow> ('f, 'k) Management \<Rightarrow> ('s registrations \<Rightarrow> go_error option \<times> 's registrations) list" where
  "RegisterFuncList cf management = [ippool_Register cf management, vm_Register cf management, vmnetcfg_Register cf management]"

text \<open>\<open>Register\<close> of the process: the state is what has been applied, and what has been registered.\<close>

definition on_fst :: "('a \<Rightarrow> 'e \<times> 'a) \<Rightarrow> 'a \<times> 'b \<Rightarrow> 'e \<times> ('a \<times> 'b)" where
  "on_fst f s = (case f (fst s) of (e, a) \<Rightarrow> (e, (a, snd s)))"

definition on_snd :: "('b \<Rightarrow> 'e \<times> 'b) \<Rightarrow> 'a \<times> 'b \<Rightarrow> 'e \<times> ('a \<times> 'b)" where
  "on_snd f s = (case f (snd s) of (e, b) \<Rightarrow> (e, (fst s, b)))"

definition controller_Register :: "('a \<Rightarrow> go_error option \<times> 'a) \<Rightarrow> ('f \<Rightarrow> 's) \<Rightarrow> ('f, 'k) Management \<Rightarrow> 'a \<times> 's registrations \<Rightarrow>
    go_error option \<times> ('a \<times> 's registrations)" where
  "controller_Register crdCreate cf management =
     Management_Register (on_fst crdCreate) (map on_snd (RegisterFuncList cf management))"

section \<open>The webhook\<close>

record 's caches =
  ch_ippoolCache :: "'s controller_ref"
  ch_vmnetcfgCache :: "'s controller_ref"
  ch_nadCache :: "'s controller_ref"
  ch_vmCache :: "'s controller_ref"
  ch_indexers :: "(string \<times> string) list"

definition newCaches :: "('s, 'f) generic_factory \<Rightarrow> ('f \<Rightarrow> 's) \<Rightarrow> ('f Factory list \<Rightarrow> go_error option) \<Rightarrow> rest_config \<Rightarrow> (go_error + 's caches) outcome" where
  "newCaches gen cf startAll cfg =
     go_bind (core_NewFactoryFromConfigOrDie gen cfg) (\<lambda>coreFactory.
     go_bind (kubevirt_NewFactoryFromConfigOrDie gen cfg) (\<lambda>kubevirtFactory.
     go_bind (cni_NewFactoryFromConfigOrDie gen cfg) (\<lambda>cniFactory.
     go_bind (NewFactoryFromConfigOrDie gen network_pkg cfg) (\<lambda>networkFactory.
       let c = \<lparr>ch_ippoolCache = version_IPPool (network_V1alpha1 (Factory_Network cf networkFactory)),
                ch_vmnetcfgCache = version_VirtualMachineNetworkConfig (network_V1alpha1 (Factory_Network cf networkFactory)),
                ch_nadCache = version_NetworkAttachmentDefinition (cni_V1 (Factory_K8s cf cniFactory)),
                ch_vmCache = version_VirtualMachine (kubevirt_V1 (Factory_Kubevirt cf kubevirtFactory)),
                ch_indexers = [(cr_resource (version_VirtualMachineNetworkConfig (network_V1alpha1 (Factory_Network cf networkFactory))), VmNetCfgByNetworkIndex)]\<rparr> in
       Ret (case startAll [coreFactory, kubevirtFactory, cniFactory, networkFactory] of Some e \<Rightarrow> Inl e | None \<Rightarrow> Inr c)))))"

text \<open>The admission server of the harvester webhook library, whose calls can fail.\<close>

datatype admission_op = CreateOp | UpdateOp | DeleteOp

record admission_resource =
  ad_Names :: "string list"
  ad_Group :: string
  ad_Version :: string
  ad_Operations :: "admission_op list"

definition ippool_Validator_Resource :: admission_resource where
  "ippool_Validator_Resource = \<lparr>ad_Names = [''ippools''], ad_Group = fst SchemeGroupVersion, ad_Version = snd SchemeGroupVersion,
     ad_Operations = [CreateOp, UpdateOp, DeleteOp]\<rparr>"

definition ippool_Mutator_Resource :: admission_resource where
  "ippool_Mutator_Resource = \<lparr>ad_Names = [''ippools''], ad_Group = fst SchemeGroupVersion, ad_Version = snd SchemeGroupVersion, ad_Operations = [CreateOp]\<rparr>"

definition vmnetcfg_Validator_Resource :: admission_resource where
  "vmnetcfg_Validator_Resource = \<lparr>ad_Names = [''virtualmachinenetworkconfigs''], ad_Group = fst SchemeGroupVersion, ad_Version = snd SchemeGroupVersion,
     ad_Operations = [CreateOp]\<rparr>"

datatype webhook_call = RegisterValidators "admission_resource list" | RegisterMutators "admission_resource list" | StartServer

definition webhook_run :: "(go_error + 's caches) outcome \<Rightarrow> (webhook_call list \<Rightarrow> go_error option) \<Rightarrow> (go_error option \<times> webhook_call list) outcome" where
  "webhook_run made srv =
     go_bind made (\<lambda>r. Ret
       (case r of Inl e \<Rightarrow> (Some e, []) | Inr c \<Rightarrow>
        let h1 = [RegisterValidators [ippool_Validator_Resource, vmnetcfg_Validator_Resource]];
            h2 = h1 @ [RegisterMutators [ippool_Mutator_Resource]];
            h3 = h2 @ [StartServer] in
        case srv h1 of Some e \<Rightarrow> (Some e, h1) | None \<Rightarrow>
        case srv h2 of Some e \<Rightarrow> (Some e, h2) | None \<Rightarrow> (srv h3, h3)))"

section \<open>Flags\<close>

record log_flags =
  lf_debug :: bool
  lf_trace :: bool

definition log_level :: "log_flags \<Rightarrow> string \<Rightarrow> string" where
  "log_level fl level = (let l1 = (if lf_debug fl then ''debug'' else level) in if lf_trace fl then ''trace'' else l1)"

record controller_flags =
  cf_log :: log_flags
  cf_name :: string
  cf_noLeaderElection :: bool
  cf_noAgent :: bool
  cf_enableCacheDumpAPI :: bool
  cf_noDHCP :: bool
  cf_agentNamespace :: string
  cf_agentImage :: string
  cf_agentServiceAccountName :: string

definition controller_init :: "(string \<Rightarrow> string) \<Rightarrow> controller_flags" where
  "controller_init getenv =
     \<lparr>cf_log = \<lparr>lf_debug = EnvGetBool getenv ''VM_DHCP_CONTROLLER_DEBUG'' False, lf_trace = EnvGetBool getenv ''VM_DHCP_CONTROLLER_TRACE'' False\<rparr>,
      cf_name = getenv ''VM_DHCP_CONTROLLER_NAME'', cf_noLeaderElection = False, cf_noAgent = False, cf_enableCacheDumpAPI = False, cf_noDHCP = False,
      cf_agentNamespace = getenv ''AGENT_NAMESPACE'', cf_agentImage = getenv ''AGENT_IMAGE'', cf_agentServiceAccountName = getenv ''AGENT_SERVICE_ACCOUNT_NAME''\<rparr>"

record agent_flags =
  af_log :: log_flags
  af_name :: string
  af_kubeConfigPath :: string
  af_kubeContext :: string
  af_dryRun :: bool
  af_enableCacheDumpAPI :: bool
  af_ippoolRef :: string
  af_nic :: string

definition DefaultNetworkInterface :: string where
  "DefaultNetworkInterface = ''eth1''"

definition agent_init :: "(string \<Rightarrow> string) \<Rightarrow> agent_flags" where
  "agent_init getenv =
     \<lparr>af_log = \<lparr>lf_debug = EnvGetBool getenv ''VM_DHCP_AGENT_DEBUG'' False, lf_trace = EnvGetBool getenv ''VM_DHCP_AGENT_TRACE'' False\<rparr>,
      af_name = getenv ''VM_DHCP_AGENT_NAME'', af_kubeConfigPath = getenv ''KUBECONFIG'', af_kubeContext = getenv ''KUBECONTEXT'', af_dryRun = False,
      af_enableCacheDumpAPI = False, af_ippoolRef = getenv ''IPPOOL_REF'', af_nic = DefaultNetworkInterface\<rparr>"

record webhook_flags =
  wf_log :: log_flags
  wf_name :: string
  wf_serviceCIDR :: string
  wf_ControllerUsername :: string
  wf_GarbageCollectionUsername :: string
  wf_Namespace :: string
  wf_HTTPSListenPort :: int
  wf_Threadiness :: int

definition defaultServiceCIDR :: string where
  "defaultServiceCIDR = ''10.53.0.0/16''"

definition webhook_init :: "(string \<Rightarrow> string) \<Rightarrow> webhook_flags" where
  "webhook_init getenv =
     \<lparr>wf_log = \<lparr>lf_debug = EnvGetBool getenv ''VM_DHCP_WEBHOOK_DEBUG'' False, lf_trace = EnvGetBool getenv ''VM_DHCP_WEBHOOK_TRACE'' False\<rparr>,
      wf_name = getenv ''VM_DHCP_AGENT_NAME'', wf_serviceCIDR = defaultServiceCIDR, wf_ControllerUsername = ''harvester-vm-dhcp-controller'',
      wf_GarbageCollectionUsername = ''system:serviceaccount:kube-system:generic-garbage-collector'', wf_Namespace = getenv ''NAMESPACE'',
      wf_HTTPSListenPort = 8443, wf_Threadiness = 5\<rparr>"

section \<open>Gauges\<close>

text \<open>What \<open>NewMetricsAllocator\<close> declares: name and labels of each gauge.\<close>

definition NewMetricsAllocator :: "gauge \<Rightarrow> string \<times> string list" where
  "NewMetricsAllocator g =
     (case g of
        IPPoolUsed \<Rightarrow> (''vmdhcpcontroller_ippool_used'', [LabelIPPoolName, LabelCIDR, LabelNetworkName])
      | IPPoolAvailable \<Rightarrow> (''vmdhcpcontroller_ippool_available'', [LabelIPPoolName, LabelCIDR, LabelNetworkName])
      | VmNetCfgStatusGauge \<Rightarrow> (''vmdhcpcontroller_vmnetcfg_status'', [LabelVmNetCfgName, LabelNetworkName, LabelMACAddress, LabelIPAddress, LabelState]))"

section \<open>The HTTP servers\<close>

record 'm HTTPServerOptions =
  ho_DebugMode :: bool
  ho_CacheAllocator :: "CacheAllocator option"
  ho_IPAllocator :: "IPAllocator option"
  ho_DHCPAllocator :: "DHCPAllocator option"
  ho_MetricsAllocator :: "'m option"

definition controller_http_options :: "controller_flags \<Rightarrow> ctl \<Rightarrow> 'm \<Rightarrow> 'm HTTPServerOptions" where
  "controller_http_options fl s metrics =
     \<lparr>ho_DebugMode = cf_enableCacheDumpAPI fl, ho_CacheAllocator = Some (cacheAllocator s), ho_IPAllocator = Some (ipAllocator s),
      ho_DHCPAllocator = None, ho_MetricsAllocator = Some metrics\<rparr>"

definition agent_http_options :: "agent_flags \<Rightarrow> AgentState \<Rightarrow> 'm HTTPServerOptions" where
  "agent_http_options fl a =
     \<lparr>ho_DebugMode = af_enableCacheDumpAPI fl, ho_CacheAllocator = None, ho_IPAllocator = None,
      ho_DHCPAllocator = Some (dhcpAllocator (agt_controller a)), ho_MetricsAllocator = None\<rparr>"

text \<open>The store that the handler of a route reads is there; the probes read none.\<close>

definition route_store :: "'m HTTPServerOptions \<Rightarrow> string \<Rightarrow> bool" where
  "route_store opts path =
     (if path = ''/ipams/{networkName:.*}'' then ho_IPAllocator opts \<noteq> None
      else if path = ''/caches/{networkName:.*}'' then ho_CacheAllocator opts \<noteq> None
      else if path = ''/metrics'' then ho_MetricsAllocator opts \<noteq> None
      else if path = ''/leases'' then ho_DHCPAllocator opts \<noteq> None
      else path \<in> {''/healthz'', ''/readyz''})"

section \<open>Every handler is installed on a controller that is started\<close>

text \<open>Documented behaviour of wrangler: a factory with a shared controller factory in its options uses that one.\<close>

definition shares :: "('s, 'f) generic_factory \<Rightarrow> ('f \<Rightarrow> 's) \<Rightarrow> bool" where
  "shares gen cf \<longleftrightarrow> (\<forall>pkg c ns s f. gen pkg c (Some \<lparr>fo_Namespace = ns, fo_SharedControllerFactory = Some s\<rparr>) = (f, None) \<longrightarrow> cf f = s)"

fun reg_refs :: "'s registration \<Rightarrow> 's controller_ref list" where
  "reg_refs (StatusHandler r c n) = [r]"
| "reg_refs (ChangeHandler r n) = [r]"
| "reg_refs (RemoveHandler r n) = [r]"
| "reg_refs (RelatedWatch n r w) = [r, w]"

fun reg_id :: "'s registration \<Rightarrow> string \<times> string \<times> string" where
  "reg_id (StatusHandler r c n) = (c, cr_resource r, n)"
| "reg_id (ChangeHandler r n) = (''OnChange'', cr_resource r, n)"
| "reg_id (RemoveHandler r n) = (''OnRemove'', cr_resource r, n)"
| "reg_id (RelatedWatch n r w) = (''Watch'', cr_resource r, n)"

text \<open>The handlers of the program: what triggers them, on which resource, and their names.\<close>

definition expected_handlers :: "(string \<times> string \<times> string) list" where
  "expected_handlers =
     [(Registered, ''ippools'', ''ippool-register''), (CacheReady, ''ippools'', ''ippool-cache-builder''),
      (AgentReady, ''ippools'', ''ippool-agent-monitor''), (''Watch'', ''ippools'', ''ippool-trigger''),
      (''OnChange'', ''ippools'', ''vm-dhcp-ippool-controller''), (''OnRemove'', ''ippools'', ''vm-dhcp-ippool-controller''),
      (''OnChange'', ''virtualmachines'', ''vm-dhcp-vm-controller''),
      (Allocated, ''virtualmachinenetworkconfigs'', ''vmnetcfg-allocate''), (InSynced, ''virtualmachinenetworkconfigs'', ''vmnetcfg-sync''),
      (''OnChange'', ''virtualmachinenetworkconfigs'', ''vm-dhcp-vmnetcfg-controller''), (''OnRemove'', ''virtualmachinenetworkconfigs'', ''vm-dhcp-vmnetcfg-controller'')]"

lemma setup_management:
  assumes "config_SetupManagement newShared gen newKube rc opts = Inr m"
  obtains s where "newShared rc = Inr s" "mg_starters m = [mg_HarvesterNetworkFactory m, mg_CoreFactory m, mg_CniFactory m, mg_KubeVirtFactory m]"
    "mg_stores m = SetupManagement" "mg_Options m = opts"
    "\<forall>f \<in> set (mg_starters m). gen (fac_pkg f) rc (Some \<lparr>fo_Namespace = [], fo_SharedControllerFactory = Some s\<rparr>) = (fac_Factory f, None)"
    "map fac_pkg (mg_starters m) = [network_pkg, core_pkg, cni_pkg, kubevirt_pkg]"
proof -
  from assms obtain s where s: "newShared rc = Inr s" by (auto simp: config_SetupManagement_def split: sum.splits)
  let ?o = "Some \<lparr>fo_Namespace = [], fo_SharedControllerFactory = Some s\<rparr>"
  obtain n co cn k nf cf cnf kf where f:
    "gen network_pkg rc ?o = (nf, None)" "gen core_pkg rc ?o = (cf, None)" "gen cni_pkg rc ?o = (cnf, None)" "gen kubevirt_pkg rc ?o = (kf, None)"
    "m = \<lparr>mg_HarvesterNetworkFactory = \<lparr>fac_pkg = network_pkg, fac_Factory = nf\<rparr>, mg_CniFactory = \<lparr>fac_pkg = cni_pkg, fac_Factory = cnf\<rparr>,
       mg_CoreFactory = \<lparr>fac_pkg = core_pkg, fac_Factory = cf\<rparr>, mg_KubeVirtFactory = \<lparr>fac_pkg = kubevirt_pkg, fac_Factory = kf\<rparr>,
       mg_ClientSet = k, mg_stores = SetupManagement, mg_Options = opts, mg_starters = [\<lparr>fac_pkg = network_pkg, fac_Factory = nf\<rparr>,
       \<lparr>fac_pkg = core_pkg, fac_Factory = cf\<rparr>, \<lparr>fac_pkg = cni_pkg, fac_Factory = cnf\<rparr>, \<lparr>fac_pkg = kubevirt_pkg, fac_Factory = kf\<rparr>]\<rparr>"
    using assms s by (auto simp: config_SetupManagement_def NewFactoryFromConfigWithOptions_def Let_def split: sum.splits prod.splits option.splits)
  show ?thesis by (rule that [OF s]) (simp_all add: f)
qed

lemma controller_Register_eq:
  "controller_Register crdCreate cf m (a, rs) =
    (case crdCreate a of
       (Some e, a') \<Rightarrow> (Some e, (a', rs))
     | (None, a') \<Rightarrow> (None, (a', snd (vmnetcfg_Register cf m (snd (vm_Register cf m (snd (ippool_Register cf m rs))))))))"
  by (simp add: controller_Register_def Management_Register_def RegisterFuncList_def on_fst_def on_snd_def ippool_Register_def vm_Register_def
      vmnetcfg_Register_def Let_def split: prod.splits option.splits)


text \<open>The arguments of the handlers installed above, at a concrete factory.\<close>

definition plain_gen :: "(string, string) generic_factory" where
  "plain_gen pkg c opts = (case opts of Some o1 \<Rightarrow> (case fo_SharedControllerFactory o1 of Some s \<Rightarrow> (s, None) | None \<Rightarrow> (pkg, None)) | None \<Rightarrow> (pkg, None))"

definition plain_options :: ControllerOptions where
  "plain_options = \<lparr>co_NoAgent = False, co_AgentNamespace = ''harvester-system'', co_AgentImage = NewImage ''agent'' ''latest'',
     co_AgentServiceAccountName = ''agent'', co_NoDHCP = False\<rparr>"


section \<open>The webhook starts last\<close>

lemma factory_or_die:
  "NewFactoryFromConfigOrDie gen pkg cfg =
    (if snd (gen pkg cfg None) = None then Ret \<lparr>fac_pkg = pkg, fac_Factory = fst (gen pkg cfg None)\<rparr> else Panic ''error'')"
  "unless_error (NewFactoryFromConfigWithOptions gen pkg cfg None) =
    (if snd (gen pkg cfg None) = None then Ret \<lparr>fac_pkg = pkg, fac_Factory = fst (gen pkg cfg None)\<rparr> else Panic ''error'')"
  by (auto simp: NewFactoryFromConfigOrDie_def NewFactoryFromConfig_def NewFactoryFromConfigWithOptions_def unless_error_def
      split: prod.splits option.splits)

definition webhook_factories :: "('s, 'f) generic_factory \<Rightarrow> rest_config \<Rightarrow> 'f Factory list" where
  "webhook_factories gen cfg = map (\<lambda>pkg. \<lparr>fac_pkg = pkg, fac_Factory = fst (gen pkg cfg None)\<rparr>) [core_pkg, kubevirt_pkg, cni_pkg, network_pkg]"

definition webhook_made :: "('s, 'f) generic_factory \<Rightarrow> ('f Factory list \<Rightarrow> go_error option) \<Rightarrow> rest_config \<Rightarrow> bool" where
  "webhook_made gen startAll cfg \<longleftrightarrow> snd (gen core_pkg cfg None) = None \<and> snd (gen kubevirt_pkg cfg None) = None \<and> snd (gen cni_pkg cfg None) = None \<and>
     snd (gen network_pkg cfg None) = None \<and> startAll (webhook_factories gen cfg) = None"

lemma newCaches_made:
  "(\<exists>c. newCaches gen cf startAll cfg = Ret (Inr c)) \<longleftrightarrow> webhook_made gen startAll cfg"
  "newCaches gen cf startAll cfg = Ret (Inr c) \<Longrightarrow> ch_indexers c = [(cr_resource (ch_vmnetcfgCache c), VmNetCfgByNetworkIndex)]"
  by (auto simp: newCaches_def factory_or_die webhook_made_def webhook_factories_def Let_def split: option.splits if_splits)

lemma webhook_run_calls:
  "webhook_run made srv = Ret (e, h) \<longleftrightarrow>
    (made = Ret (Inl (the e)) \<and> e \<noteq> None \<and> h = []) \<or>
    ((\<exists>c. made = Ret (Inr c)) \<and> e = srv h \<and>
      ((h = [RegisterValidators [ippool_Validator_Resource, vmnetcfg_Validator_Resource]] \<and> e \<noteq> None) \<or>
       (h = [RegisterValidators [ippool_Validator_Resource, vmnetcfg_Validator_Resource], RegisterMutators [ippool_Mutator_Resource]] \<and> e \<noteq> None \<and> srv (take 1 h) = None) \<or>
       (h = [RegisterValidators [ippool_Validator_Resource, vmnetcfg_Validator_Resource], RegisterMutators [ippool_Mutator_Resource], StartServer] \<and>
          srv (take 1 h) = None \<and> srv (take 2 h) = None)))"
  by (cases made; cases e)
    (auto simp: webhook_run_def Let_def version_IPPool_def version_VirtualMachineNetworkConfig_def numeral_2_eq_2 split: sum.splits option.splits)

text \<open>
  The admission server starts last.  The webhook runs until its context is done exactly when the
  four factories were made and their caches started, and the validators, then the mutator were
  registered and then the server was started, each without error; the server is never started
  otherwise.  The cache of network configurations, which the validator of pools reads by its
  index, has the index before it is started.
\<close>

theorem webhook_starts_last:
  "((\<exists>h. webhook_run (newCaches gen cf startAll cfg) srv = Ret (None, h)) \<longleftrightarrow>
     webhook_made gen startAll cfg \<and> srv [RegisterValidators [ippool_Validator_Resource, vmnetcfg_Validator_Resource]] = None \<and>
     srv [RegisterValidators [ippool_Validator_Resource, vmnetcfg_Validator_Resource], RegisterMutators [ippool_Mutator_Resource]] = None \<and>
     srv [RegisterValidators [ippool_Validator_Resource, vmnetcfg_Validator_Resource], RegisterMutators [ippool_Mutator_Resource], StartServer] = None) \<and>
   (\<forall>e h. webhook_run (newCaches gen cf startAll cfg) srv = Ret (e, h) \<longrightarrow> StartServer \<in> set h \<longrightarrow>
     webhook_made gen startAll cfg \<and> srv (take 1 h) = None \<and> srv (take 2 h) = None) \<and>
   (\<forall>c. newCaches gen cf startAll cfg = Ret (Inr c) \<longrightarrow> ch_indexers c = [(cr_resource (ch_vmnetcfgCache c), VmNetCfgByNetworkIndex)])"
  unfolding newCaches_made(1) [symmetric, of gen startAll cfg cf]
  by (intro conjI allI impI newCaches_made(2)) (auto simp: webhook_run_calls numeral_2_eq_2)

theorem webhook_starts_last_witness:
  "\<exists>c. newCaches plain_gen id (\<lambda>_. None) some_config = Ret (Inr c) \<and>
    ch_indexers c = [(''virtualmachinenetworkconfigs'', VmNetCfgByNetworkIndex)]"
proof -
  have "webhook_made plain_gen (\<lambda>_. None) some_config" by (simp add: webhook_made_def plain_gen_def)
  then obtain c where c: "newCaches plain_gen id (\<lambda>_. None) some_config = Ret (Inr c)" using newCaches_made(1) by blast
  then have "cr_resource (ch_vmnetcfgCache c) = ''virtualmachinenetworkconfigs''"
    by (auto simp: newCaches_def factory_or_die plain_gen_def Let_def version_VirtualMachineNetworkConfig_def)
  with c webhook_starts_last [of plain_gen id "\<lambda>_. None" some_config "\<lambda>_. None"] show ?thesis by auto
qed

section \<open>What reaches the validators\<close>

text \<open>A request reaches the hooks that were registered for its resource and operation.\<close>

definition reaches :: "admission_resource list \<Rightarrow> group_version \<times> string \<Rightarrow> admission_op \<Rightarrow> bool" where
  "reaches rs res oper \<longleftrightarrow> list_ex (\<lambda>r. (ad_Group r, ad_Version r) = fst res \<and> snd res \<in> set (ad_Names r) \<and> oper \<in> set (ad_Operations r)) rs"

text \<open>
  What the running webhook checks: every creation, update and deletion of a pool, as the clients
  address it, and the creation of a network configuration; an update of a network configuration
  reaches no validator, although the controller of machines and any user can change its networks,
  and defaults are filled in only when a pool is created.
\<close>

theorem admission_scope:
  assumes "webhook_run made srv = Ret (None, h)"
  shows "\<exists>vs ms. h = [RegisterValidators vs, RegisterMutators ms, StartServer] \<and>
    (\<forall>oper. reaches vs (fc_resource (newFakeIPPools ns)) oper) \<and>
    (\<forall>oper. reaches vs (fc_resource (newFakeVirtualMachineNetworkConfigs ns)) oper \<longleftrightarrow> oper = CreateOp) \<and>
    (\<forall>oper. reaches ms (fc_resource (newFakeIPPools ns)) oper \<longleftrightarrow> oper = CreateOp) \<and>
    (\<forall>oper. \<not> reaches ms (fc_resource (newFakeVirtualMachineNetworkConfigs ns)) oper)"
proof (intro exI conjI allI)
  show "h = [RegisterValidators [ippool_Validator_Resource, vmnetcfg_Validator_Resource], RegisterMutators [ippool_Mutator_Resource], StartServer]"
    using assms by (simp add: webhook_run_calls)
qed (rename_tac oper, case_tac oper, simp_all add: reaches_def ippool_Validator_Resource_def vmnetcfg_Validator_Resource_def ippool_Mutator_Resource_def
    newFakeIPPools_def newFakeVirtualMachineNetworkConfigs_def)+

theorem admission_scope_witness:
  "\<exists>vs ms. webhook_run (newCaches plain_gen id (\<lambda>_. None) some_config) (\<lambda>_. None) = Ret (None, [RegisterValidators vs, RegisterMutators ms, StartServer]) \<and>
    \<not> reaches vs (fc_resource (newFakeVirtualMachineNetworkConfigs ''default'')) UpdateOp"
proof -
  have "webhook_made plain_gen (\<lambda>_. None) some_config" by (simp add: webhook_made_def plain_gen_def)
  then obtain c where c: "newCaches plain_gen id (\<lambda>_. None) some_config = Ret (Inr c)" using newCaches_made(1) by blast
  then have r: "webhook_run (newCaches plain_gen id (\<lambda>_. None) some_config) (\<lambda>_. None) =
      Ret (None, [RegisterValidators [ippool_Validator_Resource, vmnetcfg_Validator_Resource], RegisterMutators [ippool_Mutator_Resource], StartServer])"
    by (simp add: webhook_run_calls)
  from admission_scope [OF this, of "''default''"] show ?thesis unfolding r by auto
qed

section \<open>Labels and stores\<close>

text \<open>
  No update of a gauge panics, and no route serves from a missing store.  The Prometheus client
  panics when the labels of an update are not those that the gauge was declared with, or when two
  gauges have one name; every update has exactly the declared labels, each of them
  once, the names are different, and the name that \<open>DeleteVmNetCfgStatus\<close> looks for is the declared
  one.  Every path that the controller or the agent serves reads a store that its options have.
\<close>

theorem labels_and_stores:
  "(inj (fst \<circ> NewMetricsAllocator) \<and> (\<forall>g. distinct (snd (NewMetricsAllocator g)))) \<and>
   (\<forall>s. calls (UpdateIPPoolUsed n cidr net k s) = calls s @ [GaugeSet IPPoolUsed (zip (snd (NewMetricsAllocator IPPoolUsed)) [n, cidr, net]) k]) \<and>
   (\<forall>s. calls (UpdateIPPoolAvailable n cidr net k s) = calls s @ [GaugeSet IPPoolAvailable (zip (snd (NewMetricsAllocator IPPoolAvailable)) [n, cidr, net]) k]) \<and>
   (\<forall>s. calls (UpdateVmNetCfgStatus n net mac ip st s) = calls s @ [GaugeSet VmNetCfgStatusGauge (zip (snd (NewMetricsAllocator VmNetCfgStatusGauge)) [n, net, mac, ip, st]) 1]) \<and>
   (metrics_of n [(fst (NewMetricsAllocator VmNetCfgStatusGauge), ms)] = filter (\<lambda>ls. (LabelVmNetCfgName, n) \<in> set ls) ms) \<and>
   list_all (route_store (controller_http_options fl ctl m)) (RegisterControllerHandlers (ho_DebugMode (controller_http_options fl ctl m))) \<and>
   list_all (route_store (agent_http_options fl' a)) (RegisterAgentHandlers (ho_DebugMode (agent_http_options fl' a)))"
proof (intro conjI allI)
  show "inj (fst \<circ> NewMetricsAllocator)"
    by (rule injI, rename_tac a b, case_tac a; case_tac b) (simp_all add: NewMetricsAllocator_def)
  show "distinct (snd (NewMetricsAllocator g))" for g
    by (cases g) (simp_all add: NewMetricsAllocator_def LabelIPPoolName_def LabelCIDR_def LabelNetworkName_def LabelVmNetCfgName_def LabelMACAddress_def
        LabelIPAddress_def LabelState_def)
qed (simp_all add: NewMetricsAllocator_def UpdateIPPoolUsed_def UpdateIPPoolAvailable_def UpdateVmNetCfgStatus_def pool_labels_def metrics_of_def
    RegisterControllerHandlers_def RegisterAgentHandlers_def registerProbeHandlers_def route_store_def controller_http_options_def agent_http_options_def)

end
