(* ===== verification/Doubles.thy ===== *)
theory Doubles
  imports Clients
begin

text \<open>
  The test doubles of \<open>pkg/util/fakeclient\<close> and \<open>pkg/util/fakecontroller\<close>: adapters from the typed
  clients of a clientset to the client and cache interfaces that the handlers take.  Methods
  that no test needs panic.
\<close>

section \<open>Interfaces\<close>

text \<open>A typed client of one namespace, on the state of the tracker behind it.\<close>

record ('o, 's) typed_interface =
  ti_Create :: "'o \<Rightarrow> 's \<Rightarrow> (go_error + 'o) \<times> 's"
  ti_Update :: "'o \<Rightarrow> 's \<Rightarrow> (go_error + 'o) \<times> 's"
  ti_UpdateStatus :: "'o \<Rightarrow> 's \<Rightarrow> (go_error + 'o) \<times> 's"
  ti_Delete :: "string \<Rightarrow> 's \<Rightarrow> go_error option \<times> 's"
  ti_Get :: "string \<Rightarrow> 's \<Rightarrow> (go_error + 'o) \<times> 's"
  ti_List :: "string \<Rightarrow> 's \<Rightarrow> (go_error + 'o list) \<times> 's"

text \<open>The interfaces of wrangler; \<open>implement_me\<close> is the body of a method that is not implemented.\<close>

record ('o, 's) wrangler_client =
  wc_Create :: "'o \<Rightarrow> 's \<Rightarrow> ((go_error + 'o) \<times> 's) outcome"
  wc_Update :: "'o \<Rightarrow> 's \<Rightarrow> ((go_error + 'o) \<times> 's) outcome"
  wc_UpdateStatus :: "'o \<Rightarrow> 's \<Rightarrow> ((go_error + 'o) \<times> 's) outcome"
  wc_Delete :: "string \<Rightarrow> string \<Rightarrow> 's \<Rightarrow> (go_error option \<times> 's) outcome"
  wc_Get :: "string \<Rightarrow> string \<Rightarrow> 's \<Rightarrow> ((go_error + 'o) \<times> 's) outcome"
  wc_List :: "string \<Rightarrow> string \<Rightarrow> 's \<Rightarrow> ((go_error + 'o list) \<times> 's) outcome"
  wc_Watch :: "string \<Rightarrow> string \<Rightarrow> 's \<Rightarrow> unit outcome"
  wc_Patch :: "string \<Rightarrow> string \<Rightarrow> string \<Rightarrow> 's \<Rightarrow> ((go_error + 'o) \<times> 's) outcome"
  wc_WithImpersonation :: "string \<Rightarrow> unit outcome"

record ('o, 's) wrangler_cache =
  wh_Get :: "string \<Rightarrow> string \<Rightarrow> 's \<Rightarrow> ((go_error + 'o) \<times> 's) outcome"
  wh_List :: "string \<Rightarrow> string \<Rightarrow> 's \<Rightarrow> ((go_error + 'o list) \<times> 's) outcome"
  wh_AddIndexer :: "string \<Rightarrow> 's \<Rightarrow> unit outcome"
  wh_GetByIndex :: "string \<Rightarrow> string \<Rightarrow> 's \<Rightarrow> ((go_error + 'o list) \<times> 's) outcome"

definition implement_me :: "'a outcome" where
  "implement_me = Panic ''implement me''"

text \<open>
  The fake clientset.  The object tracker of client-go is a parameter: a reference into the state that
  its operations act on; so are the reactions of client-go to actions.
\<close>

record ('o, 's, 't, 'r, 'w, 'i) fake_lib =
  fl_NewObjectTracker :: "'s \<Rightarrow> 't \<times> 's"
  fl_Add :: "'t \<Rightarrow> 'o \<Rightarrow> 's \<Rightarrow> go_error option \<times> 's"
  fl_ObjectReaction :: "'t \<Rightarrow> 'r"
  fl_Watch :: "'t \<Rightarrow> group_version \<times> string \<Rightarrow> string \<Rightarrow> 'w \<Rightarrow> 's \<Rightarrow> (go_error + 'i) \<times> 's"
  fl_ListOptions :: 'w

text \<open>Watching through the fake clientset: an error of the tracker leaves the action unhandled.\<close>

definition fake_watch_reaction :: "('o, 's, 't, 'r, 'w, 'i) fake_lib \<Rightarrow> 't \<Rightarrow> group_version \<times> string \<Rightarrow> string \<Rightarrow> 'w option \<Rightarrow> 's \<Rightarrow>
    (bool \<times> (go_error + 'i)) \<times> 's" where
  "fake_watch_reaction L t gvr ns opts s =
     (case fl_Watch L t gvr ns (case opts of Some o1 \<Rightarrow> o1 | None \<Rightarrow> fl_ListOptions L) s of
        (Inl e, s1) \<Rightarrow> ((False, Inl e), s1)
      | (Inr w, s1) \<Rightarrow> ((True, Inr w), s1))"

text \<open>The chains of reactions of \<open>testing.Fake\<close>: verbs and resources with what answers them.\<close>

record ('r, 'v) fake_chains =
  fk_reactors :: "(string \<times> string \<times> 'r) list"
  fk_watch_reactors :: "(string \<times> 'v) list"

record ('t, 'r, 'v) fake_Clientset =
  fcs_Fake :: "('r, 'v) fake_chains"
  fcs_discovery :: "('r, 'v) fake_chains"
  fcs_tracker :: 't

fun add_objects :: "('o, 's, 't, 'r, 'w, 'i) fake_lib \<Rightarrow> 't \<Rightarrow> 'o list \<Rightarrow> 's \<Rightarrow> 's outcome" where
  "add_objects L t [] s = Ret s"
| "add_objects L t (obj # objects) s =
     (case fl_Add L t obj s of (Some e, _) \<Rightarrow> Panic ''error'' | (None, s1) \<Rightarrow> add_objects L t objects s1)"

definition NewSimpleClientset :: "('o, 's, 't, 'r, 'w, 'i) fake_lib \<Rightarrow> 'o list \<Rightarrow> 's \<Rightarrow>
    (('t, 'r, group_version \<times> string \<Rightarrow> string \<Rightarrow> 'w option \<Rightarrow> 's \<Rightarrow> (bool \<times> (go_error + 'i)) \<times> 's) fake_Clientset \<times> 's) outcome" where
  "NewSimpleClientset L objects s =
     (let (t, s1) = fl_NewObjectTracker L s;
          fake = \<lparr>fk_reactors = [(''*'', ''*'', fl_ObjectReaction L t)], fk_watch_reactors = [(''*'', fake_watch_reaction L t)]\<rparr> in
      map_outcome (\<lambda>s2. (\<lparr>fcs_Fake = fake, fcs_discovery = fake, fcs_tracker = t\<rparr>, s2)) (add_objects L t objects s1))"

definition fake_Discovery :: "('t, 'r, 'v) fake_Clientset \<Rightarrow> ('r, 'v) fake_chains" where
  "fake_Discovery c = fcs_discovery c"

definition fake_Tracker :: "('t, 'r, 'v) fake_Clientset \<Rightarrow> 't" where
  "fake_Tracker c = fcs_tracker c"

definition fake_K8sCniCncfIoV1 :: "('t, 'r, 'v) fake_Clientset \<Rightarrow> ('r, 'v) fake_chains" where
  "fake_K8sCniCncfIoV1 c = fcs_Fake c"

definition fake_KubevirtV1 :: "('t, 'r, 'v) fake_Clientset \<Rightarrow> ('r, 'v) fake_chains" where
  "fake_KubevirtV1 c = fcs_Fake c"

definition fake_NetworkV1alpha1 :: "('t, 'r, 'v) fake_Clientset \<Rightarrow> ('r, 'v) fake_chains" where
  "fake_NetworkV1alpha1 c = fcs_Fake c"

text \<open>
  A fake clientset that is made has all objects in its tracker, and its typed clients, its discovery
  client and its watches all work on that tracker.
\<close>

lemma NewSimpleClientset_shares:
  assumes made: "NewSimpleClientset L objects s = Ret (c, s')"
    and tracker: "fl_NewObjectTracker L s = (t, s1)"
  shows "fake_Tracker c = t \<and> add_objects L t objects s1 = Ret s'
    \<and> fake_K8sCniCncfIoV1 c = fake_NetworkV1alpha1 c \<and> fake_KubevirtV1 c = fake_NetworkV1alpha1 c \<and> fake_Discovery c = fake_NetworkV1alpha1 c
    \<and> fk_reactors (fake_NetworkV1alpha1 c) = [(''*'', ''*'', fl_ObjectReaction L t)]
    \<and> fk_watch_reactors (fake_NetworkV1alpha1 c) = [(''*'', fake_watch_reaction L t)]"
  using made tracker
  by (cases "add_objects L t objects s1") (auto simp: NewSimpleClientset_def Let_def fake_Tracker_def fake_K8sCniCncfIoV1_def fake_KubevirtV1_def
    fake_NetworkV1alpha1_def fake_Discovery_def)

text \<open>It is made exactly when the tracker takes every object.\<close>

lemma add_objects_returns:
  "(\<exists>s'. add_objects L t objects s = Ret s') \<longleftrightarrow> (\<forall>k < length objects. \<forall>s1. add_objects L t (take k objects) s = Ret s1 \<longrightarrow> fst (fl_Add L t (objects ! k) s1) = None)"
proof (induction objects arbitrary: s)
  case (Cons obj objects)
  show ?case
    by (cases "fl_Add L t obj s") (auto simp: Cons.IH All_less_Suc2 split: option.splits)
qed simp

section \<open>The doubles\<close>

definition IPPoolClient :: "(string \<Rightarrow> (IPPool, 's) typed_interface) \<Rightarrow> (IPPool, 's) wrangler_client" where
  "IPPoolClient c = \<lparr>wc_Create = (\<lambda>_ _. implement_me),
     wc_Update = (\<lambda>o1 s. Ret (ti_Update (c (om_Namespace (ip_Meta o1))) o1 s)),
     wc_UpdateStatus = (\<lambda>o1 s. Ret (ti_UpdateStatus (c (om_Namespace (ip_Meta o1))) o1 s)),
     wc_Delete = (\<lambda>_ _ _. implement_me), wc_Get = (\<lambda>ns name s. Ret (ti_Get (c ns) name s)), wc_List = (\<lambda>_ _ _. implement_me),
     wc_Watch = (\<lambda>_ _ _. implement_me), wc_Patch = (\<lambda>_ _ _ _. implement_me), wc_WithImpersonation = (\<lambda>_. implement_me)\<rparr>"

definition IPPoolCache :: "(string \<Rightarrow> (IPPool, 's) typed_interface) \<Rightarrow> (IPPool, 's) wrangler_cache" where
  "IPPoolCache c = \<lparr>wh_Get = (\<lambda>ns name s. Ret (ti_Get (c ns) name s)), wh_List = (\<lambda>ns sel s. Ret (ti_List (c ns) sel s)),
     wh_AddIndexer = (\<lambda>_ _. implement_me), wh_GetByIndex = (\<lambda>_ _ _. implement_me)\<rparr>"

definition VirtualMachineNetworkConfigClient :: "(string \<Rightarrow> (VirtualMachineNetworkConfig, 's) typed_interface) \<Rightarrow>
    (VirtualMachineNetworkConfig, 's) wrangler_client" where
  "VirtualMachineNetworkConfigClient c = \<lparr>wc_Create = (\<lambda>o1 s. Ret (ti_Create (c (om_Namespace (vm_Meta o1))) o1 s)),
     wc_Update = (\<lambda>o1 s. Ret (ti_Update (c (om_Namespace (vm_Meta o1))) o1 s)),
     wc_UpdateStatus = (\<lambda>o1 s. Ret (ti_UpdateStatus (c (om_Namespace (vm_Meta o1))) o1 s)),
     wc_Delete = (\<lambda>_ _ _. implement_me), wc_Get = (\<lambda>ns name s. Ret (ti_Get (c ns) name s)), wc_List = (\<lambda>_ _ _. implement_me),
     wc_Watch = (\<lambda>_ _ _. implement_me), wc_Patch = (\<lambda>_ _ _ _. implement_me), wc_WithImpersonation = (\<lambda>_. implement_me)\<rparr>"

definition VirtualMachineNetworkConfigCache :: "(string \<Rightarrow> (VirtualMachineNetworkConfig, 's) typed_interface) \<Rightarrow>
    (VirtualMachineNetworkConfig, 's) wrangler_cache" where
  "VirtualMachineNetworkConfigCache c = \<lparr>wh_Get = (\<lambda>ns name s. Ret (ti_Get (c ns) name s)), wh_List = (\<lambda>ns sel s. Ret (ti_List (c ns) sel s)),
     wh_AddIndexer = (\<lambda>_ _. implement_me), wh_GetByIndex = (\<lambda>_ _ _. implement_me)\<rparr>"

definition NetworkAttachmentDefinitionClient :: "(string \<Rightarrow> (NAD, 's) typed_interface) \<Rightarrow> (NAD, 's) wrangler_client" where
  "NetworkAttachmentDefinitionClient c = \<lparr>wc_Create = (\<lambda>o1 s. Ret (ti_Create (c (om_Namespace (nad_Meta o1))) o1 s)),
     wc_Update = (\<lambda>o1 s. Ret (ti_Update (c (om_Namespace (nad_Meta o1))) o1 s)),
     wc_UpdateStatus = (\<lambda>_ _. implement_me),
     wc_Delete = (\<lambda>ns name s. Ret (ti_Delete (c ns) name s)), wc_Get = (\<lambda>ns name s. Ret (ti_Get (c ns) name s)), wc_List = (\<lambda>_ _ _. implement_me),
     wc_Watch = (\<lambda>_ _ _. implement_me), wc_Patch = (\<lambda>_ _ _ _. implement_me), wc_WithImpersonation = (\<lambda>_. implement_me)\<rparr>"

definition NetworkAttachmentDefinitionCache :: "(string \<Rightarrow> (NAD, 's) typed_interface) \<Rightarrow> (NAD, 's) wrangler_cache" where
  "NetworkAttachmentDefinitionCache c = \<lparr>wh_Get = (\<lambda>ns name s. Ret (ti_Get (c ns) name s)), wh_List = (\<lambda>ns sel s. Ret (ti_List (c ns) sel s)),
     wh_AddIndexer = (\<lambda>_ _. implement_me), wh_GetByIndex = (\<lambda>_ _ _. implement_me)\<rparr>"

definition PodClient :: "(string \<Rightarrow> (Pod, 's) typed_interface) \<Rightarrow> (Pod, 's) wrangler_client" where
  "PodClient c = \<lparr>wc_Create = (\<lambda>o1 s. Ret (ti_Create (c (om_Namespace (pod_Meta o1))) o1 s)),
     wc_Update = (\<lambda>o1 s. Ret (ti_Update (c (om_Namespace (pod_Meta o1))) o1 s)),
     wc_UpdateStatus = (\<lambda>o1 s. Ret (ti_UpdateStatus (c (om_Namespace (pod_Meta o1))) o1 s)),
     wc_Delete = (\<lambda>ns name s. Ret (ti_Delete (c ns) name s)), wc_Get = (\<lambda>ns name s. Ret (ti_Get (c ns) name s)), wc_List = (\<lambda>_ _ _. implement_me),
     wc_Watch = (\<lambda>_ _ _. implement_me), wc_Patch = (\<lambda>_ _ _ _. implement_me), wc_WithImpersonation = (\<lambda>_. implement_me)\<rparr>"

definition PodCache :: "(string \<Rightarrow> (Pod, 's) typed_interface) \<Rightarrow> (Pod, 's) wrangler_cache" where
  "PodCache c = \<lparr>wh_Get = (\<lambda>ns name s. Ret (ti_Get (c ns) name s)), wh_List = (\<lambda>ns sel s. Ret (ti_List (c ns) sel s)),
     wh_AddIndexer = (\<lambda>_ _. implement_me), wh_GetByIndex = (\<lambda>_ _ _. implement_me)\<rparr>"

text \<open>Machines, and nodes, which have no namespace.\<close>

definition VirtualMachineClient :: "(string \<Rightarrow> (VirtualMachine, 's) typed_interface) \<Rightarrow> (VirtualMachine, 's) wrangler_client" where
  "VirtualMachineClient c = \<lparr>wc_Create = (\<lambda>o1 s. Ret (ti_Create (c (om_Namespace (kv_Meta o1))) o1 s)),
     wc_Update = (\<lambda>o1 s. Ret (ti_Update (c (om_Namespace (kv_Meta o1))) o1 s)),
     wc_UpdateStatus = (\<lambda>_ _. implement_me),
     wc_Delete = (\<lambda>ns name s. Ret (ti_Delete (c ns) name s)), wc_Get = (\<lambda>ns name s. Ret (ti_Get (c ns) name s)), wc_List = (\<lambda>_ _ _. implement_me),
     wc_Watch = (\<lambda>_ _ _. implement_me), wc_Patch = (\<lambda>_ _ _ _. implement_me), wc_WithImpersonation = (\<lambda>_. implement_me)\<rparr>"

definition VirtualMachineCache :: "(string \<Rightarrow> (VirtualMachine, 's) typed_interface) \<Rightarrow> (VirtualMachine, 's) wrangler_cache" where
  "VirtualMachineCache c = \<lparr>wh_Get = (\<lambda>ns name s. Ret (ti_Get (c ns) name s)), wh_List = (\<lambda>ns sel s. Ret (ti_List (c ns) sel s)),
     wh_AddIndexer = (\<lambda>_ _. implement_me), wh_GetByIndex = (\<lambda>_ _ _. implement_me)\<rparr>"

definition NodeClient :: "(Node, 's) typed_interface \<Rightarrow> (Node, 's) wrangler_client" where
  "NodeClient c = \<lparr>wc_Create = (\<lambda>_ _. implement_me), wc_Update = (\<lambda>_ _. implement_me), wc_UpdateStatus = (\<lambda>_ _. implement_me),
     wc_Delete = (\<lambda>_ _ _. implement_me), wc_Get = (\<lambda>_ _ _. implement_me), wc_List = (\<lambda>_ _ _. implement_me),
     wc_Watch = (\<lambda>_ _ _. implement_me), wc_Patch = (\<lambda>_ _ _ _. implement_me), wc_WithImpersonation = (\<lambda>_. implement_me)\<rparr>"

definition NodeCache :: "(Node, 's) typed_interface \<Rightarrow> (Node, 's) wrangler_cache" where
  "NodeCache c = \<lparr>wh_Get = (\<lambda>_ _ _. implement_me), wh_List = (\<lambda>_ sel s. Ret (ti_List c sel s)),
     wh_AddIndexer = (\<lambda>_ _. implement_me), wh_GetByIndex = (\<lambda>_ _ _. implement_me)\<rparr>"

text \<open>The double of the controller of machines: enqueuing does nothing, everything else panics.\<close>

datatype controller_method = Informer | GroupVersionKind | AddGenericHandler | AddGenericRemoveHandler | Updater | ClientMethod | OnChangeMethod |
  OnRemoveMethod | EnqueueMethod | EnqueueAfter | CacheMethod

definition VirtualMachineController :: "controller_method \<Rightarrow> unit outcome" where
  "VirtualMachineController meth = (if meth = EnqueueMethod then Ret () else implement_me)"

section \<open>The doubles answer the handlers\<close>

text \<open>The calls of the handlers to the API, carried out on the doubles of a tracker.\<close>

record 's tracker =
  tr_ippools :: "string \<Rightarrow> (IPPool, 's) typed_interface"
  tr_vmnetcfgs :: "string \<Rightarrow> (VirtualMachineNetworkConfig, 's) typed_interface"
  tr_nads :: "string \<Rightarrow> (NAD, 's) typed_interface"
  tr_pods :: "string \<Rightarrow> (Pod, 's) typed_interface"

definition state_of :: "('a \<times> 's) outcome \<Rightarrow> 's outcome" where
  "state_of r = go_bind r (\<lambda>(_, s). Ret s)"

fun on_doubles :: "'s tracker \<Rightarrow> call \<Rightarrow> 's \<Rightarrow> 's outcome" where
  "on_doubles T (NadGet ns n) s = state_of (wh_Get (NetworkAttachmentDefinitionCache (tr_nads T)) ns n s)"
| "on_doubles T (NadUpdate o1) s = state_of (wc_Update (NetworkAttachmentDefinitionClient (tr_nads T)) o1 s)"
| "on_doubles T (PodGet ns n) s = state_of (wh_Get (PodCache (tr_pods T)) ns n s)"
| "on_doubles T (PodCreate o1) s = state_of (wc_Create (PodClient (tr_pods T)) o1 s)"
| "on_doubles T (PodDelete ns n) s = state_of (wc_Delete (PodClient (tr_pods T)) ns n s)"
| "on_doubles T (IPPoolGet ns n) s = state_of (wh_Get (IPPoolCache (tr_ippools T)) ns n s)"
| "on_doubles T (IPPoolUpdateStatus o1) s = state_of (wc_UpdateStatus (IPPoolClient (tr_ippools T)) o1 s)"
| "on_doubles T (VmNetCfgGet ns n) s = state_of (wh_Get (VirtualMachineNetworkConfigCache (tr_vmnetcfgs T)) ns n s)"
| "on_doubles T (VmNetCfgCreate o1) s = state_of (wc_Create (VirtualMachineNetworkConfigClient (tr_vmnetcfgs T)) o1 s)"
| "on_doubles T (VmNetCfgUpdate o1) s = state_of (wc_Update (VirtualMachineNetworkConfigClient (tr_vmnetcfgs T)) o1 s)"
| "on_doubles T (VmNetCfgUpdateStatus o1) s = state_of (wc_UpdateStatus (VirtualMachineNetworkConfigClient (tr_vmnetcfgs T)) o1 s)"
| "on_doubles T (VmNetCfgByIndex i k) s = state_of (wh_GetByIndex (VirtualMachineNetworkConfigCache (tr_vmnetcfgs T)) i k s)"
| "on_doubles T (VmEnqueue ns n) s = go_bind (VirtualMachineController EnqueueMethod) (\<lambda>_. Ret s)"
| "on_doubles T _ s = Ret s"

fun run_doubles :: "'s tracker \<Rightarrow> call list \<Rightarrow> 's \<Rightarrow> 's outcome" where
  "run_doubles T [] s = Ret s"
| "run_doubles T (c # cs) s = go_bind (on_doubles T c s) (run_doubles T cs)"

lemmas double_defs = state_of_def implement_me_def IPPoolClient_def IPPoolCache_def VirtualMachineNetworkConfigClient_def VirtualMachineNetworkConfigCache_def
  NetworkAttachmentDefinitionClient_def NetworkAttachmentDefinitionCache_def PodClient_def PodCache_def VirtualMachineController_def

fun by_index :: "call \<Rightarrow> bool" where
  "by_index (VmNetCfgByIndex i k) = True"
| "by_index _ = False"

lemma on_doubles_panics: "by_index c \<Longrightarrow> on_doubles T c s = Panic ''implement me''"
  by (cases c) (auto simp: double_defs split: prod.splits)

lemma on_doubles_returns: "\<not> by_index c \<Longrightarrow> \<exists>s'. on_doubles T c s = Ret s'"
  by (cases c) (auto simp: double_defs split: prod.splits)

text \<open>
  The doubles answer every call that the handlers of the controllers make: a history of calls runs
  through on them, and panics exactly when it looks network configurations up by their index,
  which only the validator of pools does.
\<close>

theorem doubles_answer:
  "(\<exists>s'. run_doubles T cs s = Ret s') = list_all (\<lambda>c. \<not> by_index c) cs"
proof (induction cs arbitrary: s)
  case (Cons c cs)
  show ?case
  proof (cases "by_index c")
    case True
    with on_doubles_panics [OF True, of T s] show ?thesis by simp
  next
    case False
    obtain s1 where s1: "on_doubles T c s = Ret s1" using on_doubles_returns [OF False, of T s] by (elim exE)
    have r: "run_doubles T (c # cs) s = run_doubles T cs s1" by (simp add: s1)
    have l: "list_all (\<lambda>c. \<not> by_index c) (c # cs) = list_all (\<lambda>c. \<not> by_index c) cs" using False by simp
    show ?thesis unfolding r l by (rule Cons)
  qed
qed simp

end
