(* ===== verification/Codegen.thy ===== *)
theory Codegen
  imports Doubles "HOL-Library.Sublist"
begin

text \<open>
  The drivers of the code generators: \<open>pkg/codegen\<close>, which generates the types, clients and controllers
  of \<open>pkg/generated\<close> and then corrects a resource name in one of the files, \<open>pkg/codegen/cleanup\<close> and
  \<open>pkg/bindata\<close>.  The generators themselves and the file system are parameters.
\<close>

section \<open>Replacing a name\<close>

text \<open>\<open>bytes.ReplaceAll\<close> for a text that is not empty: the occurrences from left to right, without overlap.\<close>

function ReplaceAll :: "string \<Rightarrow> string \<Rightarrow> string \<Rightarrow> string" where
  "ReplaceAll old new s =
     (if old = [] then s
      else if prefix old s then new @ ReplaceAll old new (drop (length old) s)
      else (case s of [] \<Rightarrow> [] | c # s' \<Rightarrow> c # ReplaceAll old new s'))"
  by pat_completeness auto
termination
  by (relation "measure (\<lambda>(old, new, s). length s)") (auto simp: prefix_def)

declare ReplaceAll.simps [simp del]

definition occurs :: "string \<Rightarrow> string \<Rightarrow> bool" where
  "occurs p s \<longleftrightarrow> sublist p s"

text \<open>
  A replacement that cannot make a new occurrence: no proper suffix of the old text begins the new
  one, and no suffix of the new text begins the old one.
\<close>

definition clean_replacement :: "string \<Rightarrow> string \<Rightarrow> bool" where
  "clean_replacement old new \<longleftrightarrow> old \<noteq> [] \<and> new \<noteq> [] \<and>
     (\<forall>i \<in> set [1..<length old]. \<not> prefix (drop i old) new \<and> \<not> prefix new (drop i old)) \<and>
     (\<forall>i \<in> set [0..<length new]. \<not> prefix (drop i new) old \<and> \<not> prefix old (drop i new))"

lemma ReplaceAll_absent: "\<not> occurs old s \<Longrightarrow> ReplaceAll old new s = s"
proof (induction s)
  case Nil
  then show ?case by (subst ReplaceAll.simps) (auto simp: occurs_def prefix_def)
next
  case (Cons c s)
  then have "\<not> prefix old (c # s)" "\<not> occurs old s" by (auto simp: occurs_def sublist_Cons_right)
  with Cons.IH show ?case by (subst ReplaceAll.simps) auto
qed

lemma prefix_append_cases: "prefix q (u @ v) \<Longrightarrow> prefix q u \<or> prefix u q"
  by (meson prefixI prefix_same_cases)

text \<open>A suffix of the old text at the front of the result was there before.\<close>

lemma ReplaceAll_front:
  assumes "clean_replacement old new"
  shows "0 < i \<Longrightarrow> prefix (drop i old) (ReplaceAll old new s) \<Longrightarrow> prefix (drop i old) s"
proof (induction s arbitrary: i)
  case Nil
  have "ReplaceAll old new [] = []" by (subst ReplaceAll.simps) (use assms in \<open>auto simp: clean_replacement_def\<close>)
  with Nil show ?case by simp
next
  case (Cons c s)
  show ?case
  proof (cases "i < length old")
    case True
    have "\<not> prefix old (c # s)"
    proof
      assume "prefix old (c # s)"
      then have "ReplaceAll old new (c # s) = new @ ReplaceAll old new (drop (length old) (c # s))"
        by (subst ReplaceAll.simps) (use assms in \<open>auto simp: clean_replacement_def\<close>)
      with Cons.prems(2) have "prefix (drop i old) new \<or> prefix new (drop i old)" using prefix_append_cases by metis
      with assms True Cons.prems(1) show False by (auto simp: clean_replacement_def)
    qed
    then have r: "ReplaceAll old new (c # s) = c # ReplaceAll old new s"
      by (subst ReplaceAll.simps) (use assms in \<open>auto simp: clean_replacement_def\<close>)
    have d: "drop i old = old ! i # drop (Suc i) old" using True by (simp add: Cons_nth_drop_Suc)
    with Cons.prems(2) r have "old ! i = c" "prefix (drop (Suc i) old) (ReplaceAll old new s)" by simp_all
    with Cons.IH [of "Suc i"] d show ?thesis by simp
  qed simp
qed

lemma occurs_append: "\<not> occurs p v \<Longrightarrow> (\<And>i. i < length u \<Longrightarrow> \<not> prefix p (drop i u @ v)) \<Longrightarrow> \<not> occurs p (u @ v)"
proof (induction u)
  case (Cons a u)
  have "\<not> prefix p (drop i u @ v)" if "i < length u" for i using Cons.prems(2) [of "Suc i"] that by simp
  with Cons.IH [OF Cons.prems(1)] have "\<not> occurs p (u @ v)" by blast
  with Cons.prems(2) [of 0] show ?case by (auto simp: occurs_def sublist_Cons_right)
qed simp

lemma ReplaceAll_removes:
  assumes "clean_replacement old new"
  shows "\<not> occurs old (ReplaceAll old new s)"
proof (induction "length s" arbitrary: s rule: less_induct)
  case less
  have ne: "old \<noteq> []" "new \<noteq> []" using assms by (auto simp: clean_replacement_def)
  show ?case
  proof (cases "prefix old s")
    case True
    let ?t = "ReplaceAll old new (drop (length old) s)"
    have r: "ReplaceAll old new s = new @ ?t" by (subst ReplaceAll.simps) (simp add: ne True)
    have "\<not> occurs old ?t" using less.hyps [of "drop (length old) s"] ne True by (auto simp: prefix_def)
    moreover have "\<not> prefix old (drop i new @ ?t)" if "i < length new" for i
    proof
      assume "prefix old (drop i new @ ?t)"
      then have "prefix old (drop i new) \<or> prefix (drop i new) old" by (rule prefix_append_cases)
      with assms that show False by (auto simp: clean_replacement_def)
    qed
    ultimately show ?thesis unfolding r by (rule occurs_append)
  next
    case False
    show ?thesis
    proof (cases s)
      case Nil
      with False show ?thesis by (subst ReplaceAll.simps) (auto simp: occurs_def)
    next
      case (Cons c s')
      have r: "ReplaceAll old new s = c # ReplaceAll old new s'" using False by (subst ReplaceAll.simps) (simp add: ne Cons)
      have "\<not> prefix old (c # ReplaceAll old new s')"
      proof
        assume p: "prefix old (c # ReplaceAll old new s')"
        have d: "old = old ! 0 # drop 1 old" using ne(1) by (cases old) simp_all
        with p have "old ! 0 = c" "prefix (drop 1 old) (ReplaceAll old new s')" by (metis Cons_prefix_Cons)+
        with ReplaceAll_front [OF assms, of 1 s'] d False Cons show False by (metis Cons_prefix_Cons zero_less_one)
      qed
      with less.hyps [of s'] r Cons show ?thesis by (auto simp: occurs_def sublist_Cons_right)
    qed
  qed
qed

section \<open>The drivers\<close>

text \<open>What the generator is asked to generate, by group.\<close>

record gen_group =
  gg_Types :: "string list"
  gg_GenerateTypes :: bool
  gg_GenerateClients :: bool

record gen_options =
  go_OutputPackage :: string
  go_Boilerplate :: string
  go_Groups :: "string \<rightharpoonup> gen_group"

text \<open>The libraries of the drivers, on the state of the file system and the environment.\<close>

record 'w build_lib =
  bl_Cleanup :: "string \<Rightarrow> 'w \<Rightarrow> go_error option \<times> 'w"
  bl_RemoveAll :: "string \<Rightarrow> 'w \<Rightarrow> go_error option \<times> 'w"
  bl_Unsetenv :: "string \<Rightarrow> 'w \<Rightarrow> go_error option \<times> 'w"
  bl_Run :: "gen_options \<Rightarrow> 'w \<Rightarrow> 'w"
  bl_Abs :: "string \<Rightarrow> string"
  bl_ReadFile :: "string \<Rightarrow> 'w \<Rightarrow> go_error + string"
  bl_WriteFile :: "string \<Rightarrow> string \<Rightarrow> 'w \<Rightarrow> go_error option \<times> 'w"
  bl_Translate :: "string \<Rightarrow> string \<Rightarrow> string \<Rightarrow> 'w \<Rightarrow> go_error option \<times> 'w"

definition nad_interface_path :: string where
  "nad_interface_path = ''pkg/generated/controllers/k8s.cni.cncf.io/v1/interface.go''"

definition generated_name :: string where "generated_name = ''networkattachmentdefinitions''"
definition served_name :: string where "served_name = ''network-attachment-definitions''"

text \<open>An error is fatal: it ends the process, and is returned here with the state that is left.\<close>

definition nadControllerInterfaceRefactor :: "'w build_lib \<Rightarrow> 'w \<Rightarrow> go_error option \<times> 'w" where
  "nadControllerInterfaceRefactor B w =
     (let absPath = bl_Abs B nad_interface_path in
      case bl_ReadFile B absPath w of
        Inl e \<Rightarrow> (Some e, w)
      | Inr input \<Rightarrow>
          (case bl_WriteFile B absPath (ReplaceAll generated_name served_name input) w of
             (Some e, w1) \<Rightarrow> (Some e, w1)
           | (None, w1) \<Rightarrow> (None, w1)))"

definition codegen_options :: "group_versions \<Rightarrow> gen_options" where
  "codegen_options gvs = \<lparr>go_OutputPackage = ''github.com/harvester/vm-dhcp-controller/pkg/generated'', go_Boilerplate = ''scripts/boilerplate.go.txt'',
     go_Groups = [''network.harvesterhci.io'' \<mapsto> \<lparr>gg_Types = [''./pkg/apis/network.harvesterhci.io/v1alpha1''], gg_GenerateTypes = True, gg_GenerateClients = True\<rparr>,
       [] \<mapsto> \<lparr>gg_Types = [''Node'', ''Pod''], gg_GenerateTypes = False, gg_GenerateClients = False\<rparr>,
       fst (gvs_cni gvs) \<mapsto> \<lparr>gg_Types = [''NetworkAttachmentDefinition''], gg_GenerateTypes = False, gg_GenerateClients = True\<rparr>,
       fst (gvs_kubevirt gvs) \<mapsto> \<lparr>gg_Types = [''VirtualMachine''], gg_GenerateTypes = False, gg_GenerateClients = True\<rparr>]\<rparr>"

definition codegen_main :: "'w build_lib \<Rightarrow> group_versions \<Rightarrow> 'w \<Rightarrow> go_error option \<times> 'w" where
  "codegen_main B gvs w =
     (case bl_Unsetenv B ''GOPATH'' w of
        (Some e, w1) \<Rightarrow> (Some e, w1)
      | (None, w1) \<Rightarrow> nadControllerInterfaceRefactor B (bl_Run B (codegen_options gvs) w1))"

definition cleanup_main :: "'w build_lib \<Rightarrow> 'w \<Rightarrow> go_error option \<times> 'w" where
  "cleanup_main B w =
     (case bl_Cleanup B ''./pkg/apis'' w of
        (Some e, w1) \<Rightarrow> (Some e, w1)
      | (None, w1) \<Rightarrow> (case bl_RemoveAll B ''./pkg/generated'' w1 of (Some e, w2) \<Rightarrow> (Some e, w2) | (None, w2) \<Rightarrow> (None, w2)))"

definition CRDPath :: string where "CRDPath = ''./chart/crds''"

definition bindata_main :: "'w build_lib \<Rightarrow> 'w \<Rightarrow> 'w outcome" where
  "bindata_main B w = (case bl_Translate B CRDPath ''./pkg/data/data.go'' ''data'' w of (Some e, _) \<Rightarrow> Panic ''error'' | (None, w1) \<Rightarrow> Ret w1)"

section \<open>The generated names\<close>

lemma name_clean: "clean_replacement generated_name served_name"
  unfolding clean_replacement_def generated_name_def served_name_def by code_simp

text \<open>
  The generated file ends up with the name that the API server knows.  When the driver succeeds, the
  interface of the network attachment definitions no longer contains the name the generator had made up,
  wherever it stood, and running the correction again changes nothing; a file without that name is left
  as it is.  The controllers and clients that the program uses are those the generator is asked for.
\<close>

theorem codegen_corrects:
  assumes "\<forall>p c w w1. bl_WriteFile B p c w = (None, w1) \<longrightarrow> bl_ReadFile B p w1 = Inr c" "codegen_main B gvs w = (None, w1)" "published gvs"
  shows "(\<exists>c. bl_ReadFile B (bl_Abs B nad_interface_path) w1 = Inr c \<and> \<not> occurs generated_name c \<and>
      (\<forall>w2. nadControllerInterfaceRefactor B w1 = (None, w2) \<longrightarrow> bl_ReadFile B (bl_Abs B nad_interface_path) w2 = Inr c)) \<and>
    (\<forall>k f ref. controller_of k f = Some ref \<longrightarrow> (\<exists>g. go_Groups (codegen_options gvs) (fst (fst (cr_kind ref))) = Some g \<and> gg_GenerateClients g \<and>
       (gg_GenerateTypes g \<or> snd (cr_kind ref) \<in> set (gg_Types g)))) \<and>
    cr_resource (version_NetworkAttachmentDefinition v) = served_name"
proof (intro conjI allI impI)
  let ?p = "bl_Abs B nad_interface_path"
  obtain w0 input where g: "bl_ReadFile B ?p w0 = Inr input" "bl_WriteFile B ?p (ReplaceAll generated_name served_name input) w0 = (None, w1)"
    using assms(2) by (auto simp: codegen_main_def nadControllerInterfaceRefactor_def Let_def split: prod.splits option.splits sum.splits)
  let ?c = "ReplaceAll generated_name served_name input"
  have c: "bl_ReadFile B ?p w1 = Inr ?c" using assms(1) g(2) by blast
  have no: "\<not> occurs generated_name ?c" by (rule ReplaceAll_removes [OF name_clean])
  have "bl_ReadFile B ?p w2 = Inr ?c" if "nadControllerInterfaceRefactor B w1 = (None, w2)" for w2
  proof -
    have "bl_WriteFile B ?p ?c w1 = (None, w2)"
      using that c ReplaceAll_absent [OF no] by (auto simp: nadControllerInterfaceRefactor_def Let_def split: prod.splits option.splits)
    with assms(1) show ?thesis by blast
  qed
  with c no show "\<exists>c. bl_ReadFile B ?p w1 = Inr c \<and> \<not> occurs generated_name c \<and>
      (\<forall>w2. nadControllerInterfaceRefactor B w1 = (None, w2) \<longrightarrow> bl_ReadFile B ?p w2 = Inr c)" by blast
next
  fix k and f :: 'b and ref assume "controller_of k f = Some ref"
  then show "\<exists>g. go_Groups (codegen_options gvs) (fst (fst (cr_kind ref))) = Some g \<and> gg_GenerateClients g \<and>
       (gg_GenerateTypes g \<or> snd (cr_kind ref) \<in> set (gg_Types g))"
    using assms(3) by (cases k) (auto simp: published_def codegen_options_def version_IPPool_def version_VirtualMachineNetworkConfig_def
        version_NetworkAttachmentDefinition_def version_VirtualMachine_def)
next
  show "cr_resource (version_NetworkAttachmentDefinition v) = served_name" by (simp add: version_NetworkAttachmentDefinition_def served_name_def)
qed

text \<open>A file system that holds one file.\<close>

definition one_file :: "string build_lib" where
  "one_file = \<lparr>bl_Cleanup = (\<lambda>_ w. (None, w)), bl_RemoveAll = (\<lambda>_ w. (None, [])), bl_Unsetenv = (\<lambda>_ w. (None, w)),
     bl_Run = (\<lambda>_ _. ''resource networkattachmentdefinitions''), bl_Abs = id, bl_ReadFile = (\<lambda>_ w. Inr w), bl_WriteFile = (\<lambda>_ c _. (None, c)),
     bl_Translate = (\<lambda>_ _ _ w. (None, w))\<rparr>"

theorem codegen_corrects_witness:
  "\<exists>w1. codegen_main one_file published_groups [] = (None, w1) \<and> \<not> occurs generated_name w1"
proof -
  obtain w1 where w1: "codegen_main one_file published_groups [] = (None, w1)"
    by (simp add: codegen_main_def nadControllerInterfaceRefactor_def one_file_def)
  have wr: "\<forall>p c w w1. bl_WriteFile one_file p c w = (None, w1) \<longrightarrow> bl_ReadFile one_file p w1 = Inr c" by (simp add: one_file_def)
  have pub: "published published_groups" by (simp add: published_def published_groups_def)
  from conjunct1 [OF codegen_corrects [OF wr w1 pub]]
  have "\<exists>c. bl_ReadFile one_file (bl_Abs one_file nad_interface_path) w1 = Inr c \<and> \<not> occurs generated_name c" by blast
  with w1 show ?thesis by (auto simp: one_file_def)
qed

end
