(* ===== verification/Spec2Isabelle.thy ===== *)
theory Spec2Isabelle
  imports Deep_Copy Workers_Facts Schema Lifecycle Agent_Run Recovery Setup Codegen
begin

text \<open>
  \<^bold>\<open>A verification of the Harvester VM DHCP controller.\<close>

  \<^bold>\<open>The program.\<close>  The controller process watches IPPools, VirtualMachineNetworkConfigs and KubeVirt
  machines.  For every network it keeps a pool of addresses in the IPAM (\<open>pkg/ipam\<close>) and the
  addresses that hardware addresses hold in the MAC cache (\<open>pkg/cache\<close>).  A machine gets a network
  configuration that lists its interfaces (\<open>pkg/controller/vm\<close>); an address is allocated to each of
  them and recorded in the status of the configuration and of the pool (\<open>pkg/controller/vmnetcfg\<close>);
  the pool controller (\<open>pkg/controller/ippool\<close>) loads the stores from the recorded state, reports
  usage, and deploys an agent pod per pool.  The agent (\<open>pkg/agent\<close>) follows the record of its pool
  and feeds the leases of a DHCP server (\<open>pkg/dhcp\<close>).  Admission webhooks (\<open>pkg/webhook\<close>) complete
  and check the objects.

  \<^bold>\<open>Representation.\<close>  Go functions are HOL functions on explicit state.  A result with an error is
  a pair with an optional \<open>go_error\<close>; a function that can panic or run forever returns an
  \<open>outcome\<close>; the loop over a Go map takes the order of its keys as a parameter (\<open>range_order\<close>), so
  theorems hold for every order.  IPv4 addresses are 32-bit words with wrap-around arithmetic,
  IPv6 addresses 128-bit words, durations 64-bit words, and addresses are parsed and printed
  as the packages \<open>net\<close> and \<open>net/netip\<close> do it.  Loops are structural or
  \<open>partial_function (option)\<close>, where \<open>None\<close> is not returning.  The only fuel is the recursion
  depth of \<open>RestoreAssets\<close>; four is shown to be enough, the depth of the embedded tree and one.

  The process state \<open>ctl\<close> holds the two stores and the list of calls made to the outside.  The
  API server, informer caches, clock, resolver and Prometheus registry are \<open>env\<close>: arbitrary answers
  that depend on the calls so far, so nothing is assumed about concurrent actors.  Functions of
  other repositories are \<open>ext\<close>; what a theorem needs of them is a named hypothesis
  (\<open>cond_laws\<close>, \<open>set_error_laws\<close>, \<open>retry_law\<close>, \<open>rsplit_law\<close>; \<open>gv_law\<close>, \<open>published\<close> and \<open>shares\<close> of
  the client libraries, \<open>counting\<close> and \<open>delivers\<close> of the work queue), shown to hold in a concrete
  world.

  \<^bold>\<open>Theories.\<close>
  \<^item> \<open>Prelude\<close>: results, range order, decimal and hexadecimal text, lemmas on maps and lists.
  \<^item> \<open>Net\<close>, \<open>Net_Facts\<close>: the parts of \<open>net\<close> and \<open>net/netip\<close> that the program uses; parsing and
    printing are inverse, comparison and containment in terms of words.
  \<^item> \<open>Interfaces\<close>: the contracts as locales, \<open>address_pool\<close> (what the controllers rely on in the
    IPAM), \<open>mac_table\<close> (in the MAC cache) and \<open>lease_registry\<close>, which joins them and shows that
    binding fresh and releasing own addresses keeps leases exclusive.
  \<^item> \<open>Ipam\<close>, \<open>Ipam_Facts\<close> (\<open>pkg/ipam\<close>) and \<open>Mac_Cache\<close> (\<open>pkg/cache\<close>): the stores, their
    well-formedness, and the interpretations of the three contracts.
  \<^item> \<open>Api_Types\<close>, \<open>World\<close>, \<open>Util\<close>, \<open>Metrics\<close>: the custom resources and the objects of other
    repositories that are read or written, the parameters above, \<open>pkg/util\<close> and \<open>pkg/metrics\<close>.
  \<^item> \<open>Ippool_Controller\<close>, \<open>Ippool_Facts\<close>: loading the stores from the object is exact; usage,
    pausing, deploying and monitoring the agent.
  \<^item> \<open>Vmnetcfg_Controller\<close>, \<open>Vmnetcfg_Facts\<close>: allocation, resynchronisation and removal, on every
    error path; two situations in which a cleanup or an allocation goes wrong.
  \<^item> \<open>Dhcp\<close>, \<open>Agent\<close>, \<open>Agent_Facts\<close>: lease store and packet handler; after an update the server
    implements the recorded table; lease times; what wedges the agent.
  \<^item> \<open>Vm_Controller\<close>: the interfaces of a machine and the two-phase update of its configuration.
  \<^item> \<open>Webhook\<close>, \<open>Webhook_Facts\<close>: validators and mutator; what is admitted, that completed pools
    are admitted and can be built, that the search for a server address ends.
  \<^item> \<open>Status_Handler\<close>, \<open>Status_Facts\<close>: the generated handlers of \<open>pkg/generated/controllers\<close>
    through which the framework calls the controllers; the contract \<open>status_resource\<close> is
    interpreted for both resources.
  \<^item> \<open>System\<close>, \<open>System_Facts\<close>: all handlers as events of one process.  It refines an abstract book
    of leases (\<open>book_step\<close>): every handler acts on the book only as its object permits.  The
    contract \<open>lease_implementation\<close> carries this over to executions: leases are exclusive in every
    reachable state and stable while other objects are handled.
  \<^item> \<open>Interleaving\<close>: a handler of a pool between the two critical sections of an allocation; tearing
    the pool down there is harmless, loading it lets an address be given out twice.
  \<^item> \<open>Workers\<close>, \<open>Workers_Facts\<close>: the handlers split into single operations on the stores, which any number
    of workers do in any order.  An invariant of what the workers have in hand shows that addresses
    stay exclusive and that the stores agree whenever all workers are idle.
  \<^item> \<open>Builders\<close>: the builders of objects and stores; \<open>BuildCache\<close> makes the stores they describe.
  \<^item> \<open>Server\<close>: command lines, options, agent process and HTTP handlers; the deployed agent serves
    the pool it was deployed for.
  \<^item> \<open>Deep_Copy\<close>: the generated deep copies on a memory with addresses; the contract \<open>go_copy\<close> is
    interpreted for every generated type.  It justifies treating objects as values elsewhere.

  \<^item> \<open>Delivery\<close>: the controllers, the agent and the DHCP server together: an address that is
    allocated is published in the pool, reaches its agent and is offered to the machine.
  \<^item> \<open>Recovery\<close>: after a restart of the controller the handlers load every pool again from its
    object; until then nothing is handed out, and afterwards the recorded leases are bound again.
  \<^item> \<open>Agent_Process\<close>: the event handler, the informer's handler, the work queue and its worker; the
    worker brings the agent in line with the pool, retries are bounded, and an agent that has
    just started serves nobody.
  \<^item> \<open>Agent_Run\<close>: \<open>Controller.Run\<close> and \<open>Stop\<close> as a step relation of the informer, the main routine and the
    workers: nothing is handled before the store is synchronised, stopping ends every goroutine, and
    a pending update is still applied.  The event listener around it stops it exactly once.
  \<^item> \<open>Schema\<close>: the validation markers of the custom resources; what the mutator and the machine
    controller produce conforms to them, and an exclusion that the schema and the validator admit
    overwrites an assignment.
  \<^item> \<open>Lifecycle\<close>: the goroutines of the processes as a step relation with the contract
    \<open>process_group\<close>, interpreted for the controller, the agent and \<open>Agent.Run\<close>: every shutdown
    completes, how a process ends, and two races at its end.
  \<^item> \<open>Assets\<close>: the embedded resource definitions (\<open>pkg/data\<close>) and their creation (\<open>pkg/crd\<close>); the
    table and the tree of assets agree, and both definitions are applied.
  \<^item> \<open>Clients\<close>: clientset, schemes, typed clients, fakes and controllers of \<open>pkg/generated\<close> address the
    same resources; the clients share one rate limiter.
  \<^item> \<open>Setup\<close>: factories, \<open>SetupManagement\<close>, registration, flags, gauges, and the start of the webhook:
    which handlers are installed on which controllers, which requests are validated, and that
    no gauge and no route is used without its labels or store.
  \<^item> \<open>Doubles\<close>: the fake clientset and the test doubles, and that they answer every call the handlers
    make.
  \<^item> \<open>Codegen\<close>: the drivers of the code generators; the correction of the generated interface leaves the
    served resource name everywhere.

  \<^bold>\<open>Hypotheses of the system theorems.\<close>  An event is \<open>admissible\<close> when a pool that is loaded is over
  an IPv4 block with specified addresses in its record, and when the records that a cleanup
  releases are not held by another interface.  The second cannot be dropped: the theorem
  \<open>paused_cleanup_frees_reassigned\<close> shows how a paused configuration frees an address of another
  machine.  Handlers run one at a time in \<open>System\<close>.  The program starts one worker per resource, so
  that handlers of different resources can interleave between two operations on the stores, which
  exclude each other by mutexes.  \<open>Workers\<close> covers every such interleaving for any number of workers,
  on the condition that two of them are not busy with the same interface, that a record is released
  by its holder, and that a pool is not loaded while another worker deals with its network.  The work
  queues give the first; the other two are not enforced by the code, and
  \<open>paused_cleanup_frees_reassigned\<close> and \<open>load_between_duplicates\<close> show what happens without them.

  \<^bold>\<open>Not modelled.\<close>  Logging; sockets; the operating system's signals (a step that can always happen);
  leader election, which runs the callback of the controller and ends the process itself; what
  client-go, wrangler, gzip and the YAML decoder do inside; the compressed bytes of the embedded
  manifests; the code generators, which the drivers call; memory races, except the one on the
  field of the HTTP server.
\<close>

end
